(* ===== verification/Prelude.thy ===== *)
theory Prelude
  imports Main "HOL-Library.Sublist"
begin

text \<open>
  The shared vocabulary of the development: how a Go function of the operator becomes a HOL
  function, and the proof rules the components use.

  \<^item> A call that can touch the Kubernetes API or a cloud account is a value of type
    \<open>('w, 'a) prog\<close>: a function from the world to an optional pair of an outcome and the next
    world. \<open>None\<close> is a run that never returns, \<open>Panicked\<close> is a Go panic (a nil pointer that is
    dereferenced), \<open>Val a\<close> is an ordinary return.
  \<^item> A Go function with results \<open>(T, error)\<close> returns \<open>go_error + 'a\<close> (\<open>Inl\<close> is the non-nil error);
    one with the single result \<open>error\<close> returns \<open>go_error + unit\<close>.
  \<^item> The Go idiom of calling, testing \<open>err != nil\<close>, and returning the wrapped error is the
    combinator \<open>attempt\<close>.
  \<^item> The world has two parts that share nothing: the state behind the Kubernetes client and the
    state behind the cloud clients.
\<close>

named_theorems run_simps "what a program combinator does in a given world"
named_theorems returns_intros "rules that show that a program returns"
named_theorems keeps_intros "rules that show that a program keeps a property of the world"

section \<open>Go errors\<close>

text \<open>
  The error values the code distinguishes: errors made from a text, errors made by
  \<^verbatim>\<open>fmt.Errorf\<close> with a final \<^verbatim>\<open>%w\<close> (whose operand may be nil), and the three kinds
  of error that the client libraries return and that the code inspects: a
  \<^verbatim>\<open>smithy.APIError\<close> with its concrete type, an \<^verbatim>\<open>azcore.ResponseError\<close> with its status
  code and a Kubernetes status error with its reason.
\<close>

datatype smithy_type = NotFound | NoSuchEntityException | OtherAPIError string

datatype go_error =
    ErrorString string
  | WrapError string "go_error option"
  | SmithyAPIError smithy_type string
  | AzureResponseError int string
  | KubeStatusError string string

text \<open>\<^verbatim>\<open>fmt.Errorf("<msg>%w", err)\<close> for a non-nil \<^verbatim>\<open>err\<close>, with the other verbs of the format
  already substituted in \<open>msg\<close>.\<close>

definition Errorf_w :: "string \<Rightarrow> go_error \<Rightarrow> go_error" where
  "Errorf_w msg e = WrapError msg (Some e)"

text \<open>The text of an error. A nil operand of \<^verbatim>\<open>%w\<close> is printed as \<^verbatim>\<open>%!w(<nil>)\<close>.\<close>

fun Error :: "go_error \<Rightarrow> string" where
  "Error (ErrorString s) = s"
| "Error (WrapError s (Some e)) = s @ Error e"
| "Error (WrapError s None) = s @ ''%!w(<nil>)''"
| "Error (SmithyAPIError t s) = s"
| "Error (AzureResponseError c s) = s"
| "Error (KubeStatusError r s) = s"

text \<open>\<^verbatim>\<open>errors.Is(err, target)\<close>: the target is the error or one that it wraps.\<close>

fun errors_Is :: "go_error \<Rightarrow> go_error \<Rightarrow> bool" where
  "errors_Is (WrapError s (Some e)) t = (WrapError s (Some e) = t \<or> errors_Is e t)"
| "errors_Is e t = (e = t)"

text \<open>\<^verbatim>\<open>errors.As\<close> with a target of type \<^verbatim>\<open>smithy.APIError\<close> (the concrete type of the error found)
  and with a target of type \<^verbatim>\<open>*azcore.ResponseError\<close> (its status code).\<close>

fun errors_As_APIError :: "go_error \<Rightarrow> smithy_type option" where
  "errors_As_APIError (SmithyAPIError t s) = Some t"
| "errors_As_APIError (WrapError s (Some e)) = errors_As_APIError e"
| "errors_As_APIError e = None"

fun errors_As_ResponseError :: "go_error \<Rightarrow> int option" where
  "errors_As_ResponseError (AzureResponseError c s) = Some c"
| "errors_As_ResponseError (WrapError s (Some e)) = errors_As_ResponseError e"
| "errors_As_ResponseError e = None"

lemma errors_Is_refl [simp]: "errors_Is e e"
  by (cases "(e, e)" rule: errors_Is.cases) auto

lemma Error_Errorf_w [simp]: "Error (Errorf_w s e) = s @ Error e"
  by (simp add: Errorf_w_def)

lemma errors_Is_Errorf_w [simp]: "errors_Is (Errorf_w s e) t \<longleftrightarrow> Errorf_w s e = t \<or> errors_Is e t"
  by (simp add: Errorf_w_def)

lemma errors_As_APIError_Errorf_w [simp]: "errors_As_APIError (Errorf_w s e) = errors_As_APIError e"
  by (simp add: Errorf_w_def)

lemma errors_As_ResponseError_Errorf_w [simp]:
  "errors_As_ResponseError (Errorf_w s e) = errors_As_ResponseError e"
  by (simp add: Errorf_w_def)

lemma Errorf_w_inject [simp]: "Errorf_w s e = Errorf_w s' e' \<longleftrightarrow> s = s' \<and> e = e'"
  by (simp add: Errorf_w_def)

lemma errors_Is_trans: "errors_Is a b \<Longrightarrow> errors_Is b c \<Longrightarrow> errors_Is a c"
  by (induction a b rule: errors_Is.induct) auto

section \<open>Programs over a world\<close>

datatype 'a outcome = Val 'a | Panicked

type_synonym ('w, 'a) prog = "'w \<Rightarrow> ('a outcome \<times> 'w) option"

definition ret :: "'a \<Rightarrow> ('w, 'a) prog" where
  "ret a = (\<lambda>w. Some (Val a, w))"

definition panic :: "('w, 'a) prog" where
  "panic = (\<lambda>w. Some (Panicked, w))"

definition andThen :: "('w, 'a) prog \<Rightarrow> ('a \<Rightarrow> ('w, 'b) prog) \<Rightarrow> ('w, 'b) prog" where
  "andThen m f = (\<lambda>w. case m w of
       None \<Rightarrow> None
     | Some (Panicked, w') \<Rightarrow> Some (Panicked, w')
     | Some (Val a, w') \<Rightarrow> f a w')"

text \<open>\<^verbatim>\<open>x, err := m; if err != nil { return h(err) }; ... k(x)\<close>\<close>

definition attempt :: "('w, go_error + 'a) prog \<Rightarrow> (go_error \<Rightarrow> go_error) \<Rightarrow>
    ('a \<Rightarrow> ('w, go_error + 'b) prog) \<Rightarrow> ('w, go_error + 'b) prog" where
  "attempt m h k = andThen m (\<lambda>r. case r of Inl e \<Rightarrow> ret (Inl (h e)) | Inr x \<Rightarrow> k x)"

text \<open>Dereferencing a pointer: a nil pointer panics.\<close>

definition deref :: "'a option \<Rightarrow> ('a \<Rightarrow> ('w, 'b) prog) \<Rightarrow> ('w, 'b) prog" where
  "deref p k = (case p of None \<Rightarrow> panic | Some a \<Rightarrow> k a)"

text \<open>\<^verbatim>\<open>for _, x := range xs\<close> with a body that may return an error.\<close>

fun for_each :: "'a list \<Rightarrow> ('a \<Rightarrow> ('w, go_error + unit) prog) \<Rightarrow> ('w, go_error + unit) prog" where
  "for_each [] body = ret (Inr ())"
| "for_each (x # xs) body = attempt (body x) (\<lambda>e. e) (\<lambda>_. for_each xs body)"

lemma ret_run [run_simps, simp]: "ret a w = Some (Val a, w)"
  by (simp add: ret_def)

lemma panic_run [run_simps, simp]: "panic w = Some (Panicked, w)"
  by (simp add: panic_def)

lemma andThen_run [run_simps]:
  "andThen m f w = (case m w of
       None \<Rightarrow> None
     | Some (Panicked, w') \<Rightarrow> Some (Panicked, w')
     | Some (Val a, w') \<Rightarrow> f a w')"
  by (simp add: andThen_def)

lemma attempt_run [run_simps]:
  "attempt m h k w = (case m w of
       None \<Rightarrow> None
     | Some (Panicked, w') \<Rightarrow> Some (Panicked, w')
     | Some (Val (Inl e), w') \<Rightarrow> Some (Val (Inl (h e)), w')
     | Some (Val (Inr x), w') \<Rightarrow> k x w')"
  by (auto simp: attempt_def andThen_def split: option.splits outcome.splits sum.splits)

lemma deref_simps [simp, run_simps]:
  "deref None k = panic"
  "deref (Some a) k = k a"
  by (simp_all add: deref_def)

text \<open>How a run that returns can have come about; the components take runs apart with these.\<close>

lemma andThen_Val_iff:
  "andThen m f w = Some (Val b, w') \<longleftrightarrow>
     (\<exists>a w1. m w = Some (Val a, w1) \<and> f a w1 = Some (Val b, w'))"
  by (auto simp: andThen_def split: option.splits outcome.splits)

lemma attempt_Inr_iff [simp]:
  "attempt m h k w = Some (Val (Inr y), w') \<longleftrightarrow>
     (\<exists>x w1. m w = Some (Val (Inr x), w1) \<and> k x w1 = Some (Val (Inr y), w'))"
  by (auto simp: attempt_run split: option.splits outcome.splits sum.splits)

lemma attempt_Inl_iff:
  "attempt m h k w = Some (Val (Inl e), w') \<longleftrightarrow>
     (\<exists>e0. m w = Some (Val (Inl e0), w') \<and> e = h e0) \<or>
     (\<exists>x w1. m w = Some (Val (Inr x), w1) \<and> k x w1 = Some (Val (Inl e), w'))"
  by (auto simp: attempt_run split: option.splits outcome.splits sum.splits)

text \<open>Early returns of an error: on a missing value and on a failed test.\<close>

lemma case_option_Inl_iff [simp]:
  "(case x of None \<Rightarrow> ret (Inl e) | Some y \<Rightarrow> k y) w = Some (Val (Inr z), w') \<longleftrightarrow>
     (\<exists>y. x = Some y \<and> k y w = Some (Val (Inr z), w'))"
  by (cases x) auto

lemma if_Inl_iff [simp]:
  "(if c then ret (Inl e) else m) w = Some (Val (Inr z), w') \<longleftrightarrow> \<not> c \<and> m w = Some (Val (Inr z), w')"
  "(if c then m else ret (Inl e)) w = Some (Val (Inr z), w') \<longleftrightarrow> c \<and> m w = Some (Val (Inr z), w')"
  by simp_all

lemma attempt_cong_run:
  "m w = Some (Val (Inr x), w1) \<Longrightarrow> attempt m h k w = k x w1"
  "m w = Some (Val (Inl e), w1) \<Longrightarrow> attempt m h k w = Some (Val (Inl (h e)), w1)"
  "m w = Some (Panicked, w1) \<Longrightarrow> attempt m h k w = Some (Panicked, w1)"
  "m w = None \<Longrightarrow> attempt m h k w = None"
  by (simp_all add: attempt_run)

lemma attempt_runD:
  "attempt m h k w = res \<Longrightarrow> m w = Some (Val (Inr x), w1) \<Longrightarrow> k x w1 = res"
  "attempt m h k w = res \<Longrightarrow> m w = Some (Val (Inl e), w1) \<Longrightarrow> res = Some (Val (Inl (h e)), w1)"
  by (auto simp: attempt_run)

lemma andThen_cong_run:
  "m w = Some (Val x, w1) \<Longrightarrow> andThen m f w = f x w1"
  "m w = Some (Panicked, w1) \<Longrightarrow> andThen m f w = Some (Panicked, w1)"
  "m w = None \<Longrightarrow> andThen m f w = None"
  by (simp_all add: andThen_run)

lemma andThen_assoc: "andThen (andThen m f) g = andThen m (\<lambda>a. andThen (f a) g)"
  by (rule ext) (auto simp: andThen_def split: option.splits outcome.splits)

lemma andThen_ret [simp]: "andThen (ret a) f = f a" "andThen m ret = m"
  by (auto simp: andThen_def fun_eq_iff split: option.splits outcome.splits)

text \<open>
  Like \<open>Hoare\<close>-style total correctness: \<open>returns m w\<close> says that \<open>m\<close> neither panics nor runs
  forever from \<open>w\<close>; \<open>keeps I m\<close> says that wherever \<open>m\<close> stops, \<open>I\<close> still holds.
\<close>

definition returns :: "('w, 'a) prog \<Rightarrow> 'w \<Rightarrow> bool" where
  "returns m w \<longleftrightarrow> (\<exists>a w'. m w = Some (Val a, w'))"

definition keeps :: "('w \<Rightarrow> bool) \<Rightarrow> ('w, 'a) prog \<Rightarrow> bool" where
  "keeps I m \<longleftrightarrow> (\<forall>w o1 w'. m w = Some (o1, w') \<longrightarrow> I w \<longrightarrow> I w')"

lemma returns_ret [returns_intros, intro, simp]: "returns (ret a) w"
  by (simp add: returns_def)

lemma returns_andThen [returns_intros]:
  "returns m w \<Longrightarrow> (\<And>a w'. m w = Some (Val a, w') \<Longrightarrow> returns (f a) w') \<Longrightarrow> returns (andThen m f) w"
  by (auto simp: returns_def andThen_def split: option.splits outcome.splits)

lemma returns_attempt [returns_intros]:
  "returns m w \<Longrightarrow> (\<And>x w'. m w = Some (Val (Inr x), w') \<Longrightarrow> returns (k x) w') \<Longrightarrow>
   returns (attempt m h k) w"
  by (fastforce simp: returns_def attempt_run split: option.splits outcome.splits sum.splits)

lemma returns_for_each [returns_intros]:
  "(\<And>x w. x \<in> set xs \<Longrightarrow> returns (body x) w) \<Longrightarrow> returns (for_each xs body) w"
  by (induction xs arbitrary: w) (auto intro: returns_attempt)

lemma returnsE:
  "returns m w \<Longrightarrow> (\<And>a w'. m w = Some (Val a, w') \<Longrightarrow> P) \<Longrightarrow> P"
  by (auto simp: returns_def)

lemma keeps_ret [keeps_intros, intro, simp]: "keeps I (ret a)"
  by (simp add: keeps_def)

lemma keeps_panic [keeps_intros, intro, simp]: "keeps I panic"
  by (simp add: keeps_def)

lemma keeps_andThen [keeps_intros]:
  "keeps I m \<Longrightarrow> (\<And>a. keeps I (f a)) \<Longrightarrow> keeps I (andThen m f)"
  unfolding keeps_def andThen_def by (fastforce split: option.splits outcome.splits)

lemma keeps_attempt [keeps_intros]:
  "keeps I m \<Longrightarrow> (\<And>x. keeps I (k x)) \<Longrightarrow> keeps I (attempt m h k)"
  unfolding attempt_def by (auto intro!: keeps_andThen split: sum.splits)

lemma keeps_deref [keeps_intros]: "(\<And>a. keeps I (k a)) \<Longrightarrow> keeps I (deref p k)"
  by (cases p) auto

lemma keeps_for_each [keeps_intros]:
  "(\<And>x. keeps I (body x)) \<Longrightarrow> keeps I (for_each xs body)"
  by (induction xs) (auto intro!: keeps_attempt)

lemma keeps_if [keeps_intros]: "keeps I a \<Longrightarrow> keeps I b \<Longrightarrow> keeps I (if c then a else b)"
  by simp

lemma keepsD: "keeps I m \<Longrightarrow> m w = Some (oc, w') \<Longrightarrow> I w \<Longrightarrow> I w'"
  unfolding keeps_def by blast

section \<open>The world and the calls of the client libraries\<close>

record ('k, 'c) world =
  kube :: 'k
  cloud :: 'c

text \<open>A call of a client library: a result and the next state of the service behind the client.\<close>

type_synonym ('s, 'a) api = "'s \<Rightarrow> (go_error + 'a) \<times> 's"

definition onKube :: "('k, 'a) api \<Rightarrow> (('k, 'c) world, go_error + 'a) prog" where
  "onKube f = (\<lambda>w. case f (kube w) of (r, k) \<Rightarrow> Some (Val r, w\<lparr>kube := k\<rparr>))"

definition onCloud :: "('c, 'a) api \<Rightarrow> (('k, 'c) world, go_error + 'a) prog" where
  "onCloud f = (\<lambda>w. case f (cloud w) of (r, c) \<Rightarrow> Some (Val r, w\<lparr>cloud := c\<rparr>))"

text \<open>A library call that runs a function of the caller, which may panic.\<close>

definition onKube_callback :: "('k \<Rightarrow> (go_error + 'a) outcome \<times> 'k) \<Rightarrow> (('k, 'c) world, go_error + 'a) prog" where
  "onKube_callback f = (\<lambda>w. case f (kube w) of (r, k) \<Rightarrow> Some (r, w\<lparr>kube := k\<rparr>))"

lemma onKube_callback_Val_iff [simp]:
  "onKube_callback f w = Some (r, w') \<longleftrightarrow> (\<exists>k. f (kube w) = (r, k) \<and> w' = w\<lparr>kube := k\<rparr>)"
  by (auto simp: onKube_callback_def split: prod.splits)

lemma onKube_run [run_simps]:
  "onKube f w = (case f (kube w) of (r, k) \<Rightarrow> Some (Val r, w\<lparr>kube := k\<rparr>))"
  by (simp add: onKube_def)

lemma onCloud_run [run_simps]:
  "onCloud f w = (case f (cloud w) of (r, c) \<Rightarrow> Some (Val r, w\<lparr>cloud := c\<rparr>))"
  by (simp add: onCloud_def)

lemma onKube_Val_iff [simp]:
  "onKube f w = Some (Val r, w') \<longleftrightarrow> (\<exists>k. f (kube w) = (r, k) \<and> w' = w\<lparr>kube := k\<rparr>)"
  by (auto simp: onKube_def split: prod.splits)

lemma onCloud_Val_iff [simp]:
  "onCloud f w = Some (Val r, w') \<longleftrightarrow> (\<exists>c. f (cloud w) = (r, c) \<and> w' = w\<lparr>cloud := c\<rparr>)"
  by (auto simp: onCloud_def split: prod.splits)

lemma returns_onKube [returns_intros, intro, simp]: "returns (onKube f) w"
  by (auto simp: returns_def onKube_def split: prod.splits)

lemma returns_onCloud [returns_intros, intro, simp]: "returns (onCloud f) w"
  by (auto simp: returns_def onCloud_def split: prod.splits)

lemma keeps_kube_onCloud [keeps_intros, intro]: "keeps (\<lambda>w. P (kube w)) (onCloud f)"
  by (auto simp: keeps_def onCloud_def split: prod.splits)

lemma keeps_cloud_onKube [keeps_intros, intro]: "keeps (\<lambda>w. P (cloud w)) (onKube f)"
  by (auto simp: keeps_def onKube_def split: prod.splits)

lemma keeps_eq_on [simp]:
  "keeps (\<lambda>w. kube w = k) (onCloud f)"
  "keeps (\<lambda>w. cloud w = c) (onKube g)"
  "keeps (\<lambda>w. cloud w = c) (onKube_callback h)"
  by (auto simp: keeps_def onKube_def onCloud_def onKube_callback_def split: prod.splits)

lemma keeps_kube_read:
  assumes "\<And>k. snd (f k) = k"
  shows "keeps (\<lambda>w. kube w = k) (onKube f)"
  using assms by (auto simp: keeps_def onKube_def split: prod.splits) (metis snd_conv)

lemma keeps_fun_of_kube:
  "(\<And>k. keeps (\<lambda>w. kube w = k) m) \<Longrightarrow> keeps (\<lambda>w. f (kube w) = v) m"
  unfolding keeps_def by metis

text \<open>An API call that leaves a part of the service's state alone.\<close>

definition leaves :: "('s \<Rightarrow> 'v) \<Rightarrow> ('s, 'a) api \<Rightarrow> bool" where
  "leaves part f \<longleftrightarrow> (\<forall>s. part (snd (f s)) = part s)"

lemma leavesD: "leaves part f \<Longrightarrow> f s = (r, s') \<Longrightarrow> part s' = part s"
  by (metis leaves_def snd_conv)

lemma keeps_leaves_cloud [keeps_intros]:
  "leaves part f \<Longrightarrow> keeps (\<lambda>w. part (cloud w) = v) (onCloud f)"
  by (auto simp: keeps_def onCloud_def split: prod.splits dest: leavesD)

text \<open>An API call that keeps a property of the service's state.\<close>

definition spares :: "('s \<Rightarrow> bool) \<Rightarrow> ('s, 'a) api \<Rightarrow> bool" where
  "spares P f \<longleftrightarrow> (\<forall>s. P s \<longrightarrow> P (snd (f s)))"

lemma keeps_spares_cloud [keeps_intros]: "spares P f \<Longrightarrow> keeps (\<lambda>w. P (cloud w)) (onCloud f)"
  by (auto simp: keeps_def onCloud_def spares_def split_beta)

lemma spares_leaves: "leaves part f \<Longrightarrow> (\<And>s s'. part s = part s' \<Longrightarrow> P s = P s') \<Longrightarrow> spares P f"
  unfolding leaves_def spares_def by blast

section \<open>The parts of the Go standard library the operator uses\<close>

text \<open>\<^verbatim>\<open>strings.Contains(s, substr)\<close>\<close>

fun strings_Contains :: "string \<Rightarrow> string \<Rightarrow> bool" where
  "strings_Contains [] sub = (sub = [])"
| "strings_Contains (c # s) sub = (prefix sub (c # s) \<or> strings_Contains s sub)"

lemma strings_Contains_iff_sublist: "strings_Contains s sub \<longleftrightarrow> sublist sub s"
  by (induction s) (auto simp: sublist_Cons_right)

text \<open>
  \<^verbatim>\<open>strings.ReplaceAll(s, old, new)\<close>: the non-overlapping occurrences of \<open>old\<close>, from the left. An empty
  \<open>old\<close> matches before the first and after every character.
\<close>

function strings_ReplaceAll :: "string \<Rightarrow> string \<Rightarrow> string \<Rightarrow> string" where
  "strings_ReplaceAll s old new =
     (if old = [] then new @ concat (map (\<lambda>c. c # new) s)
      else if s = [] then []
      else if prefix old s then new @ strings_ReplaceAll (drop (length old) s) old new
      else hd s # strings_ReplaceAll (tl s) old new)"
  by pat_completeness auto
termination
  by (relation "measure (\<lambda>(s, old, new). length s)") (auto simp: prefix_def)

declare strings_ReplaceAll.simps [simp del]

lemma strings_ReplaceAll_char:
  "strings_ReplaceAll s [a] [b] = map (\<lambda>c. if c = a then b else c) s"
proof (induction s)
  case Nil
  show ?case by (subst strings_ReplaceAll.simps) simp
next
  case (Cons c s)
  then show ?case by (subst strings_ReplaceAll.simps) auto
qed

text \<open>
  A Go map is given by the entries a \<^verbatim>\<open>range\<close> over it yields, in the order it yields them: distinct
  keys, and an order that the language leaves open. Theorems are for every order.
\<close>

type_synonym go_map = "(string \<times> string) list"

definition wf_map :: "(string \<times> 'v) list \<Rightarrow> bool" where
  "wf_map m \<longleftrightarrow> distinct (map fst m)"

text \<open>\<^verbatim>\<open>m[k] = v\<close> on a map kept as an association list.\<close>

fun map_put :: "'k \<Rightarrow> 'v \<Rightarrow> ('k \<times> 'v) list \<Rightarrow> ('k \<times> 'v) list" where
  "map_put k v [] = [(k, v)]"
| "map_put k v ((k', v') # m) = (if k = k' then (k, v) # m else (k', v') # map_put k v m)"

lemma map_of_map_put [simp]: "map_of (map_put k v m) = (map_of m)(k \<mapsto> v)"
  by (induction k v m rule: map_put.induct) (auto simp: fun_eq_iff)

lemma fst_set_map_put [simp]: "fst ` set (map_put k v m) = insert k (fst ` set m)"
  by (induction k v m rule: map_put.induct) auto

lemma wf_map_put [simp, intro]: "wf_map m \<Longrightarrow> wf_map (map_put k v m)"
  unfolding wf_map_def by (induction k v m rule: map_put.induct) (auto simp: image_iff)

lemma wf_map_Nil [simp]: "wf_map []"
  by (simp add: wf_map_def)

lemma set_map_put: "set (map_put k v m) \<subseteq> insert (k, v) (set m)"
  by (induction k v m rule: map_put.induct) auto

definition map_del :: "'k \<Rightarrow> ('k \<times> 'v) list \<Rightarrow> ('k \<times> 'v) list" where
  "map_del k m = filter (\<lambda>p. fst p \<noteq> k) m"

lemma map_of_map_del [simp]: "map_of (map_del k m) = (map_of m)(k := None)"
  by (induction m) (auto simp: map_del_def fun_eq_iff)

lemma map_of_filter_keys: "map_of (filter (\<lambda>p. fst p \<in> A) m) = map_of m |` A"
  by (induction m) (auto simp: restrict_map_def fun_eq_iff)

end
