(* ===== verification/Bucket_API.thy ===== *)
theory Bucket_API
  imports Prelude "HOL-Library.Word"
begin

text \<open>
  The custom resource \<^verbatim>\<open>Bucket\<close> of the API group \<^verbatim>\<open>objectstorage.giantswarm.io/v1alpha1\<close>
  (\<^verbatim>\<open>src/api/v1alpha1/bucket_types.go\<close>), one record per struct. Pointers to structs that may be nil are
  options. Of the Kubernetes object metadata the records keep the fields the operator reads or
  writes: name, namespace, finalizers and the deletion timestamp (\<open>None\<close> where
  \<^verbatim>\<open>DeletionTimestamp.IsZero()\<close> holds). Structs are passed by value.
\<close>

definition BucketFinalizer :: string where
  "BucketFinalizer = ''objectstorage.giantswarm.io/bucket''"

definition AzureSecretFinalizer :: string where
  "AzureSecretFinalizer = ''objectstorage.giantswarm.io/secret''"

definition ReclaimPolicyRetain :: string where
  "ReclaimPolicyRetain = ''Retain''"

definition ReclaimPolicyDelete :: string where
  "ReclaimPolicyDelete = ''Delete''"

type_synonym int32 = "32 word"

record BucketAccessRole =
  RoleName :: string
  ExtraBucketNames :: "string list"
  ServiceAccountName :: string
  ServiceAccountNamespace :: string

record BucketExpirationPolicy =
  Days :: int32

record BucketTag =
  tag_Key :: string
  tag_Value :: string

record BucketSpec =
  spec_Name :: string
  ExpirationPolicy :: "BucketExpirationPolicy option"
  ReclaimPolicy :: string
  AccessRole :: "BucketAccessRole option"
  spec_Tags :: "BucketTag list"

record BucketStatus =
  BucketReady :: bool
  BucketID :: string

record ObjectMeta =
  meta_Name :: string
  meta_Namespace :: string
  meta_Finalizers :: "string list"
  meta_DeletionTimestamp :: "int option"

record Bucket =
  ObjectMeta :: ObjectMeta
  Spec :: BucketSpec
  Status :: BucketStatus

abbreviation bucket_name :: "Bucket \<Rightarrow> string" where
  "bucket_name b \<equiv> spec_Name (Spec b)"

abbreviation bucket_finalizers :: "Bucket \<Rightarrow> string list" where
  "bucket_finalizers b \<equiv> meta_Finalizers (ObjectMeta b)"

abbreviation set_finalizers :: "string list \<Rightarrow> Bucket \<Rightarrow> Bucket" where
  "set_finalizers fs b \<equiv> b\<lparr>ObjectMeta := (ObjectMeta b)\<lparr>meta_Finalizers := fs\<rparr>\<rparr>"

text \<open>\<^verbatim>\<open>bucket.Spec.AccessRole != nil && bucket.Spec.AccessRole.RoleName != ""\<close>, the guard of both
  access role steps of the reconciler.\<close>

definition has_access_role :: "Bucket \<Rightarrow> bool" where
  "has_access_role b = (case AccessRole (Spec b) of None \<Rightarrow> False | Some ar \<Rightarrow> RoleName ar \<noteq> [])"

lemma has_access_roleE:
  assumes "has_access_role b"
  obtains ar where "AccessRole (Spec b) = Some ar" "RoleName ar \<noteq> []"
  using assms by (auto simp: has_access_role_def split: option.splits)

end
