(* ===== verification/Kube_Client.thy ===== *)
theory Kube_Client
  imports Bucket_API
begin

text \<open>
  The Kubernetes side of the world: the client of \<^verbatim>\<open>controller-runtime\<close> and the helper functions of
  \<^verbatim>\<open>controller-runtime\<close> and \<^verbatim>\<open>apimachinery\<close> are libraries, so they are parameters of the model: the
  record \<open>Client\<close> (one field per kind of object and verb the operator uses) and the record
  \<open>kube_lib\<close>. What the operator relies on is stated in the locales \<open>kube_lib_laws\<close> and \<open>kube_api\<close>.

  \<open>Patch_Bucket client original modified\<close> stands for
  \<^verbatim>\<open>client.Patch(ctx, modified, client.MergeFrom(original))\<close>; the object the server answers with is
  written back into \<open>modified\<close>, so it is the result. The mutate function of \<^verbatim>\<open>controllerutil.CreateOrUpdate\<close>
  may panic, and so may the call. A Get that fails and a Patch that fails leave the
  caller's object unused: every caller returns.
\<close>

record ObjectKey =
  key_Namespace :: string
  key_Name :: string

record GroupVersionKind =
  gvk_Group :: string
  gvk_Version :: string
  gvk_Kind :: string

text \<open>The content of an unstructured object, as far as the operator looks at it: strings and maps.\<close>

datatype uvalue = UString string | UMap "(string \<times> uvalue) list" | UOther

record Secret =
  secret_Name :: string
  secret_Namespace :: string
  secret_Labels :: "(string \<times> string) list"
  secret_Finalizers :: "string list"
  secret_Data :: "(string \<times> string) list"

record ConfigMap =
  cm_Data :: "string \<Rightarrow> string option"

record 'k Client =
  Get_Bucket :: "ObjectKey \<Rightarrow> ('k, Bucket) api"
  Get_Unstructured :: "GroupVersionKind \<Rightarrow> ObjectKey \<Rightarrow> ('k, uvalue) api"
  Get_Secret :: "ObjectKey \<Rightarrow> ('k, Secret) api"
  Get_ConfigMap :: "ObjectKey \<Rightarrow> ('k, ConfigMap) api"
  Patch_Bucket :: "Bucket \<Rightarrow> Bucket \<Rightarrow> ('k, Bucket) api"
  Status_Patch_Bucket :: "Bucket \<Rightarrow> Bucket \<Rightarrow> ('k, Bucket) api"
  Patch_Secret :: "Secret \<Rightarrow> Secret \<Rightarrow> ('k, Secret) api"
  Delete_Secret :: "Secret \<Rightarrow> ('k, unit) api"
  CreateOrUpdate_Secret :: "Secret \<Rightarrow> (Secret \<Rightarrow> (go_error + Secret) outcome) \<Rightarrow>
    'k \<Rightarrow> (go_error + Secret) outcome \<times> 'k"

record kube_lib =
  AddFinalizer :: "string list \<Rightarrow> string \<Rightarrow> string list \<times> bool"
  RemoveFinalizer :: "string list \<Rightarrow> string \<Rightarrow> string list \<times> bool"
  IgnoreNotFound :: "go_error option \<Rightarrow> go_error option"
  IsNotFound :: "go_error option \<Rightarrow> bool"
  NestedString :: "uvalue \<Rightarrow> string list \<Rightarrow> go_error + string option"
  NestedStringMap :: "uvalue \<Rightarrow> string list \<Rightarrow> go_error + go_map option"

definition key_of :: "Bucket \<Rightarrow> ObjectKey" where
  "key_of b = \<lparr>key_Namespace = meta_Namespace (ObjectMeta b), key_Name = meta_Name (ObjectMeta b)\<rparr>"

definition secret_key_of :: "Secret \<Rightarrow> ObjectKey" where
  "secret_key_of s = \<lparr>key_Namespace = secret_Namespace s, key_Name = secret_Name s\<rparr>"

section \<open>What the operator relies on\<close>

text \<open>
  The documented behaviour of the pure helpers: \<^verbatim>\<open>AddFinalizer\<close> adds the finalizer if it is not there
  and says whether it changed the list, \<^verbatim>\<open>RemoveFinalizer\<close> removes it, \<^verbatim>\<open>IgnoreNotFound\<close> maps
  not-found errors to nil and leaves the others alone.
\<close>

locale kube_lib_laws =
  fixes lib :: kube_lib
  assumes AddFinalizer_present:
      "f \<in> set fs \<Longrightarrow> AddFinalizer lib fs f = (fs, False)"
    and AddFinalizer_absent:
      "f \<notin> set fs \<Longrightarrow> AddFinalizer lib fs f = (fs @ [f], True)"
    and RemoveFinalizer_list:
      "fst (RemoveFinalizer lib fs f) = filter (\<lambda>g. g \<noteq> f) fs"
    and IgnoreNotFound_nil: "IgnoreNotFound lib None = None"
    and IgnoreNotFound_err:
      "IgnoreNotFound lib (Some e) = (if IsNotFound lib (Some e) then None else Some e)"
begin

lemma AddFinalizer_in: "AddFinalizer lib fs f = (fs', changed) \<Longrightarrow> f \<in> set fs'"
  by (cases "f \<in> set fs") (auto simp: AddFinalizer_present AddFinalizer_absent)

lemma AddFinalizer_unchanged: "AddFinalizer lib fs f = (fs', False) \<Longrightarrow> fs' = fs \<and> f \<in> set fs"
  by (cases "f \<in> set fs") (auto simp: AddFinalizer_present AddFinalizer_absent)

lemma AddFinalizer_changed:
  "AddFinalizer lib fs f = (fs', True) \<Longrightarrow> fs' = fs @ [f] \<and> f \<notin> set fs"
  by (cases "f \<in> set fs") (auto simp: AddFinalizer_present AddFinalizer_absent)

lemma AddFinalizer_fst: "fst (AddFinalizer lib fs f) = (if f \<in> set fs then fs else fs @ [f])"
  by (simp add: AddFinalizer_present AddFinalizer_absent)

lemma AddFinalizer_superset: "AddFinalizer lib fs f = (fs', changed) \<Longrightarrow> set fs \<subseteq> set fs'"
  by (cases "f \<in> set fs") (auto simp: AddFinalizer_present AddFinalizer_absent)

end

text \<open>
  A merge patch computed from \<open>orig\<close> and \<open>modified\<close> replaces the parts in which the two differ; a list
  is replaced as a whole. The operator's patches differ in the finalizers only, and its status patch
  in the status only. An object that is being deleted disappears with its last finalizer.
\<close>

definition merge_finalizers :: "Bucket \<Rightarrow> Bucket \<Rightarrow> Bucket \<Rightarrow> Bucket" where
  "merge_finalizers orig modified stored =
     (if bucket_finalizers orig = bucket_finalizers modified then stored
      else set_finalizers (bucket_finalizers modified) stored)"

definition merge_status :: "Bucket \<Rightarrow> Bucket \<Rightarrow> Bucket \<Rightarrow> Bucket" where
  "merge_status orig modified stored =
     stored\<lparr>Status := \<lparr>
        BucketReady = (if BucketReady (Status orig) = BucketReady (Status modified)
                       then BucketReady (Status stored) else BucketReady (Status modified)),
        BucketID = (if BucketID (Status orig) = BucketID (Status modified)
                    then BucketID (Status stored) else BucketID (Status modified))\<rparr>\<rparr>"

definition put_object :: "(ObjectKey \<Rightarrow> Bucket option) \<Rightarrow> Bucket \<Rightarrow> ObjectKey \<Rightarrow> Bucket option" where
  "put_object m b = m(key_of b :=
     (if meta_DeletionTimestamp (ObjectMeta b) \<noteq> None \<and> bucket_finalizers b = [] then None else Some b))"

text \<open>
  \<open>crs\<close> and \<open>secrets\<close> are the stored Bucket objects and Secrets behind the client; every object is
  stored under its own key. A read answers from the current store, and a write that fails has changed nothing: this is the behaviour
  of a client that talks to the API server. The client that a manager hands out reads from a cache, and the contract holds for
  it as far as that cache is up to date.
\<close>

locale kube_api = kube_lib_laws lib for lib :: kube_lib +
  fixes client :: "'k Client"
    and crs :: "'k \<Rightarrow> ObjectKey \<Rightarrow> Bucket option"
    and secrets :: "'k \<Rightarrow> ObjectKey \<Rightarrow> Secret option"
  assumes crs_key: "crs k key = Some b \<Longrightarrow> key_of b = key"
    and secrets_key: "secrets k key = Some s \<Longrightarrow> secret_key_of s = key"
    and get_bucket_ok:
      "Get_Bucket client key k = (Inr b, k') \<Longrightarrow> crs k key = Some b \<and> crs k' = crs k \<and> secrets k' = secrets k"
    and get_bucket_err:
      "Get_Bucket client key k = (Inl e, k') \<Longrightarrow>
         crs k' = crs k \<and> secrets k' = secrets k \<and> (IsNotFound lib (Some e) \<longrightarrow> crs k key = None)"
    and get_unstructured_frame:
      "Get_Unstructured client gvk key k = (r, k') \<Longrightarrow> crs k' = crs k \<and> secrets k' = secrets k"
    and get_configmap_frame:
      "Get_ConfigMap client key k = (cmr, k') \<Longrightarrow> crs k' = crs k \<and> secrets k' = secrets k"
    and get_secret_ok:
      "Get_Secret client key k = (Inr s, k') \<Longrightarrow> secrets k key = Some s \<and> crs k' = crs k \<and> secrets k' = secrets k"
    and get_secret_err:
      "Get_Secret client key k = (Inl e, k') \<Longrightarrow> crs k' = crs k \<and> secrets k' = secrets k"
    and patch_bucket_ok:
      "Patch_Bucket client orig modified k = (Inr b', k') \<Longrightarrow>
         (\<exists>b. crs k (key_of modified) = Some b \<and> b' = merge_finalizers orig modified b) \<and>
         crs k' = put_object (crs k) b' \<and> secrets k' = secrets k"
    and patch_bucket_err:
      "Patch_Bucket client orig modified k = (Inl e, k') \<Longrightarrow> crs k' = crs k \<and> secrets k' = secrets k"
    and status_patch_ok:
      "Status_Patch_Bucket client orig modified k = (Inr b', k') \<Longrightarrow>
         (\<exists>b. crs k (key_of modified) = Some b \<and> b' = merge_status orig modified b) \<and>
         crs k' = put_object (crs k) b' \<and> secrets k' = secrets k"
    and status_patch_err:
      "Status_Patch_Bucket client orig modified k = (Inl e, k') \<Longrightarrow> crs k' = crs k \<and> secrets k' = secrets k"
    and patch_secret_frame:
      "Patch_Secret client sorig s k = (sr, k') \<Longrightarrow> crs k' = crs k"
    and patch_secret_ok:
      "Patch_Secret client sorig s k = (Inr s', k') \<Longrightarrow>
         (\<exists>s0. secrets k (secret_key_of s) = Some s0 \<and>
           s' = (if secret_Finalizers sorig = secret_Finalizers s then s0
                 else s0\<lparr>secret_Finalizers := secret_Finalizers s\<rparr>)) \<and>
         secrets k' = (secrets k)(secret_key_of s \<mapsto> s')"
    and delete_secret_frame:
      "Delete_Secret client s k = (ur, k') \<Longrightarrow> crs k' = crs k"
    and delete_secret_ok:
      "Delete_Secret client s k = (Inr (), k') \<Longrightarrow> secrets k (secret_key_of s) = Some s0 \<Longrightarrow>
         secret_Finalizers s0 = [] \<Longrightarrow> secrets k' = (secrets k)(secret_key_of s := None)"
    and create_or_update_frame:
      "CreateOrUpdate_Secret client s f k = (csr, k') \<Longrightarrow> crs k' = crs k"
    and create_or_update_ok:
      "CreateOrUpdate_Secret client s f k = (Val (Inr s'), k') \<Longrightarrow>
         f (case secrets k (secret_key_of s) of None \<Rightarrow> s | Some s0 \<Rightarrow> s0) = Val (Inr s') \<and>
         secrets k' = (secrets k)(secret_key_of s \<mapsto> s')"
    and create_or_update_panic:
      "CreateOrUpdate_Secret client s f k = (Panicked, k') \<Longrightarrow>
         f (case secrets k (secret_key_of s) of None \<Rightarrow> s | Some s0 \<Rightarrow> s0) = Panicked"
begin

lemma key_of_set_finalizers [simp]: "key_of (set_finalizers fs b) = key_of b"
  by (simp add: key_of_def)

lemma key_of_merge [simp]:
  "key_of (merge_finalizers orig modified b) = key_of b"
  "key_of (merge_status orig modified b) = key_of b"
  by (simp_all add: merge_finalizers_def merge_status_def key_of_def)

lemma spec_of_merge [simp]:
  "Spec (merge_finalizers orig modified b) = Spec b"
  "Spec (merge_status orig modified b) = Spec b"
  "ObjectMeta (merge_status orig modified b) = ObjectMeta b"
  by (simp_all add: merge_finalizers_def merge_status_def)

lemma put_object_held: "bucket_finalizers b \<noteq> [] \<Longrightarrow> put_object m b = m(key_of b \<mapsto> b)"
  by (simp add: put_object_def)

text \<open>A status patch of an object that a finalizer holds.\<close>

lemma status_patch_held:
  assumes "Status_Patch_Bucket client orig modified k = (Inr b', k')"
    and "crs k (key_of modified) = Some b" "bucket_finalizers b \<noteq> []"
  shows "b' = merge_status orig modified b \<and> crs k' = (crs k)(key_of modified \<mapsto> b')"
  using status_patch_ok[OF assms(1)] assms(2,3) crs_key[OF assms(2)] by (simp add: put_object_held)

end

text \<open>The contract does not depend on what the unstructured objects are, as long as reading them is only that.\<close>

lemma reads_sel [simp]:
  "Get_Bucket (client\<lparr>Get_Unstructured := g\<rparr>) = Get_Bucket client"
  "Get_ConfigMap (client\<lparr>Get_Unstructured := g\<rparr>) = Get_ConfigMap client"
  "Get_Secret (client\<lparr>Get_Unstructured := g\<rparr>) = Get_Secret client"
  "Patch_Bucket (client\<lparr>Get_Unstructured := g\<rparr>) = Patch_Bucket client"
  "Status_Patch_Bucket (client\<lparr>Get_Unstructured := g\<rparr>) = Status_Patch_Bucket client"
  "Patch_Secret (client\<lparr>Get_Unstructured := g\<rparr>) = Patch_Secret client"
  "Delete_Secret (client\<lparr>Get_Unstructured := g\<rparr>) = Delete_Secret client"
  "CreateOrUpdate_Secret (client\<lparr>Get_Unstructured := g\<rparr>) = CreateOrUpdate_Secret client"
  by simp_all

lemma kube_api_reads:
  assumes api: "kube_api lib client crs secrets" and reads: "\<And>gvk key k. snd (g gvk key k) = k"
  shows "kube_api lib (client\<lparr>Get_Unstructured := g\<rparr>) crs secrets"
proof (intro kube_api.intro kube_api.axioms(1)[OF api] kube_api_axioms.intro, goal_cases)
  case (5 gvk key k r k')
  with reads[of gvk key k] show ?case by simp
qed ((simp only: reads_sel)?; (rule kube_api.crs_key[OF api] kube_api.secrets_key[OF api] kube_api.get_bucket_ok[OF api]
      kube_api.get_bucket_err[OF api] kube_api.get_configmap_frame[OF api] kube_api.get_secret_ok[OF api]
      kube_api.get_secret_err[OF api] kube_api.patch_bucket_ok[OF api] kube_api.patch_bucket_err[OF api]
      kube_api.status_patch_ok[OF api] kube_api.status_patch_err[OF api] kube_api.patch_secret_frame[OF api]
      kube_api.patch_secret_ok[OF api] kube_api.delete_secret_frame[OF api] kube_api.delete_secret_ok[OF api]
      kube_api.create_or_update_frame[OF api] kube_api.create_or_update_ok[OF api] kube_api.create_or_update_panic[OF api]; assumption+))+

end
