(* ===== verification/Cluster_API.thy ===== *)
theory Cluster_API
  imports Kube_Client
begin

text \<open>
  The management cluster: the flags (\<^verbatim>\<open>src/internal/pkg/flags/types.go\<close>), the interface
  \<^verbatim>\<open>Cluster\<close> (\<^verbatim>\<open>src/internal/pkg/cluster/cluster.go\<close>) and the two structs that implement it. An interface
  value is a value of the datatype \<open>Cluster\<close>, whose constructor is the dynamic type; the methods
  dispatch on it, and a type assertion is a partial function. The field \<^verbatim>\<open>Client\<close> of the two structs is
  never read and is left out.
\<close>

record ManagementCluster =
  mc_BaseDomain :: string
  mc_Name :: string
  mc_Namespace :: string
  mc_Provider :: string
  mc_Region :: string

definition ToObjectKey :: "ManagementCluster \<Rightarrow> string \<Rightarrow> string \<Rightarrow> ObjectKey" where
  "ToObjectKey m name namespace = \<lparr>key_Namespace = namespace, key_Name = name\<rparr>"

section \<open>AWS\<close>

record AWSCredentials =
  Role :: string

record AWSCluster =
  aws_Name :: string
  aws_Namespace :: string
  aws_BaseDomain :: string
  aws_Region :: string
  aws_Tags :: go_map
  aws_Credentials :: AWSCredentials

section \<open>Azure\<close>

record AzureCredentials =
  ResourceGroup :: string
  SubscriptionID :: string
  TypeIdentity :: string
  ClientID :: string
  TenantID :: string
  SecretRef :: Secret

record AzureCluster =
  az_Name :: string
  az_Namespace :: string
  az_BaseDomain :: string
  az_Region :: string
  az_Tags :: go_map
  az_Credentials :: AzureCredentials

definition AzureCluster_GetResourceGroup :: "AzureCluster \<Rightarrow> string" where
  "AzureCluster_GetResourceGroup c = ResourceGroup (az_Credentials c)"

definition AzureCluster_GetSubscriptionID :: "AzureCluster \<Rightarrow> string" where
  "AzureCluster_GetSubscriptionID c = SubscriptionID (az_Credentials c)"

definition AzureCluster_GetVNetName :: "AzureCluster \<Rightarrow> string" where
  "AzureCluster_GetVNetName c = az_Name c @ ''-vnet''"

section \<open>The interfaces\<close>

datatype Cluster = DynAWSCluster AWSCluster | DynAzureCluster AzureCluster

datatype Credentials = DynAWSCredentials AWSCredentials | DynAzureCredentials AzureCredentials

primrec GetName :: "Cluster \<Rightarrow> string" where
  "GetName (DynAWSCluster c) = aws_Name c"
| "GetName (DynAzureCluster c) = az_Name c"

primrec GetNamespace :: "Cluster \<Rightarrow> string" where
  "GetNamespace (DynAWSCluster c) = aws_Namespace c"
| "GetNamespace (DynAzureCluster c) = az_Namespace c"

primrec GetBaseDomain :: "Cluster \<Rightarrow> string" where
  "GetBaseDomain (DynAWSCluster c) = aws_BaseDomain c"
| "GetBaseDomain (DynAzureCluster c) = az_BaseDomain c"

primrec GetRegion :: "Cluster \<Rightarrow> string" where
  "GetRegion (DynAWSCluster c) = aws_Region c"
| "GetRegion (DynAzureCluster c) = az_Region c"

primrec GetTags :: "Cluster \<Rightarrow> go_map" where
  "GetTags (DynAWSCluster c) = aws_Tags c"
| "GetTags (DynAzureCluster c) = az_Tags c"

primrec GetCredentials :: "Cluster \<Rightarrow> Credentials" where
  "GetCredentials (DynAWSCluster c) = DynAWSCredentials (aws_Credentials c)"
| "GetCredentials (DynAzureCluster c) = DynAzureCredentials (az_Credentials c)"

text \<open>The type assertions \<^verbatim>\<open>x.(T)\<close> the service factories make.\<close>

primrec as_AWSCluster :: "Cluster \<Rightarrow> AWSCluster option" where
  "as_AWSCluster (DynAWSCluster c) = Some c"
| "as_AWSCluster (DynAzureCluster c) = None"

primrec as_AzureCluster :: "Cluster \<Rightarrow> AzureCluster option" where
  "as_AzureCluster (DynAWSCluster c) = None"
| "as_AzureCluster (DynAzureCluster c) = Some c"

primrec as_AWSCredentials :: "Credentials \<Rightarrow> AWSCredentials option" where
  "as_AWSCredentials (DynAWSCredentials c) = Some c"
| "as_AWSCredentials (DynAzureCredentials c) = None"

primrec as_AzureCredentials :: "Credentials \<Rightarrow> AzureCredentials option" where
  "as_AzureCredentials (DynAWSCredentials c) = None"
| "as_AzureCredentials (DynAzureCredentials c) = Some c"

text \<open>A value of the interface \<^verbatim>\<open>ClusterGetter\<close>: its one method.\<close>

type_synonym 'w ClusterGetter = "('w, go_error + Cluster) prog"

section \<open>What a cluster getter promises\<close>

text \<open>
  A cluster getter describes the management cluster of the flags, it only reads from the Kubernetes
  API, it never touches the cloud account, and it always returns.
\<close>

locale cluster_getter =
  fixes getter :: "'k Client \<Rightarrow> kube_lib \<Rightarrow> ManagementCluster \<Rightarrow> ('k, 'c) world ClusterGetter"
    and provides :: "Cluster \<Rightarrow> bool"
  assumes getter_returns: "returns (getter client lib mc) w"
    and getter_cloud: "keeps (\<lambda>w. cloud w = c) (getter client lib mc)"
    and getter_reads:
      "(\<And>gvk key k. snd (Get_Unstructured client gvk key k) = k) \<Longrightarrow>
       (\<And>key k. snd (Get_Secret client key k) = k) \<Longrightarrow>
       keeps (\<lambda>w. kube w = k) (getter client lib mc)"
    and getter_describes:
      "getter client lib mc w = Some (Val (Inr cl), w') \<Longrightarrow>
         GetName cl = mc_Name mc \<and> GetNamespace cl = mc_Namespace mc \<and>
         GetBaseDomain cl = mc_BaseDomain mc \<and> GetRegion cl = mc_Region mc \<and> provides cl"
begin

lemma getter_result:
  obtains (err) e w' where "getter client lib mc w = Some (Val (Inl e), w')" "cloud w' = cloud w"
  | (ok) cl w' where "getter client lib mc w = Some (Val (Inr cl), w')" "cloud w' = cloud w" "provides cl"
proof -
  obtain a w' where run: "getter client lib mc w = Some (Val a, w')"
    using getter_returns[of client lib mc w] by (auto elim: returnsE)
  moreover have "cloud w' = cloud w"
    using keepsD[OF getter_cloud run] by simp
  ultimately show thesis
    using that getter_describes by (cases a) blast+
qed

end

end
