(* ===== verification/Service_API.thy ===== *)
theory Service_API
  imports Cluster_API
begin

text \<open>
  The interfaces between the reconciler and the cloud providers
  (\<^verbatim>\<open>src/internal/pkg/service/objectstorage/service.go\<close> and \<^verbatim>\<open>factory.go\<close>): an interface value is a
  record of its methods. \<^verbatim>\<open>ExistsBucket\<close> keeps both of its results, because an implementation may
  return a boolean together with an error.
\<close>

record 'w ObjectStorageService =
  ConfigureBucket :: "Bucket \<Rightarrow> ('w, go_error + unit) prog"
  CreateBucket :: "Bucket \<Rightarrow> ('w, go_error + unit) prog"
  UpdateBucket :: "Bucket \<Rightarrow> ('w, go_error + unit) prog"
  DeleteBucket :: "Bucket \<Rightarrow> ('w, go_error + unit) prog"
  ExistsBucket :: "Bucket \<Rightarrow> ('w, bool \<times> go_error option) prog"

record 'w AccessRoleService =
  ConfigureRole :: "Bucket \<Rightarrow> ('w, go_error + unit) prog"
  DeleteRole :: "Bucket \<Rightarrow> ('w, go_error + unit) prog"

record 'w ObjectStorageServiceFactory =
  NewObjectStorageService :: "Cluster \<Rightarrow> ('w, go_error + 'w ObjectStorageService) prog"
  NewAccessRoleService :: "Cluster \<Rightarrow> ('w, go_error + 'w AccessRoleService) prog"

section \<open>What an object storage service promises\<close>

text \<open>
  \<open>present b c\<close>: the storage of bucket \<open>b\<close> exists in the cloud state \<open>c\<close>; \<open>configured b c\<close>: its settings
  are the ones \<open>b\<close> asks for. A method that returns nil has done its work, no method touches the
  stored Bucket objects \<open>crs\<close>, and no method, not even one that fails, makes the storage of a bucket
  with another name.
\<close>

locale object_storage_service =
  fixes svc :: "('k, 'c) world ObjectStorageService"
    and crs :: "'k \<Rightarrow> ObjectKey \<Rightarrow> Bucket option"
    and present :: "Bucket \<Rightarrow> 'c \<Rightarrow> bool"
    and configured :: "Bucket \<Rightarrow> 'c \<Rightarrow> bool"
  assumes exists_nil:
      "ExistsBucket svc b w = Some (Val (ex, None), w') \<Longrightarrow>
         ex = present b (cloud w) \<and> present b (cloud w') = present b (cloud w)"
    and create_nil:
      "CreateBucket svc b w = Some (Val (Inr ()), w') \<Longrightarrow> \<not> present b (cloud w) \<Longrightarrow> present b (cloud w')"
    and update_nil:
      "UpdateBucket svc b w = Some (Val (Inr ()), w') \<Longrightarrow> present b (cloud w) \<Longrightarrow> present b (cloud w')"
    and configure_nil:
      "ConfigureBucket svc b w = Some (Val (Inr ()), w') \<Longrightarrow> present b (cloud w) \<Longrightarrow>
         present b (cloud w') \<and> configured b (cloud w')"
    and delete_nil:
      "DeleteBucket svc b w = Some (Val (Inr ()), w') \<Longrightarrow> \<not> present b (cloud w')"
    and svc_crs:
      "keeps (\<lambda>w. crs (kube w) = m) (ExistsBucket svc b)"
      "keeps (\<lambda>w. crs (kube w) = m) (CreateBucket svc b)"
      "keeps (\<lambda>w. crs (kube w) = m) (UpdateBucket svc b)"
      "keeps (\<lambda>w. crs (kube w) = m) (ConfigureBucket svc b)"
      "keeps (\<lambda>w. crs (kube w) = m) (DeleteBucket svc b)"
    and svc_looks: "keeps (\<lambda>w. \<not> present b' (cloud w)) (ExistsBucket svc b)"
    and svc_others:
      "bucket_name b' \<noteq> bucket_name b \<Longrightarrow> keeps (\<lambda>w. \<not> present b' (cloud w)) (CreateBucket svc b)"
      "bucket_name b' \<noteq> bucket_name b \<Longrightarrow> keeps (\<lambda>w. \<not> present b' (cloud w)) (UpdateBucket svc b)"
      "bucket_name b' \<noteq> bucket_name b \<Longrightarrow> keeps (\<lambda>w. \<not> present b' (cloud w)) (ConfigureBucket svc b)"
      "bucket_name b' \<noteq> bucket_name b \<Longrightarrow> keeps (\<lambda>w. \<not> present b' (cloud w)) (DeleteBucket svc b)"
begin

lemma svc_crs_run:
  "ExistsBucket svc b w = Some (er, w') \<Longrightarrow> crs (kube w') = crs (kube w)"
  "CreateBucket svc b w = Some (cr, w') \<Longrightarrow> crs (kube w') = crs (kube w)"
  "UpdateBucket svc b w = Some (ur, w') \<Longrightarrow> crs (kube w') = crs (kube w)"
  "ConfigureBucket svc b w = Some (fr, w') \<Longrightarrow> crs (kube w') = crs (kube w)"
  "DeleteBucket svc b w = Some (dr, w') \<Longrightarrow> crs (kube w') = crs (kube w)"
  using svc_crs[of _ b] by (metis (mono_tags, lifting) keepsD)+

text \<open>Whichever of create and update the reconciler chooses, the storage is there afterwards.\<close>

lemma create_or_update_present:
  assumes "(if \<not> ex then CreateBucket svc b else UpdateBucket svc b) w = Some (Val (Inr ()), w')"
    and "ex = present b (cloud w)"
  shows "present b (cloud w')"
  using assms create_nil[of b w w'] update_nil[of b w w'] by (cases ex) auto

end

section \<open>What an access role service promises\<close>

text \<open>
  \<open>role_ready b c\<close>: the access role \<open>b\<close> asks for exists with its policies; \<open>role_gone b c\<close>: it does not
  exist. The service touches neither the Kubernetes API nor the storage of any bucket.
\<close>

locale access_role_service =
  fixes ars :: "('k, 'c) world AccessRoleService"
    and role_ready :: "Bucket \<Rightarrow> 'c \<Rightarrow> bool"
    and role_gone :: "Bucket \<Rightarrow> 'c \<Rightarrow> bool"
    and storage :: "'c \<Rightarrow> 's"
  assumes configure_role_nil:
      "ConfigureRole ars b w = Some (Val (Inr ()), w') \<Longrightarrow> has_access_role b \<Longrightarrow> role_ready b (cloud w')"
    and delete_role_nil:
      "DeleteRole ars b w = Some (Val (Inr ()), w') \<Longrightarrow> has_access_role b \<Longrightarrow> role_gone b (cloud w')"
    and role_kube:
      "keeps (\<lambda>w. kube w = k) (ConfigureRole ars b)"
      "keeps (\<lambda>w. kube w = k) (DeleteRole ars b)"
    and role_storage:
      "keeps (\<lambda>w. storage (cloud w) = s) (ConfigureRole ars b)"
      "keeps (\<lambda>w. storage (cloud w) = s) (DeleteRole ars b)"
begin

lemma role_frame_run:
  "ConfigureRole ars b w = Some (cr, w') \<Longrightarrow> kube w' = kube w \<and> storage (cloud w') = storage (cloud w)"
  "DeleteRole ars b w = Some (dr, w') \<Longrightarrow> kube w' = kube w \<and> storage (cloud w') = storage (cloud w)"
  using role_kube[of _ b] role_storage[of _ b] by (metis (mono_tags, lifting) keepsD)+

end

end
