(* ===== verification/Controller.thy ===== *)
theory Controller
  imports Service_API
begin

text \<open>
  The reconciler (\<^verbatim>\<open>src/internal/controller/bucket_controller.go\<close>). The embedded fields of
  \<^verbatim>\<open>BucketReconciler\<close> are the fields of the record; the helper functions of the Kubernetes libraries come with
  it. The first result of \<^verbatim>\<open>Reconcile\<close> is \<^verbatim>\<open>ctrl.Result{}\<close> on every path and is left out; log output is
  not modelled.
\<close>

record ('k, 'c) BucketReconciler =
  rec_Client :: "'k Client"
  rec_lib :: kube_lib
  rec_ClusterGetter :: "('k, 'c) world ClusterGetter"
  rec_Factory :: "('k, 'c) world ObjectStorageServiceFactory"
  rec_ManagementCluster :: ManagementCluster

section \<open>The reconciler\<close>

text \<open>The status a reconciled bucket gets.\<close>

definition ready_status :: "Bucket \<Rightarrow> BucketStatus" where
  "ready_status bucket = \<lparr>BucketReady = True, BucketID = bucket_name bucket\<rparr>"

text \<open>
  \<^verbatim>\<open>reconcileNormal\<close> has two parts: it registers the finalizer, and then it works on the storage of the
  bucket the API server answered with.
\<close>

definition reconcileStorage ::
  "('k, 'c) BucketReconciler \<Rightarrow> ('k, 'c) world ObjectStorageService \<Rightarrow> ('k, 'c) world AccessRoleService \<Rightarrow>
     Bucket \<Rightarrow> (('k, 'c) world, go_error + unit) prog" where
  "reconcileStorage r objectStorageService accessRoleService bucket =
     andThen (ExistsBucket objectStorageService bucket) (\<lambda>(exists, err).
     case err of
       Some e \<Rightarrow> ret (Inl (Errorf_w (''failed to check if bucket '' @ bucket_name bucket @ '' exists: '') e))
     | None \<Rightarrow>
       attempt (if \<not> exists then CreateBucket objectStorageService bucket
                else UpdateBucket objectStorageService bucket)
         (Errorf_w ((if \<not> exists then ''failed to create bucket '' else ''failed to update bucket '') @
            bucket_name bucket @ '': '')) (\<lambda>_.
       attempt (ConfigureBucket objectStorageService bucket)
         (Errorf_w (''failed to configure bucket '' @ bucket_name bucket @ '': '')) (\<lambda>_.
       attempt (onKube (Status_Patch_Bucket (rec_Client r) bucket (bucket\<lparr>Status := ready_status bucket\<rparr>)))
         (Errorf_w (''failed to update status for bucket '' @ bucket_name bucket @ '': '')) (\<lambda>bucket'.
       if has_access_role bucket' then
         attempt (ConfigureRole accessRoleService bucket')
           (Errorf_w (''failed to configure access role for bucket '' @ bucket_name bucket' @ '': '')) (\<lambda>_.
         ret (Inr ()))
       else ret (Inr ())))))"

definition reconcileNormal ::
  "('k, 'c) BucketReconciler \<Rightarrow> ('k, 'c) world ObjectStorageService \<Rightarrow> ('k, 'c) world AccessRoleService \<Rightarrow>
     Bucket \<Rightarrow> (('k, 'c) world, go_error + unit) prog" where
  "reconcileNormal r objectStorageService accessRoleService originalBucket =
     (let (finalizers, added) = AddFinalizer (rec_lib r) (bucket_finalizers originalBucket) BucketFinalizer;
          withFinalizer = set_finalizers finalizers originalBucket in
      attempt
        (if added then onKube (Patch_Bucket (rec_Client r) originalBucket withFinalizer)
         else ret (Inr withFinalizer))
        (Errorf_w (''failed to add finalizer to bucket '' @ bucket_name originalBucket @ '': ''))
        (\<lambda>bucket. reconcileStorage r objectStorageService accessRoleService bucket))"

definition reconcileDelete ::
  "('k, 'c) BucketReconciler \<Rightarrow> ('k, 'c) world ObjectStorageService \<Rightarrow> ('k, 'c) world AccessRoleService \<Rightarrow>
     Bucket \<Rightarrow> (('k, 'c) world, go_error + unit) prog" where
  "reconcileDelete r objectStorageService accessRoleService bucket =
     andThen (ExistsBucket objectStorageService bucket) (\<lambda>(exists, err).
     if err = None \<and> exists then
       (if ReclaimPolicy (Spec bucket) = ReclaimPolicyDelete then
          attempt (DeleteBucket objectStorageService bucket)
            (Errorf_w (''failed to delete bucket '' @ bucket_name bucket @ '': '')) (\<lambda>_.
          attempt
            (if has_access_role bucket then
               attempt (DeleteRole accessRoleService bucket)
                 (Errorf_w (''failed to delete access role for bucket '' @ bucket_name bucket @ '': '')) (\<lambda>_.
               ret (Inr ()))
             else ret (Inr ())) (\<lambda>err. err) (\<lambda>_.
          attempt (onKube (Patch_Bucket (rec_Client r) bucket
              (set_finalizers (fst (RemoveFinalizer (rec_lib r) (bucket_finalizers bucket) BucketFinalizer)) bucket)))
            (\<lambda>err. err) (\<lambda>_.
          ret (Inr ()))))
        else if ReclaimPolicy (Spec bucket) = ReclaimPolicyRetain then ret (Inr ())
        else ret (Inr ()))
     else ret (Inr ()))"

definition Reconcile ::
  "('k, 'c) BucketReconciler \<Rightarrow> ObjectKey \<Rightarrow> (('k, 'c) world, go_error + unit) prog" where
  "Reconcile r req =
     andThen (onKube (Get_Bucket (rec_Client r) req)) (\<lambda>got.
     case got of
       Inl err \<Rightarrow> ret (case IgnoreNotFound (rec_lib r) (Some err) of None \<Rightarrow> Inr () | Some e \<Rightarrow> Inl e)
     | Inr bucket \<Rightarrow>
       attempt (rec_ClusterGetter r)
         (Errorf_w (''failed to get cluster for bucket '' @ bucket_name bucket @ '': '')) (\<lambda>cluster.
       attempt (NewObjectStorageService (rec_Factory r) cluster)
         (Errorf_w (''failed to create object storage service for bucket '' @ bucket_name bucket @ '': ''))
         (\<lambda>objectStorageService.
       attempt (NewAccessRoleService (rec_Factory r) cluster)
         (Errorf_w (''failed to create access role service for bucket '' @ bucket_name bucket @ '': ''))
         (\<lambda>accessRoleService.
       if meta_DeletionTimestamp (ObjectMeta bucket) \<noteq> None then
         attempt (reconcileDelete r objectStorageService accessRoleService bucket)
           (Errorf_w (''failed to delete bucket '' @ bucket_name bucket @ '': '')) (\<lambda>_. ret (Inr ()))
       else reconcileNormal r objectStorageService accessRoleService bucket))))"

section \<open>What holds for all services\<close>

lemma set_finalizers_same [simp]: "set_finalizers (bucket_finalizers b) b = b"
  by simp

text \<open>A run of the storage part that returns nil, call by call.\<close>

lemma reconcileStorage_steps:
  assumes "reconcileStorage r svc ars b w = Some (Val (Inr ()), w')"
  obtains ex w1 w2 w3 b2 k where
    "ExistsBucket svc b w = Some (Val (ex, None), w1)"
    "(if \<not> ex then CreateBucket svc b else UpdateBucket svc b) w1 = Some (Val (Inr ()), w2)"
    "ConfigureBucket svc b w2 = Some (Val (Inr ()), w3)"
    "Status_Patch_Bucket (rec_Client r) b (b\<lparr>Status := ready_status b\<rparr>) (kube w3) = (Inr b2, k)"
    "if has_access_role b2 then ConfigureRole ars b2 (w3\<lparr>kube := k\<rparr>) = Some (Val (Inr ()), w')
     else w' = w3\<lparr>kube := k\<rparr>"
proof -
  from assms obtain ex err w1 where ex: "ExistsBucket svc b w = Some (Val (ex, err), w1)"
    by (auto simp: reconcileStorage_def andThen_Val_iff)
  have "err = None"
    using assms by (cases err) (auto simp: reconcileStorage_def andThen_cong_run(1)[where m = "ExistsBucket svc b", OF ex])
  moreover from this assms obtain w2 w3 b2 k where
    "(if \<not> ex then CreateBucket svc b else UpdateBucket svc b) w1 = Some (Val (Inr ()), w2)"
    "ConfigureBucket svc b w2 = Some (Val (Inr ()), w3)"
    "Status_Patch_Bucket (rec_Client r) b (b\<lparr>Status := ready_status b\<rparr>) (kube w3) = (Inr b2, k)"
    "if has_access_role b2 then ConfigureRole ars b2 (w3\<lparr>kube := k\<rparr>) = Some (Val (Inr ()), w')
     else w' = w3\<lparr>kube := k\<rparr>"
    by (auto simp: reconcileStorage_def andThen_cong_run(1)[where m = "ExistsBucket svc b", OF ex]
        simp del: if_split split: if_splits)
  ultimately show thesis using ex that by simp
qed

text \<open>With a reclaim policy other than \<^verbatim>\<open>Delete\<close>, deletion only looks.\<close>

lemma reconcileDelete_retains:
  assumes "ReclaimPolicy (Spec b) \<noteq> ReclaimPolicyDelete"
  shows "reconcileDelete r svc ars b w = andThen (ExistsBucket svc b) (\<lambda>_. ret (Inr ())) w"
  using assms by (auto simp: reconcileDelete_def andThen_run split: option.split outcome.split)

lemma reconcileDelete_cases:
  assumes "reconcileDelete r svc ars b w = Some (oc, w')"
  obtains (looked) out where "ExistsBucket svc b w = Some (out, w')"
      "\<not> (out = Val (True, None) \<and> ReclaimPolicy (Spec b) = ReclaimPolicyDelete)"
  | (deleting) w1 where "ExistsBucket svc b w = Some (Val (True, None), w1)"
      "ReclaimPolicy (Spec b) = ReclaimPolicyDelete"
      "attempt (DeleteBucket svc b)
         (Errorf_w (''failed to delete bucket '' @ bucket_name b @ '': '')) (\<lambda>_.
       attempt
         (if has_access_role b then
            attempt (DeleteRole ars b)
              (Errorf_w (''failed to delete access role for bucket '' @ bucket_name b @ '': '')) (\<lambda>_.
            ret (Inr ()))
          else ret (Inr ())) (\<lambda>err. err) (\<lambda>_.
       attempt (onKube (Patch_Bucket (rec_Client r) b
           (set_finalizers (fst (RemoveFinalizer (rec_lib r) (bucket_finalizers b) BucketFinalizer)) b)))
         (\<lambda>err. err) (\<lambda>_. ret (Inr ())))) w1 = Some (oc, w')"
proof (cases "ExistsBucket svc b w")
  case None
  with assms show ?thesis by (simp add: reconcileDelete_def andThen_run)
next
  case (Some p)
  obtain out w1 where p: "p = (out, w1)" by (cases p)
  show ?thesis
  proof (cases "out = Val (True, None) \<and> ReclaimPolicy (Spec b) = ReclaimPolicyDelete")
    case True
    then show ?thesis using assms Some p deleting by (simp add: reconcileDelete_def andThen_run)
  next
    case False
    then have "w1 = w'"
      using assms Some p
      by (auto simp: reconcileDelete_def andThen_run split: outcome.splits prod.splits if_splits)
    with Some p False looked show ?thesis by simp
  qed
qed

text \<open>The reconcile functions return if the methods of the services do, for a role if there is one.\<close>

definition methods_return :: "('k, 'c) world ObjectStorageService \<Rightarrow> ('k, 'c) world AccessRoleService \<Rightarrow> bool" where
  "methods_return svc ars \<longleftrightarrow>
     (\<forall>b w. returns (ExistsBucket svc b) w \<and> returns (CreateBucket svc b) w \<and> returns (UpdateBucket svc b) w \<and>
        returns (ConfigureBucket svc b) w \<and> returns (DeleteBucket svc b) w) \<and>
     (\<forall>b w. has_access_role b \<longrightarrow> returns (ConfigureRole ars b) w \<and> returns (DeleteRole ars b) w)"

lemma reconcile_functions_return:
  assumes "methods_return svc ars"
  shows "returns (reconcileNormal r svc ars b) w" "returns (reconcileDelete r svc ars b) w"
  using assms unfolding methods_return_def reconcileNormal_def reconcileStorage_def reconcileDelete_def Let_def
  by (auto intro!: returns_attempt returns_andThen split: prod.split option.split)

lemma Reconcile_returns:
  assumes "\<And>w. returns (rec_ClusterGetter r) w"
    and "\<And>cl w. returns (NewObjectStorageService (rec_Factory r) cl) w"
    and "\<And>cl w. returns (NewAccessRoleService (rec_Factory r) cl) w"
    and "\<And>cl w svc w1 w2 ars w3. NewObjectStorageService (rec_Factory r) cl w = Some (Val (Inr svc), w1) \<Longrightarrow>
      NewAccessRoleService (rec_Factory r) cl w2 = Some (Val (Inr ars), w3) \<Longrightarrow> methods_return svc ars"
  shows "returns (Reconcile r req) w"
  unfolding Reconcile_def
  by (auto intro!: returns_attempt returns_andThen assms(1-3) reconcile_functions_return[OF assms(4)]
      split: sum.split option.split)

text \<open>What \<^verbatim>\<open>Reconcile\<close> does with the object it has read.\<close>

lemma Reconcile_got:
  assumes "Get_Bucket (rec_Client r) req (kube w) = (Inr b, k)"
  shows "Reconcile r req w =
    attempt (rec_ClusterGetter r) (Errorf_w (''failed to get cluster for bucket '' @ bucket_name b @ '': '')) (\<lambda>cl.
    attempt (NewObjectStorageService (rec_Factory r) cl)
      (Errorf_w (''failed to create object storage service for bucket '' @ bucket_name b @ '': '')) (\<lambda>svc.
    attempt (NewAccessRoleService (rec_Factory r) cl)
      (Errorf_w (''failed to create access role service for bucket '' @ bucket_name b @ '': '')) (\<lambda>ars.
    if meta_DeletionTimestamp (ObjectMeta b) \<noteq> None then
      attempt (reconcileDelete r svc ars b)
        (Errorf_w (''failed to delete bucket '' @ bucket_name b @ '': '')) (\<lambda>_. ret (Inr ()))
    else reconcileNormal r svc ars b))) (w\<lparr>kube := k\<rparr>)"
  using assms by (simp add: Reconcile_def andThen_run onKube_run)

text \<open>The cluster a run of \<^verbatim>\<open>Reconcile\<close> for a key works with: the answer of the getter in the world after
  the object is read.\<close>

definition works_with :: "('k, 'c) BucketReconciler \<Rightarrow> ObjectKey \<Rightarrow> ('k, 'c) world \<Rightarrow> Cluster \<Rightarrow> bool" where
  "works_with r req w cl \<longleftrightarrow>
     (case rec_ClusterGetter r (w\<lparr>kube := snd (Get_Bucket (rec_Client r) req (kube w))\<rparr>) of
        Some (Val (Inr cl'), w') \<Rightarrow> cl' = cl
      | _ \<Rightarrow> False)"

section \<open>What holds for services that keep their contracts\<close>

text \<open>
  The reconciler in an environment that keeps its contracts: a Kubernetes API, an object storage
  service and an access role service. What the contracts call present, configured, ready and gone
  looks at the spec of the bucket only, and the storage is a part of the cloud state that access roles
  are no part of.
\<close>

locale reconciler_env =
  kube_api lib client crs secrets +
  object_storage_service svc crs present configured +
  access_role_service ars role_ready role_gone storage
  for lib and client :: "'k Client" and crs secrets
    and svc :: "('k, 'c) world ObjectStorageService" and present configured
    and ars :: "('k, 'c) world AccessRoleService" and role_ready role_gone
    and storage :: "'c \<Rightarrow> 's" +
  fixes r :: "('k, 'c) BucketReconciler"
  assumes r_client: "rec_Client r = client"
    and r_lib: "rec_lib r = lib"
    and storage_decides:
      "storage c = storage c' \<Longrightarrow> present b c = present b c' \<and> configured b c = configured b c'"
    and spec_decides:
      "Spec b = Spec b' \<Longrightarrow> present b = present b' \<and> configured b = configured b' \<and>
         role_ready b = role_ready b' \<and> role_gone b = role_gone b'"
begin

text \<open>Registering the finalizer: afterwards the stored object carries it, and nothing else happened.\<close>

lemma finalizer_stage:
  assumes stored: "crs (kube w) (key_of b) = Some b"
    and add: "AddFinalizer lib (bucket_finalizers b) BucketFinalizer = (fs, added)"
    and run: "(if added then onKube (Patch_Bucket client b (set_finalizers fs b))
               else ret (Inr (set_finalizers fs b))) w = Some (Val (Inr b1), w1)"
  shows "b1 = set_finalizers fs b \<and> crs (kube w1) = (crs (kube w))(key_of b \<mapsto> b1) \<and>
    cloud w1 = cloud w \<and> BucketFinalizer \<in> set fs"
proof (cases added)
  case True
  with run obtain k where patch: "Patch_Bucket client b (set_finalizers fs b) (kube w) = (Inr b1, k)"
    and w1: "w1 = w\<lparr>kube := k\<rparr>" by auto
  from add True have fs: "fs = bucket_finalizers b @ [BucketFinalizer]" by (auto dest: AddFinalizer_changed)
  from patch_bucket_ok[OF patch] stored fs
  have "b1 = set_finalizers fs b" "crs k = put_object (crs (kube w)) b1"
    by (auto simp: merge_finalizers_def)
  with fs w1 show ?thesis by (simp add: put_object_held)
next
  case False
  with add have fs: "fs = bucket_finalizers b" "BucketFinalizer \<in> set (bucket_finalizers b)"
    by (auto dest: AddFinalizer_unchanged)
  with run False stored show ?thesis by auto
qed

text \<open>The stored object of a key carries the finalizer and has a given spec.\<close>

definition finalized :: "ObjectKey \<Rightarrow> BucketSpec \<Rightarrow> ('k, 'c) world \<Rightarrow> bool" where
  "finalized key sp w \<longleftrightarrow> (\<exists>b. crs (kube w) key = Some b \<and> Spec b = sp \<and>
     BucketFinalizer \<in> set (bucket_finalizers b))"

lemma keeps_finalized:
  assumes "\<And>m. keeps (\<lambda>w. crs (kube w) = m) p"
  shows "keeps (finalized key sp) p"
  using assms unfolding keeps_def finalized_def by metis

lemma keeps_finalized_status:
  assumes "key_of b = key"
  shows "keeps (finalized key sp) (onKube (Status_Patch_Bucket client b (b\<lparr>Status := st\<rparr>)))"
proof -
  have "finalized key sp (w\<lparr>kube := k\<rparr>)"
    if call: "Status_Patch_Bucket client b (b\<lparr>Status := st\<rparr>) (kube w) = (res, k)"
      and fin: "finalized key sp w" for w res k
  proof (cases res)
    case (Inl e)
    with status_patch_err call fin show ?thesis by (auto simp: finalized_def)
  next
    case (Inr b')
    from fin obtain b0 where b0: "crs (kube w) key = Some b0" "Spec b0 = sp"
      "BucketFinalizer \<in> set (bucket_finalizers b0)" by (auto simp: finalized_def)
    have "bucket_finalizers b0 \<noteq> []" using b0(3) by auto
    moreover have "key_of (b\<lparr>Status := st\<rparr>) = key" using assms by (simp add: key_of_def)
    ultimately have "b' = merge_status b (b\<lparr>Status := st\<rparr>) b0" "crs k = (crs (kube w))(key \<mapsto> b')"
      using status_patch_held[of b "b\<lparr>Status := st\<rparr>" "kube w" b' k b0] call Inr b0(1) by simp_all
    with b0 show ?thesis by (simp add: finalized_def)
  qed
  then show ?thesis by (auto simp: keeps_def onKube_def split: prod.splits)
qed

lemma keeps_finalized_storage:
  assumes "key_of b = key"
  shows "keeps (finalized key sp) (reconcileStorage r svc ars b)"
proof -
  have "keeps (finalized key sp) (ConfigureRole ars b2)" for b2
    by (rule keeps_finalized, rule keeps_fun_of_kube, rule role_kube)
  moreover have "keeps (finalized key sp) (ExistsBucket svc b)" "keeps (finalized key sp) (CreateBucket svc b)"
    "keeps (finalized key sp) (UpdateBucket svc b)" "keeps (finalized key sp) (ConfigureBucket svc b)"
    by (rule keeps_finalized, rule svc_crs)+
  ultimately show ?thesis
    unfolding reconcileStorage_def r_client
    by (auto intro!: keeps_andThen keeps_attempt keeps_finalized_status[OF assms] split: option.split)
qed

text \<open>No storage without a finalizer: in every run, returned errors and panics included, either the storage
  is as it was or the stored object carries the finalizer.\<close>

lemma normal_no_orphan:
  assumes stored: "crs (kube w) (key_of b) = Some b"
    and run: "reconcileNormal r svc ars b w = Some (oc, w')"
  shows "cloud w' = cloud w \<and> crs (kube w') = crs (kube w) \<or> finalized (key_of b) (Spec b) w'"
proof -
  obtain fs added where add: "AddFinalizer lib (bucket_finalizers b) BucketFinalizer = (fs, added)"
    by fastforce
  let ?stage = "if added then onKube (Patch_Bucket client b (set_finalizers fs b)) else ret (Inr (set_finalizers fs b))"
  have "returns ?stage w" by simp
  then obtain res w1 where st: "?stage w = Some (Val res, w1)" by (rule returnsE)
  note run' = run[unfolded reconcileNormal_def r_client r_lib add Let_def prod.case]
  show ?thesis
  proof (cases res)
    case (Inl e)
    with attempt_runD(2)[OF run' st[unfolded Inl]] have "w' = w1" by simp
    with st Inl show ?thesis by (auto split: if_splits dest!: patch_bucket_err)
  next
    case (Inr b1)
    note fin = finalizer_stage[OF stored add st[unfolded Inr]]
    then have "finalized (key_of b) (Spec b) w1" "key_of b1 = key_of b"
      by (auto simp: finalized_def)
    moreover note attempt_runD(1)[OF run' st[unfolded Inr]]
    ultimately show ?thesis using keepsD[OF keeps_finalized_storage] by blast
  qed
qed

text \<open>The object that is stored after a successful run.\<close>

definition reconciled :: "Bucket \<Rightarrow> Bucket" where
  "reconciled b = (set_finalizers (fst (AddFinalizer lib (bucket_finalizers b) BucketFinalizer)) b)
     \<lparr>Status := ready_status b\<rparr>"

lemma storage_part_ok:
  assumes run: "reconcileStorage r svc ars b w = Some (Val (Inr ()), w')"
    and stored: "crs (kube w) (key_of b) = Some b" "BucketFinalizer \<in> set (bucket_finalizers b)"
  shows "crs (kube w') = (crs (kube w))(key_of b \<mapsto> b\<lparr>Status := ready_status b\<rparr>) \<and>
    present b (cloud w') \<and> configured b (cloud w') \<and> (has_access_role b \<longrightarrow> role_ready b (cloud w'))"
  using run
proof (rule reconcileStorage_steps)
  fix ex w1 w2 w3 b2 k
  let ?b = "b\<lparr>Status := ready_status b\<rparr>"
  assume ex: "ExistsBucket svc b w = Some (Val (ex, None), w1)"
    and up: "(if \<not> ex then CreateBucket svc b else UpdateBucket svc b) w1 = Some (Val (Inr ()), w2)"
    and conf: "ConfigureBucket svc b w2 = Some (Val (Inr ()), w3)"
    and patch: "Status_Patch_Bucket (rec_Client r) b ?b (kube w3) = (Inr b2, k)"
    and role: "if has_access_role b2 then ConfigureRole ars b2 (w3\<lparr>kube := k\<rparr>) = Some (Val (Inr ()), w')
      else w' = w3\<lparr>kube := k\<rparr>"
  have pres: "present b (cloud w3)" "configured b (cloud w3)"
    using exists_nil[OF ex] create_or_update_present[OF up] configure_nil[OF conf] by auto
  have crs3: "crs (kube w3) = crs (kube w)"
    using svc_crs_run(1)[OF ex] svc_crs_run(4)[OF conf] up svc_crs_run(2,3)[of b w1 _ w2]
    by (simp split: if_splits)
  have "bucket_finalizers b \<noteq> []" "key_of ?b = key_of b" using stored(2) by (auto simp: key_of_def)
  then have b2: "b2 = ?b" and k: "crs k = (crs (kube w))(key_of b \<mapsto> ?b)"
    using status_patch_held[of b ?b "kube w3" b2 k b] patch r_client crs3 stored(1)
    by (auto simp: merge_status_def ready_status_def)
  have fr: "kube w' = k \<and> storage (cloud w') = storage (cloud w3)"
    using role role_frame_run(1)[of b2 "w3\<lparr>kube := k\<rparr>" _ w'] by (auto split: if_splits)
  with pres storage_decides[of "cloud w'" "cloud w3" b]
  have "present b (cloud w')" "configured b (cloud w')" by auto
  moreover have "has_access_role b \<longrightarrow> role_ready b (cloud w')"
    using role configure_role_nil[of b2 "w3\<lparr>kube := k\<rparr>" w'] spec_decides[of b2 b]
    by (auto simp: b2 has_access_role_def)
  ultimately show ?thesis using fr k by simp
qed

lemma normal_ok:
  assumes run: "reconcileNormal r svc ars b w = Some (Val (Inr ()), w')"
    and stored: "crs (kube w) (key_of b) = Some b"
  shows "crs (kube w') = (crs (kube w))(key_of b \<mapsto> reconciled b) \<and>
    present b (cloud w') \<and> configured b (cloud w') \<and> (has_access_role b \<longrightarrow> role_ready b (cloud w'))"
proof -
  obtain fs added where add: "AddFinalizer lib (bucket_finalizers b) BucketFinalizer = (fs, added)"
    by fastforce
  from run[unfolded reconcileNormal_def r_client r_lib add Let_def prod.case attempt_Inr_iff]
  obtain b1 w1 where st: "(if added then onKube (Patch_Bucket client b (set_finalizers fs b))
      else ret (Inr (set_finalizers fs b))) w = Some (Val (Inr b1), w1)"
    and rest: "reconcileStorage r svc ars b1 w1 = Some (Val (Inr ()), w')" by blast
  note fin = finalizer_stage[OF stored add st]
  then have "Spec b1 = Spec b" "key_of b1 = key_of b" "b1\<lparr>Status := ready_status b1\<rparr> = reconciled b"
    by (auto simp: reconciled_def add ready_status_def)
  with storage_part_ok[OF rest] fin spec_decides[of b1 b] show ?thesis
    by (auto simp: has_access_role_def)
qed

text \<open>Deletion: the object without the finalizer.\<close>

definition released :: "Bucket \<Rightarrow> Bucket" where
  "released b = set_finalizers (filter (\<lambda>f. f \<noteq> BucketFinalizer) (bucket_finalizers b)) b"

lemma release_patch:
  assumes "crs k (key_of b) = Some b"
    and "Patch_Bucket client b (set_finalizers (fst (RemoveFinalizer lib (bucket_finalizers b) BucketFinalizer)) b) k
      = (Inr b', k')"
  shows "crs k' = put_object (crs k) (released b)"
  using patch_bucket_ok[OF assms(2)] assms(1)
  by (auto simp: RemoveFinalizer_list merge_finalizers_def released_def split: if_splits)

text \<open>The deleting branch: as long as one of its calls has failed the stored object is as it was; once all
  have returned nil, the storage and the role are gone.\<close>

lemma deleting_branch:
  assumes run: "attempt (DeleteBucket svc b) h1 (\<lambda>_.
       attempt (if has_access_role b then attempt (DeleteRole ars b) h2 (\<lambda>_. ret (Inr ())) else ret (Inr ()))
         (\<lambda>err. err) (\<lambda>_.
       attempt (onKube (Patch_Bucket client b
           (set_finalizers (fst (RemoveFinalizer lib (bucket_finalizers b) BucketFinalizer)) b)))
         (\<lambda>err. err) (\<lambda>_. ret (Inr ())))) w = Some (oc, w')"
    and stored: "crs (kube w) (key_of b) = Some b"
  shows "crs (kube w') = crs (kube w) \<and> oc \<noteq> Val (Inr ()) \<or>
    oc = Val (Inr ()) \<and> \<not> present b (cloud w') \<and> (has_access_role b \<longrightarrow> role_gone b (cloud w')) \<and>
    crs (kube w') = put_object (crs (kube w)) (released b)"
proof -
  let ?role = "if has_access_role b then attempt (DeleteRole ars b) h2 (\<lambda>_. ret (Inr ())) else ret (Inr ())"
  have role_crs: "crs (kube v') = crs (kube v) \<and> storage (cloud v') = storage (cloud v)"
    if "?role v = Some (x, v')" for v x v'
    using that by (auto simp: attempt_run split: if_splits option.splits prod.splits outcome.splits sum.splits
        dest: role_frame_run(2))
  have role_ok: "has_access_role b \<longrightarrow> role_gone b (cloud v')" if "?role v = Some (Val (Inr ()), v')" for v v'
    using that by (auto dest: delete_role_nil)
  show ?thesis
  proof (cases "oc = Val (Inr ())")
    case True
    with run obtain w1 w2 b' k where d: "DeleteBucket svc b w = Some (Val (Inr ()), w1)"
      and ro: "?role w1 = Some (Val (Inr ()), w2)"
      and pa: "Patch_Bucket client b (set_finalizers (fst (RemoveFinalizer lib (bucket_finalizers b)
             BucketFinalizer)) b) (kube w2) = (Inr b', k)" and w': "w' = w2\<lparr>kube := k\<rparr>"
      unfolding True attempt_Inr_iff by auto
    from svc_crs_run(5)[OF d] role_crs[OF ro] have crs2: "crs (kube w2) = crs (kube w)" by simp
    have "\<not> present b (cloud w')"
      using delete_nil[OF d] storage_decides[of "cloud w2" "cloud w1" b] role_crs[OF ro] w' by simp
    with True role_ok[OF ro] release_patch[OF _ pa] crs2 stored w' show ?thesis by simp
  next
    case False
    with run have "crs (kube w') = crs (kube w)"
      by (auto simp: attempt_run[where m = "DeleteBucket svc b"] attempt_run[where m = ?role]
          attempt_run[where m = "onKube f" for f] onKube_run
          split: option.splits prod.splits outcome.splits sum.splits
          dest!: svc_crs_run(5) role_crs patch_bucket_err simp del: if_split split del: if_split)
    with False show ?thesis by simp
  qed
qed

text \<open>What a run leaves alone: the other stored objects, and the absence of other storage.\<close>

lemma keeps_other_crs_status:
  assumes "key_of b = key"
  shows "keeps (\<lambda>w. (crs (kube w))(key := None) = m) (onKube (Status_Patch_Bucket client b (b\<lparr>Status := st\<rparr>)))"
proof -
  have "(crs k)(key := None) = (crs k0)(key := None)"
    if "Status_Patch_Bucket client b (b\<lparr>Status := st\<rparr>) k0 = (res, k)" for k0 res k
  proof (cases res)
    case (Inl e)
    with that status_patch_err show ?thesis by auto
  next
    case (Inr b')
    have "key_of (b\<lparr>Status := st\<rparr>) = key" using assms by (simp add: key_of_def)
    with status_patch_ok[OF that[unfolded Inr]] crs_key show ?thesis by (auto simp: put_object_def)
  qed
  then show ?thesis by (auto simp: keeps_def onKube_def split: prod.splits)
qed

lemma storage_part_frame:
  assumes "key_of b = key" and "bucket_name b' \<noteq> bucket_name b"
  shows "keeps (\<lambda>w. (crs (kube w))(key := None) = m) (reconcileStorage r svc ars b)"
    and "keeps (\<lambda>w. \<not> present b' (cloud w)) (reconcileStorage r svc ars b)"
proof -
  have crs_kept: "keeps (\<lambda>w. (crs (kube w))(key := None) = m) p"
    if "\<And>n. keeps (\<lambda>w. crs (kube w) = n) p" for p :: "(('k, 'c) world, 'x) prog"
    using that unfolding keeps_def by metis
  have role: "keeps (\<lambda>w. (crs (kube w))(key := None) = m) (ConfigureRole ars b2)"
    "keeps (\<lambda>w. \<not> present b' (cloud w)) (ConfigureRole ars b2)" for b2
    using role_frame_run(1) storage_decides unfolding keeps_def by metis+
  note svcs = svc_crs(1-4)[THEN crs_kept]
  show "keeps (\<lambda>w. (crs (kube w))(key := None) = m) (reconcileStorage r svc ars b)"
    unfolding reconcileStorage_def r_client
    by (auto intro!: keeps_andThen keeps_attempt keeps_other_crs_status[OF assms(1)] role svcs
        split: option.split)
  show "keeps (\<lambda>w. \<not> present b' (cloud w)) (reconcileStorage r svc ars b)"
    unfolding reconcileStorage_def
    by (auto intro!: keeps_andThen keeps_attempt keeps_cloud_onKube role svc_looks svc_others(1-3)[OF assms(2)]
        split: option.split)
qed

lemma normal_frame:
  assumes stored: "crs (kube w) (key_of b) = Some b"
    and run: "reconcileNormal r svc ars b w = Some (oc, w')"
    and other: "bucket_name b' \<noteq> bucket_name b"
  shows "(crs (kube w'))(key_of b := None) = (crs (kube w))(key_of b := None) \<and>
    (\<not> present b' (cloud w) \<longrightarrow> \<not> present b' (cloud w'))"
proof -
  obtain fs added where add: "AddFinalizer lib (bucket_finalizers b) BucketFinalizer = (fs, added)"
    by fastforce
  let ?stage = "if added then onKube (Patch_Bucket client b (set_finalizers fs b)) else ret (Inr (set_finalizers fs b))"
  have "returns ?stage w" by simp
  then obtain res w1 where st: "?stage w = Some (Val res, w1)" by (rule returnsE)
  note run' = run[unfolded reconcileNormal_def r_client r_lib add Let_def prod.case]
  show ?thesis
  proof (cases res)
    case (Inl e)
    with attempt_runD(2)[OF run' st[unfolded Inl]] have "w' = w1" by simp
    with st Inl show ?thesis by (auto split: if_splits dest!: patch_bucket_err)
  next
    case (Inr b1)
    note fin = finalizer_stage[OF stored add st[unfolded Inr]]
    then have "key_of b1 = key_of b" "bucket_name b' \<noteq> bucket_name b1" using other by auto
    note kept = storage_part_frame[OF this]
    note rest = attempt_runD(1)[OF run' st[unfolded Inr]]
    from keepsD[OF kept(1) rest refl] keepsD[OF kept(2) rest] fin show ?thesis by auto
  qed
qed

lemma deleting_others:
  assumes "bucket_name b' \<noteq> bucket_name b"
  shows "keeps (\<lambda>w. \<not> present b' (cloud w)) (reconcileDelete r svc ars b)"
proof -
  have "keeps (\<lambda>w. \<not> present b' (cloud w)) (DeleteRole ars b)"
    using role_frame_run(2) storage_decides unfolding keeps_def by metis
  then show ?thesis
    unfolding reconcileDelete_def
    by (auto intro!: keeps_andThen keeps_attempt keeps_cloud_onKube svc_looks svc_others(4)[OF assms])
qed

lemma delete_frame:
  assumes stored: "crs (kube w) (key_of b) = Some b"
    and run: "reconcileDelete r svc ars b w = Some (oc, w')"
  shows "(crs (kube w'))(key_of b := None) = (crs (kube w))(key_of b := None)"
    and "\<not> present b (cloud w) \<Longrightarrow> \<not> present b (cloud w') \<and> crs (kube w') = crs (kube w)"
    and "crs (kube w') \<noteq> crs (kube w) \<Longrightarrow> \<not> present b (cloud w')"
proof -
  have "(crs (kube w'))(key_of b := None) = (crs (kube w))(key_of b := None) \<and>
    (\<not> present b (cloud w) \<longrightarrow> \<not> present b (cloud w') \<and> crs (kube w') = crs (kube w)) \<and>
    (crs (kube w') \<noteq> crs (kube w) \<longrightarrow> \<not> present b (cloud w'))"
    using run
  proof (cases rule: reconcileDelete_cases)
    case (looked out)
    then show ?thesis using svc_crs_run(1)[OF looked(1)] keepsD[OF svc_looks looked(1)] by auto
  next
    case (deleting w1)
    note same = svc_crs_run(1)[OF deleting(1)]
    from deleting_branch[OF deleting(3)[unfolded r_client r_lib]] stored same exists_nil[OF deleting(1)]
    show ?thesis by (auto simp: put_object_def released_def)
  qed
  then show "(crs (kube w'))(key_of b := None) = (crs (kube w))(key_of b := None)"
    and "\<not> present b (cloud w) \<Longrightarrow> \<not> present b (cloud w') \<and> crs (kube w') = crs (kube w)"
    and "crs (kube w') \<noteq> crs (kube w) \<Longrightarrow> \<not> present b (cloud w')"
    by auto
qed

end

section \<open>The whole reconciler\<close>

text \<open>
  The environment of the whole reconciler: a Kubernetes API, a cluster getter and a service factory. The
  services the factory makes for a cluster keep the contracts, with meanings of present, configured,
  ready and gone that may depend on that cluster.
\<close>

locale operator_env =
  kube_api lib client crs secrets
  for lib and client :: "'k Client" and crs secrets +
  fixes r :: "('k, 'c) BucketReconciler"
    and present configured role_ready role_gone :: "Cluster \<Rightarrow> Bucket \<Rightarrow> 'c \<Rightarrow> bool"
    and storage :: "'c \<Rightarrow> 's"
  assumes env_client: "rec_Client r = client"
    and env_lib: "rec_lib r = lib"
    and env_getter:
      "rec_ClusterGetter r w = Some (go, w') \<Longrightarrow>
         storage (cloud w') = storage (cloud w) \<and> crs (kube w') = crs (kube w)"
    and env_storage_factory:
      "NewObjectStorageService (rec_Factory r) cl w = Some (so, w') \<Longrightarrow>
         storage (cloud w') = storage (cloud w) \<and> crs (kube w') = crs (kube w)"
    and env_role_factory:
      "NewAccessRoleService (rec_Factory r) cl w = Some (ro, w') \<Longrightarrow>
         storage (cloud w') = storage (cloud w) \<and> crs (kube w') = crs (kube w)"
    and env_storage_service:
      "NewObjectStorageService (rec_Factory r) cl w = Some (Val (Inr svc), w') \<Longrightarrow>
         object_storage_service svc crs (present cl) (configured cl)"
    and env_role_service:
      "NewAccessRoleService (rec_Factory r) cl w = Some (Val (Inr ars), w') \<Longrightarrow>
         access_role_service ars (role_ready cl) (role_gone cl) storage"
    and env_storage_decides:
      "storage c = storage c' \<Longrightarrow> present cl b c = present cl b c' \<and> configured cl b c = configured cl b c'"
    and env_spec_decides:
      "Spec b = Spec b' \<Longrightarrow> present cl b = present cl b' \<and> configured cl b = configured cl b' \<and>
         role_ready cl b = role_ready cl b' \<and> role_gone cl b = role_gone cl b'"
begin

definition at_work :: "Cluster \<Rightarrow> ('k, 'c) world ObjectStorageService \<Rightarrow> ('k, 'c) world AccessRoleService \<Rightarrow> bool" where
  "at_work cl svc ars \<longleftrightarrow> reconciler_env lib client crs secrets svc (present cl) (configured cl) ars
     (role_ready cl) (role_gone cl) storage r"

lemma at_workI:
  assumes "NewObjectStorageService (rec_Factory r) cl w = Some (Val (Inr svc), w1)"
    and "NewAccessRoleService (rec_Factory r) cl w1 = Some (Val (Inr ars), w2)"
  shows "at_work cl svc ars"
  unfolding at_work_def
proof (intro reconciler_env.intro reconciler_env_axioms.intro)
  show "kube_api lib client crs secrets" by (rule kube_api_axioms)
  show "object_storage_service svc crs (present cl) (configured cl)" using assms(1) by (rule env_storage_service)
  show "access_role_service ars (role_ready cl) (role_gone cl) storage" using assms(2) by (rule env_role_service)
qed (rule env_client env_lib env_storage_decides env_spec_decides, assumption?)+

text \<open>
  How a run of \<^verbatim>\<open>Reconcile\<close> can end: before the services are at work, in which case the storage and the
  stored objects are as they were, or in one of the two reconcile functions.
\<close>

lemma Reconcile_cases:
  assumes run: "Reconcile r req w = Some (oc, w')"
  obtains (stopped) "storage (cloud w') = storage (cloud w)" "crs (kube w') = crs (kube w)"
      "oc = Val (Inr ()) \<longrightarrow> crs (kube w) req = None"
  | (working) b cl svc ars w1 v v1 where "crs (kube w) req = Some b" "at_work cl svc ars" "works_with r req w cl"
      "storage (cloud w1) = storage (cloud w)" "crs (kube w1) = crs (kube w)"
      "(if meta_DeletionTimestamp (ObjectMeta b) \<noteq> None
        then attempt (reconcileDelete r svc ars b) (Errorf_w (''failed to delete bucket '' @ bucket_name b @ '': ''))
               (\<lambda>_. ret (Inr ()))
        else reconcileNormal r svc ars b) w1 = Some (oc, w')"
      "NewObjectStorageService (rec_Factory r) cl v = Some (Val (Inr svc), v1)"
proof -
  obtain got k where g: "Get_Bucket client req (kube w) = (got, k)" by fastforce
  let ?w = "w\<lparr>kube := k\<rparr>"
  show thesis
  proof (cases got)
    case (Inl e)
    with run g have "w' = ?w" "oc = Val (case IgnoreNotFound lib (Some e) of None \<Rightarrow> Inr () | Some e \<Rightarrow> Inl e)"
      by (auto simp: Reconcile_def andThen_run onKube_run env_client env_lib)
    with get_bucket_err[OF g[unfolded Inl]] show thesis
      by (intro stopped) (auto simp: IgnoreNotFound_err split: if_splits option.splits)
  next
    case (Inr b)
    note got = get_bucket_ok[OF g[unfolded Inr]]
    note run' = run[unfolded Reconcile_got[OF g[unfolded Inr, folded env_client]]]
    show thesis
    proof (cases "\<exists>cl w1 svc w2 ars w3. rec_ClusterGetter r ?w = Some (Val (Inr cl), w1) \<and>
        NewObjectStorageService (rec_Factory r) cl w1 = Some (Val (Inr svc), w2) \<and>
        NewAccessRoleService (rec_Factory r) cl w2 = Some (Val (Inr ars), w3)")
      case True
      then obtain cl w1 svc w2 ars w3 where c1: "rec_ClusterGetter r ?w = Some (Val (Inr cl), w1)"
        and c2: "NewObjectStorageService (rec_Factory r) cl w1 = Some (Val (Inr svc), w2)"
        and c3: "NewAccessRoleService (rec_Factory r) cl w2 = Some (Val (Inr ars), w3)" by blast
      from attempt_runD(1)[OF attempt_runD(1)[OF attempt_runD(1)[OF run' c1] c2] c3]
      show thesis
        using working[of b cl svc ars w3 w1 w2] c2 at_workI[OF c2 c3] got env_getter[OF c1] c1 g
          works_with_def[of r req w cl] env_client
          env_storage_factory[OF c2] env_role_factory[OF c3] by simp
    next
      case False
      with run' have "oc \<noteq> Val (Inr ()) \<and> storage (cloud w') = storage (cloud w) \<and> crs (kube w') = crs (kube w)"
        using got
        by (auto simp: attempt_run[where m = "rec_ClusterGetter r"]
            attempt_run[where m = "NewObjectStorageService f c" for f c]
            attempt_run[where m = "NewAccessRoleService f c" for f c]
            split: option.splits prod.splits outcome.splits sum.splits
            dest!: env_getter env_storage_factory env_role_factory)
      then show thesis by (intro stopped) auto
    qed
  qed
qed

lemma Reconcile_normal_ok:
  assumes run: "Reconcile r req w = Some (Val (Inr ()), w')"
    and stored: "crs (kube w) req = Some b" "meta_DeletionTimestamp (ObjectMeta b) = None"
  shows "crs (kube w') = (crs (kube w))(req \<mapsto>
      (set_finalizers (fst (AddFinalizer lib (bucket_finalizers b) BucketFinalizer)) b)\<lparr>Status := ready_status b\<rparr>) \<and>
    (\<exists>cl. works_with r req w cl \<and> present cl b (cloud w') \<and> configured cl b (cloud w') \<and>
      (has_access_role b \<longrightarrow> role_ready cl b (cloud w')))"
  using run
proof (cases rule: Reconcile_cases)
  case (working b' cl svc ars w1 v v1)
  then have [simp]: "b' = b" using stored by simp
  note env = working(2)[unfolded at_work_def]
  from working stored have "reconcileNormal r svc ars b w1 = Some (Val (Inr ()), w')" by simp
  from reconciler_env.normal_ok[OF env this] reconciler_env.reconciled_def[OF env] working stored crs_key
  show ?thesis by auto
qed (use stored in auto)

lemma Reconcile_no_orphan:
  assumes run: "Reconcile r req w = Some (oc, w')"
    and stored: "crs (kube w) req = Some b" "meta_DeletionTimestamp (ObjectMeta b) = None"
    and changed: "storage (cloud w') \<noteq> storage (cloud w)"
  shows "\<exists>b'. crs (kube w') req = Some b' \<and> Spec b' = Spec b \<and> BucketFinalizer \<in> set (bucket_finalizers b')"
  using run
proof (cases rule: Reconcile_cases)
  case (working b' cl svc ars w1 v v1)
  then have [simp]: "b' = b" using stored by simp
  note env = working(2)[unfolded at_work_def]
  from working stored have "reconcileNormal r svc ars b w1 = Some (oc, w')" by simp
  from reconciler_env.normal_no_orphan[OF env _ this] reconciler_env.finalized_def[OF env]
    working stored crs_key changed
  show ?thesis by auto
qed (use changed in auto)

text \<open>The finalizer goes last: whatever a run on an object in deletion changes in the stored objects, it
  changes after the storage and the role are gone.\<close>

lemma Reconcile_delete:
  assumes run: "Reconcile r req w = Some (oc, w')"
    and stored: "crs (kube w) req = Some b" "meta_DeletionTimestamp (ObjectMeta b) \<noteq> None"
    and changed: "crs (kube w') \<noteq> crs (kube w)"
  shows "oc = Val (Inr ()) \<and> ReclaimPolicy (Spec b) = ReclaimPolicyDelete \<and>
    crs (kube w') = put_object (crs (kube w))
      (set_finalizers (filter (\<lambda>f. f \<noteq> BucketFinalizer) (bucket_finalizers b)) b) \<and>
    (\<exists>cl. works_with r req w cl \<and> \<not> present cl b (cloud w') \<and> (has_access_role b \<longrightarrow> role_gone cl b (cloud w')))"
  using run
proof (cases rule: Reconcile_cases)
  case (working b' cl svc ars w1 v v1)
  then have [simp]: "b' = b" using stored by simp
  note env = working(2)[unfolded at_work_def]
  from working stored obtain oc0 where run': "reconcileDelete r svc ars b w1 = Some (oc0, w')"
    and oc: "oc0 = Val (Inr ()) \<Longrightarrow> oc = Val (Inr ())"
    by (auto simp: attempt_run split: option.splits prod.splits outcome.splits sum.splits)
  have st: "crs (kube w1) (key_of b) = Some b" using working stored crs_key by simp
  from run' show ?thesis
  proof (cases rule: reconcileDelete_cases)
    case looked
    with reconciler_env.axioms(2)[OF env] working changed show ?thesis
      by (auto dest!: object_storage_service.svc_crs_run(1))
  next
    case (deleting w2)
    have same: "crs (kube w2) = crs (kube w)"
      using object_storage_service.svc_crs_run(1)[OF reconciler_env.axioms(2)[OF env] deleting(1)] working by simp
    from reconciler_env.deleting_branch[OF env deleting(3)[unfolded env_client env_lib]] st same working
      changed oc deleting(2) reconciler_env.released_def[OF env]
    show ?thesis by auto
  qed
qed (use changed in auto)

text \<open>If the run changed the stored objects, the method \<^verbatim>\<open>DeleteBucket\<close> of the service of the cluster has returned nil, and
  the storage is as it left it.\<close>

lemma Reconcile_deleted:
  assumes run: "Reconcile r req w = Some (oc, w')"
    and stored: "crs (kube w) req = Some b" "meta_DeletionTimestamp (ObjectMeta b) \<noteq> None"
    and changed: "crs (kube w') \<noteq> crs (kube w)"
  shows "\<exists>cl svc v v1 u u1. works_with r req w cl \<and>
    NewObjectStorageService (rec_Factory r) cl v = Some (Val (Inr svc), v1) \<and>
    DeleteBucket svc b u = Some (Val (Inr ()), u1) \<and> storage (cloud w') = storage (cloud u1)"
  using run
proof (cases rule: Reconcile_cases)
  case (working b' cl svc ars w1 v v1)
  then have [simp]: "b' = b" using stored by simp
  note env = working(2)[unfolded at_work_def]
  from working stored obtain oc0 where run': "reconcileDelete r svc ars b w1 = Some (oc0, w')"
    by (auto simp: attempt_run split: option.splits prod.splits outcome.splits sum.splits)
  have st: "crs (kube w1) (key_of b) = Some b" using working stored crs_key by simp
  from run' show ?thesis
  proof (cases rule: reconcileDelete_cases)
    case looked
    with reconciler_env.axioms(2)[OF env] working changed show ?thesis
      by (auto dest!: object_storage_service.svc_crs_run(1))
  next
    case (deleting w2)
    have same: "crs (kube w2) = crs (kube w)"
      using object_storage_service.svc_crs_run(1)[OF reconciler_env.axioms(2)[OF env] deleting(1)] working by simp
    from reconciler_env.deleting_branch[OF env deleting(3)[unfolded env_client env_lib]] st same working(5) changed
    have nil: "oc0 = Val (Inr ())" by auto
    let ?role = "if has_access_role b then attempt (DeleteRole ars b)
        (Errorf_w (''failed to delete access role for bucket '' @ bucket_name b @ '': '')) (\<lambda>_. ret (Inr ())) else ret (Inr ())"
    from deleting(3)[unfolded nil attempt_Inr_iff[where w' = w']] obtain u1 u2 where
      d: "DeleteBucket svc b w2 = Some (Val (Inr ()), u1)" and ro: "?role u1 = Some (Val (Inr ()), u2)"
      and pa: "cloud w' = cloud u2"
      by auto
    have "storage (cloud u2) = storage (cloud u1)"
      using ro by (auto split: if_splits dest: access_role_service.role_frame_run(2)[OF reconciler_env.axioms(3)[OF env]])
    with d pa working(3,7) show ?thesis by metis
  qed
qed (use changed in auto)

end

end
