(* ===== verification/AWS_Cluster.thy ===== *)
theory AWS_Cluster
  imports Cluster_API
begin

text \<open>
  \<^verbatim>\<open>AWSClusterGetter\<close> (\<^verbatim>\<open>src/internal/pkg/service/objectstorage/cloud/aws/cluster.go\<close>): the AWS
  management cluster is read from the \<^verbatim>\<open>AWSCluster\<close> object named by the flags and the
  \<^verbatim>\<open>AWSClusterRoleIdentity\<close> object it refers to. Log output is not modelled.
\<close>

definition AWS_Group :: string where "AWS_Group = ''infrastructure.cluster.x-k8s.io''"
definition AWS_KindCluster :: string where "AWS_KindCluster = ''AWSCluster''"
definition AWS_VersionCluster :: string where "AWS_VersionCluster = ''v1beta2''"
definition AWS_KindClusterIdentity :: string where "AWS_KindClusterIdentity = ''AWSClusterRoleIdentity''"
definition AWS_VersionClusterIdentity :: string where "AWS_VersionClusterIdentity = ''v1beta2''"

definition AWS_getClusterCR ::
  "'k Client \<Rightarrow> ManagementCluster \<Rightarrow> (('k, 'c) world, go_error + uvalue) prog" where
  "AWS_getClusterCR client mc =
     attempt (onKube (Get_Unstructured client
         \<lparr>gvk_Group = AWS_Group, gvk_Version = AWS_VersionCluster, gvk_Kind = AWS_KindCluster\<rparr>
         (ToObjectKey mc (mc_Name mc) (mc_Namespace mc))))
       (Errorf_w (''failed to get AWSCluster CR '' @ mc_Namespace mc @ ''/'' @ mc_Name mc @ '': ''))
       (\<lambda>cluster. ret (Inr cluster))"

definition AWS_getClusterCRIdentiy ::
  "'k Client \<Rightarrow> ManagementCluster \<Rightarrow> string \<Rightarrow> (('k, 'c) world, go_error + uvalue) prog" where
  "AWS_getClusterCRIdentiy client mc clusterIdentityName =
     attempt (onKube (Get_Unstructured client
         \<lparr>gvk_Group = AWS_Group, gvk_Version = AWS_VersionClusterIdentity, gvk_Kind = AWS_KindClusterIdentity\<rparr>
         (ToObjectKey mc clusterIdentityName (mc_Namespace mc))))
       (Errorf_w (''failed to get AWSClusterRoleIdentity CR '' @ mc_Namespace mc @ ''/'' @
          clusterIdentityName @ '': ''))
       (\<lambda>clusterIdentity. ret (Inr clusterIdentity))"

definition AWS_GetCluster ::
  "'k Client \<Rightarrow> kube_lib \<Rightarrow> ManagementCluster \<Rightarrow> ('k, 'c) world ClusterGetter" where
  "AWS_GetCluster client lib mc =
     (let nn = mc_Namespace mc @ ''/'' @ mc_Name mc in
      attempt (AWS_getClusterCR client mc)
       (Errorf_w (''missing management cluster AWSCluster CR for cluster '' @ mc_Name mc @
          '' in namespace '' @ mc_Namespace mc @ '': '')) (\<lambda>cluster.
      attempt (ret (NestedString lib cluster [''spec'', ''identityRef'', ''name'']))
       (Errorf_w (''failed to get identity name from AWSCluster '' @ nn @ '': '')) (\<lambda>found.
      case found of
        None \<Rightarrow> ret (Inl (ErrorString (''missing management cluster identityRef for cluster '' @ nn)))
      | Some clusterIdentityName \<Rightarrow>
        if clusterIdentityName = [] then
          ret (Inl (ErrorString (''missing management cluster identityRef for cluster '' @ nn)))
        else
          attempt (AWS_getClusterCRIdentiy client mc clusterIdentityName)
           (Errorf_w (''missing management cluster identity AWSClusterRoleIdentity CR '' @
              clusterIdentityName @ '' for cluster '' @ nn @ '': '')) (\<lambda>clusterIdentity.
          attempt (ret (NestedString lib clusterIdentity [''spec'', ''roleARN'']))
           (Errorf_w (''failed to get role ARN from AWSClusterRoleIdentity '' @ clusterIdentityName @ '': ''))
           (\<lambda>foundArn.
          case foundArn of
            None \<Rightarrow> ret (Inl (ErrorString (''missing role ARN in AWSClusterRoleIdentity '' @
                      clusterIdentityName @ '' for cluster '' @ nn)))
          | Some roleArn \<Rightarrow>
            attempt (ret (NestedStringMap lib cluster [''spec'', ''additionalTags'']))
             (Errorf_w (''failed to get additional tags from AWSCluster '' @ nn @ '': '')) (\<lambda>foundTags.
            ret (Inr (DynAWSCluster
              \<lparr>aws_Name = mc_Name mc, aws_Namespace = mc_Namespace mc, aws_BaseDomain = mc_BaseDomain mc,
               aws_Region = mc_Region mc,
               aws_Tags = (case foundTags of None \<Rightarrow> [] | Some tags \<Rightarrow> tags),
               aws_Credentials = \<lparr>Role = roleArn\<rparr>\<rparr>)))))))) "

section \<open>What the getter guarantees\<close>

lemma AWS_getClusterCR_returns [returns_intros]: "returns (AWS_getClusterCR client mc) w"
  unfolding AWS_getClusterCR_def by (intro returns_intros)

lemma AWS_getClusterCRIdentiy_returns [returns_intros]:
  "returns (AWS_getClusterCRIdentiy client mc n) w"
  unfolding AWS_getClusterCRIdentiy_def by (intro returns_intros)

lemma AWS_GetCluster_returns: "returns (AWS_GetCluster client lib mc) w"
  unfolding AWS_GetCluster_def Let_def
  by (auto intro!: returns_intros split: option.split)

lemma AWS_GetCluster_keeps:
  assumes "\<And>gvk key. keeps I (onKube (Get_Unstructured client gvk key))"
  shows "keeps I (AWS_GetCluster client lib mc)"
  unfolding AWS_GetCluster_def AWS_getClusterCR_def AWS_getClusterCRIdentiy_def Let_def
  by (auto intro!: keeps_attempt assms split: option.split)

interpretation aws_getter: cluster_getter AWS_GetCluster "\<lambda>cl. \<exists>c. cl = DynAWSCluster c"
proof (unfold_locales, goal_cases)
  case 1 show ?case by (rule AWS_GetCluster_returns)
next
  case 2 show ?case by (rule AWS_GetCluster_keeps) simp
next
  case (3 client k lib mc)
  then show ?case by (intro AWS_GetCluster_keeps keeps_kube_read) simp
next
  case (4 client lib mc w cl w')
  then show ?case
    by (auto simp: AWS_GetCluster_def Let_def)
qed

end
