(* ===== verification/JSON_Text.thy ===== *)
theory JSON_Text
  imports Main
begin

text \<open>
  The policy documents the operator sends to AWS are JSON texts made by filling in templates. To say
  what such a text means, this theory reads JSON: a lexer and a parser for the fragment the documents
  use (objects, arrays, strings without escapes). A text with an escape, a control character or a
  number in it is refused. The parser is run with as much fuel as there are tokens, and
  \<open>parse_tokens_json\<close> shows that this is enough: printing a document to tokens and
  parsing it is the identity.
\<close>

datatype json = JString string | JArray "json list" | JObject "(string \<times> json) list"

datatype tok = TLBrace | TRBrace | TLBrack | TRBrack | TColon | TComma | TString string

section \<open>Reading\<close>

definition json_char :: "char \<Rightarrow> bool" where
  "json_char c \<longleftrightarrow> c \<noteq> CHR 0x22 \<and> c \<noteq> CHR 0x5C \<and> 32 \<le> (of_char c :: nat)"

text \<open>The rest of a string literal after its opening quote: its content and what follows it.\<close>

fun lex_string :: "string \<Rightarrow> (string \<times> string) option" where
  "lex_string [] = None"
| "lex_string (c # cs) =
     (if c = CHR 0x22 then Some ([], cs)
      else if json_char c then map_option (\<lambda>(s, r). (c # s, r)) (lex_string cs)
      else None)"

lemma lex_string_shorter: "lex_string cs = Some (s, r) \<Longrightarrow> length r < length cs"
  by (induction cs arbitrary: s r) (auto split: if_splits intro: less_SucI)

fun punct :: "char \<Rightarrow> tok option" where
  "punct c = map_of [(CHR ''{'', TLBrace), (CHR ''}'', TRBrace), (CHR ''['', TLBrack),
                     (CHR '']'', TRBrack), (CHR '':'', TColon), (CHR '','', TComma)] c"

definition blank :: "char \<Rightarrow> bool" where
  "blank c \<longleftrightarrow> c = CHR 0x20 \<or> c = CHR 0x09 \<or> c = CHR 0x0A \<or> c = CHR 0x0D"

function (sequential) lex_json :: "string \<Rightarrow> tok list option" where
  "lex_json [] = Some []"
| "lex_json (c # cs) =
     (if blank c then lex_json cs
      else if c = CHR 0x22 then
        (case lex_string cs of None \<Rightarrow> None | Some (s, r) \<Rightarrow> map_option ((#) (TString s)) (lex_json r))
      else
        (case punct c of None \<Rightarrow> None | Some t \<Rightarrow> map_option ((#) t) (lex_json cs)))"
  by pat_completeness auto
termination
  by (relation "measure length") (auto dest: lex_string_shorter)

fun parse_value :: "nat \<Rightarrow> tok list \<Rightarrow> (json \<times> tok list) option"
  and parse_elems :: "nat \<Rightarrow> tok list \<Rightarrow> (json list \<times> tok list) option"
  and parse_members :: "nat \<Rightarrow> tok list \<Rightarrow> ((string \<times> json) list \<times> tok list) option" where
  "parse_value (Suc n) (TString s # r) = Some (JString s, r)"
| "parse_value (Suc n) (TLBrack # TRBrack # r) = Some (JArray [], r)"
| "parse_value (Suc n) (TLBrack # r) = map_option (\<lambda>(xs, r'). (JArray xs, r')) (parse_elems n r)"
| "parse_value (Suc n) (TLBrace # TRBrace # r) = Some (JObject [], r)"
| "parse_value (Suc n) (TLBrace # r) = map_option (\<lambda>(ms, r'). (JObject ms, r')) (parse_members n r)"
| "parse_value n ts = None"
| "parse_elems (Suc n) ts =
     (case parse_value n ts of
        Some (x, TComma # r) \<Rightarrow> map_option (\<lambda>(xs, r'). (x # xs, r')) (parse_elems n r)
      | Some (x, TRBrack # r) \<Rightarrow> Some ([x], r)
      | _ \<Rightarrow> None)"
| "parse_elems 0 ts = None"
| "parse_members (Suc n) (TString k # TColon # ts) =
     (case parse_value n ts of
        Some (x, TComma # r) \<Rightarrow> map_option (\<lambda>(ms, r'). ((k, x) # ms, r')) (parse_members n r)
      | Some (x, TRBrace # r) \<Rightarrow> Some ([(k, x)], r)
      | _ \<Rightarrow> None)"
| "parse_members n ts = None"

definition parse_json :: "string \<Rightarrow> json option" where
  "parse_json s =
     (case lex_json s of
        None \<Rightarrow> None
      | Some ts \<Rightarrow> (case parse_value (length ts) ts of Some (j, []) \<Rightarrow> Some j | _ \<Rightarrow> None))"

section \<open>Printing to tokens, and the round trip\<close>

fun json_tokens :: "json \<Rightarrow> tok list"
  and elems_tokens :: "json list \<Rightarrow> tok list"
  and members_tokens :: "(string \<times> json) list \<Rightarrow> tok list" where
  "json_tokens (JString s) = [TString s]"
| "json_tokens (JArray xs) = TLBrack # elems_tokens xs"
| "json_tokens (JObject ms) = TLBrace # members_tokens ms"
| "elems_tokens [] = [TRBrack]"
| "elems_tokens [x] = json_tokens x @ [TRBrack]"
| "elems_tokens (x # y # xs) = json_tokens x @ TComma # elems_tokens (y # xs)"
| "members_tokens [] = [TRBrace]"
| "members_tokens [(k, x)] = TString k # TColon # json_tokens x @ [TRBrace]"
| "members_tokens ((k, x) # m # ms) =
     TString k # TColon # json_tokens x @ TComma # members_tokens (m # ms)"

lemma json_tokens_Cons: "\<exists>t ts. json_tokens j = t # ts \<and> t \<noteq> TRBrack \<and> t \<noteq> TRBrace"
  by (cases j) auto

lemma elems_tokens_Cons: "xs \<noteq> [] \<Longrightarrow> \<exists>t ts. elems_tokens xs = t # ts \<and> t \<noteq> TRBrack"
proof (cases xs)
  case (Cons x ys)
  obtain t ts where "json_tokens x = t # ts" "t \<noteq> TRBrack"
    using json_tokens_Cons[of x] by auto
  then show ?thesis
    using Cons by (cases ys) auto
qed simp

lemma parse_value_array:
  "xs \<noteq> [] \<Longrightarrow> parse_value (Suc n) (TLBrack # elems_tokens xs @ r) =
     map_option (\<lambda>(xs, r'). (JArray xs, r')) (parse_elems n (elems_tokens xs @ r))"
proof -
  assume "xs \<noteq> []"
  then obtain t ts where ts: "elems_tokens xs = t # ts" "t \<noteq> TRBrack"
    using elems_tokens_Cons by blast
  then show ?thesis by (cases t) auto
qed

lemma parse_value_object:
  "ms \<noteq> [] \<Longrightarrow> parse_value (Suc n) (TLBrace # members_tokens ms @ r) =
     map_option (\<lambda>(ms, r'). (JObject ms, r')) (parse_members n (members_tokens ms @ r))"
  by (cases ms rule: members_tokens.cases) auto

lemma parse_tokens_aux:
  "length (json_tokens j) \<le> n \<Longrightarrow> parse_value n (json_tokens j @ r) = Some (j, r)"
  "xs \<noteq> [] \<Longrightarrow> length (elems_tokens xs) \<le> n \<Longrightarrow> parse_elems n (elems_tokens xs @ r) = Some (xs, r)"
  "ms \<noteq> [] \<Longrightarrow> length (members_tokens ms) \<le> n \<Longrightarrow>
     parse_members n (members_tokens ms @ r) = Some (ms, r)"
proof (induction j and xs and ms arbitrary: n r and n r and n r
    rule: json_tokens_elems_tokens_members_tokens.induct)
  case (1 s)
  then show ?case by (cases n) auto
next
  case (2 xs)
  then obtain m where "n = Suc m" by (cases n) auto
  with 2 show ?case
    by (cases "xs = []") (auto simp: parse_value_array)
next
  case (3 ms)
  then obtain m where "n = Suc m" by (cases n) auto
  with 3 show ?case
    by (cases "ms = []") (auto simp: parse_value_object)
next
  case (5 x)
  then obtain m where "n = Suc m" by (cases n) auto
  with 5 show ?case by simp
next
  case (6 x y xs)
  then obtain m where "n = Suc m" by (cases n) auto
  with 6 show ?case by simp
next
  case (8 k x)
  then obtain m where "n = Suc m" by (cases n) auto
  with 8 show ?case by simp
next
  case (9 k x m ms)
  then obtain l where "n = Suc l" by (cases n) auto
  with 9 show ?case by simp
qed simp_all

lemma parse_tokens_json: "parse_value (length (json_tokens j)) (json_tokens j) = Some (j, [])"
  using parse_tokens_aux(1)[of j _ "[]"] by simp

lemma parse_json_lexed: "lex_json s = Some (json_tokens j) \<Longrightarrow> parse_json s = Some j"
  by (simp add: parse_json_def parse_tokens_json)

section \<open>Lexing the pieces of a template\<close>

definition json_clean :: "string \<Rightarrow> bool" where
  "json_clean s \<longleftrightarrow> list_all json_char s"

definition qt :: "string \<Rightarrow> string" where
  "qt s = CHR 0x22 # s @ [CHR 0x22]"

definition tabs :: "nat \<Rightarrow> string" where
  "tabs n = replicate n (CHR 0x09)"

definition line :: "nat \<Rightarrow> string \<Rightarrow> string" where
  "line n s = tabs n @ s @ [CHR 0x0A]"

lemma json_clean_append [simp]: "json_clean (s @ t) \<longleftrightarrow> json_clean s \<and> json_clean t"
  by (simp add: json_clean_def)

lemma json_clean_Nil [simp]: "json_clean []"
  by (simp add: json_clean_def)

lemma json_clean_Cons [simp]: "json_clean (c # s) \<longleftrightarrow> json_char c \<and> json_clean s"
  by (simp add: json_clean_def)

lemma lex_string_clean: "json_clean s \<Longrightarrow> lex_string (s @ CHR 0x22 # r) = Some (s, r)"
  by (induction s) (auto simp: json_clean_def json_char_def)

lemma lex_qt [simp]:
  "json_clean s \<Longrightarrow> lex_json (qt s @ r) = map_option ((#) (TString s)) (lex_json r)"
  by (simp add: qt_def lex_string_clean blank_def)

lemma lex_tabs [simp]: "lex_json (tabs n @ r) = lex_json r"
  unfolding tabs_def by (induction n) (simp_all add: blank_def)

lemma lex_line [simp]: "lex_json (line n s @ r) = lex_json (s @ CHR 0x0A # r)"
  by (simp add: line_def)

end
