(* ===== verification/AWS_Templates.thy ===== *)
theory AWS_Templates
  imports Prelude JSON_Text
begin

text \<open>
  The policy templates of \<^verbatim>\<open>src/internal/pkg/service/objectstorage/cloud/aws/templates.go\<close>. Executing a
  \<^verbatim>\<open>text/template\<close> writes the literal text with the fields filled in verbatim, so a template is a
  function from its data to the text, tabs and line ends included: \<open>line n s\<close> is a line of the source
  indented by \<open>n\<close> tabs, \<open>qt s\<close> a quoted string. The templates are constants and use only fields of
  their data, so neither \<^verbatim>\<open>Parse\<close> nor \<^verbatim>\<open>Execute\<close> fails on them.
\<close>

record RolePolicyData =
  rp_AWSDomain :: string
  rp_BucketName :: string
  rp_ExtraBucketNames :: "string list"

record TrustIdentityPolicyData =
  ti_AccountId :: string
  ti_AWSDomain :: string
  ti_CloudFrontDomain :: string
  ti_ServiceAccountName :: string
  ti_ServiceAccountNamespace :: string
  ti_IsGrafanaPostgresql :: bool

record BucketPolicyData =
  bp_AWSDomain :: string
  bp_BucketName :: string

definition isChinaRegion :: "string \<Rightarrow> bool" where
  "isChinaRegion region = strings_Contains region ''cn-''"

definition awsDomain :: "string \<Rightarrow> string" where
  "awsDomain region = (if isChinaRegion region then ''aws-cn'' else ''aws'')"

definition s3_arn :: "string \<Rightarrow> string \<Rightarrow> string" where
  "s3_arn domain name = ''arn:'' @ domain @ '':s3:::'' @ name"

definition rolePolicy :: "RolePolicyData \<Rightarrow> string" where
  "rolePolicy d =
     line 0 ''{'' @
     line 1 (qt ''Version'' @ '': '' @ qt ''2012-10-17'' @ '','') @
     line 1 (qt ''Statement'' @ '': ['') @
     line 2 ''{'' @
     line 3 (qt ''Effect'' @ '': '' @ qt ''Allow'' @ '','') @
     line 3 (qt ''Action'' @ '': ['') @
     line 4 (qt ''s3:ListBucket'' @ '','') @
     line 4 (qt ''s3:PutObject'' @ '','') @
     line 4 (qt ''s3:GetObject'' @ '','') @
     line 4 (qt ''s3:DeleteObject'') @
     line 3 ''],'' @
     line 3 (qt ''Resource'' @ '': ['') @
     tabs 4 @
     concat (map (\<lambda>name.
       [CHR 0x0A] @
       line 4 (qt (s3_arn (rp_AWSDomain d) name) @ '','') @
       line 4 (qt (s3_arn (rp_AWSDomain d) name @ ''/*'') @ '','') @
       tabs 4) (rp_ExtraBucketNames d)) @
     [CHR 0x0A] @
     line 4 (qt (s3_arn (rp_AWSDomain d) (rp_BucketName d)) @ '','') @
     line 4 (qt (s3_arn (rp_AWSDomain d) (rp_BucketName d) @ ''/*'')) @
     line 3 '']'' @
     line 2 ''},'' @
     line 2 ''{'' @
     line 3 (qt ''Effect'' @ '': '' @ qt ''Allow'' @ '','') @
     line 3 (qt ''Action'' @ '': ['') @
     line 4 (qt ''s3:GetAccessPoint'' @ '','') @
     line 4 (qt ''s3:GetAccountPublicAccessBlock'' @ '','') @
     line 4 (qt ''s3:ListAccessPoints'') @
     line 3 ''],'' @
     line 3 (qt ''Resource'' @ '': '' @ qt ''*'') @
     line 2 ''}'' @
     line 1 '']'' @
     ''}''"

text \<open>One statement of the trust policy, up to and without its closing brace.\<close>

definition trust_statement :: "TrustIdentityPolicyData \<Rightarrow> string \<Rightarrow> string" where
  "trust_statement d subject =
     line 2 ''{'' @
     line 3 (qt ''Effect'' @ '': '' @ qt ''Allow'' @ '','') @
     line 3 (qt ''Principal'' @ '': {'') @
     line 4 (qt ''Federated'' @ '': '' @ qt (''arn:'' @ ti_AWSDomain d @ '':iam::'' @ ti_AccountId d @
              '':oidc-provider/'' @ ti_CloudFrontDomain d)) @
     line 3 ''},'' @
     line 3 (qt ''Action'' @ '': '' @ qt ''sts:AssumeRoleWithWebIdentity'' @ '','') @
     line 3 (qt ''Condition'' @ '': {'') @
     line 4 (qt ''StringEquals'' @ '': {'') @
     line 5 (qt (ti_CloudFrontDomain d @ '':sub'') @ '': '' @ qt (''system:serviceaccount:'' @ subject)) @
     line 4 ''}'' @
     line 3 ''}'' @
     tabs 2"

definition trustIdentityPolicy :: "TrustIdentityPolicyData \<Rightarrow> string" where
  "trustIdentityPolicy d =
     line 0 ''{'' @
     line 1 (qt ''Version'' @ '': '' @ qt ''2012-10-17'' @ '','') @
     line 1 (qt ''Statement'' @ '': ['') @
     trust_statement d (ti_ServiceAccountNamespace d @ '':'' @ ti_ServiceAccountName d) @
     ''}'' @
     (if ti_IsGrafanaPostgresql d then
        '','' @ [CHR 0x0A] @
        trust_statement d ''monitoring:grafana-postgresql-recovery-test'' @
        ''},'' @ [CHR 0x0A] @
        trust_statement d ''monitoring:plugin-barman-cloud'' @
        ''}''
      else []) @
     [CHR 0x0A] @
     line 1 '']'' @
     ''}''"

definition bucketPolicy :: "BucketPolicyData \<Rightarrow> string" where
  "bucketPolicy d =
     line 0 ''{'' @
     line 1 (qt ''Version'' @ '': '' @ qt ''2012-10-17'' @ '','') @
     line 1 (qt ''Statement'' @ '': ['') @
     line 2 ''{'' @
     line 3 (qt ''Sid'' @ '': '' @ qt ''EnforceSSLOnly'' @ '','') @
     line 3 (qt ''Effect'' @ '': '' @ qt ''Deny'' @ '','') @
     line 3 (qt ''Principal'' @ '': '' @ qt ''*'' @ '','') @
     line 3 (qt ''Action'' @ '': '' @ qt ''s3:*'' @ '','') @
     line 3 (qt ''Resource'' @ '': ['') @
     line 4 (qt (s3_arn (bp_AWSDomain d) (bp_BucketName d)) @ '','') @
     line 4 (qt (s3_arn (bp_AWSDomain d) (bp_BucketName d) @ ''/*'')) @
     line 3 ''],'' @
     line 3 (qt ''Condition'' @ '': {'') @
     line 4 (qt ''Bool'' @ '': {'') @
     line 5 (qt ''aws:SecureTransport'' @ '': '' @ qt ''false'') @
     line 4 ''}'' @
     line 3 ''}'' @
     line 2 ''}'' @
     line 1 '']'' @
     ''}''"

section \<open>What the documents say\<close>

text \<open>The documents the three templates are meant to produce, as JSON values.\<close>

definition policy_doc :: "json list \<Rightarrow> json" where
  "policy_doc statements =
     JObject [(''Version'', JString ''2012-10-17''), (''Statement'', JArray statements)]"

definition bucket_arns :: "string \<Rightarrow> string \<Rightarrow> json list" where
  "bucket_arns domain name = [JString (s3_arn domain name), JString (s3_arn domain name @ ''/*'')]"

definition role_policy_doc :: "RolePolicyData \<Rightarrow> json" where
  "role_policy_doc d = policy_doc
     [JObject [(''Effect'', JString ''Allow''),
        (''Action'', JArray [JString ''s3:ListBucket'', JString ''s3:PutObject'',
                            JString ''s3:GetObject'', JString ''s3:DeleteObject'']),
        (''Resource'', JArray (concat (map (bucket_arns (rp_AWSDomain d))
                               (rp_ExtraBucketNames d @ [rp_BucketName d]))))],
      JObject [(''Effect'', JString ''Allow''),
        (''Action'', JArray [JString ''s3:GetAccessPoint'', JString ''s3:GetAccountPublicAccessBlock'',
                            JString ''s3:ListAccessPoints'']),
        (''Resource'', JString ''*'')]]"

definition trust_subjects :: "TrustIdentityPolicyData \<Rightarrow> string list" where
  "trust_subjects d =
     (ti_ServiceAccountNamespace d @ '':'' @ ti_ServiceAccountName d) #
     (if ti_IsGrafanaPostgresql d
      then [''monitoring:grafana-postgresql-recovery-test'', ''monitoring:plugin-barman-cloud''] else [])"

definition trust_doc :: "TrustIdentityPolicyData \<Rightarrow> json" where
  "trust_doc d = policy_doc (map (\<lambda>subject.
     JObject [(''Effect'', JString ''Allow''),
        (''Principal'', JObject [(''Federated'', JString (''arn:'' @ ti_AWSDomain d @ '':iam::'' @
           ti_AccountId d @ '':oidc-provider/'' @ ti_CloudFrontDomain d))]),
        (''Action'', JString ''sts:AssumeRoleWithWebIdentity''),
        (''Condition'', JObject [(''StringEquals'', JObject [(ti_CloudFrontDomain d @ '':sub'',
           JString (''system:serviceaccount:'' @ subject))])])]) (trust_subjects d))"

definition bucket_policy_doc :: "BucketPolicyData \<Rightarrow> json" where
  "bucket_policy_doc d = policy_doc
     [JObject [(''Sid'', JString ''EnforceSSLOnly''), (''Effect'', JString ''Deny''),
        (''Principal'', JString ''*''), (''Action'', JString ''s3:*''),
        (''Resource'', JArray (bucket_arns (bp_AWSDomain d) (bp_BucketName d))),
        (''Condition'', JObject [(''Bool'', JObject [(''aws:SecureTransport'', JString ''false'')])])]]"

lemma json_char_consts [simp]:
  "json_char CHR ''/''" "json_char CHR ''*''" "json_char CHR '':''"
  by (simp_all add: json_char_def)

lemma clean_s3_arn [simp]: "json_clean domain \<Longrightarrow> json_clean name \<Longrightarrow> json_clean (s3_arn domain name)"
  by (simp add: s3_arn_def json_char_def)

lemma blanks [simp]: "blank (CHR 0x0A)" "blank (CHR 0x20)"
  by (simp_all add: blank_def)

lemma not_blank [simp]:
  "\<not> blank CHR ''{''" "\<not> blank CHR ''}''" "\<not> blank CHR ''[''" "\<not> blank CHR '']''"
  "\<not> blank CHR '':''" "\<not> blank CHR '',''"
  by (simp_all add: blank_def)

lemma bucketPolicy_lex:
  assumes "json_clean (bp_AWSDomain d)" "json_clean (bp_BucketName d)"
  shows "lex_json (bucketPolicy d) = Some (json_tokens (bucket_policy_doc d))"
  using assms
  by (simp add: bucketPolicy_def bucket_policy_doc_def policy_doc_def bucket_arns_def json_char_def)

lemma trust_statement_lex:
  assumes "json_clean (ti_AWSDomain d)" "json_clean (ti_AccountId d)" "json_clean (ti_CloudFrontDomain d)"
    and "json_clean subject"
  shows "lex_json (trust_statement d subject @ CHR ''}'' # r) = map_option ((@) (json_tokens
     (JObject [(''Effect'', JString ''Allow''),
        (''Principal'', JObject [(''Federated'', JString (''arn:'' @ ti_AWSDomain d @ '':iam::'' @
           ti_AccountId d @ '':oidc-provider/'' @ ti_CloudFrontDomain d))]),
        (''Action'', JString ''sts:AssumeRoleWithWebIdentity''),
        (''Condition'', JObject [(''StringEquals'', JObject [(ti_CloudFrontDomain d @ '':sub'',
           JString (''system:serviceaccount:'' @ subject))])])]))) (lex_json r)"
  using assms by (cases "lex_json r") (simp_all add: trust_statement_def json_char_def)

lemma trustIdentityPolicy_lex:
  assumes "json_clean (ti_AWSDomain d)" "json_clean (ti_AccountId d)" "json_clean (ti_CloudFrontDomain d)"
    and "json_clean (ti_ServiceAccountNamespace d)" "json_clean (ti_ServiceAccountName d)"
  shows "lex_json (trustIdentityPolicy d) = Some (json_tokens (trust_doc d))"
  using assms
  by (cases "ti_IsGrafanaPostgresql d")
    (simp_all add: trustIdentityPolicy_def trust_doc_def policy_doc_def trust_subjects_def
      trust_statement_lex json_char_def)

lemma elems_tokens_Cons_nonempty:
  "ys \<noteq> [] \<Longrightarrow> elems_tokens (x # ys) = json_tokens x @ TComma # elems_tokens ys"
  by (cases ys) auto

text \<open>The \<^verbatim>\<open>range\<close> over the extra bucket names, by induction on the names.\<close>

lemma role_range_lex:
  assumes "json_clean domain" "\<forall>name \<in> set names. json_clean name"
    and "lex_json r = Some (elems_tokens ys @ zs)" "ys \<noteq> []"
  shows "lex_json (concat (map (\<lambda>name.
       [CHR 0x0A] @ line 4 (qt (s3_arn domain name) @ '','') @
       line 4 (qt (s3_arn domain name @ ''/*'') @ '','') @ tabs 4) names) @ r) =
     Some (elems_tokens (concat (map (bucket_arns domain) names) @ ys) @ zs)"
  using assms(2)
proof (induction names)
  case Nil
  with assms show ?case by simp
next
  case (Cons name names)
  then show ?case
    using assms by (simp add: bucket_arns_def elems_tokens_Cons_nonempty)
qed

lemma rolePolicy_lex:
  assumes "json_clean (rp_AWSDomain d)" "json_clean (rp_BucketName d)"
    and "\<forall>name \<in> set (rp_ExtraBucketNames d). json_clean name"
  shows "lex_json (rolePolicy d) = Some (json_tokens (role_policy_doc d))"
proof -
  let ?dom = "rp_AWSDomain d" and ?name = "rp_BucketName d"
  have "lex_json ([CHR 0x0A] @
     line 4 (qt (s3_arn ?dom ?name) @ '','') @
     line 4 (qt (s3_arn ?dom ?name @ ''/*'')) @
     line 3 '']'' @
     line 2 ''},'' @
     line 2 ''{'' @
     line 3 (qt ''Effect'' @ '': '' @ qt ''Allow'' @ '','') @
     line 3 (qt ''Action'' @ '': ['') @
     line 4 (qt ''s3:GetAccessPoint'' @ '','') @
     line 4 (qt ''s3:GetAccountPublicAccessBlock'' @ '','') @
     line 4 (qt ''s3:ListAccessPoints'') @
     line 3 ''],'' @
     line 3 (qt ''Resource'' @ '': '' @ qt ''*'') @
     line 2 ''}'' @
     line 1 '']'' @
     ''}'') = Some (elems_tokens (bucket_arns ?dom ?name) @ [TRBrace, TComma] @
       json_tokens (JObject [(''Effect'', JString ''Allow''),
        (''Action'', JArray [JString ''s3:GetAccessPoint'', JString ''s3:GetAccountPublicAccessBlock'',
                            JString ''s3:ListAccessPoints'']),
        (''Resource'', JString ''*'')]) @ [TRBrack, TRBrace])"
    using assms by (simp add: bucket_arns_def json_char_def)
  from role_range_lex[OF assms(1,3) this] show ?thesis
    by (simp add: rolePolicy_def role_policy_doc_def policy_doc_def json_char_def bucket_arns_def)
qed

lemma awsDomain_clean [simp]: "json_clean (awsDomain region)"
  by (simp add: awsDomain_def json_char_def)

end
