(* ===== verification/AWS_S3.thy ===== *)
theory AWS_S3
  imports Service_API AWS_Templates
begin

text \<open>
  The S3 adapter (\<^verbatim>\<open>src/internal/pkg/service/objectstorage/cloud/aws/s3.go\<close>). The AWS SDK client is a
  parameter, the record \<open>s3_client\<close>: one field per SDK call of the adapter, with the parts of the input
  and output the adapter fills in or reads. The output of \<^verbatim>\<open>DeleteObjects\<close> is the list of keys that the
  service reports as not deleted, which the adapter does not look at. The paginator is an object with
  a state of its own, so it is a type parameter.

  What is documented of S3 and of the paginator is the locale \<open>s3_api\<close>.
\<close>

record CreateBucketInput =
  cb_Bucket :: string
  cb_LocationConstraint :: "string option"

record LifecycleRule =
  lr_Status :: string
  lr_ID :: string
  lr_Prefix :: string
  lr_Days :: int32

type_synonym tag = "string \<times> string"

record ('c, 'p) s3_client =
  sdk_HeadBucket :: "string \<Rightarrow> ('c, unit) api"
  sdk_CreateBucket :: "CreateBucketInput \<Rightarrow> ('c, unit) api"
  sdk_NewListObjectsV2Paginator :: "string \<Rightarrow> 'p"
  sdk_HasMorePages :: "'p \<Rightarrow> bool"
  sdk_NextPage :: "'p \<Rightarrow> 'c \<Rightarrow> (go_error + string list) \<times> 'p \<times> 'c"
  sdk_DeleteObjects :: "string \<Rightarrow> string list \<Rightarrow> ('c, string list) api"
  sdk_DeleteBucket :: "string \<Rightarrow> ('c, unit) api"
  sdk_PutBucketLifecycleConfiguration :: "string \<Rightarrow> LifecycleRule list \<Rightarrow> ('c, unit) api"
  sdk_DeleteBucketLifecycle :: "string \<Rightarrow> ('c, unit) api"
  sdk_PutBucketPolicy :: "string \<Rightarrow> string \<Rightarrow> ('c, unit) api"
  sdk_PutBucketTagging :: "string \<Rightarrow> tag list \<Rightarrow> ('c, unit) api"

record ('c, 'p) S3ObjectStorageAdapter =
  s3Client :: "('c, 'p) s3_client"
  s3_cluster :: AWSCluster

definition NewS3Service :: "('c, 'p) s3_client \<Rightarrow> AWSCluster \<Rightarrow> ('c, 'p) S3ObjectStorageAdapter" where
  "NewS3Service client cluster = \<lparr>s3Client = client, s3_cluster = cluster\<rparr>"

section \<open>The adapter\<close>

definition S3_ExistsBucket ::
  "('c, 'p) S3ObjectStorageAdapter \<Rightarrow> Bucket \<Rightarrow> (('k, 'c) world, bool \<times> go_error option) prog" where
  "S3_ExistsBucket s bucket =
     andThen (onCloud (sdk_HeadBucket (s3Client s) (bucket_name bucket))) (\<lambda>r.
     case r of
       Inr _ \<Rightarrow> ret (True, None)
     | Inl err \<Rightarrow>
        (case errors_As_APIError err of
           Some NotFound \<Rightarrow> ret (False, None)
         | _ \<Rightarrow> ret (True, Some err)))"

definition S3_createBucketInput :: "('c, 'p) S3ObjectStorageAdapter \<Rightarrow> Bucket \<Rightarrow> CreateBucketInput" where
  "S3_createBucketInput s bucket =
     \<lparr>cb_Bucket = bucket_name bucket,
      cb_LocationConstraint =
        (if aws_Region (s3_cluster s) \<noteq> ''us-east-1'' then Some (aws_Region (s3_cluster s)) else None)\<rparr>"

definition S3_CreateBucket ::
  "('c, 'p) S3ObjectStorageAdapter \<Rightarrow> Bucket \<Rightarrow> (('k, 'c) world, go_error + unit) prog" where
  "S3_CreateBucket s bucket =
     attempt (onCloud (sdk_CreateBucket (s3Client s) (S3_createBucketInput s bucket)))
       (Errorf_w (''failed to create S3 bucket '' @ bucket_name bucket @ '' in region '' @
          aws_Region (s3_cluster s) @ '': ''))
       (\<lambda>_. ret (Inr ()))"

definition S3_UpdateBucket ::
  "('c, 'p) S3ObjectStorageAdapter \<Rightarrow> Bucket \<Rightarrow> (('k, 'c) world, go_error + unit) prog" where
  "S3_UpdateBucket s bucket = ret (Inr ())"

text \<open>The loop over the pages of objects. A paginator that always has one more page would keep it
  running forever, which is the value \<open>None\<close>.\<close>

partial_function (option) S3_emptyBucket ::
  "('c, 'p) s3_client \<Rightarrow> string \<Rightarrow> 'p \<Rightarrow> ('k, 'c) world \<Rightarrow> ((go_error + unit) outcome \<times> ('k, 'c) world) option"
  where
  "S3_emptyBucket client name p w =
     (if \<not> sdk_HasMorePages client p then Some (Val (Inr ()), w)
      else case sdk_NextPage client p (cloud w) of (r, p', c) \<Rightarrow>
       (case r of
          Inl err \<Rightarrow> Some (Val (Inl (Errorf_w (''failed to list objects in S3 bucket '' @ name @
                       '' for deletion: '') err)), w\<lparr>cloud := c\<rparr>)
        | Inr objects \<Rightarrow>
            if objects \<noteq> [] then
              (case sdk_DeleteObjects client name objects c of (r', c') \<Rightarrow>
                (case r' of
                   Inl err \<Rightarrow> Some (Val (Inl (Errorf_w (''failed to delete objects from S3 bucket '' @
                                name @ '': '') err)), w\<lparr>cloud := c'\<rparr>)
                 | Inr _ \<Rightarrow> S3_emptyBucket client name p' (w\<lparr>cloud := c'\<rparr>)))
            else S3_emptyBucket client name p' (w\<lparr>cloud := c\<rparr>)))"

declare S3_emptyBucket.simps [code]

definition S3_DeleteBucket ::
  "('c, 'p) S3ObjectStorageAdapter \<Rightarrow> Bucket \<Rightarrow> (('k, 'c) world, go_error + unit) prog" where
  "S3_DeleteBucket s bucket =
     attempt (S3_emptyBucket (s3Client s) (bucket_name bucket)
         (sdk_NewListObjectsV2Paginator (s3Client s) (bucket_name bucket))) (\<lambda>err. err) (\<lambda>_.
     attempt (onCloud (sdk_DeleteBucket (s3Client s) (bucket_name bucket)))
       (Errorf_w (''failed to delete S3 bucket '' @ bucket_name bucket @ '': ''))
       (\<lambda>_. ret (Inr ())))"

definition S3_setLifecycleRules ::
  "('c, 'p) S3ObjectStorageAdapter \<Rightarrow> Bucket \<Rightarrow> (('k, 'c) world, go_error + unit) prog" where
  "S3_setLifecycleRules s bucket =
     (case ExpirationPolicy (Spec bucket) of
        Some policy \<Rightarrow>
          attempt (onCloud (sdk_PutBucketLifecycleConfiguration (s3Client s) (bucket_name bucket)
              [\<lparr>lr_Status = ''Enabled'', lr_ID = ''Expiration'', lr_Prefix = '''', lr_Days = Days policy\<rparr>]))
            (Errorf_w (''failed to put lifecycle configuration for S3 bucket '' @ bucket_name bucket @ '': ''))
            (\<lambda>_. ret (Inr ()))
      | None \<Rightarrow>
          attempt (onCloud (sdk_DeleteBucketLifecycle (s3Client s) (bucket_name bucket)))
            (Errorf_w (''failed to delete lifecycle configuration for S3 bucket '' @ bucket_name bucket @ '': ''))
            (\<lambda>_. ret (Inr ())))"

definition S3_setBucketPolicy ::
  "('c, 'p) S3ObjectStorageAdapter \<Rightarrow> Bucket \<Rightarrow> (('k, 'c) world, go_error + unit) prog" where
  "S3_setBucketPolicy s bucket =
     attempt (ret (Inr (bucketPolicy
         \<lparr>bp_AWSDomain = awsDomain (aws_Region (s3_cluster s)), bp_BucketName = bucket_name bucket\<rparr>)))
       (Errorf_w (''failed to execute bucket policy template for S3 bucket '' @ bucket_name bucket @ '': ''))
       (\<lambda>policy.
     attempt (onCloud (sdk_PutBucketPolicy (s3Client s) (bucket_name bucket) policy))
       (Errorf_w (''failed to put bucket policy for S3 bucket '' @ bucket_name bucket @ '': ''))
       (\<lambda>_. ret (Inr ())))"

text \<open>The tags of a bucket and of a role: the non-empty tags of the spec and then the non-empty tags of
  the cluster, in the order the map yields them. \<^verbatim>\<open>setTags\<close> and \<^verbatim>\<open>ConfigureRole\<close> have the same two loops.\<close>

definition aws_tags :: "Bucket \<Rightarrow> go_map \<Rightarrow> tag list" where
  "aws_tags bucket clusterTags =
     map (\<lambda>t. (tag_Key t, tag_Value t))
       (filter (\<lambda>t. tag_Key t \<noteq> '''' \<and> tag_Value t \<noteq> '''') (spec_Tags (Spec bucket))) @
     filter (\<lambda>(k, v). k \<noteq> '''' \<and> v \<noteq> '''') clusterTags"

definition S3_setTags ::
  "('c, 'p) S3ObjectStorageAdapter \<Rightarrow> Bucket \<Rightarrow> (('k, 'c) world, go_error + unit) prog" where
  "S3_setTags s bucket =
     attempt (onCloud (sdk_PutBucketTagging (s3Client s) (bucket_name bucket)
         (aws_tags bucket (aws_Tags (s3_cluster s)))))
       (Errorf_w (''failed to put tags for S3 bucket '' @ bucket_name bucket @ '': ''))
       (\<lambda>_. ret (Inr ()))"

definition S3_ConfigureBucket ::
  "('c, 'p) S3ObjectStorageAdapter \<Rightarrow> Bucket \<Rightarrow> (('k, 'c) world, go_error + unit) prog" where
  "S3_ConfigureBucket s bucket =
     attempt (S3_setLifecycleRules s bucket)
       (Errorf_w (''failed to set lifecycle rules for S3 bucket '' @ bucket_name bucket @ '': '')) (\<lambda>_.
     attempt (S3_setBucketPolicy s bucket)
       (Errorf_w (''failed to set bucket policy for S3 bucket '' @ bucket_name bucket @ '': '')) (\<lambda>_.
     attempt (S3_setTags s bucket)
       (Errorf_w (''failed to set tags for S3 bucket '' @ bucket_name bucket @ '': '')) (\<lambda>_.
     ret (Inr ()))))"

definition S3_service :: "('c, 'p) S3ObjectStorageAdapter \<Rightarrow> ('k, 'c) world ObjectStorageService" where
  "S3_service s =
     \<lparr>ConfigureBucket = S3_ConfigureBucket s, CreateBucket = S3_CreateBucket s,
      UpdateBucket = S3_UpdateBucket s, DeleteBucket = S3_DeleteBucket s,
      ExistsBucket = S3_ExistsBucket s\<rparr>"

section \<open>Runs of the adapter, whatever the SDK does\<close>

lemma NewS3Service_sel [simp]:
  "s3Client (NewS3Service i c) = i" "s3_cluster (NewS3Service i c) = c"
  by (simp_all add: NewS3Service_def)

lemma S3_ExistsBucket_run:
  "S3_ExistsBucket s b w =
     (case sdk_HeadBucket (s3Client s) (bucket_name b) (cloud w) of
        (Inr u, c) \<Rightarrow> Some (Val (True, None), w\<lparr>cloud := c\<rparr>)
      | (Inl e, c) \<Rightarrow> Some (Val (if errors_As_APIError e = Some NotFound then (False, None)
                             else (True, Some e)), w\<lparr>cloud := c\<rparr>))"
  by (auto simp: S3_ExistsBucket_def run_simps split: prod.splits sum.splits option.splits smithy_type.splits)

lemmas S3_ops_def = S3_CreateBucket_def S3_UpdateBucket_def S3_setLifecycleRules_def
  S3_setBucketPolicy_def S3_setTags_def S3_ConfigureBucket_def

text \<open>The lifecycle rules a bucket asks for.\<close>

definition S3_lifecycle_rules :: "Bucket \<Rightarrow> LifecycleRule list" where
  "S3_lifecycle_rules b =
     (case ExpirationPolicy (Spec b) of
        None \<Rightarrow> []
      | Some p \<Rightarrow> [\<lparr>lr_Status = ''Enabled'', lr_ID = ''Expiration'', lr_Prefix = '''', lr_Days = Days p\<rparr>])"

lemma S3_setLifecycleRules_nil_iff:
  "S3_setLifecycleRules s b w = Some (Val (Inr ()), w') \<longleftrightarrow>
     (\<exists>c. (if ExpirationPolicy (Spec b) = None
           then sdk_DeleteBucketLifecycle (s3Client s) (bucket_name b) (cloud w)
           else sdk_PutBucketLifecycleConfiguration (s3Client s) (bucket_name b)
                  (S3_lifecycle_rules b) (cloud w)) = (Inr (), c) \<and>
        w' = w\<lparr>cloud := c\<rparr>)"
  by (cases "ExpirationPolicy (Spec b)") (auto simp: S3_setLifecycleRules_def S3_lifecycle_rules_def)

lemma S3_emptyBucket_kube:
  assumes "S3_emptyBucket client name p w = Some r"
  shows "kube (snd r) = kube w"
proof (rule S3_emptyBucket.raw_induct
    [where P = "\<lambda>client name p w r. kube (snd r) = kube w", OF _ assms])
qed (auto split: if_splits prod.splits sum.splits)

lemma S3_keeps_kube:
  "keeps (\<lambda>w. kube w = k) (S3_ExistsBucket s b)"
  "keeps (\<lambda>w. kube w = k) (S3_CreateBucket s b)"
  "keeps (\<lambda>w. kube w = k) (S3_UpdateBucket s b)"
  "keeps (\<lambda>w. kube w = k) (S3_ConfigureBucket s b)"
  "keeps (\<lambda>w. kube w = k) (S3_DeleteBucket s b)"
proof -
  have "keeps (\<lambda>w. kube w = k) (S3_emptyBucket client name p)" for client name p
    by (auto simp: keeps_def dest!: S3_emptyBucket_kube)
  then show
    "keeps (\<lambda>w. kube w = k) (S3_ExistsBucket s b)"
    "keeps (\<lambda>w. kube w = k) (S3_CreateBucket s b)"
    "keeps (\<lambda>w. kube w = k) (S3_UpdateBucket s b)"
    "keeps (\<lambda>w. kube w = k) (S3_ConfigureBucket s b)"
    "keeps (\<lambda>w. kube w = k) (S3_DeleteBucket s b)"
    unfolding S3_ExistsBucket_def S3_ops_def S3_DeleteBucket_def
    by (auto intro!: keeps_attempt keeps_andThen split: sum.splits option.splits smithy_type.splits)
qed

text \<open>
  The calls of a loop over the pages of a bucket that ends well, from one state of the cloud to another, with the keys that its
  deletions reported as not deleted, in the order of the calls.
\<close>

inductive page_calls :: "('c, 'p) s3_client \<Rightarrow> string \<Rightarrow> 'p \<Rightarrow> 'c \<Rightarrow> string list \<Rightarrow> 'c \<Rightarrow> bool"
  for client :: "('c, 'p) s3_client" and name :: string
  where
  last_page: "\<not> sdk_HasMorePages client p \<Longrightarrow> page_calls client name p c [] c"
| empty_page: "sdk_HasMorePages client p \<Longrightarrow> sdk_NextPage client p c = (Inr [], p', c1) \<Longrightarrow>
    page_calls client name p' c1 failed c' \<Longrightarrow> page_calls client name p c failed c'"
| full_page: "sdk_HasMorePages client p \<Longrightarrow> sdk_NextPage client p c = (Inr keys, p', c1) \<Longrightarrow> keys \<noteq> [] \<Longrightarrow>
    sdk_DeleteObjects client name keys c1 = (Inr reported, c2) \<Longrightarrow>
    page_calls client name p' c2 failed c' \<Longrightarrow> page_calls client name p c (reported @ failed) c'"

section \<open>What the adapter relies on\<close>

record s3_bucket =
  s3_location :: "string option"
  s3_objects :: "string set"
  s3_lifecycle :: "LifecycleRule list"
  s3_policy :: "string option"
  s3_tags :: "tag list"

definition new_s3_bucket :: "string option \<Rightarrow> s3_bucket" where
  "new_s3_bucket location =
     \<lparr>s3_location = location, s3_objects = {}, s3_lifecycle = [], s3_policy = None, s3_tags = []\<rparr>"

text \<open>What configuring a bucket is meant to make of its settings.\<close>

definition S3_configure_spec :: "AWSCluster \<Rightarrow> Bucket \<Rightarrow> s3_bucket \<Rightarrow> s3_bucket" where
  "S3_configure_spec cl b sb = sb\<lparr>
     s3_lifecycle := S3_lifecycle_rules b,
     s3_policy := Some (bucketPolicy
        \<lparr>bp_AWSDomain = awsDomain (aws_Region cl), bp_BucketName = bucket_name b\<rparr>),
     s3_tags := aws_tags b (aws_Tags cl)\<rparr>"

definition S3_present :: "('c \<Rightarrow> string \<Rightarrow> s3_bucket option) \<Rightarrow> Bucket \<Rightarrow> 'c \<Rightarrow> bool" where
  "S3_present view b c \<longleftrightarrow> view c (bucket_name b) \<noteq> None"

definition S3_configured ::
  "('c \<Rightarrow> string \<Rightarrow> s3_bucket option) \<Rightarrow> AWSCluster \<Rightarrow> Bucket \<Rightarrow> 'c \<Rightarrow> bool" where
  "S3_configured view cl b c \<longleftrightarrow>
     (case view c (bucket_name b) of None \<Rightarrow> False | Some sb \<Rightarrow> S3_configure_spec cl b sb = sb)"

text \<open>
  \<open>buckets c\<close> are the buckets of the account. \<open>unlisted p c\<close> are the keys the paginator \<open>p\<close> has still to
  yield and \<open>pages_left p c\<close> bounds the pages it has still to fetch: every page takes at most its keys
  out of what is unlisted, so does deleting objects, which adds no page, and after the last page
  nothing is unlisted. A call on one bucket, successful or not, leaves the other buckets alone.
\<close>

locale s3_api =
  fixes s3 :: "('c, 'p) s3_client"
    and buckets :: "'c \<Rightarrow> string \<Rightarrow> s3_bucket option"
    and unlisted :: "'p \<Rightarrow> 'c \<Rightarrow> string set"
    and pages_left :: "'p \<Rightarrow> 'c \<Rightarrow> nat"
  assumes head_ok:
      "sdk_HeadBucket s3 n c = (Inr (), c') \<Longrightarrow> buckets c n \<noteq> None \<and> buckets c' = buckets c"
    and head_err:
      "sdk_HeadBucket s3 n c = (Inl e, c') \<Longrightarrow>
         buckets c' = buckets c \<and> (errors_As_APIError e = Some NotFound \<longrightarrow> buckets c n = None)"
    and create_ok:
      "sdk_CreateBucket s3 i c = (Inr (), c') \<Longrightarrow> buckets c (cb_Bucket i) = None \<Longrightarrow>
         buckets c' = (buckets c)(cb_Bucket i \<mapsto> new_s3_bucket (cb_LocationConstraint i))"
    and put_lifecycle_ok:
      "sdk_PutBucketLifecycleConfiguration s3 n rules c = (Inr (), c') \<Longrightarrow>
         \<exists>b. buckets c n = Some b \<and> buckets c' = (buckets c)(n \<mapsto> b\<lparr>s3_lifecycle := rules\<rparr>)"
    and delete_lifecycle_ok:
      "sdk_DeleteBucketLifecycle s3 n c = (Inr (), c') \<Longrightarrow>
         \<exists>b. buckets c n = Some b \<and> buckets c' = (buckets c)(n \<mapsto> b\<lparr>s3_lifecycle := []\<rparr>)"
    and put_policy_ok:
      "sdk_PutBucketPolicy s3 n doc c = (Inr (), c') \<Longrightarrow>
         \<exists>b. buckets c n = Some b \<and> buckets c' = (buckets c)(n \<mapsto> b\<lparr>s3_policy := Some doc\<rparr>)"
    and put_tagging_ok:
      "sdk_PutBucketTagging s3 n tags c = (Inr (), c') \<Longrightarrow>
         \<exists>b. buckets c n = Some b \<and> buckets c' = (buckets c)(n \<mapsto> b\<lparr>s3_tags := tags\<rparr>)"
    and delete_bucket_ok:
      "sdk_DeleteBucket s3 n c = (Inr (), c') \<Longrightarrow> buckets c' = (buckets c)(n := None)"
    and delete_objects_ok:
      "sdk_DeleteObjects s3 n keys c = (Inr failed, c') \<Longrightarrow>
         \<exists>b. buckets c n = Some b \<and>
             buckets c' = (buckets c)(n \<mapsto> b\<lparr>s3_objects := s3_objects b - (set keys - set failed)\<rparr>)"
    and delete_objects_pages:
      "sdk_DeleteObjects s3 n keys c = (r, c') \<Longrightarrow>
         pages_left p c' \<le> pages_left p c \<and> unlisted p c \<subseteq> unlisted p c' \<union> set keys"
    and paginator_start:
      "buckets c n = Some b \<Longrightarrow> s3_objects b \<subseteq> unlisted (sdk_NewListObjectsV2Paginator s3 n) c"
    and paginator_page:
      "sdk_HasMorePages s3 p \<Longrightarrow> sdk_NextPage s3 p c = (Inr keys, p', c') \<Longrightarrow>
         buckets c' = buckets c \<and> unlisted p c \<subseteq> unlisted p' c' \<union> set keys \<and>
         pages_left p' c' < pages_left p c"
    and paginator_end:
      "\<not> sdk_HasMorePages s3 p \<Longrightarrow> unlisted p c = {}"
    and s3_others:
      "leaves (\<lambda>c. (buckets c)(cb_Bucket i := None)) (sdk_CreateBucket s3 i)"
      "leaves (\<lambda>c. (buckets c)(n := None)) (sdk_PutBucketLifecycleConfiguration s3 n rules)"
      "leaves (\<lambda>c. (buckets c)(n := None)) (sdk_DeleteBucketLifecycle s3 n)"
      "leaves (\<lambda>c. (buckets c)(n := None)) (sdk_PutBucketPolicy s3 n doc)"
      "leaves (\<lambda>c. (buckets c)(n := None)) (sdk_PutBucketTagging s3 n tags)"
      "leaves (\<lambda>c. (buckets c)(n := None)) (sdk_DeleteBucket s3 n)"
      "leaves (\<lambda>c. (buckets c)(n := None)) (sdk_DeleteObjects s3 n keys)"
    and next_page_others: "sdk_NextPage s3 p c = (nr, p', c') \<Longrightarrow> buckets c' = buckets c"
begin

section \<open>The adapter implements the service contract\<close>

lemma exists_bucket_nil:
  "S3_ExistsBucket (NewS3Service s3 cl) b w = Some (Val (ex, None), w') \<Longrightarrow>
     ex = (buckets (cloud w) (bucket_name b) \<noteq> None) \<and> buckets (cloud w') = buckets (cloud w)"
  by (auto simp: S3_ExistsBucket_run split: prod.splits sum.splits if_splits
      dest!: head_ok head_err)

lemma create_bucket_nil:
  "S3_CreateBucket (NewS3Service s3 cl) b w = Some (Val (Inr ()), w') \<Longrightarrow>
   buckets (cloud w) (bucket_name b) = None \<Longrightarrow>
   buckets (cloud w') = (buckets (cloud w))(bucket_name b \<mapsto>
     new_s3_bucket (if aws_Region cl \<noteq> ''us-east-1'' then Some (aws_Region cl) else None))"
  by (auto simp: S3_CreateBucket_def S3_createBucketInput_def dest!: create_ok)

lemma set_lifecycle_nil:
  "S3_setLifecycleRules (NewS3Service s3 cl) b w = Some (Val (Inr ()), w') \<Longrightarrow>
   \<exists>sb. buckets (cloud w) (bucket_name b) = Some sb \<and>
     buckets (cloud w') = (buckets (cloud w))(bucket_name b \<mapsto> sb\<lparr>s3_lifecycle := S3_lifecycle_rules b\<rparr>)"
  by (auto simp: S3_setLifecycleRules_nil_iff S3_lifecycle_rules_def
      split: if_splits option.splits dest!: put_lifecycle_ok delete_lifecycle_ok)

lemma set_policy_nil:
  "S3_setBucketPolicy (NewS3Service s3 cl) b w = Some (Val (Inr ()), w') \<Longrightarrow>
   \<exists>sb. buckets (cloud w) (bucket_name b) = Some sb \<and>
     buckets (cloud w') = (buckets (cloud w))(bucket_name b \<mapsto> sb\<lparr>s3_policy := Some (bucketPolicy
        \<lparr>bp_AWSDomain = awsDomain (aws_Region cl), bp_BucketName = bucket_name b\<rparr>)\<rparr>)"
  by (auto simp: S3_setBucketPolicy_def dest!: put_policy_ok)

lemma set_tags_nil:
  "S3_setTags (NewS3Service s3 cl) b w = Some (Val (Inr ()), w') \<Longrightarrow>
   \<exists>sb. buckets (cloud w) (bucket_name b) = Some sb \<and>
     buckets (cloud w') = (buckets (cloud w))(bucket_name b \<mapsto> sb\<lparr>s3_tags := aws_tags b (aws_Tags cl)\<rparr>)"
  by (auto simp: S3_setTags_def dest!: put_tagging_ok)

text \<open>Functional refinement: on the account, a successful configuration is the specified update of one
  bucket and nothing else.\<close>

lemma configure_bucket_nil:
  assumes "S3_ConfigureBucket (NewS3Service s3 cl) b w = Some (Val (Inr ()), w')"
  shows "\<exists>sb. buckets (cloud w) (bucket_name b) = Some sb \<and>
     buckets (cloud w') = (buckets (cloud w))(bucket_name b \<mapsto> S3_configure_spec cl b sb)"
proof -
  from assms obtain w1 w2 where
    "S3_setLifecycleRules (NewS3Service s3 cl) b w = Some (Val (Inr ()), w1)"
    "S3_setBucketPolicy (NewS3Service s3 cl) b w1 = Some (Val (Inr ()), w2)"
    "S3_setTags (NewS3Service s3 cl) b w2 = Some (Val (Inr ()), w')"
    by (auto simp: S3_ConfigureBucket_def)
  from set_lifecycle_nil[OF this(1)] set_policy_nil[OF this(2)] set_tags_nil[OF this(3)]
  show ?thesis by (auto simp: S3_configure_spec_def)
qed

lemma S3_configure_spec_idem [simp]:
  "S3_configure_spec cl b (S3_configure_spec cl b sb) = S3_configure_spec cl b sb"
  by (simp add: S3_configure_spec_def)

lemma delete_bucket_nil:
  assumes "S3_DeleteBucket (NewS3Service s3 cl) b w = Some (Val (Inr ()), w')"
  shows "buckets (cloud w') (bucket_name b) = None"
  using assms by (auto simp: S3_DeleteBucket_def dest!: delete_bucket_ok)

section \<open>The loop that empties a bucket\<close>

text \<open>It returns: every page lowers \<open>pages_left\<close>.\<close>

lemma emptyBucket_returns: "returns (S3_emptyBucket s3 name p) w"
proof (induction "pages_left p (cloud w)" arbitrary: p w rule: less_induct)
  case less
  obtain r p' c where page: "sdk_NextPage s3 p (cloud w) = (r, p', c)"
    by (cases "sdk_NextPage s3 p (cloud w)") auto
  show ?case
  proof (cases "sdk_HasMorePages s3 p")
    case more: True
    show ?thesis
    proof (cases r)
      case (Inl e)
      with more page show ?thesis by (simp add: returns_def S3_emptyBucket.simps)
    next
      case (Inr keys)
      note smaller = paginator_page[OF more page[unfolded Inr]]
      obtain r' c' where del: "sdk_DeleteObjects s3 name keys c = (r', c')"
        by (cases "sdk_DeleteObjects s3 name keys c") auto
      note pages = delete_objects_pages[OF del, of p']
      have "returns (S3_emptyBucket s3 name p') (w\<lparr>cloud := c\<rparr>)"
        "returns (S3_emptyBucket s3 name p') (w\<lparr>cloud := c'\<rparr>)"
        using less smaller pages by (auto intro: le_less_trans)
      with more page Inr del show ?thesis
        by (cases r') (auto simp: returns_def S3_emptyBucket.simps[of s3 name p w])
    qed
  qed (simp add: returns_def S3_emptyBucket.simps)
qed

text \<open>It empties the bucket, but for keys that one of its deletions reported. \<open>kept\<close> are the keys reported before.\<close>

lemma emptyBucket_empties:
  "S3_emptyBucket s3 name p w = Some (Val (Inr ()), w') \<Longrightarrow>
    buckets (cloud w) name = Some b \<Longrightarrow> s3_objects b \<subseteq> unlisted p (cloud w) \<union> kept \<Longrightarrow>
    \<exists>failed left. page_calls s3 name p (cloud w) failed (cloud w') \<and> left \<subseteq> s3_objects b \<inter> (kept \<union> set failed) \<and>
      buckets (cloud w') = (buckets (cloud w))(name \<mapsto> b\<lparr>s3_objects := left\<rparr>)"
proof (induction "pages_left p (cloud w)" arbitrary: p w b kept rule: less_induct)
  case less
  obtain r p' c where page: "sdk_NextPage s3 p (cloud w) = (r, p', c)"
    by (cases "sdk_NextPage s3 p (cloud w)") auto
  show ?case
  proof (cases "sdk_HasMorePages s3 p")
    case False
    with less.prems(1) have "w' = w" by (simp add: S3_emptyBucket.simps[of s3 name p w])
    with less.prems paginator_end[OF False] page_calls.last_page[OF False] show ?thesis
      by (intro exI[of _ "[]"] exI[of _ "s3_objects b"]) auto
  next
    case more: True
    with less.prems(1) page obtain keys where r: "r = Inr keys"
      by (cases r) (auto simp: S3_emptyBucket.simps[of s3 name p w])
    note step = paginator_page[OF more page[unfolded r]]
    show ?thesis
    proof (cases "keys = []")
      case True
      with less.prems more page r have "S3_emptyBucket s3 name p' (w\<lparr>cloud := c\<rparr>) = Some (Val (Inr ()), w')"
        by (simp add: S3_emptyBucket.simps[of s3 name p w])
      with less.hyps[OF _ this, of b kept] step less.prems(2,3) True obtain failed left where
        "page_calls s3 name p' c failed (cloud w')" "left \<subseteq> s3_objects b \<inter> (kept \<union> set failed)"
        "buckets (cloud w') = (buckets (cloud w))(name \<mapsto> b\<lparr>s3_objects := left\<rparr>)" by auto
      with page_calls.empty_page[OF more page[unfolded r True]] show ?thesis by blast
    next
      case False
      obtain r' c' where del: "sdk_DeleteObjects s3 name keys c = (r', c')"
        by (cases "sdk_DeleteObjects s3 name keys c") auto
      with less.prems(1) more page r False obtain reported where r': "r' = Inr reported"
        and rest: "S3_emptyBucket s3 name p' (w\<lparr>cloud := c'\<rparr>) = Some (Val (Inr ()), w')"
        by (cases r') (auto simp: S3_emptyBucket.simps[of s3 name p w])
      let ?b = "b\<lparr>s3_objects := s3_objects b - (set keys - set reported)\<rparr>"
      from delete_objects_ok[OF del[unfolded r']] step less.prems(2)
      have del_b: "buckets c' = (buckets (cloud w))(name \<mapsto> ?b)" by auto
      have "s3_objects ?b \<subseteq> unlisted p' c' \<union> (kept \<union> set reported)"
        using step delete_objects_pages[OF del, of p'] less.prems(3) by auto
      moreover have "pages_left p' c' < pages_left p (cloud w)"
        using step delete_objects_pages[OF del, of p'] by (auto intro: le_less_trans)
      ultimately obtain failed left where IH: "page_calls s3 name p' c' failed (cloud w')"
        "left \<subseteq> s3_objects ?b \<inter> (kept \<union> set reported \<union> set failed)"
        "buckets (cloud w') = (buckets (cloud w))(name \<mapsto> b\<lparr>s3_objects := left\<rparr>)"
        using less.hyps[OF _ rest, of ?b "kept \<union> set reported"] del_b by auto
      from page_calls.full_page[OF more page[unfolded r] False del[unfolded r'] IH(1)] IH(2,3) show ?thesis
        by (intro exI[of _ "reported @ failed"] exI[of _ left]) auto
    qed
  qed
qed

section \<open>Other buckets\<close>

abbreviation others :: "string \<Rightarrow> 'c \<Rightarrow> string \<Rightarrow> s3_bucket option" where
  "others n c \<equiv> (buckets c)(n := None)"

lemma head_leaves: "leaves buckets (sdk_HeadBucket s3 n)"
proof -
  have "buckets c' = buckets c" if "sdk_HeadBucket s3 n c = (r, c')" for c r c'
    using that head_ok head_err by (cases r) auto
  then show ?thesis by (simp add: leaves_def) (metis prod.collapse)
qed

lemma page_delete_others:
  "sdk_NextPage s3 p c = (r, p', c1) \<Longrightarrow> sdk_DeleteObjects s3 n keys c1 = (r', c2) \<Longrightarrow> others n c2 = others n c"
  using leavesD[OF s3_others(7)] next_page_others by metis

lemma emptyBucket_others:
  assumes "S3_emptyBucket client name p w = Some r" and "client = s3"
  shows "others name (cloud (snd r)) = others name (cloud w)"
proof -
  have "client = s3 \<longrightarrow> others name (cloud (snd r)) = others name (cloud w)"
    by (rule S3_emptyBucket.raw_induct[where P = "\<lambda>client name p w r. client = s3 \<longrightarrow>
        others name (cloud (snd r)) = others name (cloud w)", OF _ assms(1)])
      (auto split: if_splits prod.splits sum.splits dest: page_delete_others next_page_others)
  with assms(2) show ?thesis by simp
qed

lemma adapter_others:
  "keeps (\<lambda>w. others (bucket_name b) (cloud w) = v) (S3_CreateBucket (NewS3Service s3 cl) b)"
  "keeps (\<lambda>w. others (bucket_name b) (cloud w) = v) (S3_UpdateBucket (NewS3Service s3 cl) b)"
  "keeps (\<lambda>w. others (bucket_name b) (cloud w) = v) (S3_ConfigureBucket (NewS3Service s3 cl) b)"
  "keeps (\<lambda>w. others (bucket_name b) (cloud w) = v) (S3_DeleteBucket (NewS3Service s3 cl) b)"
proof -
  have empty: "keeps (\<lambda>w. others n (cloud w) = v) (S3_emptyBucket s3 n p)" for n p
    by (auto simp: keeps_def dest!: emptyBucket_others)
  have create: "keeps (\<lambda>w. others (bucket_name b) (cloud w) = v)
      (onCloud (sdk_CreateBucket s3 (S3_createBucketInput (NewS3Service s3 cl) b)))"
    using keeps_leaves_cloud[OF s3_others(1)[of "S3_createBucketInput (NewS3Service s3 cl) b"], of v]
    by (simp add: S3_createBucketInput_def)
  show
    "keeps (\<lambda>w. others (bucket_name b) (cloud w) = v) (S3_CreateBucket (NewS3Service s3 cl) b)"
    "keeps (\<lambda>w. others (bucket_name b) (cloud w) = v) (S3_UpdateBucket (NewS3Service s3 cl) b)"
    "keeps (\<lambda>w. others (bucket_name b) (cloud w) = v) (S3_ConfigureBucket (NewS3Service s3 cl) b)"
    "keeps (\<lambda>w. others (bucket_name b) (cloud w) = v) (S3_DeleteBucket (NewS3Service s3 cl) b)"
    unfolding S3_ops_def S3_DeleteBucket_def NewS3Service_sel
    by (auto intro!: keeps_attempt keeps_andThen keeps_leaves_cloud s3_others empty create
        split: sum.splits option.splits smithy_type.splits)
qed

lemma exists_leaves: "keeps (\<lambda>w. \<not> S3_present buckets b' (cloud w)) (S3_ExistsBucket (NewS3Service s3 cl) b)"
proof -
  have "keeps (\<lambda>w. \<not> S3_present buckets b' (cloud w)) (onCloud (sdk_HeadBucket s3 n))" for n
    by (intro keeps_spares_cloud spares_leaves[OF head_leaves]) (simp add: S3_present_def)
  then show ?thesis
    unfolding S3_ExistsBucket_def NewS3Service_sel
    by (auto intro!: keeps_andThen split: sum.splits option.splits smithy_type.splits)
qed

lemma absent_kept:
  assumes "\<And>v. keeps (\<lambda>w. others (bucket_name b) (cloud w) = v) p" and "bucket_name b' \<noteq> bucket_name b"
  shows "keeps (\<lambda>w. \<not> S3_present buckets b' (cloud w)) p"
  unfolding keeps_def
proof (intro allI impI)
  fix w oc w'
  assume run: "p w = Some (oc, w')" and absent: "\<not> S3_present buckets b' (cloud w)"
  from keepsD[OF assms(1) run] have "others (bucket_name b) (cloud w') = others (bucket_name b) (cloud w)" by simp
  from fun_cong[OF this, of "bucket_name b'"] absent assms(2)
  show "\<not> S3_present buckets b' (cloud w')" by (simp add: S3_present_def)
qed

end

text \<open>The S3 adapter is an object storage service in the sense of the reconciler's contract.\<close>

sublocale s3_api \<subseteq> s3svc: object_storage_service "S3_service (NewS3Service s3 cl)" crs
    "S3_present buckets" "S3_configured buckets cl"
  for cl :: AWSCluster and crs :: "'k \<Rightarrow> ObjectKey \<Rightarrow> Bucket option"
proof (unfold_locales, goal_cases)
  case (1 b w ex w')
  then show ?case by (auto simp: S3_service_def S3_present_def dest!: exists_bucket_nil)
next
  case (2 b w w')
  then show ?case by (auto simp: S3_service_def S3_present_def dest!: create_bucket_nil)
next
  case (3 b w w')
  then show ?case by (auto simp: S3_service_def S3_present_def S3_UpdateBucket_def)
next
  case (4 b w w')
  then show ?case
    by (auto simp: S3_service_def S3_present_def S3_configured_def dest!: configure_bucket_nil)
next
  case (5 b w w')
  then show ?case by (auto simp: S3_service_def S3_present_def dest!: delete_bucket_nil)
next
  case 6 show ?case by (simp add: S3_service_def keeps_fun_of_kube S3_keeps_kube)
next
  case 7 show ?case by (simp add: S3_service_def keeps_fun_of_kube S3_keeps_kube)
next
  case 8 show ?case by (simp add: S3_service_def keeps_fun_of_kube S3_keeps_kube)
next
  case 9 show ?case by (simp add: S3_service_def keeps_fun_of_kube S3_keeps_kube)
next
  case 10 show ?case by (simp add: S3_service_def keeps_fun_of_kube S3_keeps_kube)
next
  case 11 show ?case by (simp add: S3_service_def exists_leaves)
qed (simp add: S3_service_def, rule absent_kept, rule adapter_others, assumption)+

context s3_api
begin

text \<open>Every method of the adapter returns.\<close>

lemma adapter_returns:
  "returns (S3_ExistsBucket (NewS3Service s3 cl) b) w" "returns (S3_CreateBucket (NewS3Service s3 cl) b) w"
  "returns (S3_UpdateBucket (NewS3Service s3 cl) b) w" "returns (S3_ConfigureBucket (NewS3Service s3 cl) b) w"
  "returns (S3_DeleteBucket (NewS3Service s3 cl) b) w"
  unfolding S3_ExistsBucket_def S3_ops_def S3_DeleteBucket_def NewS3Service_sel
  by (auto intro!: returns_attempt returns_andThen emptyBucket_returns
      split: sum.split option.split smithy_type.split)

lemma s3_service:
  "object_storage_service (S3_service (NewS3Service s3 cl)) crs (S3_present buckets) (S3_configured buckets cl)"
  by (rule s3svc.object_storage_service_axioms)

end

end
