(* ===== verification/AWS_IAM.thy ===== *)
theory AWS_IAM
  imports AWS_S3
begin

text \<open>
  The access role adapter (\<^verbatim>\<open>src/internal/pkg/service/objectstorage/cloud/aws/iam.go\<close>). The IAM client of
  the AWS SDK is the parameter record \<open>iam_client\<close>. Pointers in the SDK's answers that the code
  dereferences are options, and a nil one panics. The tags of a role may come back as a nil slice,
  which \<^verbatim>\<open>reflect.DeepEqual\<close> distinguishes from an empty one: \<open>role_Tags\<close> is an option.

  What is documented of IAM is the locale \<open>iam_api\<close>.
\<close>

type_synonym sdk_tag = "string option \<times> string option"

record IamRole =
  role_Tags :: "sdk_tag list option"

record CreateRoleInput =
  cr_RoleName :: string
  cr_AssumeRolePolicyDocument :: string
  cr_Description :: string
  cr_Tags :: "tag list"

record AttachedPolicy =
  ap_PolicyName :: "string option"
  ap_PolicyArn :: "string option"

record 'c iam_client =
  sdk_GetRole :: "string \<Rightarrow> ('c, IamRole option) api"
  sdk_CreateRole :: "CreateRoleInput \<Rightarrow> ('c, unit) api"
  sdk_UpdateAssumeRolePolicy :: "string \<Rightarrow> string \<Rightarrow> ('c, unit) api"
  sdk_UntagRole :: "string \<Rightarrow> string list \<Rightarrow> ('c, unit) api"
  sdk_TagRole :: "string \<Rightarrow> tag list \<Rightarrow> ('c, unit) api"
  sdk_PutRolePolicy :: "string \<Rightarrow> string \<Rightarrow> string \<Rightarrow> ('c, unit) api"
  sdk_RemoveRoleFromInstanceProfile :: "string \<Rightarrow> string \<Rightarrow> ('c, unit) api"
  sdk_DeleteInstanceProfile :: "string \<Rightarrow> ('c, unit) api"
  sdk_DeleteRole :: "string \<Rightarrow> ('c, unit) api"
  sdk_ListAttachedRolePolicies :: "string \<Rightarrow> ('c, AttachedPolicy list) api"
  sdk_DetachRolePolicy :: "string option \<Rightarrow> string \<Rightarrow> ('c, unit) api"
  sdk_ListRolePolicies :: "string \<Rightarrow> ('c, string list) api"
  sdk_DeleteRolePolicy :: "string \<Rightarrow> string \<Rightarrow> ('c, unit) api"

record 'c IAMAccessRoleServiceAdapter =
  iamClient :: "'c iam_client"
  accountId :: string
  iam_cluster :: AWSCluster

definition NewIamService :: "'c iam_client \<Rightarrow> string \<Rightarrow> AWSCluster \<Rightarrow> 'c IAMAccessRoleServiceAdapter" where
  "NewIamService client account cluster =
     \<lparr>iamClient = client, accountId = account, iam_cluster = cluster\<rparr>"

section \<open>The adapter\<close>

definition IAM_getRole ::
  "'c IAMAccessRoleServiceAdapter \<Rightarrow> string \<Rightarrow> (('k, 'c) world, go_error + IamRole option) prog" where
  "IAM_getRole s roleName =
     andThen (onCloud (sdk_GetRole (iamClient s) roleName)) (\<lambda>r.
     case r of
       Inr role \<Rightarrow> ret (Inr role)
     | Inl err \<Rightarrow>
        (case errors_As_APIError err of
           Some NoSuchEntityException \<Rightarrow> ret (Inr None)
         | Some _ \<Rightarrow> ret (Inl (Errorf_w (''failed to fetch IAM role '' @ roleName @ '': '') err))
         | None \<Rightarrow> ret (Inl (Errorf_w (''failed to get IAM role '' @ roleName @ '': '') err))))"

definition irsaDomain :: "'c IAMAccessRoleServiceAdapter \<Rightarrow> string" where
  "irsaDomain s =
     (if isChinaRegion (aws_Region (iam_cluster s))
      then ''s3.'' @ aws_Region (iam_cluster s) @ ''.amazonaws.com.cn/'' @ accountId s @ ''-g8s-'' @
           aws_Name (iam_cluster s) @ ''-oidc-pod-identity-v3''
      else ''irsa.'' @ aws_Name (iam_cluster s) @ ''.'' @ aws_BaseDomain (iam_cluster s))"

definition IAM_trustData ::
  "'c IAMAccessRoleServiceAdapter \<Rightarrow> BucketAccessRole \<Rightarrow> TrustIdentityPolicyData" where
  "IAM_trustData s ar =
     \<lparr>ti_AccountId = accountId s, ti_AWSDomain = awsDomain (aws_Region (iam_cluster s)),
      ti_CloudFrontDomain = irsaDomain s, ti_ServiceAccountName = ServiceAccountName ar,
      ti_ServiceAccountNamespace = ServiceAccountNamespace ar,
      ti_IsGrafanaPostgresql = strings_Contains (ServiceAccountName ar) ''grafana-postgresql''\<rparr>"

definition IAM_rolePolicyData ::
  "'c IAMAccessRoleServiceAdapter \<Rightarrow> Bucket \<Rightarrow> BucketAccessRole \<Rightarrow> RolePolicyData" where
  "IAM_rolePolicyData s bucket ar =
     \<lparr>rp_AWSDomain = awsDomain (aws_Region (iam_cluster s)), rp_BucketName = bucket_name bucket,
      rp_ExtraBucketNames = ExtraBucketNames ar\<rparr>"

text \<open>The keys of the tags of an existing role: \<^verbatim>\<open>*tag.Key\<close> for every tag.\<close>

fun IAM_tagKeys :: "sdk_tag list \<Rightarrow> (string list \<Rightarrow> ('w, 'b) prog) \<Rightarrow> ('w, 'b) prog" where
  "IAM_tagKeys [] k = k []"
| "IAM_tagKeys ((key, value) # tags) k = deref key (\<lambda>a. IAM_tagKeys tags (\<lambda>keys. k (a # keys)))"

definition sdk_tags :: "tag list \<Rightarrow> sdk_tag list" where
  "sdk_tags tags = map (\<lambda>(k, v). (Some k, Some v)) tags"

text \<open>The two arms of \<^verbatim>\<open>if role == nil\<close>: create the role, or update its trust policy and, where they
  differ, its tags.\<close>

definition IAM_createRole ::
  "'c IAMAccessRoleServiceAdapter \<Rightarrow> string \<Rightarrow> string \<Rightarrow> tag list \<Rightarrow> (('k, 'c) world, go_error + unit) prog" where
  "IAM_createRole s roleName trustPolicy tags =
     attempt (onCloud (sdk_CreateRole (iamClient s)
         \<lparr>cr_RoleName = roleName, cr_AssumeRolePolicyDocument = trustPolicy,
          cr_Description = ''Role for Giant Swarm managed Loki'', cr_Tags = tags\<rparr>))
       (Errorf_w (''failed to create IAM role '' @ roleName @ '': '')) (\<lambda>_. ret (Inr ()))"

definition IAM_updateRole ::
  "'c IAMAccessRoleServiceAdapter \<Rightarrow> string \<Rightarrow> IamRole \<Rightarrow> string \<Rightarrow> tag list \<Rightarrow>
     (('k, 'c) world, go_error + unit) prog" where
  "IAM_updateRole s roleName role trustPolicy tags =
     attempt (onCloud (sdk_UpdateAssumeRolePolicy (iamClient s) roleName trustPolicy))
       (Errorf_w (''failed to update assume role policy for IAM role '' @ roleName @ '': '')) (\<lambda>_.
     if role_Tags role \<noteq> Some (sdk_tags tags) then
       IAM_tagKeys (case role_Tags role of None \<Rightarrow> [] | Some ts \<Rightarrow> ts) (\<lambda>tagKeys.
       attempt (onCloud (sdk_UntagRole (iamClient s) roleName tagKeys))
         (Errorf_w (''failed to untag IAM role '' @ roleName @ '': '')) (\<lambda>_.
       attempt (onCloud (sdk_TagRole (iamClient s) roleName tags))
         (Errorf_w (''failed to tag IAM role '' @ roleName @ '': '')) (\<lambda>_.
       ret (Inr ()))))
     else ret (Inr ()))"

definition IAM_ConfigureRole ::
  "'c IAMAccessRoleServiceAdapter \<Rightarrow> Bucket \<Rightarrow> (('k, 'c) world, go_error + unit) prog" where
  "IAM_ConfigureRole s bucket =
     deref (AccessRole (Spec bucket)) (\<lambda>ar.
     let roleName = RoleName ar in
     attempt (IAM_getRole s roleName) (\<lambda>err. err) (\<lambda>role.
     let tags = aws_tags bucket (aws_Tags (iam_cluster s)) in
     attempt (ret (Inr (trustIdentityPolicy (IAM_trustData s ar))))
       (Errorf_w (''failed to execute trust identity policy template for role '' @ roleName @ '': ''))
       (\<lambda>trustPolicy.
     attempt (case role of
                None \<Rightarrow> IAM_createRole s roleName trustPolicy tags
              | Some existing \<Rightarrow> IAM_updateRole s roleName existing trustPolicy tags) (\<lambda>err. err) (\<lambda>_.
     attempt (ret (Inr (rolePolicy (IAM_rolePolicyData s bucket ar))))
       (Errorf_w (''failed to execute role policy template for role '' @ roleName @ '': ''))
       (\<lambda>policy.
     attempt (onCloud (sdk_PutRolePolicy (iamClient s) roleName roleName policy))
       (Errorf_w (''failed to put IAM role policy for role '' @ roleName @ '': ''))
       (\<lambda>_. ret (Inr ())))))))"

text \<open>The bodies of the two loops that clean a role.\<close>

definition IAM_detachPolicy ::
  "'c IAMAccessRoleServiceAdapter \<Rightarrow> string \<Rightarrow> AttachedPolicy \<Rightarrow> (('k, 'c) world, go_error + unit) prog" where
  "IAM_detachPolicy s roleName policy =
     deref (ap_PolicyName policy) (\<lambda>policyName.
     attempt (onCloud (sdk_DetachRolePolicy (iamClient s) (ap_PolicyArn policy) roleName))
       (Errorf_w (''failed to detach policy '' @ policyName @ '' from IAM role '' @ roleName @ '': ''))
       (\<lambda>_. ret (Inr ())))"

definition IAM_deleteInlinePolicy ::
  "'c IAMAccessRoleServiceAdapter \<Rightarrow> string \<Rightarrow> string \<Rightarrow> (('k, 'c) world, go_error + unit) prog" where
  "IAM_deleteInlinePolicy s roleName policy =
     attempt (onCloud (sdk_DeleteRolePolicy (iamClient s) roleName policy))
       (Errorf_w (''failed to delete inline policy '' @ policy @ '' from IAM role '' @ roleName @ '': ''))
       (\<lambda>_. ret (Inr ()))"

definition IAM_cleanAttachedPolicies ::
  "'c IAMAccessRoleServiceAdapter \<Rightarrow> string \<Rightarrow> (('k, 'c) world, go_error + unit) prog" where
  "IAM_cleanAttachedPolicies s roleName =
     attempt (onCloud (sdk_ListAttachedRolePolicies (iamClient s) roleName))
       (Errorf_w (''failed to list attached policies for IAM role '' @ roleName @ '': '')) (\<lambda>attached.
     attempt (for_each attached (IAM_detachPolicy s roleName)) (\<lambda>err. err) (\<lambda>_.
     attempt (onCloud (sdk_ListRolePolicies (iamClient s) roleName))
       (Errorf_w (''failed to list inline policies for IAM role '' @ roleName @ '': '')) (\<lambda>inline.
     attempt (for_each inline (IAM_deleteInlinePolicy s roleName)) (\<lambda>err. err) (\<lambda>_.
     ret (Inr ())))))"

text \<open>
  The treatment of the errors of the two instance profile calls: a \<^verbatim>\<open>NoSuchEntityException\<close> is passed over, any
  other API error is returned, and an error that is no API error is passed over as well.
\<close>

definition IAM_tolerate ::
  "('c, unit) api \<Rightarrow> string \<Rightarrow> (('k, 'c) world, go_error + unit) prog \<Rightarrow> (('k, 'c) world, go_error + unit) prog" where
  "IAM_tolerate call msg k =
     andThen (onCloud call) (\<lambda>r.
     case r of
       Inr _ \<Rightarrow> k
     | Inl err \<Rightarrow>
        (case errors_As_APIError err of
           Some NoSuchEntityException \<Rightarrow> k
         | Some _ \<Rightarrow> ret (Inl (Errorf_w msg err))
         | None \<Rightarrow> k))"

definition IAM_DeleteRole ::
  "'c IAMAccessRoleServiceAdapter \<Rightarrow> Bucket \<Rightarrow> (('k, 'c) world, go_error + unit) prog" where
  "IAM_DeleteRole s bucket =
     deref (AccessRole (Spec bucket)) (\<lambda>ar.
     let roleName = RoleName ar in
     attempt (IAM_getRole s roleName)
       (Errorf_w (''failed to get IAM role '' @ roleName @ '' for deletion: '')) (\<lambda>role.
     case role of
       None \<Rightarrow> ret (Inr ())
     | Some _ \<Rightarrow>
       attempt (IAM_cleanAttachedPolicies s roleName)
         (Errorf_w (''failed to clean attached policies for IAM role '' @ roleName @ '': '')) (\<lambda>_.
       IAM_tolerate (sdk_RemoveRoleFromInstanceProfile (iamClient s) roleName roleName)
         (''failed to remove role '' @ roleName @ '' from instance profile: '')
       (IAM_tolerate (sdk_DeleteInstanceProfile (iamClient s) roleName)
         (''failed to delete instance profile '' @ roleName @ '': '')
       (attempt (onCloud (sdk_DeleteRole (iamClient s) roleName))
         (Errorf_w (''failed to delete IAM role '' @ roleName @ '': ''))
         (\<lambda>_. ret (Inr ())))))))"

definition IAM_service :: "'c IAMAccessRoleServiceAdapter \<Rightarrow> ('k, 'c) world AccessRoleService" where
  "IAM_service s = \<lparr>ConfigureRole = IAM_ConfigureRole s, DeleteRole = IAM_DeleteRole s\<rparr>"

section \<open>Runs of the adapter, whatever the SDK does\<close>

lemma NewIamService_sel [simp]:
  "iamClient (NewIamService i a c) = i" "accountId (NewIamService i a c) = a"
  "iam_cluster (NewIamService i a c) = c"
  by (simp_all add: NewIamService_def)

lemma IAM_getRole_run:
  "IAM_getRole s n w =
     (case sdk_GetRole (iamClient s) n (cloud w) of
        (Inr rp, c) \<Rightarrow> Some (Val (Inr rp), w\<lparr>cloud := c\<rparr>)
      | (Inl e, c) \<Rightarrow> Some (Val (if errors_As_APIError e = Some NoSuchEntityException then Inr None
           else Inl (Errorf_w ((if errors_As_APIError e = None then ''failed to get IAM role ''
                               else ''failed to fetch IAM role '') @ n @ '': '') e)), w\<lparr>cloud := c\<rparr>))"
  by (auto simp: IAM_getRole_def run_simps split: prod.splits sum.splits option.splits smithy_type.splits)

lemma IAM_tolerate_run:
  "IAM_tolerate call msg k w =
     (case call (cloud w) of (r, c) \<Rightarrow>
        (case r of
           Inl e \<Rightarrow> (if errors_As_APIError e \<in> {None, Some NoSuchEntityException} then k (w\<lparr>cloud := c\<rparr>)
                    else Some (Val (Inl (Errorf_w msg e)), w\<lparr>cloud := c\<rparr>))
         | Inr u \<Rightarrow> k (w\<lparr>cloud := c\<rparr>)))"
  by (auto simp: IAM_tolerate_def run_simps split: prod.splits sum.splits option.splits smithy_type.splits)

lemma IAM_tolerate_nilD:
  "IAM_tolerate call msg k w = Some (Val (Inr ()), w') \<Longrightarrow> \<exists>w1. k w1 = Some (Val (Inr ()), w')"
  by (auto simp: IAM_tolerate_run split: prod.splits sum.splits if_splits)

lemma keeps_IAM_tolerate [keeps_intros]:
  "keeps I (onCloud call) \<Longrightarrow> keeps I k \<Longrightarrow> keeps I (IAM_tolerate call msg k)"
  unfolding IAM_tolerate_def
  by (auto intro!: keeps_andThen split: sum.splits option.splits smithy_type.splits)

lemma keeps_IAM_getRole [keeps_intros]:
  "keeps I (onCloud (sdk_GetRole (iamClient s) n)) \<Longrightarrow> keeps I (IAM_getRole s n)"
  unfolding IAM_getRole_def
  by (auto intro!: keeps_andThen split: sum.splits option.splits smithy_type.splits)

lemma IAM_tagKeys_sdk_tags [simp]: "IAM_tagKeys (sdk_tags tags) k = k (map fst tags)"
  by (induction tags arbitrary: k) (auto simp: sdk_tags_def)

lemma keeps_IAM_tagKeys [keeps_intros]: "(\<And>keys. keeps I (k keys)) \<Longrightarrow> keeps I (IAM_tagKeys tags k)"
  by (induction tags k rule: IAM_tagKeys.induct) (auto intro!: keeps_deref)

text \<open>What every SDK call of the adapter keeps, the adapter keeps.\<close>

lemma IAM_keeps:
  assumes "\<And>n. keeps I (onCloud (sdk_GetRole (iamClient s) n))"
    and "\<And>i. keeps I (onCloud (sdk_CreateRole (iamClient s) i))"
    and "\<And>n doc. keeps I (onCloud (sdk_UpdateAssumeRolePolicy (iamClient s) n doc))"
    and "\<And>n keys. keeps I (onCloud (sdk_UntagRole (iamClient s) n keys))"
    and "\<And>n tags. keeps I (onCloud (sdk_TagRole (iamClient s) n tags))"
    and "\<And>n p doc. keeps I (onCloud (sdk_PutRolePolicy (iamClient s) n p doc))"
    and "\<And>p n. keeps I (onCloud (sdk_RemoveRoleFromInstanceProfile (iamClient s) p n))"
    and "\<And>p. keeps I (onCloud (sdk_DeleteInstanceProfile (iamClient s) p))"
    and "\<And>n. keeps I (onCloud (sdk_DeleteRole (iamClient s) n))"
    and "\<And>n. keeps I (onCloud (sdk_ListAttachedRolePolicies (iamClient s) n))"
    and "\<And>arn n. keeps I (onCloud (sdk_DetachRolePolicy (iamClient s) arn n))"
    and "\<And>n. keeps I (onCloud (sdk_ListRolePolicies (iamClient s) n))"
    and "\<And>n p. keeps I (onCloud (sdk_DeleteRolePolicy (iamClient s) n p))"
  shows "keeps I (IAM_ConfigureRole s b)" and "keeps I (IAM_DeleteRole s b)"
  unfolding IAM_ConfigureRole_def IAM_createRole_def IAM_updateRole_def IAM_DeleteRole_def
    IAM_cleanAttachedPolicies_def IAM_detachPolicy_def IAM_deleteInlinePolicy_def Let_def
  by (auto intro!: keeps_intros assms split: option.split)

section \<open>What the adapter relies on\<close>

record iam_role =
  ir_trust :: string
  ir_tags :: "string \<Rightarrow> string option"
  ir_inline :: "string \<Rightarrow> string option"
  ir_attached :: "string set"

definition new_iam_role :: "CreateRoleInput \<Rightarrow> iam_role" where
  "new_iam_role i = \<lparr>ir_trust = cr_AssumeRolePolicyDocument i, ir_tags = map_of (cr_Tags i),
     ir_inline = Map.empty, ir_attached = {}\<rparr>"

text \<open>
  \<open>roles c\<close> are the roles of the account, \<open>storage c\<close> the part of the account that is not IAM. An answer
  to \<^verbatim>\<open>GetRole\<close> lists all tags of the role with their keys and values. The two listing calls
  may answer with a part of the policies only: the code reads one page.
\<close>

locale iam_api =
  fixes iam :: "'c iam_client"
    and roles :: "'c \<Rightarrow> string \<Rightarrow> iam_role option"
    and storage :: "'c \<Rightarrow> 's"
  assumes get_role_ok:
      "sdk_GetRole iam n c = (Inr rp, c') \<Longrightarrow>
         \<exists>r ir tags. rp = Some r \<and> roles c n = Some ir \<and> roles c' = roles c \<and>
           (case role_Tags r of None \<Rightarrow> [] | Some ts \<Rightarrow> ts) = sdk_tags tags \<and> map_of tags = ir_tags ir"
    and get_role_err:
      "sdk_GetRole iam n c = (Inl e, c') \<Longrightarrow>
         roles c' = roles c \<and> (errors_As_APIError e = Some NoSuchEntityException \<longrightarrow> roles c n = None)"
    and create_role_ok:
      "sdk_CreateRole iam i c = (Inr (), c') \<Longrightarrow> roles c' = (roles c)(cr_RoleName i \<mapsto> new_iam_role i)"
    and update_trust_ok:
      "sdk_UpdateAssumeRolePolicy iam n doc c = (Inr (), c') \<Longrightarrow>
         \<exists>ir. roles c n = Some ir \<and> roles c' = (roles c)(n \<mapsto> ir\<lparr>ir_trust := doc\<rparr>)"
    and untag_ok:
      "sdk_UntagRole iam n keys c = (Inr (), c') \<Longrightarrow>
         \<exists>ir. roles c n = Some ir \<and> roles c' = (roles c)(n \<mapsto> ir\<lparr>ir_tags := ir_tags ir |` (- set keys)\<rparr>)"
    and tag_ok:
      "sdk_TagRole iam n tags c = (Inr (), c') \<Longrightarrow>
         \<exists>ir. roles c n = Some ir \<and> roles c' = (roles c)(n \<mapsto> ir\<lparr>ir_tags := ir_tags ir ++ map_of tags\<rparr>)"
    and put_role_policy_ok:
      "sdk_PutRolePolicy iam n p doc c = (Inr (), c') \<Longrightarrow>
         \<exists>ir. roles c n = Some ir \<and> roles c' = (roles c)(n \<mapsto> ir\<lparr>ir_inline := (ir_inline ir)(p \<mapsto> doc)\<rparr>)"
    and delete_role_ok:
      "sdk_DeleteRole iam n c = (Inr (), c') \<Longrightarrow> roles c' = (roles c)(n := None)"
    and list_attached_ok:
      "sdk_ListAttachedRolePolicies iam n c = (Inr ps, c') \<Longrightarrow>
         roles c' = roles c \<and> (\<forall>p \<in> set ps. ap_PolicyName p \<noteq> None \<and> ap_PolicyArn p \<noteq> None)"
    and list_inline_ok:
      "sdk_ListRolePolicies iam n c = (Inr names, c') \<Longrightarrow> roles c' = roles c"
    and detach_ok:
      "sdk_DetachRolePolicy iam (Some arn) n c = (Inr (), c') \<Longrightarrow>
         \<exists>ir. roles c n = Some ir \<and> roles c' = (roles c)(n \<mapsto> ir\<lparr>ir_attached := ir_attached ir - {arn}\<rparr>)"
    and delete_role_policy_ok:
      "sdk_DeleteRolePolicy iam n p c = (Inr (), c') \<Longrightarrow>
         \<exists>ir. roles c n = Some ir \<and> roles c' = (roles c)(n \<mapsto> ir\<lparr>ir_inline := (ir_inline ir)(p := None)\<rparr>)"
    and iam_leaves:
      "leaves storage (sdk_GetRole iam n)" "leaves storage (sdk_CreateRole iam i)"
      "leaves storage (sdk_UpdateAssumeRolePolicy iam n doc)" "leaves storage (sdk_UntagRole iam n keys)"
      "leaves storage (sdk_TagRole iam n tags)" "leaves storage (sdk_PutRolePolicy iam n p doc)"
      "leaves storage (sdk_RemoveRoleFromInstanceProfile iam prof n)"
      "leaves storage (sdk_DeleteInstanceProfile iam prof)" "leaves storage (sdk_DeleteRole iam n)"
      "leaves storage (sdk_ListAttachedRolePolicies iam n)" "leaves storage (sdk_DetachRolePolicy iam arnp n)"
      "leaves storage (sdk_ListRolePolicies iam n)" "leaves storage (sdk_DeleteRolePolicy iam n p)"
begin

section \<open>The adapter implements the service contract\<close>

lemma get_role_nil:
  assumes "IAM_getRole (NewIamService iam acc cl) n w = Some (Val (Inr rp), w')"
  shows "roles (cloud w') = roles (cloud w) \<and>
    (case rp of
       None \<Rightarrow> roles (cloud w) n = None
     | Some r \<Rightarrow> \<exists>ir tags. roles (cloud w) n = Some ir \<and>
         (case role_Tags r of None \<Rightarrow> [] | Some ts \<Rightarrow> ts) = sdk_tags tags \<and> map_of tags = ir_tags ir)"
  using assms
  by (auto simp: IAM_getRole_run split: prod.splits sum.splits if_splits
      dest!: get_role_ok get_role_err)

lemma create_role_nil:
  "IAM_createRole (NewIamService iam acc cl) n doc tags w = Some (Val (Inr ()), w') \<Longrightarrow>
   \<exists>ir. roles (cloud w') = (roles (cloud w))(n \<mapsto> ir) \<and> ir_trust ir = doc \<and> ir_tags ir = map_of tags"
  by (auto simp: IAM_createRole_def new_iam_role_def dest!: create_role_ok)

lemma sdk_tags_inject [simp]: "sdk_tags a = sdk_tags b \<longleftrightarrow> a = b"
  unfolding sdk_tags_def by (rule inj_map_eq_map) (auto simp: inj_def)

lemma map_restrict_dom [simp]: "map_of tags |` (- fst ` set tags) = Map.empty"
  by (auto simp: restrict_map_def fun_eq_iff map_of_eq_None_iff)

lemma update_role_nil:
  assumes run: "IAM_updateRole (NewIamService iam acc cl) n r doc tags w = Some (Val (Inr ()), w')"
    and old: "roles (cloud w) n = Some ir" "map_of oldtags = ir_tags ir"
      "(case role_Tags r of None \<Rightarrow> [] | Some ts \<Rightarrow> ts) = sdk_tags oldtags"
  shows "roles (cloud w') = (roles (cloud w))(n \<mapsto> ir\<lparr>ir_trust := doc, ir_tags := map_of tags\<rparr>)"
proof (cases "role_Tags r = Some (sdk_tags tags)")
  case True
  with old have "ir\<lparr>ir_tags := map_of tags\<rparr> = ir" by (cases ir) simp
  then have "ir\<lparr>ir_trust := doc, ir_tags := map_of tags\<rparr> = ir\<lparr>ir_trust := doc\<rparr>" by (cases ir) simp
  with True run old(1) show ?thesis
    by (auto simp: IAM_updateRole_def dest!: update_trust_ok)
next
  case False
  with run old(3) obtain c1 c2 c2' where w': "cloud w' = c2'"
    and calls: "sdk_UpdateAssumeRolePolicy iam n doc (cloud w) = (Inr (), c1)"
      "sdk_UntagRole iam n (map fst oldtags) c1 = (Inr (), c2)"
      "sdk_TagRole iam n tags c2 = (Inr (), c2')"
    by (auto simp: IAM_updateRole_def)
  from old(2) have "ir_tags ir |` (- set (map fst oldtags)) = Map.empty"
    by (metis map_restrict_dom set_map)
  with update_trust_ok[OF calls(1)] untag_ok[OF calls(2)] tag_ok[OF calls(3)] old(1) w' show ?thesis
    by auto
qed

text \<open>The role a bucket asks for: trust policy, tags and the inline policy named after the role.\<close>

lemma configure_role_nil:
  assumes run: "IAM_ConfigureRole (NewIamService iam acc cl) b w = Some (Val (Inr ()), w')"
    and ar: "AccessRole (Spec b) = Some ar"
  shows "\<exists>ir. roles (cloud w') = (roles (cloud w))(RoleName ar \<mapsto> ir) \<and>
    ir_trust ir = trustIdentityPolicy (IAM_trustData (NewIamService iam acc cl) ar) \<and>
    ir_tags ir = map_of (aws_tags b (aws_Tags cl)) \<and>
    ir_inline ir (RoleName ar) = Some (rolePolicy (IAM_rolePolicyData (NewIamService iam acc cl) b ar))"
proof -
  let ?s = "NewIamService iam acc cl"
  let ?doc = "trustIdentityPolicy (IAM_trustData ?s ar)" and ?tags = "aws_tags b (aws_Tags cl)"
  from run ar obtain rp w1 w2 c where get: "IAM_getRole ?s (RoleName ar) w = Some (Val (Inr rp), w1)"
    and upsert: "(case rp of None \<Rightarrow> IAM_createRole ?s (RoleName ar) ?doc ?tags
                  | Some r \<Rightarrow> IAM_updateRole ?s (RoleName ar) r ?doc ?tags) w1 = Some (Val (Inr ()), w2)"
    and put: "sdk_PutRolePolicy iam (RoleName ar) (RoleName ar)
                (rolePolicy (IAM_rolePolicyData ?s b ar)) (cloud w2) = (Inr (), c)" "w' = w2\<lparr>cloud := c\<rparr>"
    by (auto simp: IAM_ConfigureRole_def Let_def)
  have "\<exists>ir. roles (cloud w2) = (roles (cloud w))(RoleName ar \<mapsto> ir) \<and> ir_trust ir = ?doc \<and>
      ir_tags ir = map_of ?tags"
  proof (cases rp)
    case None
    with get_role_nil[OF get] upsert create_role_nil[of acc cl "RoleName ar" ?doc ?tags w1 w2]
    show ?thesis by auto
  next
    case (Some r)
    with get_role_nil[OF get] obtain ir old where "roles (cloud w1) (RoleName ar) = Some ir"
      "map_of old = ir_tags ir" "(case role_Tags r of None \<Rightarrow> [] | Some ts \<Rightarrow> ts) = sdk_tags old"
      "roles (cloud w1) = roles (cloud w)" by auto
    with update_role_nil[of acc cl "RoleName ar" r ?doc ?tags w1 w2 ir old] upsert Some
    show ?thesis by auto
  qed
  with put put_role_policy_ok[OF put(1)] show ?thesis by auto
qed

lemma delete_role_nil:
  assumes run: "IAM_DeleteRole (NewIamService iam acc cl) b w = Some (Val (Inr ()), w')"
    and ar: "AccessRole (Spec b) = Some ar"
  shows "roles (cloud w') (RoleName ar) = None"
proof -
  let ?s = "NewIamService iam acc cl"
  from run ar obtain rp w1 where get: "IAM_getRole ?s (RoleName ar) w = Some (Val (Inr rp), w1)"
    by (auto simp: IAM_DeleteRole_def Let_def)
  show ?thesis
  proof (cases rp)
    case None
    with get_role_nil[OF get] get run ar show ?thesis by (auto simp: IAM_DeleteRole_def Let_def)
  next
    case (Some r)
    with run ar get obtain w2 where
      "attempt (onCloud (sdk_DeleteRole iam (RoleName ar)))
         (Errorf_w (''failed to delete IAM role '' @ RoleName ar @ '': ''))
         (\<lambda>_. ret (Inr ())) w2 = Some (Val (Inr ()), w')"
      by (auto simp: IAM_DeleteRole_def Let_def dest!: IAM_tolerate_nilD)
    then show ?thesis by (auto dest!: delete_role_ok)
  qed
qed

text \<open>After the policies are cleaned, what the two listings named is no longer on the role.\<close>

lemma detach_all:
  assumes "for_each ps (IAM_detachPolicy (NewIamService iam acc cl) n) w = Some (Val (Inr ()), w')"
    and "roles (cloud w) n = Some ir" "\<forall>p \<in> set ps. ap_PolicyName p \<noteq> None \<and> ap_PolicyArn p \<noteq> None"
  shows "roles (cloud w') = (roles (cloud w))(n \<mapsto>
    ir\<lparr>ir_attached := ir_attached ir - {arn. \<exists>p \<in> set ps. ap_PolicyArn p = Some arn}\<rparr>)"
  using assms
proof (induction ps arbitrary: w ir)
  case (Cons p ps)
  from Cons.prems(3) obtain pname arn where p: "ap_PolicyName p = Some pname"
    and arn: "ap_PolicyArn p = Some arn" by auto
  from Cons.prems(1) obtain w1 where
    body: "IAM_detachPolicy (NewIamService iam acc cl) n p w = Some (Val (Inr ()), w1)"
    and rest: "for_each ps (IAM_detachPolicy (NewIamService iam acc cl) n) w1 = Some (Val (Inr ()), w')"
    by auto
  from body p arn Cons.prems(2)
  have "roles (cloud w1) = (roles (cloud w))(n \<mapsto> ir\<lparr>ir_attached := ir_attached ir - {arn}\<rparr>)"
    by (auto simp: IAM_detachPolicy_def dest!: detach_ok)
  moreover have "ir_attached ir - {arn} - {a. \<exists>q \<in> set ps. ap_PolicyArn q = Some a} =
      ir_attached ir - {a. \<exists>q \<in> set (p # ps). ap_PolicyArn q = Some a}"
    using arn by auto
  ultimately show ?case
    using Cons.IH[OF rest] Cons.prems(3) by auto
qed auto

lemma delete_inline_all:
  assumes "for_each names (IAM_deleteInlinePolicy (NewIamService iam acc cl) n) w = Some (Val (Inr ()), w')"
    and "roles (cloud w) n = Some ir"
  shows "roles (cloud w') = (roles (cloud w))(n \<mapsto> ir\<lparr>ir_inline := ir_inline ir |` (- set names)\<rparr>)"
  using assms
proof (induction names arbitrary: w ir)
  case (Cons p names)
  from Cons.prems(1) obtain w1 where
    body: "IAM_deleteInlinePolicy (NewIamService iam acc cl) n p w = Some (Val (Inr ()), w1)"
    and rest: "for_each names (IAM_deleteInlinePolicy (NewIamService iam acc cl) n) w1 = Some (Val (Inr ()), w')"
    by auto
  from body Cons.prems(2)
  have "roles (cloud w1) = (roles (cloud w))(n \<mapsto> ir\<lparr>ir_inline := (ir_inline ir)(p := None)\<rparr>)"
    by (auto simp: IAM_deleteInlinePolicy_def dest!: delete_role_policy_ok)
  moreover have "(ir_inline ir)(p := None) |` (- set names) = ir_inline ir |` (- set (p # names))"
    by (auto simp: restrict_map_def fun_eq_iff)
  ultimately show ?case using Cons.IH[OF rest] by auto
qed (auto simp: restrict_map_def)

lemma clean_policies_nil:
  assumes "IAM_cleanAttachedPolicies (NewIamService iam acc cl) n w = Some (Val (Inr ()), w')"
    and "roles (cloud w) n = Some ir"
  obtains ps names c1 w1 c2 where "sdk_ListAttachedRolePolicies iam n (cloud w) = (Inr ps, c1)"
    "for_each ps (IAM_detachPolicy (NewIamService iam acc cl) n) (w\<lparr>cloud := c1\<rparr>) = Some (Val (Inr ()), w1)"
    "sdk_ListRolePolicies iam n (cloud w1) = (Inr names, c2)"
    "for_each names (IAM_deleteInlinePolicy (NewIamService iam acc cl) n) (w1\<lparr>cloud := c2\<rparr>) = Some (Val (Inr ()), w')"
    "roles (cloud w') = (roles (cloud w))(n \<mapsto> ir\<lparr>
       ir_attached := ir_attached ir - {arn. \<exists>p \<in> set ps. ap_PolicyArn p = Some arn},
       ir_inline := ir_inline ir |` (- set names)\<rparr>)"
proof -
  let ?s = "NewIamService iam acc cl"
  from assms(1) obtain ps c1 w1 names c2 where
    l1: "sdk_ListAttachedRolePolicies iam n (cloud w) = (Inr ps, c1)"
    and f1: "for_each ps (IAM_detachPolicy ?s n) (w\<lparr>cloud := c1\<rparr>) = Some (Val (Inr ()), w1)"
    and l2: "sdk_ListRolePolicies iam n (cloud w1) = (Inr names, c2)"
    and f2: "for_each names (IAM_deleteInlinePolicy ?s n) (w1\<lparr>cloud := c2\<rparr>) = Some (Val (Inr ()), w')"
    by (auto simp: IAM_cleanAttachedPolicies_def)
  from list_attached_ok[OF l1] detach_all[OF f1, of ir] assms(2)
  have "roles (cloud w1) = (roles (cloud w))(n \<mapsto>
    ir\<lparr>ir_attached := ir_attached ir - {arn. \<exists>p \<in> set ps. ap_PolicyArn p = Some arn}\<rparr>)" by auto
  with list_inline_ok[OF l2] delete_inline_all[OF f2] that[OF l1 f1 l2 f2] show thesis by auto
qed

end

text \<open>
  The role part of the contract of an access role service. The role is ready when it has the trust
  policy, the tags and the inline policy of the bucket, and gone when the account has no such role.
\<close>

definition IAM_role_ready ::
  "('c \<Rightarrow> string \<Rightarrow> iam_role option) \<Rightarrow> 'c IAMAccessRoleServiceAdapter \<Rightarrow> Bucket \<Rightarrow> 'c \<Rightarrow> bool" where
  "IAM_role_ready view s b c \<longleftrightarrow>
     (case AccessRole (Spec b) of
        None \<Rightarrow> True
      | Some ar \<Rightarrow>
         (case view c (RoleName ar) of
            None \<Rightarrow> False
          | Some ir \<Rightarrow>
              ir_trust ir = trustIdentityPolicy (IAM_trustData s ar) \<and>
              ir_tags ir = map_of (aws_tags b (aws_Tags (iam_cluster s))) \<and>
              ir_inline ir (RoleName ar) = Some (rolePolicy (IAM_rolePolicyData s b ar))))"

definition IAM_role_gone :: "('c \<Rightarrow> string \<Rightarrow> iam_role option) \<Rightarrow> Bucket \<Rightarrow> 'c \<Rightarrow> bool" where
  "IAM_role_gone view b c \<longleftrightarrow>
     (case AccessRole (Spec b) of None \<Rightarrow> True | Some ar \<Rightarrow> view c (RoleName ar) = None)"

sublocale iam_api \<subseteq> iamsvc: access_role_service "IAM_service (NewIamService iam acc cl)"
    "IAM_role_ready roles (NewIamService iam acc cl)" "IAM_role_gone roles" storage
  for acc :: string and cl :: AWSCluster
proof (unfold_locales, goal_cases)
  case (1 b w w')
  then show ?case
    by (auto simp: IAM_service_def IAM_role_ready_def 
        dest!: configure_role_nil elim!: has_access_roleE)
next
  case (2 b w w')
  then show ?case
    by (auto simp: IAM_service_def IAM_role_gone_def dest: delete_role_nil elim!: has_access_roleE)
next
  case 3 show ?case by (simp add: IAM_service_def IAM_keeps)
next
  case 4 show ?case by (simp add: IAM_service_def IAM_keeps)
next
  case 5 show ?case
    by (simp add: IAM_service_def) (rule IAM_keeps; simp add: keeps_leaves_cloud iam_leaves)
next
  case 6 show ?case
    by (simp add: IAM_service_def) (rule IAM_keeps; simp add: keeps_leaves_cloud iam_leaves)
qed

context iam_api
begin

text \<open>No method of the adapter panics or runs forever on a bucket that asks for a role.\<close>

lemma updateRole_returns:
  assumes "(case role_Tags role of None \<Rightarrow> [] | Some ts \<Rightarrow> ts) = sdk_tags old"
  shows "returns (IAM_updateRole (NewIamService iam acc cl) n role doc tags) w"
  unfolding IAM_updateRole_def assms IAM_tagKeys_sdk_tags by (auto intro!: returns_attempt)

lemma detach_returns:
  "\<forall>p \<in> set ps. ap_PolicyName p \<noteq> None \<and> ap_PolicyArn p \<noteq> None \<Longrightarrow>
   returns (for_each ps (IAM_detachPolicy (NewIamService iam acc cl) n)) w"
  by (force simp: IAM_detachPolicy_def intro!: returns_for_each returns_attempt)

lemma delete_inline_returns: "returns (for_each ns (IAM_deleteInlinePolicy (NewIamService iam acc cl) n)) w"
  by (auto simp: IAM_deleteInlinePolicy_def intro!: returns_for_each returns_attempt)

lemma cleanAttachedPolicies_returns: "returns (IAM_cleanAttachedPolicies (NewIamService iam acc cl) n) w"
  unfolding IAM_cleanAttachedPolicies_def
  by (auto intro!: returns_attempt detach_returns delete_inline_returns dest!: list_attached_ok)

lemma getRole_returns: "returns (IAM_getRole s n) w"
  by (auto simp: returns_def IAM_getRole_run split: prod.splits sum.splits)

lemma tolerate_returns: "(\<And>v. returns k v) \<Longrightarrow> returns (IAM_tolerate call msg k) w"
  by (auto simp: returns_def IAM_tolerate_run split: prod.splits sum.splits)

lemma roles_return:
  assumes "has_access_role b"
  shows "returns (IAM_ConfigureRole (NewIamService iam acc cl) b) w"
    and "returns (IAM_DeleteRole (NewIamService iam acc cl) b) w"
proof -
  from assms obtain ar where ar: "AccessRole (Spec b) = Some ar" by (rule has_access_roleE)
  have upsert: "returns (case rp of None \<Rightarrow> IAM_createRole (NewIamService iam acc cl) n doc tags
      | Some r \<Rightarrow> IAM_updateRole (NewIamService iam acc cl) n r doc tags) v"
    if "IAM_getRole (NewIamService iam acc cl) n v0 = Some (Val (Inr rp), v)" for rp n doc tags v0 v
  proof (cases rp)
    case None
    then show ?thesis by (auto simp: IAM_createRole_def intro!: returns_attempt)
  next
    case (Some r)
    with get_role_nil[OF that] obtain old where "(case role_Tags r of None \<Rightarrow> [] | Some ts \<Rightarrow> ts) = sdk_tags old"
      by auto
    from updateRole_returns[OF this] Some show ?thesis by simp
  qed
  show "returns (IAM_ConfigureRole (NewIamService iam acc cl) b) w"
    unfolding IAM_ConfigureRole_def ar Let_def deref_simps
    by (rule returns_attempt[OF getRole_returns]) (auto intro!: returns_attempt upsert)
  show "returns (IAM_DeleteRole (NewIamService iam acc cl) b) w"
    unfolding IAM_DeleteRole_def ar Let_def deref_simps
    by (auto intro!: returns_attempt getRole_returns cleanAttachedPolicies_returns tolerate_returns
        split: option.split)
qed

lemma iam_service:
  "access_role_service (IAM_service (NewIamService iam acc cl)) (IAM_role_ready roles (NewIamService iam acc cl))
     (IAM_role_gone roles) storage"
  by (rule iamsvc.access_role_service_axioms)

end

end
