(* ===== verification/AWS_Service.thy ===== *)
theory AWS_Service
  imports AWS_Cluster AWS_IAM
begin

text \<open>
  The AWS service factory (\<^verbatim>\<open>src/internal/pkg/service/objectstorage/cloud/aws/service.go\<close>). Loading the SDK
  configuration, attaching the credentials of an assumed role to it, parsing an ARN and making the
  clients from a configuration are SDK functions, the parameter record \<open>aws_sdk\<close>; a configuration is
  an opaque value.
\<close>

record ('c, 'p, 'g) aws_sdk =
  sdk_LoadDefaultConfig :: "string \<Rightarrow> ('c, 'g) api"
  sdk_AssumeRole :: "'g \<Rightarrow> string \<Rightarrow> 'g"
  sdk_arn_Parse :: "string \<Rightarrow> go_error + string"
  sdk_iam_NewFromConfig :: "'g \<Rightarrow> 'c iam_client"
  sdk_s3_NewFromConfig :: "'g \<Rightarrow> ('c, 'p) s3_client"

definition AWS_NewAccessRoleService ::
  "('c, 'p, 'g) aws_sdk \<Rightarrow> Cluster \<Rightarrow> (('k, 'c) world, go_error + ('k, 'c) world AccessRoleService) prog" where
  "AWS_NewAccessRoleService sdk cluster =
     attempt (onCloud (sdk_LoadDefaultConfig sdk (GetRegion cluster)))
       (Errorf_w (''failed to load AWS config for cluster '' @ GetName cluster @ '' in region '' @
          GetRegion cluster @ '': '')) (\<lambda>cfg.
     case as_AWSCredentials (GetCredentials cluster) of
       None \<Rightarrow> ret (Inl (ErrorString
         (''failed to cast cluster credentials to AWS credentials for cluster '' @ GetName cluster)))
     | Some awsCredentials \<Rightarrow>
       (let cfg' = sdk_AssumeRole sdk cfg (Role awsCredentials) in
        attempt (ret (sdk_arn_Parse sdk (Role awsCredentials)))
          (Errorf_w (''failed to parse AWS role ARN '' @ Role awsCredentials @ '' for cluster '' @
             GetName cluster @ '': '')) (\<lambda>account.
        case as_AWSCluster cluster of
          None \<Rightarrow> ret (Inl (ErrorString
            (''failed to cast cluster to AWS cluster for cluster '' @ GetName cluster)))
        | Some awscluster \<Rightarrow>
            ret (Inr (IAM_service (NewIamService (sdk_iam_NewFromConfig sdk cfg') account awscluster))))))"

definition AWS_NewObjectStorageService ::
  "('c, 'p, 'g) aws_sdk \<Rightarrow> Cluster \<Rightarrow> (('k, 'c) world, go_error + ('k, 'c) world ObjectStorageService) prog" where
  "AWS_NewObjectStorageService sdk cluster =
     attempt (onCloud (sdk_LoadDefaultConfig sdk (GetRegion cluster)))
       (Errorf_w (''failed to load AWS config for cluster '' @ GetName cluster @ '' in region '' @
          GetRegion cluster @ '': '')) (\<lambda>cfg.
     case as_AWSCredentials (GetCredentials cluster) of
       None \<Rightarrow> ret (Inl (ErrorString
         (''failed to cast cluster credentials to AWS credentials for cluster '' @ GetName cluster)))
     | Some awsCredentials \<Rightarrow>
       (let cfg' = sdk_AssumeRole sdk cfg (Role awsCredentials) in
        case as_AWSCluster cluster of
          None \<Rightarrow> ret (Inl (ErrorString
            (''failed to cast cluster to AWS cluster for cluster '' @ GetName cluster)))
        | Some awscluster \<Rightarrow>
            ret (Inr (S3_service (NewS3Service (sdk_s3_NewFromConfig sdk cfg') awscluster)))))"

definition AWSObjectStorageService :: "('c, 'p, 'g) aws_sdk \<Rightarrow> ('k, 'c) world ObjectStorageServiceFactory" where
  "AWSObjectStorageService sdk =
     \<lparr>NewObjectStorageService = AWS_NewObjectStorageService sdk,
      NewAccessRoleService = AWS_NewAccessRoleService sdk\<rparr>"

text \<open>On an AWS cluster both type assertions succeed: what remains is the SDK.\<close>

lemma AWS_NewObjectStorageService_run:
  "AWS_NewObjectStorageService sdk (DynAWSCluster cl) w =
     (case sdk_LoadDefaultConfig sdk (aws_Region cl) (cloud w) of
        (Inl e, c) \<Rightarrow> Some (Val (Inl (Errorf_w (''failed to load AWS config for cluster '' @ aws_Name cl @
           '' in region '' @ aws_Region cl @ '': '') e)), w\<lparr>cloud := c\<rparr>)
      | (Inr cfg, c) \<Rightarrow> Some (Val (Inr (S3_service (NewS3Service
           (sdk_s3_NewFromConfig sdk (sdk_AssumeRole sdk cfg (Role (aws_Credentials cl)))) cl))),
           w\<lparr>cloud := c\<rparr>))"
  by (auto simp: AWS_NewObjectStorageService_def run_simps split: prod.splits sum.splits)

lemma AWS_NewAccessRoleService_run:
  "AWS_NewAccessRoleService sdk (DynAWSCluster cl) w =
     (case sdk_LoadDefaultConfig sdk (aws_Region cl) (cloud w) of
        (Inl e, c) \<Rightarrow> Some (Val (Inl (Errorf_w (''failed to load AWS config for cluster '' @ aws_Name cl @
           '' in region '' @ aws_Region cl @ '': '') e)), w\<lparr>cloud := c\<rparr>)
      | (Inr cfg, c) \<Rightarrow> Some (Val (case sdk_arn_Parse sdk (Role (aws_Credentials cl)) of
           Inl e \<Rightarrow> Inl (Errorf_w (''failed to parse AWS role ARN '' @ Role (aws_Credentials cl) @
             '' for cluster '' @ aws_Name cl @ '': '') e)
         | Inr account \<Rightarrow> Inr (IAM_service (NewIamService
             (sdk_iam_NewFromConfig sdk (sdk_AssumeRole sdk cfg (Role (aws_Credentials cl)))) account cl))),
           w\<lparr>cloud := c\<rparr>))"
  by (auto simp: AWS_NewAccessRoleService_def run_simps Let_def split: prod.splits sum.splits)

end
