(* ===== verification/Azure_Cluster.thy ===== *)
theory Azure_Cluster
  imports Cluster_API
begin

text \<open>
  \<^verbatim>\<open>AzureClusterGetter\<close> (\<^verbatim>\<open>src/internal/pkg/service/objectstorage/cloud/azure/cluster.go\<close>): the Azure
  management cluster is read from the \<^verbatim>\<open>AzureCluster\<close> object named by the flags, the
  \<^verbatim>\<open>AzureClusterIdentity\<close> object it refers to and, for a service principal, the secret that object
  refers to.
\<close>

definition Azure_Group :: string where "Azure_Group = ''infrastructure.cluster.x-k8s.io''"
definition Azure_KindCluster :: string where "Azure_KindCluster = ''AzureCluster''"
definition Azure_VersionCluster :: string where "Azure_VersionCluster = ''v1beta1''"
definition Azure_KindClusterIdentity :: string where "Azure_KindClusterIdentity = ''AzureClusterIdentity''"
definition Azure_VersionClusterIdentity :: string where "Azure_VersionClusterIdentity = ''v1beta1''"
definition ClientSecretKeyName :: string where "ClientSecretKeyName = ''clientSecret''"

text \<open>The zero value of \<^verbatim>\<open>corev1.Secret\<close>.\<close>

definition empty_secret :: Secret where
  "empty_secret = \<lparr>secret_Name = [], secret_Namespace = [], secret_Labels = [], secret_Finalizers = [],
     secret_Data = []\<rparr>"

definition Azure_getClusterCR ::
  "'k Client \<Rightarrow> ManagementCluster \<Rightarrow> (('k, 'c) world, go_error + uvalue) prog" where
  "Azure_getClusterCR client mc =
     attempt (onKube (Get_Unstructured client
         \<lparr>gvk_Group = Azure_Group, gvk_Version = Azure_VersionCluster, gvk_Kind = Azure_KindCluster\<rparr>
         (ToObjectKey mc (mc_Name mc) (mc_Namespace mc))))
       (Errorf_w (''failed to get AzureCluster CR '' @ mc_Namespace mc @ ''/'' @ mc_Name mc @ '': ''))
       (\<lambda>cluster. ret (Inr cluster))"

definition Azure_getClusterCRIdentity ::
  "'k Client \<Rightarrow> ManagementCluster \<Rightarrow> string \<Rightarrow> string \<Rightarrow> (('k, 'c) world, go_error + uvalue) prog" where
  "Azure_getClusterCRIdentity client mc clusterIdentityName clusterIdentityNamespace =
     attempt (onKube (Get_Unstructured client
         \<lparr>gvk_Group = Azure_Group, gvk_Version = Azure_VersionClusterIdentity, gvk_Kind = Azure_KindClusterIdentity\<rparr>
         (ToObjectKey mc clusterIdentityName clusterIdentityNamespace)))
       (Errorf_w (''failed to get AzureClusterIdentity CR '' @ clusterIdentityNamespace @ ''/'' @
          clusterIdentityName @ '': ''))
       (\<lambda>clusterIdentity. ret (Inr clusterIdentity))"

text \<open>
  \<^verbatim>\<open>x, found, err := unstructured.NestedString(...); if !found || err != nil { return fmt.Errorf("...: %w", err) }\<close>:
  where the field is missing the error is nil, and it is wrapped all the same.
\<close>

definition required_field ::
  "go_error + string option \<Rightarrow> string \<Rightarrow> (string \<Rightarrow> ('w, go_error + 'b) prog) \<Rightarrow> ('w, go_error + 'b) prog" where
  "required_field r msg k =
     (case r of
        Inl err \<Rightarrow> ret (Inl (WrapError msg (Some err)))
      | Inr None \<Rightarrow> ret (Inl (WrapError msg None))
      | Inr (Some x) \<Rightarrow> k x)"

text \<open>The \<^verbatim>\<open>switch typeIdentity\<close>: the client id, the tenant id and the secret of the identity.\<close>

definition Azure_identity ::
  "'k Client \<Rightarrow> kube_lib \<Rightarrow> string \<Rightarrow> uvalue \<Rightarrow> string \<Rightarrow>
     (('k, 'c) world, go_error + string \<times> string \<times> Secret) prog" where
  "Azure_identity client lib iname clusterIdentity typeIdentity =
     (let missing = (\<lambda>field. ''missing or incorrect '' @ field @ '' in AzureClusterIdentity '' @ iname @ '': '');
          nested = NestedString lib clusterIdentity in
      if typeIdentity = ''UserAssignedMSI'' then
        required_field (nested [''spec'', ''clientID'']) (missing ''clientID'') (\<lambda>clientID.
        ret (Inr (clientID, [], empty_secret)))
      else if typeIdentity = ''ManualServicePrincipal'' then
        required_field (nested [''spec'', ''tenantID'']) (missing ''tenantID'') (\<lambda>tenantID.
        required_field (nested [''spec'', ''clientID'']) (missing ''clientID'') (\<lambda>clientID.
        required_field (nested [''spec'', ''clientSecret'', ''name'']) (missing ''clientSecret.name'') (\<lambda>clientSecretName.
        required_field (nested [''spec'', ''clientSecret'', ''namespace'']) (missing ''clientSecret.namespace'') (\<lambda>clientSecretNamespace.
        attempt (onKube (Get_Secret client
            \<lparr>key_Namespace = clientSecretNamespace, key_Name = clientSecretName\<rparr>))
          (Errorf_w (''failed to get client secret '' @ clientSecretNamespace @ ''/'' @ clientSecretName @
             '' for AzureClusterIdentity '' @ iname @ '': '')) (\<lambda>secret.
        ret (Inr (clientID, tenantID, secret)))))))
      else if typeIdentity = ''WorkloadIdentity'' then
        required_field (nested [''spec'', ''tenantID'']) (missing ''tenantID'') (\<lambda>tenantID.
        required_field (nested [''spec'', ''clientID'']) (missing ''clientID'') (\<lambda>clientID.
        ret (Inr (clientID, tenantID, empty_secret))))
      else ret (Inl (ErrorString (''unsupported identity type '' @ typeIdentity @
             '' in AzureClusterIdentity '' @ iname))))"

definition Azure_GetCluster ::
  "'k Client \<Rightarrow> kube_lib \<Rightarrow> ManagementCluster \<Rightarrow> ('k, 'c) world ClusterGetter" where
  "Azure_GetCluster client lib mc =
     (let nn = mc_Namespace mc @ ''/'' @ mc_Name mc in
      attempt (Azure_getClusterCR client mc)
       (Errorf_w (''missing management cluster AzureCluster CR for cluster '' @ mc_Name mc @
          '' in namespace '' @ mc_Namespace mc @ '': '')) (\<lambda>cluster.
      attempt (ret (NestedString lib cluster [''spec'', ''identityRef'', ''name'']))
       (Errorf_w (''failed to get identity name from AzureCluster '' @ nn @ '': '')) (\<lambda>foundName.
      case foundName of
        None \<Rightarrow> ret (Inl (ErrorString (''missing management cluster identityRef for cluster '' @ nn)))
      | Some clusterIdentityName \<Rightarrow>
        if clusterIdentityName = [] then
          ret (Inl (ErrorString (''missing management cluster identityRef for cluster '' @ nn)))
        else
          attempt (ret (NestedString lib cluster [''spec'', ''identityRef'', ''namespace'']))
           (Errorf_w (''failed to get identity namespace from AzureCluster '' @ nn @ '': '')) (\<lambda>foundNamespace.
          let clusterIdentityNamespace =
                (case foundNamespace of None \<Rightarrow> mc_Namespace mc
                 | Some ns \<Rightarrow> if ns = [] then mc_Namespace mc else ns);
              iname = clusterIdentityNamespace @ ''/'' @ clusterIdentityName in
          attempt (Azure_getClusterCRIdentity client mc clusterIdentityName clusterIdentityNamespace)
           (Errorf_w (''missing management cluster identity AzureClusterIdentity CR '' @ iname @
              '' for cluster '' @ nn @ '': '')) (\<lambda>clusterIdentity.
          attempt (ret (NestedStringMap lib cluster [''spec'', ''additionalTags'']))
           (Errorf_w (''failed to get additional tags from AzureCluster '' @ nn @ '': '')) (\<lambda>foundTags.
          required_field (NestedString lib cluster [''spec'', ''resourceGroup''])
           (''missing or incorrect resourceGroup in AzureCluster '' @ nn @ '': '') (\<lambda>resourceGroup.
          required_field (NestedString lib cluster [''spec'', ''subscriptionID''])
           (''missing or incorrect subscriptionID in AzureCluster '' @ nn @ '': '') (\<lambda>subscriptionID.
          required_field (NestedString lib clusterIdentity [''spec'', ''type''])
           (''missing or incorrect identity type in AzureClusterIdentity '' @ iname @ '': '') (\<lambda>typeIdentity.
          attempt (Azure_identity client lib iname clusterIdentity typeIdentity) (\<lambda>err. err)
           (\<lambda>(clientID, tenantID, secret).
          ret (Inr (DynAzureCluster
            \<lparr>az_Name = mc_Name mc, az_Namespace = mc_Namespace mc, az_BaseDomain = mc_BaseDomain mc,
             az_Region = mc_Region mc,
             az_Tags = (case foundTags of None \<Rightarrow> [] | Some tags \<Rightarrow> tags),
             az_Credentials = \<lparr>ResourceGroup = resourceGroup, SubscriptionID = subscriptionID,
               TypeIdentity = typeIdentity, ClientID = clientID, TenantID = tenantID,
               SecretRef = secret\<rparr>\<rparr>))))))))))))"

section \<open>What the getter guarantees\<close>

lemma required_field_Inr_iff [simp]:
  "required_field r msg k w = Some (Val (Inr z), w') \<longleftrightarrow>
     (\<exists>x. r = Inr (Some x) \<and> k x w = Some (Val (Inr z), w'))"
  by (auto simp: required_field_def split: sum.splits option.splits)

lemma returns_required_field [returns_intros]:
  "(\<And>x. returns (k x) w) \<Longrightarrow> returns (required_field r msg k) w"
  by (auto simp: required_field_def split: sum.splits option.splits)

lemma keeps_required_field [keeps_intros]:
  "(\<And>x. keeps I (k x)) \<Longrightarrow> keeps I (required_field r msg k)"
  by (auto simp: required_field_def split: sum.splits option.splits)

lemma Azure_getCRs_returns [returns_intros]:
  "returns (Azure_getClusterCR client mc) w"
  "returns (Azure_getClusterCRIdentity client mc n ns) w"
  unfolding Azure_getClusterCR_def Azure_getClusterCRIdentity_def by (intro returns_intros)+

lemma Azure_identity_returns [returns_intros]: "returns (Azure_identity client lib iname ci t) w"
  unfolding Azure_identity_def Let_def by (auto intro!: returns_intros)

lemma Azure_GetCluster_returns: "returns (Azure_GetCluster client lib mc) w"
  unfolding Azure_GetCluster_def Let_def
  by (auto intro!: returns_intros split: option.split prod.split)

lemma Azure_GetCluster_keeps:
  assumes "\<And>gvk key. keeps I (onKube (Get_Unstructured client gvk key))"
    and "\<And>key. keeps I (onKube (Get_Secret client key))"
  shows "keeps I (Azure_GetCluster client lib mc)"
proof -
  have "keeps I (Azure_identity client lib iname ci t)" for iname ci t
    unfolding Azure_identity_def Let_def by (auto intro!: keeps_intros assms)
  then show ?thesis
    unfolding Azure_GetCluster_def Azure_getClusterCR_def Azure_getClusterCRIdentity_def Let_def
    by (auto intro!: keeps_attempt keeps_required_field assms split: option.split prod.split)
qed

definition supported_identity :: "string \<Rightarrow> bool" where
  "supported_identity t \<longleftrightarrow> t \<in> {''UserAssignedMSI'', ''ManualServicePrincipal'', ''WorkloadIdentity''}"

lemma Azure_identity_supported:
  "Azure_identity client lib iname ci t w = Some (Val (Inr r), w') \<Longrightarrow> supported_identity t"
  by (auto simp: Azure_identity_def Let_def supported_identity_def split: if_splits)

interpretation azure_getter: cluster_getter Azure_GetCluster
    "\<lambda>cl. \<exists>c. cl = DynAzureCluster c \<and> supported_identity (TypeIdentity (az_Credentials c))"
proof (unfold_locales, goal_cases)
  case 1 show ?case by (rule Azure_GetCluster_returns)
next
  case 2 show ?case by (rule Azure_GetCluster_keeps) simp_all
next
  case (3 client k lib mc)
  then show ?case by (intro Azure_GetCluster_keeps keeps_kube_read) simp_all
next
  case (4 client lib mc w cl w')
  then show ?case
    by (auto simp: Azure_GetCluster_def Let_def dest!: Azure_identity_supported split: prod.splits)
qed

end
