(* ===== verification/Azure_Storage.thy ===== *)
theory Azure_Storage
  imports Service_API
begin

text \<open>
  The Azure storage adapter: \<^verbatim>\<open>storage.go\<close>, \<^verbatim>\<open>storageaccount.go\<close>, \<^verbatim>\<open>container.go\<close>, \<^verbatim>\<open>privateendpoint.go\<close>
  and \<^verbatim>\<open>tags.go\<close> under \<^verbatim>\<open>src/internal/pkg/service/objectstorage/cloud/azure\<close>. The clients of the Azure SDK are
  the parameter record \<open>azure_sdk\<close>, with a type for the pollers of long-running operations; the
  functions of other libraries (\<^verbatim>\<open>go-sanitize\<close>, \<^verbatim>\<open>truncate\<close>, \<^verbatim>\<open>yaml\<close>) are the record \<open>azure_lib\<close>. Pointers in the
  SDK's answers that the code dereferences are options, and a nil one panics.
\<close>

section \<open>Data\<close>

text \<open>The constants of \<^verbatim>\<open>armstorage\<close> the code names.\<close>

datatype armstorage_const =
    KindBlobStorage | SKUNameStandardLRS | AccessTierHot | KeyTypeAccount | KeySourceMicrosoftStorage
  | MinimumTLSVersionTLS12 | PublicNetworkAccessEnabled | PublicNetworkAccessDisabled
  | PublicAccessNone | RuleTypeLifecycle

record AccountCreateParameters =
  ac_Kind :: armstorage_const
  ac_SKU :: armstorage_const
  ac_Location :: string
  ac_AllowSharedKeyAccess :: bool
  ac_AccessTier :: armstorage_const
  ac_BlobKeyType :: armstorage_const
  ac_BlobEncryption :: bool
  ac_KeySource :: armstorage_const
  ac_EnableHTTPSTrafficOnly :: bool
  ac_MinimumTLSVersion :: armstorage_const
  ac_PublicNetworkAccess :: armstorage_const
  ac_Tags :: go_map

record BlobContainer =
  bc_PublicAccess :: "armstorage_const option"
  bc_Metadata :: go_map

record ManagementPolicyRule =
  mp_Enabled :: bool
  mp_Name :: string
  mp_Type :: armstorage_const
  mp_DaysAfterModificationGreaterThan :: int
  mp_BlobTypes :: "string list"

record CustomDNSConfig =
  IPAddresses :: "string option list option"

record PrivateEndpoint =
  pe_Name :: "string option"
  pe_CustomDNSConfigs :: "CustomDNSConfig option list option"

record PrivateEndpointParameters =
  pp_Location :: string
  pp_CustomNetworkInterfaceName :: string
  pp_ConnectionName :: string
  pp_PrivateLinkServiceID :: string
  pp_GroupIDs :: "string list"
  pp_SubnetID :: string
  pp_Tags :: go_map

record RecordSet =
  rs_ARecords :: "string list"
  rs_TTL :: int
  rs_Metadata :: go_map

record AccountKey =
  ak_KeyName :: "string option"
  ak_Value :: "string option"

text \<open>The anonymous struct the user values are unmarshalled into.\<close>

record nc_network = nc_Mode :: "string option"
record nc_connectivity = nc_Network :: "nc_network option"
record nc_global = nc_Connectivity :: "nc_connectivity option"
record networkingConfig = nc_Global :: "nc_global option"

datatype truncate_position = PositionStart | PositionMiddle | PositionEnd

record azure_lib =
  sanitize_AlphaNumeric :: "string \<Rightarrow> bool \<Rightarrow> string"
  truncate_Truncate :: "string \<Rightarrow> nat \<Rightarrow> string \<Rightarrow> truncate_position \<Rightarrow> string"
  yaml_Unmarshal :: "string \<Rightarrow> go_error + networkingConfig"

record ('c, 'q) azure_sdk =
  arm_ManagementPolicyNameDefault :: string
  sdk_CheckNameAvailability :: "string \<Rightarrow> string \<Rightarrow> ('c, bool option) api"
  sdk_BeginCreate :: "string \<Rightarrow> string \<Rightarrow> AccountCreateParameters \<Rightarrow> ('c, 'q) api"
  sdk_PollAccount :: "'q \<Rightarrow> ('c, unit) api"
  sdk_DeleteAccount :: "string \<Rightarrow> string \<Rightarrow> ('c, unit) api"
  sdk_ListKeys :: "string \<Rightarrow> string \<Rightarrow> ('c, AccountKey option list) api"
  sdk_GetContainer :: "string \<Rightarrow> string \<Rightarrow> string \<Rightarrow> ('c, unit) api"
  sdk_CreateContainer :: "string \<Rightarrow> string \<Rightarrow> string \<Rightarrow> BlobContainer \<Rightarrow> ('c, unit) api"
  sdk_UpdateContainer :: "string \<Rightarrow> string \<Rightarrow> string \<Rightarrow> BlobContainer \<Rightarrow> ('c, unit) api"
  sdk_CreateOrUpdatePolicy :: "string \<Rightarrow> string \<Rightarrow> string \<Rightarrow> ManagementPolicyRule list \<Rightarrow> ('c, unit) api"
  sdk_DeletePolicy :: "string \<Rightarrow> string \<Rightarrow> string \<Rightarrow> ('c, unit) api"
  sdk_BeginCreateOrUpdateEndpoint :: "string \<Rightarrow> string \<Rightarrow> PrivateEndpointParameters \<Rightarrow> ('c, 'q) api"
  sdk_PollEndpoint :: "'q \<Rightarrow> ('c, PrivateEndpoint) api"
  sdk_CreateOrUpdateRecordSet :: "string \<Rightarrow> string \<Rightarrow> string \<Rightarrow> RecordSet \<Rightarrow> ('c, RecordSet) api"

record ('k, 'c, 'q) AzureObjectStorageAdapter =
  az_sdk :: "('c, 'q) azure_sdk"
  az_cluster :: AzureCluster
  az_client :: "'k Client"
  az_kube_lib :: kube_lib
  az_lib :: azure_lib

definition NewAzureStorageService ::
  "('c, 'q) azure_sdk \<Rightarrow> AzureCluster \<Rightarrow> 'k Client \<Rightarrow> kube_lib \<Rightarrow> azure_lib \<Rightarrow>
     ('k, 'c, 'q) AzureObjectStorageAdapter" where
  "NewAzureStorageService sdk cluster client klib lib =
     \<lparr>az_sdk = sdk, az_cluster = cluster, az_client = client, az_kube_lib = klib, az_lib = lib\<rparr>"

definition LifecycleRuleName :: string where
  "LifecycleRuleName = ''ExpirationLogging''"

definition privateZoneID :: string where
  "privateZoneID = ''privatelink.blob.core.windows.net''"

section \<open>Names and tags\<close>

definition sanitizeStorageAccountName :: "azure_lib \<Rightarrow> string \<Rightarrow> string" where
  "sanitizeStorageAccountName lib name =
     truncate_Truncate lib (sanitize_AlphaNumeric lib name False) 24 '''' PositionEnd"

definition sanitizeTagKey :: "string \<Rightarrow> string" where
  "sanitizeTagKey tagName = strings_ReplaceAll tagName ''-'' ''_''"

definition put_tag :: "string \<Rightarrow> string \<Rightarrow> go_map \<Rightarrow> go_map" where
  "put_tag key value tags =
     (if key \<noteq> '''' \<and> value \<noteq> '''' then map_put (sanitizeTagKey key) value tags else tags)"

definition getBucketTags :: "go_map \<Rightarrow> Bucket \<Rightarrow> go_map" where
  "getBucketTags clusterTags bucket =
     fold (\<lambda>(key, value). put_tag key value) clusterTags
       (fold (\<lambda>tag. put_tag (tag_Key tag) (tag_Value tag)) (spec_Tags (Spec bucket)) [])"

abbreviation az_tags :: "('k, 'c, 'q) AzureObjectStorageAdapter \<Rightarrow> Bucket \<Rightarrow> go_map" where
  "az_tags s bucket \<equiv> getBucketTags (az_Tags (az_cluster s)) bucket"

abbreviation az_rg :: "('k, 'c, 'q) AzureObjectStorageAdapter \<Rightarrow> string" where
  "az_rg s \<equiv> AzureCluster_GetResourceGroup (az_cluster s)"

abbreviation az_account_name :: "('k, 'c, 'q) AzureObjectStorageAdapter \<Rightarrow> Bucket \<Rightarrow> string" where
  "az_account_name s bucket \<equiv> sanitizeStorageAccountName (az_lib s) (bucket_name bucket)"

section \<open>The storage account\<close>

definition Azure_existsStorageAccount ::
  "('k, 'c, 'q) AzureObjectStorageAdapter \<Rightarrow> string \<Rightarrow> (('k, 'c) world, go_error + bool) prog" where
  "Azure_existsStorageAccount s storageAccountName =
     attempt (onCloud (sdk_CheckNameAvailability (az_sdk s) storageAccountName
         ''Microsoft.Storage/storageAccounts''))
       (Errorf_w (''failed to check name availability for storage account '' @ storageAccountName @ '': ''))
       (\<lambda>nameAvailable. deref nameAvailable (\<lambda>available. ret (Inr (\<not> available))))"

definition Azure_accountParameters ::
  "('k, 'c, 'q) AzureObjectStorageAdapter \<Rightarrow> Bucket \<Rightarrow> bool \<Rightarrow> AccountCreateParameters" where
  "Azure_accountParameters s bucket isPrivateManagementCluster =
     \<lparr>ac_Kind = KindBlobStorage, ac_SKU = SKUNameStandardLRS, ac_Location = az_Region (az_cluster s),
      ac_AllowSharedKeyAccess = True, ac_AccessTier = AccessTierHot, ac_BlobKeyType = KeyTypeAccount,
      ac_BlobEncryption = True, ac_KeySource = KeySourceMicrosoftStorage,
      ac_EnableHTTPSTrafficOnly = True, ac_MinimumTLSVersion = MinimumTLSVersionTLS12,
      ac_PublicNetworkAccess =
        (if isPrivateManagementCluster then PublicNetworkAccessDisabled else PublicNetworkAccessEnabled),
      ac_Tags = az_tags s bucket\<rparr>"

definition Azure_upsertStorageAccount ::
  "('k, 'c, 'q) AzureObjectStorageAdapter \<Rightarrow> Bucket \<Rightarrow> string \<Rightarrow> bool \<Rightarrow>
     (('k, 'c) world, go_error + unit) prog" where
  "Azure_upsertStorageAccount s bucket storageAccountName isPrivateManagementCluster =
     attempt (Azure_existsStorageAccount s storageAccountName)
       (Errorf_w (''failed to check if storage account '' @ storageAccountName @ '' exists: '')) (\<lambda>_.
     attempt (onCloud (sdk_BeginCreate (az_sdk s) (az_rg s) storageAccountName
         (Azure_accountParameters s bucket isPrivateManagementCluster)))
       (Errorf_w (''failed to begin create storage account '' @ storageAccountName @ '': '')) (\<lambda>poller.
     attempt (onCloud (sdk_PollAccount (az_sdk s) poller))
       (Errorf_w (''failed to complete storage account '' @ storageAccountName @ '' creation: '')) (\<lambda>_.
     ret (Inr ()))))"

definition Azure_deleteStorageAccount ::
  "('k, 'c, 'q) AzureObjectStorageAdapter \<Rightarrow> Bucket \<Rightarrow> string \<Rightarrow> (('k, 'c) world, go_error + unit) prog" where
  "Azure_deleteStorageAccount s bucket storageAccountName =
     attempt (onCloud (sdk_DeleteAccount (az_sdk s) (az_rg s) storageAccountName))
       (Errorf_w (''failed to delete storage account '' @ storageAccountName @ '' for bucket '' @
          bucket_name bucket @ '': '')) (\<lambda>_. ret (Inr ()))"

text \<open>
  The Go conversion \<^verbatim>\<open>float32(d)\<close> of an integer: the nearest number with a significand of 24 bits, ties
  to even. The value of the result is again an integer.
\<close>

definition float32_of_int :: "int \<Rightarrow> int" where
  "float32_of_int d =
     (let a = \<bar>d\<bar>;
          u = (if a < 2 ^ 24 then 1 else if a < 2 ^ 25 then 2 else if a < 2 ^ 26 then 4
               else if a < 2 ^ 27 then 8 else if a < 2 ^ 28 then 16 else if a < 2 ^ 29 then 32
               else if a < 2 ^ 30 then 64 else if a < 2 ^ 31 then 128 else 256);
          q = a div u; r = a mod u;
          m = (if 2 * r > u \<or> 2 * r = u \<and> odd q then q + 1 else q)
      in sgn d * (m * u))"

definition Azure_lifecycleRule :: "BucketExpirationPolicy \<Rightarrow> ManagementPolicyRule" where
  "Azure_lifecycleRule policy =
     \<lparr>mp_Enabled = True, mp_Name = LifecycleRuleName, mp_Type = RuleTypeLifecycle,
      mp_DaysAfterModificationGreaterThan = float32_of_int (sint (Days policy)),
      mp_BlobTypes = [''blockBlob'']\<rparr>"

definition Azure_setLifecycleRules ::
  "('k, 'c, 'q) AzureObjectStorageAdapter \<Rightarrow> Bucket \<Rightarrow> (('k, 'c) world, go_error + unit) prog" where
  "Azure_setLifecycleRules s bucket =
     (let storageAccountName = az_account_name s bucket in
      case ExpirationPolicy (Spec bucket) of
        Some policy \<Rightarrow>
          attempt (onCloud (sdk_CreateOrUpdatePolicy (az_sdk s) (az_rg s) storageAccountName
              (arm_ManagementPolicyNameDefault (az_sdk s)) [Azure_lifecycleRule policy]))
            (Errorf_w (''failed to create/update lifecycle policy for storage account '' @ storageAccountName @ '': ''))
            (\<lambda>_. ret (Inr ()))
      | None \<Rightarrow>
          andThen (onCloud (sdk_DeletePolicy (az_sdk s) (az_rg s) storageAccountName LifecycleRuleName)) (\<lambda>r.
          case r of
            Inr _ \<Rightarrow> ret (Inr ())
          | Inl err \<Rightarrow>
              if errors_As_ResponseError err = Some 404 then ret (Inr ())
              else ret (Inl (Errorf_w (''failed to delete lifecycle policy for storage account '' @
                     storageAccountName @ '': '') err))))"

section \<open>The container\<close>

definition Azure_existsContainer ::
  "('k, 'c, 'q) AzureObjectStorageAdapter \<Rightarrow> Bucket \<Rightarrow> string \<Rightarrow> (('k, 'c) world, go_error + bool) prog" where
  "Azure_existsContainer s bucket storageAccountName =
     andThen (onCloud (sdk_GetContainer (az_sdk s) (az_rg s) storageAccountName (bucket_name bucket))) (\<lambda>r.
     case r of
       Inr _ \<Rightarrow> ret (Inr True)
     | Inl err \<Rightarrow>
         if errors_As_ResponseError err = Some 404 then ret (Inr False) else ret (Inl err))"

definition Azure_upsertContainer ::
  "('k, 'c, 'q) AzureObjectStorageAdapter \<Rightarrow> Bucket \<Rightarrow> string \<Rightarrow> (('k, 'c) world, go_error + unit) prog" where
  "Azure_upsertContainer s bucket storageAccountName =
     attempt (Azure_existsContainer s bucket storageAccountName)
       (Errorf_w (''failed to check if container '' @ bucket_name bucket @ '' exists in storage account '' @
          storageAccountName @ '': '')) (\<lambda>existsContainer.
     if \<not> existsContainer then
       attempt (onCloud (sdk_CreateContainer (az_sdk s) (az_rg s) storageAccountName (bucket_name bucket)
           \<lparr>bc_PublicAccess = Some PublicAccessNone, bc_Metadata = az_tags s bucket\<rparr>))
         (Errorf_w (''failed to create storage container '' @ bucket_name bucket @ '' in storage account '' @
            storageAccountName @ '': '')) (\<lambda>_. ret (Inr ()))
     else
       attempt (onCloud (sdk_UpdateContainer (az_sdk s) (az_rg s) storageAccountName (bucket_name bucket)
           \<lparr>bc_PublicAccess = None, bc_Metadata = az_tags s bucket\<rparr>))
         (Errorf_w (''failed to update storage container '' @ bucket_name bucket @ '' in storage account '' @
            storageAccountName @ '': '')) (\<lambda>_. ret (Inr ())))"

section \<open>The private endpoint\<close>

text \<open>The addresses of all DNS configurations, in order; \<open>None\<close> where a nil pointer is dereferenced.\<close>

fun deref_all :: "'a option list \<Rightarrow> 'a list option" where
  "deref_all [] = Some []"
| "deref_all (None # ps) = None"
| "deref_all (Some a # ps) = map_option ((#) a) (deref_all ps)"

fun endpoint_ips :: "CustomDNSConfig option list \<Rightarrow> string list option" where
  "endpoint_ips [] = Some []"
| "endpoint_ips (None # cs) = None"
| "endpoint_ips (Some c # cs) =
     (case IPAddresses c of
        None \<Rightarrow> endpoint_ips cs
      | Some ps \<Rightarrow>
         (case deref_all ps of None \<Rightarrow> None | Some ips \<Rightarrow> map_option ((@) ips) (endpoint_ips cs)))"

definition Azure_upsertPrivateEndpointARecords ::
  "('k, 'c, 'q) AzureObjectStorageAdapter \<Rightarrow> Bucket \<Rightarrow> PrivateEndpoint \<Rightarrow> string \<Rightarrow>
     (('k, 'c) world, go_error + RecordSet) prog" where
  "Azure_upsertPrivateEndpointARecords s bucket privateEndpoint storageAccountName =
     deref (pe_Name privateEndpoint) (\<lambda>_.
     deref (pe_CustomDNSConfigs privateEndpoint) (\<lambda>configs.
     deref (endpoint_ips configs) (\<lambda>ips.
     attempt (onCloud (sdk_CreateOrUpdateRecordSet (az_sdk s) (az_rg s) privateZoneID storageAccountName
         \<lparr>rs_ARecords = ips, rs_TTL = 3600, rs_Metadata = az_tags s bucket\<rparr>))
       (\<lambda>err. err) (\<lambda>recordSet. ret (Inr recordSet)))))"

definition Azure_subnetID :: "('k, 'c, 'q) AzureObjectStorageAdapter \<Rightarrow> string" where
  "Azure_subnetID s =
     ''/subscriptions/'' @ AzureCluster_GetSubscriptionID (az_cluster s) @ ''/resourceGroups/'' @ az_rg s @
     ''/providers/Microsoft.Network/virtualNetworks/'' @ AzureCluster_GetVNetName (az_cluster s) @
     ''/subnets/'' @ ''node-subnet''"

definition Azure_endpointParameters ::
  "('k, 'c, 'q) AzureObjectStorageAdapter \<Rightarrow> Bucket \<Rightarrow> string \<Rightarrow> PrivateEndpointParameters" where
  "Azure_endpointParameters s bucket storageAccountName =
     \<lparr>pp_Location = az_Region (az_cluster s),
      pp_CustomNetworkInterfaceName = bucket_name bucket @ ''-nodes-nic'',
      pp_ConnectionName = bucket_name bucket,
      pp_PrivateLinkServiceID =
        ''/subscriptions/'' @ AzureCluster_GetSubscriptionID (az_cluster s) @ ''/resourceGroups/'' @ az_rg s @
        ''/providers/Microsoft.Storage/storageAccounts/'' @ storageAccountName,
      pp_GroupIDs = [''blob''],
      pp_SubnetID = Azure_subnetID s,
      pp_Tags = az_tags s bucket\<rparr>"

definition Azure_upsertPrivateEndpoint ::
  "('k, 'c, 'q) AzureObjectStorageAdapter \<Rightarrow> Bucket \<Rightarrow> string \<Rightarrow>
     (('k, 'c) world, go_error + PrivateEndpoint) prog" where
  "Azure_upsertPrivateEndpoint s bucket storageAccountName =
     attempt (onCloud (sdk_BeginCreateOrUpdateEndpoint (az_sdk s) (az_rg s) (bucket_name bucket)
         (Azure_endpointParameters s bucket storageAccountName))) (\<lambda>err. err) (\<lambda>poller.
     attempt (onCloud (sdk_PollEndpoint (az_sdk s) poller)) (\<lambda>err. err) (\<lambda>privateEndpoint.
     ret (Inr privateEndpoint)))"

section \<open>The service\<close>

definition Azure_ExistsBucket ::
  "('k, 'c, 'q) AzureObjectStorageAdapter \<Rightarrow> Bucket \<Rightarrow> (('k, 'c) world, bool \<times> go_error option) prog" where
  "Azure_ExistsBucket s bucket =
     andThen (Azure_existsStorageAccount s (az_account_name s bucket)) (\<lambda>r.
     case r of
       Inl err \<Rightarrow> ret (False, Some err)
     | Inr existsStorageAccount \<Rightarrow>
         if \<not> existsStorageAccount then ret (False, None)
         else andThen (Azure_existsContainer s bucket (az_account_name s bucket)) (\<lambda>r'.
              case r' of Inl err \<Rightarrow> ret (False, Some err) | Inr ex \<Rightarrow> ret (ex, None)))"

definition isPrivateMode :: "networkingConfig \<Rightarrow> bool" where
  "isPrivateMode cfg =
     (case nc_Global cfg of None \<Rightarrow> False
      | Some g \<Rightarrow> (case nc_Connectivity g of None \<Rightarrow> False
         | Some c \<Rightarrow> (case nc_Network c of None \<Rightarrow> False
            | Some n \<Rightarrow> (case nc_Mode n of None \<Rightarrow> False | Some m \<Rightarrow> m = ''private''))))"

definition Azure_isManagementClusterPrivate ::
  "('k, 'c, 'q) AzureObjectStorageAdapter \<Rightarrow> (('k, 'c) world, go_error + bool) prog" where
  "Azure_isManagementClusterPrivate s =
     andThen (onKube (Get_ConfigMap (az_client s)
         \<lparr>key_Namespace = ''org-giantswarm'', key_Name = az_Name (az_cluster s) @ ''-user-values''\<rparr>)) (\<lambda>r.
     let (err, configMap) = (case r of Inl e \<Rightarrow> (Some e, \<lparr>cm_Data = Map.empty\<rparr>) | Inr cm \<Rightarrow> (None, cm)) in
     if IgnoreNotFound (az_kube_lib s) err \<noteq> None then
       ret (case err of Some e \<Rightarrow> Inl e | None \<Rightarrow> Inr False)
     else if IsNotFound (az_kube_lib s) err then ret (Inr False)
     else
       attempt (ret (yaml_Unmarshal (az_lib s) (case cm_Data configMap ''values'' of None \<Rightarrow> '''' | Some v \<Rightarrow> v)))
         (Errorf_w (''failed to unmarshal network config for cluster '' @ az_Name (az_cluster s) @ '': ''))
         (\<lambda>networkingConfig. ret (Inr (isPrivateMode networkingConfig))))"

text \<open>The secret with the access key, and the function that fills it in.\<close>

definition Azure_secret :: "Bucket \<Rightarrow> Secret" where
  "Azure_secret bucket =
     \<lparr>secret_Name = bucket_name bucket, secret_Namespace = meta_Namespace (ObjectMeta bucket),
      secret_Labels = [(''giantswarm.io/managed-by'', ''object-storage-operator'')],
      secret_Finalizers = [AzureSecretFinalizer], secret_Data = []\<rparr>"

fun Azure_fillSecret :: "string \<Rightarrow> AccountKey option list \<Rightarrow> Secret \<Rightarrow> (go_error + Secret) outcome" where
  "Azure_fillSecret storageAccountName [] secret =
     Val (Inl (ErrorString (''unable to retrieve access keys 'key1' from storage account '' @ storageAccountName)))"
| "Azure_fillSecret storageAccountName (None # ks) secret = Panicked"
| "Azure_fillSecret storageAccountName (Some k # ks) secret =
     (case ak_KeyName k of
        None \<Rightarrow> Panicked
      | Some keyName \<Rightarrow>
          if keyName = ''key1'' then
            (case ak_Value k of
               None \<Rightarrow> Panicked
             | Some v \<Rightarrow> Val (Inr (secret\<lparr>secret_Data :=
                          [(''accountName'', storageAccountName), (''accountKey'', v)]\<rparr>)))
          else Azure_fillSecret storageAccountName ks secret)"

text \<open>The part of \<^verbatim>\<open>CreateBucket\<close> that runs for a private management cluster only.\<close>

definition Azure_privateAccess ::
  "('k, 'c, 'q) AzureObjectStorageAdapter \<Rightarrow> Bucket \<Rightarrow> string \<Rightarrow> (('k, 'c) world, go_error + unit) prog" where
  "Azure_privateAccess s bucket storageAccountName =
     attempt (Azure_upsertPrivateEndpoint s bucket storageAccountName)
       (Errorf_w (''failed to upsert private endpoint for bucket '' @ bucket_name bucket @ '' in storage account '' @
          storageAccountName @ '': '')) (\<lambda>privateEndpoint.
     attempt (Azure_upsertPrivateEndpointARecords s bucket privateEndpoint storageAccountName)
       (Errorf_w (''failed to upsert private endpoint A records for bucket '' @ bucket_name bucket @ '': '')) (\<lambda>_.
     ret (Inr ())))"

definition Azure_CreateBucket ::
  "('k, 'c, 'q) AzureObjectStorageAdapter \<Rightarrow> Bucket \<Rightarrow> (('k, 'c) world, go_error + unit) prog" where
  "Azure_CreateBucket s bucket =
     (let storageAccountName = az_account_name s bucket; name = bucket_name bucket in
      attempt (Azure_isManagementClusterPrivate s)
        (Errorf_w (''failed to check if management cluster is private for bucket '' @ name @ '': '')) (\<lambda>isPrivate.
      attempt (Azure_upsertStorageAccount s bucket storageAccountName isPrivate)
        (Errorf_w (''failed to upsert storage account '' @ storageAccountName @ '' for bucket '' @ name @ '': '')) (\<lambda>_.
      attempt (Azure_upsertContainer s bucket storageAccountName)
        (Errorf_w (''failed to upsert container for bucket '' @ name @ '' in storage account '' @
           storageAccountName @ '': '')) (\<lambda>_.
      attempt
        (if isPrivate then Azure_privateAccess s bucket storageAccountName else ret (Inr ())) (\<lambda>err. err) (\<lambda>_.
      attempt (onCloud (sdk_ListKeys (az_sdk s) (az_rg s) storageAccountName))
        (\<lambda>_. ErrorString (''unable to retrieve access keys from storage account '' @ storageAccountName)) (\<lambda>keys.
      attempt (onKube_callback (CreateOrUpdate_Secret (az_client s) (Azure_secret bucket)
          (Azure_fillSecret storageAccountName keys)))
        (Errorf_w (''failed to create or update secret '' @ name @ '' for bucket '' @ name @ '': '')) (\<lambda>_.
      ret (Inr ()))))))))"

definition Azure_UpdateBucket ::
  "('k, 'c, 'q) AzureObjectStorageAdapter \<Rightarrow> Bucket \<Rightarrow> (('k, 'c) world, go_error + unit) prog" where
  "Azure_UpdateBucket s bucket = Azure_CreateBucket s bucket"

definition Azure_DeleteBucket ::
  "('k, 'c, 'q) AzureObjectStorageAdapter \<Rightarrow> Bucket \<Rightarrow> (('k, 'c) world, go_error + unit) prog" where
  "Azure_DeleteBucket s bucket =
     (let storageAccountName = az_account_name s bucket; name = bucket_name bucket in
      attempt (Azure_deleteStorageAccount s bucket storageAccountName)
        (Errorf_w (''failed to delete storage account '' @ storageAccountName @ '' for bucket '' @ name @ '': '')) (\<lambda>_.
      attempt (onKube (Get_Secret (az_client s)
          \<lparr>key_Namespace = meta_Namespace (ObjectMeta bucket), key_Name = name\<rparr>))
        (Errorf_w (''failed to get secret '' @ name @ '' for bucket '' @ name @ '': '')) (\<lambda>secret.
      let secret' = secret\<lparr>secret_Finalizers :=
            fst (RemoveFinalizer (az_kube_lib s) (secret_Finalizers secret) AzureSecretFinalizer)\<rparr> in
      attempt (onKube (Patch_Secret (az_client s) secret secret'))
        (Errorf_w (''failed to remove finalizer from secret '' @ name @ '' for bucket '' @ name @ '': '')) (\<lambda>patched.
      attempt (onKube (Delete_Secret (az_client s) patched))
        (Errorf_w (''failed to delete secret '' @ name @ '' for bucket '' @ name @ '': '')) (\<lambda>_.
      ret (Inr ()))))))"

definition Azure_ConfigureBucket ::
  "('k, 'c, 'q) AzureObjectStorageAdapter \<Rightarrow> Bucket \<Rightarrow> (('k, 'c) world, go_error + unit) prog" where
  "Azure_ConfigureBucket s bucket = Azure_setLifecycleRules s bucket"

definition Azure_service ::
  "('k, 'c, 'q) AzureObjectStorageAdapter \<Rightarrow> ('k, 'c) world ObjectStorageService" where
  "Azure_service s =
     \<lparr>ConfigureBucket = Azure_ConfigureBucket s, CreateBucket = Azure_CreateBucket s,
      UpdateBucket = Azure_UpdateBucket s, DeleteBucket = Azure_DeleteBucket s,
      ExistsBucket = Azure_ExistsBucket s\<rparr>"

end
