(* ===== verification/Azure_Contract.thy ===== *)
theory Azure_Contract
  imports Azure_Storage
begin

text \<open>
  What the Azure adapter relies on (the locale \<open>azure_api\<close>, the documented behaviour of the Azure resource
  manager, on top of \<open>kube_api\<close>), what its runs guarantee, and that it is an object storage service in
  the sense of the reconciler's contract.
\<close>

section \<open>Runs of the adapter, whatever the SDK does\<close>

lemma NewAzureStorageService_sel [simp]:
  "az_sdk (NewAzureStorageService sdk cl k kl l) = sdk"
  "az_cluster (NewAzureStorageService sdk cl k kl l) = cl"
  "az_client (NewAzureStorageService sdk cl k kl l) = k"
  "az_kube_lib (NewAzureStorageService sdk cl k kl l) = kl"
  "az_lib (NewAzureStorageService sdk cl k kl l) = l"
  by (simp_all add: NewAzureStorageService_def)

lemma deref_Val_iff [simp]:
  "deref p k w = Some (Val r, w') \<longleftrightarrow> (\<exists>a. p = Some a \<and> k a w = Some (Val r, w'))"
  by (cases p) auto

lemma Azure_existsContainer_run:
  "Azure_existsContainer s b n w =
     (case sdk_GetContainer (az_sdk s) (az_rg s) n (bucket_name b) (cloud w) of
        (Inr u, c) \<Rightarrow> Some (Val (Inr True), w\<lparr>cloud := c\<rparr>)
      | (Inl e, c) \<Rightarrow> Some (Val (if errors_As_ResponseError e = Some 404 then Inr False else Inl e),
                     w\<lparr>cloud := c\<rparr>))"
  by (auto simp: Azure_existsContainer_def run_simps split: prod.splits sum.splits)

lemma Azure_setLifecycleRules_run:
  "Azure_setLifecycleRules s b w =
     (case ExpirationPolicy (Spec b) of
        Some p \<Rightarrow>
         (case sdk_CreateOrUpdatePolicy (az_sdk s) (az_rg s) (az_account_name s b)
                 (arm_ManagementPolicyNameDefault (az_sdk s)) [Azure_lifecycleRule p] (cloud w) of
            (Inr u, c) \<Rightarrow> Some (Val (Inr ()), w\<lparr>cloud := c\<rparr>)
          | (Inl e, c) \<Rightarrow> Some (Val (Inl (Errorf_w (''failed to create/update lifecycle policy for storage account '' @
                az_account_name s b @ '': '') e)), w\<lparr>cloud := c\<rparr>))
      | None \<Rightarrow>
         (case sdk_DeletePolicy (az_sdk s) (az_rg s) (az_account_name s b) LifecycleRuleName (cloud w) of
            (Inr u, c) \<Rightarrow> Some (Val (Inr ()), w\<lparr>cloud := c\<rparr>)
          | (Inl e, c) \<Rightarrow> Some (Val (if errors_As_ResponseError e = Some 404 then Inr ()
                else Inl (Errorf_w (''failed to delete lifecycle policy for storage account '' @
                  az_account_name s b @ '': '') e)), w\<lparr>cloud := c\<rparr>)))"
  by (auto simp: Azure_setLifecycleRules_def run_simps Let_def split: option.splits prod.splits sum.splits)

lemma Azure_ExistsBucket_nilD:
  assumes "Azure_ExistsBucket s b w = Some (Val (ex, None), w')"
  shows "\<exists>acc w1. Azure_existsStorageAccount s (az_account_name s b) w = Some (Val (Inr acc), w1) \<and>
    (if acc then Azure_existsContainer s b (az_account_name s b) w1 = Some (Val (Inr ex), w')
     else \<not> ex \<and> w' = w1)"
proof -
  from assms obtain r w1 where acc: "Azure_existsStorageAccount s (az_account_name s b) w = Some (Val r, w1)"
    by (auto simp: Azure_ExistsBucket_def andThen_Val_iff)
  with assms obtain a where r: "r = Inr a"
    by (cases r) (auto simp: Azure_ExistsBucket_def andThen_run)
  show ?thesis
  proof (cases a)
    case True
    with assms acc r obtain r' where
      ec: "Azure_existsContainer s b (az_account_name s b) w1 = Some (Val r', w')"
      and "(case r' of Inl err \<Rightarrow> ret (False, Some err) | Inr ex \<Rightarrow> ret (ex, None)) w' = Some (Val (ex, None), w')"
      by (auto simp: Azure_ExistsBucket_def andThen_run
          split: option.splits outcome.splits prod.splits sum.splits)
    then have "r' = Inr ex" by (cases r') auto
    with True acc r ec show ?thesis by auto
  next
    case False
    with assms acc r show ?thesis by (auto simp: Azure_ExistsBucket_def andThen_run)
  qed
qed

lemma keeps_Azure_existsStorageAccount [keeps_intros]:
  "(\<And>n t. keeps I (onCloud (sdk_CheckNameAvailability (az_sdk s) n t))) \<Longrightarrow>
   keeps I (Azure_existsStorageAccount s n)"
  unfolding Azure_existsStorageAccount_def by (auto intro!: keeps_intros)

lemma keeps_Azure_existsContainer [keeps_intros]:
  "(\<And>rg n k. keeps I (onCloud (sdk_GetContainer (az_sdk s) rg n k))) \<Longrightarrow>
   keeps I (Azure_existsContainer s b n)"
  unfolding Azure_existsContainer_def by (auto intro!: keeps_andThen split: sum.split)

lemma keeps_Azure_isPrivate [keeps_intros]:
  "(\<And>key. keeps I (onKube (Get_ConfigMap (az_client s) key))) \<Longrightarrow>
   keeps I (Azure_isManagementClusterPrivate s)"
  unfolding Azure_isManagementClusterPrivate_def
  by (auto intro!: keeps_andThen keeps_attempt simp: Let_def split: sum.split)

text \<open>What all calls that an operation can make keep, the operation keeps.\<close>

lemma Azure_keeps:
  assumes "\<And>n t. keeps I (onCloud (sdk_CheckNameAvailability (az_sdk s) n t))"
    and "\<And>rg n p. keeps I (onCloud (sdk_BeginCreate (az_sdk s) rg n p))"
    and "\<And>q. keeps I (onCloud (sdk_PollAccount (az_sdk s) q))"
    and "\<And>rg n. keeps I (onCloud (sdk_DeleteAccount (az_sdk s) rg n))"
    and "\<And>rg n. keeps I (onCloud (sdk_ListKeys (az_sdk s) rg n))"
    and "\<And>rg n k. keeps I (onCloud (sdk_GetContainer (az_sdk s) rg n k))"
    and "\<And>rg n bc. keeps I (onCloud (sdk_CreateContainer (az_sdk s) rg n (bucket_name b) bc))"
    and "\<And>rg n k bc. keeps I (onCloud (sdk_UpdateContainer (az_sdk s) rg n k bc))"
    and "\<And>rg n p rules. keeps I (onCloud (sdk_CreateOrUpdatePolicy (az_sdk s) rg n p rules))"
    and "\<And>rg n p. keeps I (onCloud (sdk_DeletePolicy (az_sdk s) rg n p))"
    and "\<And>rg n p. keeps I (onCloud (sdk_BeginCreateOrUpdateEndpoint (az_sdk s) rg n p))"
    and "\<And>q. keeps I (onCloud (sdk_PollEndpoint (az_sdk s) q))"
    and "\<And>rg z n r. keeps I (onCloud (sdk_CreateOrUpdateRecordSet (az_sdk s) rg z n r))"
    and "\<And>key. keeps I (onKube (Get_ConfigMap (az_client s) key))"
    and "\<And>sec f. keeps I (onKube_callback (CreateOrUpdate_Secret (az_client s) sec f))"
    and "\<And>key. keeps I (onKube (Get_Secret (az_client s) key))"
    and "\<And>o1 m. keeps I (onKube (Patch_Secret (az_client s) o1 m))"
    and "\<And>sec. keeps I (onKube (Delete_Secret (az_client s) sec))"
  shows "keeps I (Azure_ExistsBucket s b)" and "keeps I (Azure_CreateBucket s b)"
    and "keeps I (Azure_UpdateBucket s b)" and "keeps I (Azure_ConfigureBucket s b)"
    and "keeps I (Azure_DeleteBucket s b)"
proof -
  have ups: "keeps I (Azure_upsertStorageAccount s b n p)" "keeps I (Azure_upsertContainer s b n)"
    "keeps I (Azure_privateAccess s b n)"
    for n p
    unfolding Azure_privateAccess_def Azure_upsertStorageAccount_def Azure_upsertContainer_def Azure_upsertPrivateEndpoint_def
      Azure_upsertPrivateEndpointARecords_def
    by (intro keeps_intros assms)+
  show "keeps I (Azure_ExistsBucket s b)"
    unfolding Azure_ExistsBucket_def by (auto intro!: keeps_intros assms split: sum.split)
  show create: "keeps I (Azure_CreateBucket s b)"
    unfolding Azure_CreateBucket_def Let_def by (intro keeps_intros ups assms)
  then show "keeps I (Azure_UpdateBucket s b)"
    by (simp add: Azure_UpdateBucket_def)
  show "keeps I (Azure_ConfigureBucket s b)"
    unfolding Azure_ConfigureBucket_def Azure_setLifecycleRules_def Let_def
    by (auto intro!: keeps_intros assms split: option.split sum.split)
  show "keeps I (Azure_DeleteBucket s b)"
    unfolding Azure_DeleteBucket_def Azure_deleteStorageAccount_def Let_def by (intro keeps_intros assms)
qed

section \<open>What the adapter relies on\<close>

record az_account =
  aa_params :: AccountCreateParameters
  aa_containers :: "string \<Rightarrow> BlobContainer option"
  aa_policies :: "string \<Rightarrow> ManagementPolicyRule list option"

definition upsert_account :: "AccountCreateParameters \<Rightarrow> az_account option \<Rightarrow> az_account" where
  "upsert_account ps a =
     (case a of
        None \<Rightarrow> \<lparr>aa_params = ps, aa_containers = Map.empty, aa_policies = Map.empty\<rparr>
      | Some acc \<Rightarrow> acc\<lparr>aa_params := ps\<rparr>)"

definition container_in ::
  "('c \<Rightarrow> string \<times> string \<Rightarrow> az_account option) \<Rightarrow> 'c \<Rightarrow> string \<times> string \<Rightarrow> string \<Rightarrow> bool" where
  "container_in view c key k \<longleftrightarrow> (case view c key of None \<Rightarrow> False | Some a \<Rightarrow> aa_containers a k \<noteq> None)"

text \<open>
  \<open>accounts c (rg, n)\<close> is the storage account named \<open>n\<close> in the resource group \<open>rg\<close> of the subscription.
  Account names are global: a name that is available belongs to no account. A not-found answer for a
  container means that the container does not exist. An account is deleted with its containers. The
  one name a management policy can have is \<^verbatim>\<open>default\<close>. No call but the creation of a container makes a
  container, and that one makes the container it names.
\<close>

locale azure_api =
  fixes sdk :: "('c, 'q) azure_sdk"
    and accounts :: "'c \<Rightarrow> string \<times> string \<Rightarrow> az_account option"
  assumes policy_name: "arm_ManagementPolicyNameDefault sdk = ''default''"
    and check_name_ok:
      "sdk_CheckNameAvailability sdk n t c = (Inr av, c') \<Longrightarrow>
         accounts c' = accounts c \<and> (accounts c (rg, n) \<noteq> None \<longrightarrow> av \<noteq> Some True)"
    and account_created:
      "sdk_BeginCreate sdk rg n ps c = (Inr q, c1) \<Longrightarrow> sdk_PollAccount sdk q c1 = (Inr (), c2) \<Longrightarrow>
         accounts c2 = (accounts c)((rg, n) \<mapsto> upsert_account ps (accounts c (rg, n)))"
    and delete_account_ok:
      "sdk_DeleteAccount sdk rg n c = (Inr (), c') \<Longrightarrow> accounts c' = (accounts c)((rg, n) := None)"
    and get_container_ok:
      "sdk_GetContainer sdk rg n k c = (Inr (), c') \<Longrightarrow>
         accounts c' = accounts c \<and> (\<exists>a. accounts c (rg, n) = Some a \<and> aa_containers a k \<noteq> None)"
    and get_container_err:
      "sdk_GetContainer sdk rg n k c = (Inl e, c') \<Longrightarrow>
         accounts c' = accounts c \<and>
         (errors_As_ResponseError e = Some 404 \<longrightarrow> (\<forall>a. accounts c (rg, n) = Some a \<longrightarrow> aa_containers a k = None))"
    and create_container_ok:
      "sdk_CreateContainer sdk rg n k bc c = (Inr (), c') \<Longrightarrow>
         \<exists>a. accounts c (rg, n) = Some a \<and>
             accounts c' = (accounts c)((rg, n) \<mapsto> a\<lparr>aa_containers := (aa_containers a)(k \<mapsto> bc)\<rparr>)"
    and update_container_ok:
      "sdk_UpdateContainer sdk rg n k bc c = (Inr (), c') \<Longrightarrow>
         \<exists>a bc0 bc1. accounts c (rg, n) = Some a \<and> aa_containers a k = Some bc0 \<and>
             bc_Metadata bc1 = bc_Metadata bc \<and>
             bc_PublicAccess bc1 = (case bc_PublicAccess bc of None \<Rightarrow> bc_PublicAccess bc0 | Some x \<Rightarrow> Some x) \<and>
             accounts c' = (accounts c)((rg, n) \<mapsto> a\<lparr>aa_containers := (aa_containers a)(k \<mapsto> bc1)\<rparr>)"
    and put_policy_ok:
      "sdk_CreateOrUpdatePolicy sdk rg n p rules c = (Inr (), c') \<Longrightarrow>
         \<exists>a. accounts c (rg, n) = Some a \<and>
             accounts c' = (accounts c)((rg, n) \<mapsto> a\<lparr>aa_policies := (aa_policies a)(p \<mapsto> rules)\<rparr>)"
    and delete_policy_ok:
      "sdk_DeletePolicy sdk rg n p c = (Inr (), c') \<Longrightarrow>
         \<exists>a. accounts c (rg, n) = Some a \<and>
             accounts c' = (accounts c)((rg, n) \<mapsto> a\<lparr>aa_policies := (aa_policies a)(p := None)\<rparr>)"
    and delete_policy_err:
      "sdk_DeletePolicy sdk rg n p c = (Inl e, c') \<Longrightarrow> accounts c' = accounts c"
    and azure_leaves:
      "leaves accounts (sdk_ListKeys sdk rg n)"
      "leaves accounts (sdk_BeginCreateOrUpdateEndpoint sdk rg n pp)"
      "leaves accounts (sdk_PollEndpoint sdk q)"
      "leaves accounts (sdk_CreateOrUpdateRecordSet sdk rg z n r)"
    and azure_others:
      "spares (\<lambda>c. \<not> container_in accounts c key k') (sdk_CheckNameAvailability sdk n t)"
      "spares (\<lambda>c. \<not> container_in accounts c key k') (sdk_BeginCreate sdk rg n ps)"
      "spares (\<lambda>c. \<not> container_in accounts c key k') (sdk_PollAccount sdk q)"
      "spares (\<lambda>c. \<not> container_in accounts c key k') (sdk_DeleteAccount sdk rg n)"
      "spares (\<lambda>c. \<not> container_in accounts c key k') (sdk_GetContainer sdk rg n k)"
      "k' \<noteq> k \<Longrightarrow> spares (\<lambda>c. \<not> container_in accounts c key k') (sdk_CreateContainer sdk rg n k bc)"
      "spares (\<lambda>c. \<not> container_in accounts c key k') (sdk_UpdateContainer sdk rg n k bc)"
      "spares (\<lambda>c. \<not> container_in accounts c key k') (sdk_CreateOrUpdatePolicy sdk rg n p rules)"
      "spares (\<lambda>c. \<not> container_in accounts c key k') (sdk_DeletePolicy sdk rg n p)"

text \<open>The storage of a bucket is the container of its name in the account of its sanitized name.\<close>

definition Azure_present ::
  "('c \<Rightarrow> string \<times> string \<Rightarrow> az_account option) \<Rightarrow> AzureCluster \<Rightarrow> azure_lib \<Rightarrow> Bucket \<Rightarrow> 'c \<Rightarrow> bool" where
  "Azure_present view cl alib b c \<longleftrightarrow>
     (case view c (AzureCluster_GetResourceGroup cl, sanitizeStorageAccountName alib (bucket_name b)) of
        None \<Rightarrow> False | Some a \<Rightarrow> aa_containers a (bucket_name b) \<noteq> None)"

lemma Azure_present_container:
  "Azure_present view cl alib b c = container_in view c
     (AzureCluster_GetResourceGroup cl, sanitizeStorageAccountName alib (bucket_name b)) (bucket_name b)"
  by (simp add: Azure_present_def container_in_def)

text \<open>The lifecycle policy of the account is the one the bucket asks for, if it asks for one.\<close>

definition Azure_configured ::
  "('c \<Rightarrow> string \<times> string \<Rightarrow> az_account option) \<Rightarrow> AzureCluster \<Rightarrow> azure_lib \<Rightarrow> Bucket \<Rightarrow> 'c \<Rightarrow> bool" where
  "Azure_configured view cl alib b c \<longleftrightarrow>
     (case ExpirationPolicy (Spec b) of
        None \<Rightarrow> True
      | Some p \<Rightarrow>
         (case view c (AzureCluster_GetResourceGroup cl, sanitizeStorageAccountName alib (bucket_name b)) of
            None \<Rightarrow> False | Some a \<Rightarrow> aa_policies a ''default'' = Some [Azure_lifecycleRule p]))"

locale azure_env = kube_api lib client crs secrets + azure_api sdk accounts
  for lib :: kube_lib and client :: "'k Client" and crs secrets
    and sdk :: "('c, 'q) azure_sdk" and accounts +
  fixes cl :: AzureCluster and alib :: azure_lib
begin

abbreviation adapter :: "('k, 'c, 'q) AzureObjectStorageAdapter" where
  "adapter \<equiv> NewAzureStorageService sdk cl client lib alib"

lemma exists_account_nil:
  assumes "Azure_existsStorageAccount adapter n w = Some (Val (Inr ex), w')"
  shows "accounts (cloud w') = accounts (cloud w) \<and> (accounts (cloud w) (rg, n) \<noteq> None \<longrightarrow> ex)"
  using assms check_name_ok[where rg = rg]
  by (fastforce simp: Azure_existsStorageAccount_def)

lemma exists_container_nil:
  assumes "Azure_existsContainer adapter b n w = Some (Val (Inr ex), w')"
  shows "accounts (cloud w') = accounts (cloud w) \<and>
    ex = (case accounts (cloud w) (az_rg adapter, n) of None \<Rightarrow> False
          | Some a \<Rightarrow> aa_containers a (bucket_name b) \<noteq> None)"
  using assms
  by (auto simp: Azure_existsContainer_run split: prod.splits sum.splits if_splits option.splits
      dest!: get_container_ok get_container_err)

lemma exists_bucket_nil:
  assumes "Azure_ExistsBucket adapter b w = Some (Val (ex, None), w')"
  shows "ex = Azure_present accounts cl alib b (cloud w) \<and> accounts (cloud w') = accounts (cloud w)"
  using Azure_ExistsBucket_nilD[OF assms]
  by (auto simp: Azure_present_def split: if_splits option.splits
      dest!: exists_container_nil exists_account_nil[where rg = "az_rg adapter"])

lemma upsert_account_nil:
  assumes "Azure_upsertStorageAccount adapter b n priv w = Some (Val (Inr ()), w')"
  shows "accounts (cloud w') = (accounts (cloud w))((az_rg adapter, n) \<mapsto>
    upsert_account (Azure_accountParameters adapter b priv) (accounts (cloud w) (az_rg adapter, n)))"
proof -
  from assms obtain ex w1 q c1 c2 where
    ex: "Azure_existsStorageAccount adapter n w = Some (Val (Inr ex), w1)"
    and calls: "sdk_BeginCreate sdk (az_rg adapter) n (Azure_accountParameters adapter b priv) (cloud w1) = (Inr q, c1)"
      "sdk_PollAccount sdk q c1 = (Inr (), c2)" and w': "cloud w' = c2"
    by (auto simp: Azure_upsertStorageAccount_def)
  from account_created[OF calls] exists_account_nil[OF ex] w' show ?thesis by simp
qed

lemma upsert_container_nil:
  assumes "Azure_upsertContainer adapter b n w = Some (Val (Inr ()), w')"
  shows "\<exists>a bc. accounts (cloud w) (az_rg adapter, n) = Some a \<and> bc_Metadata bc = az_tags adapter b \<and>
    accounts (cloud w') = (accounts (cloud w))((az_rg adapter, n) \<mapsto>
      a\<lparr>aa_containers := (aa_containers a)(bucket_name b \<mapsto> bc)\<rparr>)"
proof -
  from assms obtain ex w1 where
    ex: "Azure_existsContainer adapter b n w = Some (Val (Inr ex), w1)"
    by (auto simp: Azure_upsertContainer_def)
  note same = exists_container_nil[OF ex]
  show ?thesis
  proof (cases ex)
    case True
    from assms True obtain c where
      "sdk_UpdateContainer sdk (az_rg adapter) n (bucket_name b)
         \<lparr>bc_PublicAccess = None, bc_Metadata = az_tags adapter b\<rparr> (cloud w1) = (Inr (), c)" "cloud w' = c"
      by (auto simp: Azure_upsertContainer_def ex)
    with same update_container_ok show ?thesis by fastforce
  next
    case False
    from assms False obtain c where
      "sdk_CreateContainer sdk (az_rg adapter) n (bucket_name b)
         \<lparr>bc_PublicAccess = Some PublicAccessNone, bc_Metadata = az_tags adapter b\<rparr> (cloud w1) = (Inr (), c)"
      "cloud w' = c"
      by (auto simp: Azure_upsertContainer_def ex)
    with create_container_ok[OF this(1)] same show ?thesis
      by (metis BlobContainer.select_convs(2))
  qed
qed

text \<open>A run of \<^verbatim>\<open>CreateBucket\<close> that returns nil, call by call.\<close>

lemma create_bucket_steps:
  assumes "Azure_CreateBucket adapter b w = Some (Val (Inr ()), w')"
  obtains priv w1 w2 w3 w4 c keys k s where
    "Azure_isManagementClusterPrivate adapter w = Some (Val (Inr priv), w1)"
    "Azure_upsertStorageAccount adapter b (az_account_name adapter b) priv w1 = Some (Val (Inr ()), w2)"
    "Azure_upsertContainer adapter b (az_account_name adapter b) w2 = Some (Val (Inr ()), w3)"
    "(if priv then Azure_privateAccess adapter b (az_account_name adapter b) else ret (Inr ())) w3
       = Some (Val (Inr ()), w4)"
    "sdk_ListKeys sdk (az_rg adapter) (az_account_name adapter b) (cloud w4) = (Inr keys, c)"
    "CreateOrUpdate_Secret client (Azure_secret b) (Azure_fillSecret (az_account_name adapter b) keys) (kube w4)
       = (Val (Inr s), k)"
    "w' = \<lparr>kube = k, cloud = c\<rparr>"
  using assms unfolding Azure_CreateBucket_def Let_def attempt_Inr_iff onCloud_Val_iff onKube_callback_Val_iff
  by fastforce

text \<open>The private access stage and the listing of the keys leave the accounts alone.\<close>

lemma private_access_accounts:
  "keeps (\<lambda>w. accounts (cloud w) = v) (if priv then Azure_privateAccess adapter b n else ret (Inr ()))"
  unfolding Azure_privateAccess_def Azure_upsertPrivateEndpoint_def Azure_upsertPrivateEndpointARecords_def
  by (intro keeps_intros) (simp_all add: azure_leaves)

lemma is_private_cloud:
  "Azure_isManagementClusterPrivate adapter w = Some (r, w') \<Longrightarrow> cloud w' = cloud w"
  using keepsD[OF keeps_Azure_isPrivate[where I = "\<lambda>v. cloud v = cloud w" and s = adapter]] by simp

lemma create_bucket_nil:
  assumes run: "Azure_CreateBucket adapter b w = Some (Val (Inr ()), w')"
  shows "\<exists>priv w1 a bc. Azure_isManagementClusterPrivate adapter w = Some (Val (Inr priv), w1) \<and>
    a = upsert_account (Azure_accountParameters adapter b priv)
          (accounts (cloud w) (az_rg adapter, az_account_name adapter b)) \<and>
    bc_Metadata bc = az_tags adapter b \<and>
    accounts (cloud w') = (accounts (cloud w))((az_rg adapter, az_account_name adapter b) \<mapsto>
      a\<lparr>aa_containers := (aa_containers a)(bucket_name b \<mapsto> bc)\<rparr>)"
proof -
  from run show ?thesis
  proof (rule create_bucket_steps)
    fix priv w1 w2 w3 w4 c keys k s
    assume 1: "Azure_isManagementClusterPrivate adapter w = Some (Val (Inr priv), w1)"
      and 2: "Azure_upsertStorageAccount adapter b (az_account_name adapter b) priv w1 = Some (Val (Inr ()), w2)"
      and 3: "Azure_upsertContainer adapter b (az_account_name adapter b) w2 = Some (Val (Inr ()), w3)"
      and 4: "(if priv then Azure_privateAccess adapter b (az_account_name adapter b) else ret (Inr ())) w3
        = Some (Val (Inr ()), w4)"
      and 5: "sdk_ListKeys sdk (az_rg adapter) (az_account_name adapter b) (cloud w4) = (Inr keys, c)"
      and 7: "w' = \<lparr>kube = k, cloud = c\<rparr>"
    from upsert_container_nil[OF 3] obtain a bc where
      "accounts (cloud w2) (az_rg adapter, az_account_name adapter b) = Some a"
      and "bc_Metadata bc = az_tags adapter b"
      and "accounts (cloud w3) = (accounts (cloud w2))((az_rg adapter, az_account_name adapter b) \<mapsto>
             a\<lparr>aa_containers := (aa_containers a)(bucket_name b \<mapsto> bc)\<rparr>)" by blast
    moreover have "accounts (cloud w2) = (accounts (cloud w))((az_rg adapter, az_account_name adapter b) \<mapsto>
        upsert_account (Azure_accountParameters adapter b priv)
          (accounts (cloud w) (az_rg adapter, az_account_name adapter b)))"
      using upsert_account_nil[OF 2] is_private_cloud[OF 1] by simp
    moreover have "accounts (cloud w') = accounts (cloud w3)"
      using leavesD[OF azure_leaves(1) 5] keepsD[OF private_access_accounts 4] 7 by simp
    ultimately show ?thesis
      using 1 by (intro exI[of _ priv] exI[of _ w1] exI[of _ a] exI[of _ bc]) auto
  qed
qed

lemma create_bucket_present:
  "Azure_CreateBucket adapter b w = Some (Val (Inr ()), w') \<Longrightarrow> Azure_present accounts cl alib b (cloud w')"
  by (drule create_bucket_nil) (auto simp: Azure_present_def)

lemma fill_secret_ok:
  assumes "Azure_fillSecret n keys s0 = Val (Inr s)"
  shows "\<exists>k v. Some k \<in> set keys \<and> ak_KeyName k = Some ''key1'' \<and> ak_Value k = Some v \<and>
    s = s0\<lparr>secret_Data := [(''accountName'', n), (''accountKey'', v)]\<rparr>"
  using assms by (induction n keys s0 rule: Azure_fillSecret.induct) (auto split: option.splits if_splits)

lemma create_bucket_secret:
  assumes run: "Azure_CreateBucket adapter b w = Some (Val (Inr ()), w')"
  shows "\<exists>s keys k v c. secrets (kube w') (secret_key_of (Azure_secret b)) = Some s \<and>
    sdk_ListKeys sdk (az_rg adapter) (az_account_name adapter b) c = (Inr keys, cloud w') \<and>
    accounts c = accounts (cloud w') \<and> Some k \<in> set keys \<and> ak_KeyName k = Some ''key1'' \<and> ak_Value k = Some v \<and>
    secret_Data s = [(''accountName'', az_account_name adapter b), (''accountKey'', v)]"
  using run
proof (rule create_bucket_steps)
  fix w4 keys k c s
  assume list: "sdk_ListKeys sdk (az_rg adapter) (az_account_name adapter b) (cloud w4) = (Inr keys, c)"
    and call: "CreateOrUpdate_Secret client (Azure_secret b) (Azure_fillSecret (az_account_name adapter b) keys)
      (kube w4) = (Val (Inr s), k)" and w': "w' = \<lparr>kube = k, cloud = c\<rparr>"
  from create_or_update_ok[OF call] obtain key v where "Some key \<in> set keys" "ak_KeyName key = Some ''key1''"
    "ak_Value key = Some v" "secret_Data s = [(''accountName'', az_account_name adapter b), (''accountKey'', v)]"
    by (auto dest!: fill_secret_ok)
  with create_or_update_ok[OF call] w' list leavesD[OF azure_leaves(1) list] show ?thesis
    by (intro exI[of _ s] exI[of _ keys] exI[of _ key] exI[of _ v] exI[of _ "cloud w4"]) simp
qed

lemma configure_nil:
  assumes "Azure_ConfigureBucket adapter b w = Some (Val (Inr ()), w')"
    and "Azure_present accounts cl alib b (cloud w)"
  shows "Azure_present accounts cl alib b (cloud w') \<and> Azure_configured accounts cl alib b (cloud w')"
  using assms policy_name
  by (auto simp: Azure_ConfigureBucket_def Azure_setLifecycleRules_run Azure_present_def Azure_configured_def
      split: option.splits prod.splits sum.splits if_splits
      dest!: put_policy_ok delete_policy_ok delete_policy_err)

lemma delete_bucket_steps:
  assumes "Azure_DeleteBucket adapter b w = Some (Val (Inr ()), w')"
  obtains c sec k1 patched k2 k3 where
    "sdk_DeleteAccount sdk (az_rg adapter) (az_account_name adapter b) (cloud w) = (Inr (), c)"
    "Get_Secret client (secret_key_of (Azure_secret b)) (kube w) = (Inr sec, k1)"
    "Patch_Secret client sec (sec\<lparr>secret_Finalizers :=
       fst (RemoveFinalizer lib (secret_Finalizers sec) AzureSecretFinalizer)\<rparr>) k1 = (Inr patched, k2)"
    "Delete_Secret client patched k2 = (Inr (), k3)"
    "w' = \<lparr>kube = k3, cloud = c\<rparr>"
  using assms by (fastforce simp: Azure_DeleteBucket_def Azure_deleteStorageAccount_def Let_def
      secret_key_of_def Azure_secret_def)

lemma delete_nil:
  assumes "Azure_DeleteBucket adapter b w = Some (Val (Inr ()), w')"
  shows "accounts (cloud w') = (accounts (cloud w))((az_rg adapter, az_account_name adapter b) := None)"
  using assms by (rule delete_bucket_steps) (simp add: delete_account_ok)

lemma delete_bucket_present:
  "Azure_DeleteBucket adapter b w = Some (Val (Inr ()), w') \<Longrightarrow> \<not> Azure_present accounts cl alib b (cloud w')"
  by (drule delete_nil) (simp add: Azure_present_def)

lemma exists_bucket_present:
  assumes "Azure_ExistsBucket adapter b w = Some (Val (ex, None), w')"
  shows "ex = Azure_present accounts cl alib b (cloud w) \<and>
    Azure_present accounts cl alib b (cloud w') = Azure_present accounts cl alib b (cloud w)"
  using exists_bucket_nil[OF assms] by (simp add: Azure_present_def)

text \<open>The secret goes with the account, if nothing but the operator's own finalizer holds it.\<close>

lemma delete_bucket_secret:
  assumes run: "Azure_DeleteBucket adapter b w = Some (Val (Inr ()), w')"
    and held: "\<And>s. secrets (kube w) (secret_key_of (Azure_secret b)) = Some s \<Longrightarrow>
      set (secret_Finalizers s) \<subseteq> {AzureSecretFinalizer}"
  shows "secrets (kube w') (secret_key_of (Azure_secret b)) = None"
  using run
proof (rule delete_bucket_steps)
  fix c and sec :: Secret and k1 patched k2 k3
  let ?mod = "sec\<lparr>secret_Finalizers := fst (RemoveFinalizer lib (secret_Finalizers sec) AzureSecretFinalizer)\<rparr>"
  let ?key = "secret_key_of (Azure_secret b)"
  assume get: "Get_Secret client ?key (kube w) = (Inr sec, k1)"
    and patch: "Patch_Secret client sec ?mod k1 = (Inr patched, k2)"
    and del: "Delete_Secret client patched k2 = (Inr (), k3)"
    and w': "w' = \<lparr>kube = k3, cloud = c\<rparr>"
  from get_secret_ok[OF get] have st: "secrets k1 ?key = Some sec" "secret_key_of sec = ?key"
    and fins: "set (secret_Finalizers sec) \<subseteq> {AzureSecretFinalizer}"
    using secrets_key held by auto
  have keys: "secret_key_of ?mod = ?key" using st(2) by (simp add: secret_key_of_def)
  have none: "secret_Finalizers ?mod = []"
    using fins by (auto simp: RemoveFinalizer_list filter_empty_conv)
  from patch_secret_ok[OF patch] keys st none
  have "secret_Finalizers patched = []" "secret_key_of patched = ?key" "secrets k2 ?key = Some patched"
    by (auto simp: secret_key_of_def split: if_splits)
  with delete_secret_ok[OF del] w' show ?thesis by simp
qed

text \<open>No operation of the adapter touches a stored Bucket object.\<close>

lemma adapter_crs:
  "keeps (\<lambda>w. crs (kube w) = m) (Azure_ExistsBucket adapter b)"
  "keeps (\<lambda>w. crs (kube w) = m) (Azure_CreateBucket adapter b)"
  "keeps (\<lambda>w. crs (kube w) = m) (Azure_UpdateBucket adapter b)"
  "keeps (\<lambda>w. crs (kube w) = m) (Azure_ConfigureBucket adapter b)"
  "keeps (\<lambda>w. crs (kube w) = m) (Azure_DeleteBucket adapter b)"
proof -
  have cl: "keeps (\<lambda>w. crs (kube w) = m) (onCloud f)" for f :: "('c, 'x) api"
    by (rule keeps_kube_onCloud)
  have kb: "(\<And>k r k'. g k = (r, k') \<Longrightarrow> crs k' = crs k) \<Longrightarrow> keeps (\<lambda>w. crs (kube w) = m) (onKube g)"
    for g :: "('k, 'x) api"
    by (auto simp: keeps_def onKube_def split: prod.splits)
  have reads: "keeps (\<lambda>w. crs (kube w) = m) (onKube (Get_ConfigMap client key))"
    "keeps (\<lambda>w. crs (kube w) = m) (onKube (Get_Secret client key))"
    "keeps (\<lambda>w. crs (kube w) = m) (onKube (Patch_Secret client o1 s))"
    "keeps (\<lambda>w. crs (kube w) = m) (onKube (Delete_Secret client s))" for key o1 s
    by (rule kb, (elim get_configmap_frame[THEN conjunct1] patch_secret_frame delete_secret_frame
        | metis get_secret_ok get_secret_err sum.exhaust))+
  have cb: "keeps (\<lambda>w. crs (kube w) = m) (onKube_callback (CreateOrUpdate_Secret client s f))" for s f
    by (auto simp: keeps_def onKube_callback_def split: prod.splits dest: create_or_update_frame)
  show "keeps (\<lambda>w. crs (kube w) = m) (Azure_ExistsBucket adapter b)"
    "keeps (\<lambda>w. crs (kube w) = m) (Azure_CreateBucket adapter b)"
    "keeps (\<lambda>w. crs (kube w) = m) (Azure_UpdateBucket adapter b)"
    "keeps (\<lambda>w. crs (kube w) = m) (Azure_ConfigureBucket adapter b)"
    "keeps (\<lambda>w. crs (kube w) = m) (Azure_DeleteBucket adapter b)"
    by (rule Azure_keeps; simp add: cl cb reads)+
qed

end

context azure_env
begin

lemma adapter_others:
  assumes "k' \<noteq> bucket_name b"
  shows "keeps (\<lambda>w. \<not> container_in accounts (cloud w) key k') (Azure_ExistsBucket adapter b)"
    "keeps (\<lambda>w. \<not> container_in accounts (cloud w) key k') (Azure_CreateBucket adapter b)"
    "keeps (\<lambda>w. \<not> container_in accounts (cloud w) key k') (Azure_UpdateBucket adapter b)"
    "keeps (\<lambda>w. \<not> container_in accounts (cloud w) key k') (Azure_ConfigureBucket adapter b)"
    "keeps (\<lambda>w. \<not> container_in accounts (cloud w) key k') (Azure_DeleteBucket adapter b)"
proof -
  let ?I = "\<lambda>w. \<not> container_in accounts (cloud w) key k'"
  have same: "spares (\<lambda>c. \<not> container_in accounts c key k') f" if "leaves accounts f" for f :: "('c, 'x) api"
    using that by (rule spares_leaves) (simp add: container_in_def)
  have kb: "keeps ?I (onKube g)" for g :: "('k, 'x) api" by (rule keeps_cloud_onKube)
  have cb: "keeps ?I (onKube_callback g)" for g :: "'k \<Rightarrow> (go_error + 'x) outcome \<times> 'k"
    by (auto simp: keeps_def onKube_callback_def split: prod.splits)
  show "keeps ?I (Azure_ExistsBucket adapter b)" "keeps ?I (Azure_CreateBucket adapter b)"
    "keeps ?I (Azure_UpdateBucket adapter b)" "keeps ?I (Azure_ConfigureBucket adapter b)"
    "keeps ?I (Azure_DeleteBucket adapter b)"
    by (rule Azure_keeps;
        simp add: kb cb keeps_spares_cloud[where P = "\<lambda>c. \<not> container_in accounts c key k'"]
          azure_others assms same azure_leaves)+
qed

lemma exists_others:
  "keeps (\<lambda>w. \<not> Azure_present accounts cl alib b' (cloud w)) (Azure_ExistsBucket adapter b)"
  unfolding Azure_present_container Azure_ExistsBucket_def
  by (intro keeps_andThen keeps_Azure_existsStorageAccount keeps_Azure_existsContainer)
    (auto simp: azure_others
      intro!: keeps_andThen keeps_Azure_existsContainer
        keeps_spares_cloud[where P = "\<lambda>c. \<not> container_in accounts c key k'" for key k']
      split: sum.split)

lemma adapter_others_present:
  assumes "bucket_name b' \<noteq> bucket_name b"
  shows
    "keeps (\<lambda>w. \<not> Azure_present accounts cl alib b' (cloud w)) (Azure_CreateBucket adapter b)"
    "keeps (\<lambda>w. \<not> Azure_present accounts cl alib b' (cloud w)) (Azure_UpdateBucket adapter b)"
    "keeps (\<lambda>w. \<not> Azure_present accounts cl alib b' (cloud w)) (Azure_ConfigureBucket adapter b)"
    "keeps (\<lambda>w. \<not> Azure_present accounts cl alib b' (cloud w)) (Azure_DeleteBucket adapter b)"
  unfolding Azure_present_container using assms by (rule adapter_others(2-))+

end

sublocale azure_env \<subseteq> azsvc: object_storage_service "Azure_service adapter" crs
  "Azure_present accounts cl alib" "Azure_configured accounts cl alib"
  by unfold_locales
    (simp_all add: Azure_service_def Azure_UpdateBucket_def adapter_crs exists_bucket_present
      create_bucket_present configure_nil delete_bucket_present adapter_others_present exists_others)

context azure_env
begin

lemma azure_service:
  "object_storage_service (Azure_service adapter) crs (Azure_present accounts cl alib)
     (Azure_configured accounts cl alib)"
  by (rule azsvc.object_storage_service_axioms)

end

end
