(* ===== verification/Azure_Service.thy ===== *)
theory Azure_Service
  imports Azure_Cluster Azure_Contract
begin

text \<open>
  The Azure access role adapter and the Azure service factory (\<^verbatim>\<open>access.go\<close> and \<^verbatim>\<open>service.go\<close> under
  \<^verbatim>\<open>src/internal/pkg/service/objectstorage/cloud/azure\<close>). The constructors of credentials and of client
  factories are SDK functions, the parameter record \<open>azure_clients\<close>; credentials and client factories are
  opaque values.
\<close>

section \<open>Access roles\<close>

text \<open>Azure has no access roles: both methods return nil at once.\<close>

definition AzureAccess_ConfigureRole :: "Bucket \<Rightarrow> (('k, 'c) world, go_error + unit) prog" where
  "AzureAccess_ConfigureRole bucket = ret (Inr ())"

definition AzureAccess_DeleteRole :: "Bucket \<Rightarrow> (('k, 'c) world, go_error + unit) prog" where
  "AzureAccess_DeleteRole bucket = ret (Inr ())"

definition NewAzureAccessService :: "('k, 'c) world AccessRoleService" where
  "NewAzureAccessService =
     \<lparr>ConfigureRole = AzureAccess_ConfigureRole, DeleteRole = AzureAccess_DeleteRole\<rparr>"

lemma azure_access_service:
  "access_role_service NewAzureAccessService (\<lambda>b c. True) (\<lambda>b c. True) storage"
  by unfold_locales
    (simp_all add: NewAzureAccessService_def AzureAccess_ConfigureRole_def AzureAccess_DeleteRole_def)

interpretation azure_access: access_role_service NewAzureAccessService "\<lambda>b c. True" "\<lambda>b c. True" "\<lambda>c. c"
  by (rule azure_access_service)

section \<open>The factory\<close>

record ('c, 'q, 'cred, 'sf, 'nf, 'df) azure_clients =
  sdk_NewManagedIdentityCredential :: "string \<Rightarrow> go_error + 'cred"
  sdk_NewClientSecretCredential :: "string \<Rightarrow> string \<Rightarrow> string \<Rightarrow> go_error + 'cred"
  sdk_NewWorkloadIdentityCredential :: "string \<Rightarrow> string \<Rightarrow> go_error + 'cred"
  armstorage_NewClientFactory :: "string \<Rightarrow> 'cred \<Rightarrow> go_error + 'sf"
  armnetwork_NewClientFactory :: "string \<Rightarrow> 'cred \<Rightarrow> go_error + 'nf"
  armprivatedns_NewClientFactory :: "string \<Rightarrow> 'cred \<Rightarrow> go_error + 'df"
  sdk_clients :: "'sf \<Rightarrow> 'nf \<Rightarrow> 'df \<Rightarrow> ('c, 'q) azure_sdk"

definition Azure_NewAccessRoleService ::
  "Cluster \<Rightarrow> (('k, 'c) world, go_error + ('k, 'c) world AccessRoleService) prog" where
  "Azure_NewAccessRoleService cluster = ret (Inr NewAzureAccessService)"

text \<open>The \<^verbatim>\<open>switch azureCredentials.TypeIdentity\<close>. A missing key of the secret reads as the empty string.\<close>

definition Azure_credential ::
  "('c, 'q, 'cred, 'sf, 'nf, 'df) azure_clients \<Rightarrow> string \<Rightarrow> AzureCredentials \<Rightarrow> go_error + 'cred" where
  "Azure_credential clients name azureCredentials =
     (let wrap = (\<lambda>msg r. case r of Inl err \<Rightarrow> Inl (Errorf_w msg err) | Inr cred \<Rightarrow> Inr cred) in
      if TypeIdentity azureCredentials = ''UserAssignedMSI'' then
        wrap (''failed to create managed identity credential for cluster '' @ name @ '' with client ID '' @
              ClientID azureCredentials @ '': '')
          (sdk_NewManagedIdentityCredential clients (ClientID azureCredentials))
      else if TypeIdentity azureCredentials = ''ManualServicePrincipal'' then
        wrap (''failed to create client secret credential for cluster '' @ name @ '' with tenant ID '' @
              TenantID azureCredentials @ '': '')
          (sdk_NewClientSecretCredential clients (TenantID azureCredentials) (ClientID azureCredentials)
            (case map_of (secret_Data (SecretRef azureCredentials)) ClientSecretKeyName of
               None \<Rightarrow> '''' | Some v \<Rightarrow> v))
      else if TypeIdentity azureCredentials = ''WorkloadIdentity'' then
        wrap (''failed to create workload identity credential for cluster '' @ name @ '' with tenant ID '' @
              TenantID azureCredentials @ '': '')
          (sdk_NewWorkloadIdentityCredential clients (TenantID azureCredentials) (ClientID azureCredentials))
      else Inl (ErrorString (''unknown identity type '' @ TypeIdentity azureCredentials @
             '' for cluster '' @ name)))"

definition Azure_NewObjectStorageService ::
  "('c, 'q, 'cred, 'sf, 'nf, 'df) azure_clients \<Rightarrow> 'k Client \<Rightarrow> kube_lib \<Rightarrow> azure_lib \<Rightarrow> Cluster \<Rightarrow>
     (('k, 'c) world, go_error + ('k, 'c) world ObjectStorageService) prog" where
  "Azure_NewObjectStorageService clients client klib lib cluster =
     (let name = GetName cluster in
      case as_AzureCredentials (GetCredentials cluster) of
        None \<Rightarrow> ret (Inl (ErrorString
          (''failed to cast cluster credentials to Azure credentials for cluster '' @ name)))
      | Some azureCredentials \<Rightarrow>
        (let sub = SubscriptionID azureCredentials;
             failed = (\<lambda>what. Errorf_w (''failed to create '' @ what @ '' client factory for cluster '' @ name @
                        '' with subscription ID '' @ sub @ '': '')) in
         attempt (ret (Azure_credential clients name azureCredentials)) (\<lambda>err. err) (\<lambda>cred.
         attempt (ret (armstorage_NewClientFactory clients sub cred)) (failed ''storage'') (\<lambda>storageFactory.
         attempt (ret (armnetwork_NewClientFactory clients sub cred)) (failed ''network'') (\<lambda>networkFactory.
         attempt (ret (armprivatedns_NewClientFactory clients sub cred)) (failed ''private DNS'') (\<lambda>dnsFactory.
         case as_AzureCluster cluster of
           None \<Rightarrow> ret (Inl (ErrorString
             (''failed to cast cluster to Azure cluster for cluster '' @ name)))
         | Some azurecluster \<Rightarrow>
             ret (Inr (Azure_service (NewAzureStorageService
               (sdk_clients clients storageFactory networkFactory dnsFactory) azurecluster client klib lib)))))))))"

definition AzureObjectStorageService ::
  "('c, 'q, 'cred, 'sf, 'nf, 'df) azure_clients \<Rightarrow> 'k Client \<Rightarrow> kube_lib \<Rightarrow> azure_lib \<Rightarrow>
     ('k, 'c) world ObjectStorageServiceFactory" where
  "AzureObjectStorageService clients client klib lib =
     \<lparr>NewObjectStorageService = Azure_NewObjectStorageService clients client klib lib,
      NewAccessRoleService = Azure_NewAccessRoleService\<rparr>"

text \<open>On a cluster the getter made, the errors about casts and identity types cannot occur, the factory
  touches nothing, and a service it returns is the adapter for that cluster.\<close>

lemma Azure_NewObjectStorageService_returns:
  "\<exists>r. Azure_NewObjectStorageService clients client klib lib cluster w = Some (Val r, w)"
  by (auto simp: Azure_NewObjectStorageService_def Let_def run_simps split: option.splits sum.splits)

lemma Azure_NewObjectStorageService_nil:
  assumes "Azure_NewObjectStorageService clients client klib lib cluster w = Some (Val (Inr svc), w')"
  shows "\<exists>cl sf nf df. cluster = DynAzureCluster cl \<and> w' = w \<and>
    svc = Azure_service (NewAzureStorageService (sdk_clients clients sf nf df) cl client klib lib)"
  using assms
  by (cases cluster) (auto simp: Azure_NewObjectStorageService_def Let_def)

lemma Azure_credential_supported:
  assumes "supported_identity (TypeIdentity azc)" "Azure_credential clients name azc = Inl e"
  shows "\<exists>msg e0. e = Errorf_w msg e0"
  using assms by (auto simp: Azure_credential_def supported_identity_def Let_def split: sum.splits)

lemma Azure_NewObjectStorageService_err:
  assumes "supported_identity (TypeIdentity (az_Credentials cl))"
    and "Azure_NewObjectStorageService clients client klib lib (DynAzureCluster cl) w = Some (Val (Inl e), w')"
  shows "\<exists>msg e0. e = Errorf_w msg e0"
  using assms Azure_credential_supported[OF assms(1)]
  by (auto simp: Azure_NewObjectStorageService_def Let_def attempt_Inl_iff)

end
