(* ===== verification/Operator_Main.thy ===== *)
theory Operator_Main
  imports Controller AWS_Service Azure_Service
begin

text \<open>
  The wiring of the operator (the provider switch of \<^verbatim>\<open>src/main.go\<close>) and the two operators it can make: the
  reconciler with the AWS getter and factory and the reconciler with the Azure ones. For each of them
  the documented behaviour of the SDK it uses (the locales \<open>aws_env\<close> and \<open>azure_operator_env\<close>) gives
  the environment the reconciler relies on (\<open>operator_env\<close>).
\<close>

section \<open>The provider switch\<close>

text \<open>\<open>None\<close> is the exit with status 1 for a provider that is not supported.\<close>

definition main_reconciler ::
  "'k Client \<Rightarrow> kube_lib \<Rightarrow> ('c, 'p, 'g) aws_sdk \<Rightarrow> ('c, 'q, 'cred, 'sf, 'nf, 'df) azure_clients \<Rightarrow> azure_lib \<Rightarrow>
     ManagementCluster \<Rightarrow> ('k, 'c) BucketReconciler option" where
  "main_reconciler client lib sdk clients alib managementCluster =
     (if mc_Provider managementCluster = ''capa'' then
        Some \<lparr>rec_Client = client, rec_lib = lib,
              rec_ClusterGetter = AWS_GetCluster client lib managementCluster,
              rec_Factory = AWSObjectStorageService sdk,
              rec_ManagementCluster = managementCluster\<rparr>
      else if mc_Provider managementCluster = ''capz'' then
        Some \<lparr>rec_Client = client, rec_lib = lib,
              rec_ClusterGetter = Azure_GetCluster client lib managementCluster,
              rec_Factory = AzureObjectStorageService clients client lib alib,
              rec_ManagementCluster = managementCluster\<rparr>
      else None)"

text \<open>The two reconcilers.\<close>

definition aws_reconciler ::
  "'k Client \<Rightarrow> kube_lib \<Rightarrow> ('c, 'p, 'g) aws_sdk \<Rightarrow> ManagementCluster \<Rightarrow> ('k, 'c) BucketReconciler" where
  "aws_reconciler client lib sdk mc =
     \<lparr>rec_Client = client, rec_lib = lib, rec_ClusterGetter = AWS_GetCluster client lib mc,
      rec_Factory = AWSObjectStorageService sdk, rec_ManagementCluster = mc\<rparr>"

definition azure_reconciler ::
  "'k Client \<Rightarrow> kube_lib \<Rightarrow> ('c, 'q, 'cred, 'sf, 'nf, 'df) azure_clients \<Rightarrow> azure_lib \<Rightarrow> ManagementCluster \<Rightarrow>
     ('k, 'c) BucketReconciler" where
  "azure_reconciler client lib clients alib mc =
     \<lparr>rec_Client = client, rec_lib = lib, rec_ClusterGetter = Azure_GetCluster client lib mc,
      rec_Factory = AzureObjectStorageService clients client lib alib, rec_ManagementCluster = mc\<rparr>"

lemma aws_reconciler_sel [simp]:
  "rec_Client (aws_reconciler client lib sdk mc) = client"
  "rec_lib (aws_reconciler client lib sdk mc) = lib"
  "rec_ClusterGetter (aws_reconciler client lib sdk mc) = AWS_GetCluster client lib mc"
  "NewObjectStorageService (rec_Factory (aws_reconciler client lib sdk mc)) = AWS_NewObjectStorageService sdk"
  "NewAccessRoleService (rec_Factory (aws_reconciler client lib sdk mc)) = AWS_NewAccessRoleService sdk"
  by (simp_all add: aws_reconciler_def AWSObjectStorageService_def)

lemma azure_reconciler_sel [simp]:
  "rec_Client (azure_reconciler client lib clients alib mc) = client"
  "rec_lib (azure_reconciler client lib clients alib mc) = lib"
  "rec_ClusterGetter (azure_reconciler client lib clients alib mc) = Azure_GetCluster client lib mc"
  "NewObjectStorageService (rec_Factory (azure_reconciler client lib clients alib mc)) =
     Azure_NewObjectStorageService clients client lib alib"
  "NewAccessRoleService (rec_Factory (azure_reconciler client lib clients alib mc)) = Azure_NewAccessRoleService"
  by (simp_all add: azure_reconciler_def AzureObjectStorageService_def)

section \<open>The operator on AWS\<close>

text \<open>
  The clients the SDK makes from a configuration with an assumed role all look at the one account the
  operator works for. Loading a configuration leaves the buckets alone.
\<close>

definition AWS_configured ::
  "('c \<Rightarrow> string \<Rightarrow> s3_bucket option) \<Rightarrow> Cluster \<Rightarrow> Bucket \<Rightarrow> 'c \<Rightarrow> bool" where
  "AWS_configured view cl b c \<longleftrightarrow>
     (case as_AWSCluster cl of None \<Rightarrow> False | Some a \<Rightarrow> S3_configured view a b c)"

text \<open>The role with the trust policy, tags and inline policy for the account of the cluster's role. None of
  this depends on the client.\<close>

definition AWS_role_ready ::
  "(string \<Rightarrow> go_error + string) \<Rightarrow> ('c \<Rightarrow> string \<Rightarrow> iam_role option) \<Rightarrow> Cluster \<Rightarrow> Bucket \<Rightarrow> 'c \<Rightarrow> bool" where
  "AWS_role_ready parse view cl b c \<longleftrightarrow>
     (case as_AWSCluster cl of
        None \<Rightarrow> False
      | Some a \<Rightarrow>
         (case parse (Role (aws_Credentials a)) of
            Inl e \<Rightarrow> False
          | Inr account \<Rightarrow> \<forall>client. IAM_role_ready view (NewIamService client account a) b c))"

lemma IAM_role_ready_client:
  "IAM_role_ready view (NewIamService c1 acc cl) = IAM_role_ready view (NewIamService c2 acc cl)"
  by (auto simp: fun_eq_iff IAM_role_ready_def IAM_trustData_def IAM_rolePolicyData_def irsaDomain_def
      split: option.split)

lemma AWS_services_on_AWS:
  "AWS_NewObjectStorageService sdk cl w = Some (Val (Inr svc), w') \<Longrightarrow> \<exists>a. cl = DynAWSCluster a"
  "AWS_NewAccessRoleService sdk cl w = Some (Val (Inr ars), w') \<Longrightarrow> \<exists>a. cl = DynAWSCluster a"
  by (cases cl; auto simp: AWS_NewObjectStorageService_def AWS_NewAccessRoleService_def)+

lemma keeps_AWS_factories:
  assumes "keeps I (onCloud (sdk_LoadDefaultConfig sdk (GetRegion cl)))"
  shows "keeps I (AWS_NewObjectStorageService sdk cl)" "keeps I (AWS_NewAccessRoleService sdk cl)"
  using assms unfolding AWS_NewObjectStorageService_def AWS_NewAccessRoleService_def Let_def
  by (auto intro!: keeps_attempt split: option.split)

locale aws_env = kube_api lib client crs secrets
  for lib and client :: "'k Client" and crs secrets +
  fixes sdk :: "('c, 'p, 'g) aws_sdk"
    and buckets :: "'c \<Rightarrow> string \<Rightarrow> s3_bucket option"
    and unlisted :: "'p \<Rightarrow> 'c \<Rightarrow> string set"
    and pages_left :: "'p \<Rightarrow> 'c \<Rightarrow> nat"
    and roles :: "'c \<Rightarrow> string \<Rightarrow> iam_role option"
  assumes s3_clients:
      "s3_api (sdk_s3_NewFromConfig sdk (sdk_AssumeRole sdk g role)) buckets unlisted pages_left"
    and iam_clients:
      "iam_api (sdk_iam_NewFromConfig sdk (sdk_AssumeRole sdk g role)) roles buckets"
    and load_config: "leaves buckets (sdk_LoadDefaultConfig sdk region)"
begin

lemma aws_storage_service:
  assumes "AWS_NewObjectStorageService sdk cl w = Some (Val (Inr svc), w')"
  shows "object_storage_service svc crs (S3_present buckets) (AWS_configured buckets cl)"
proof -
  from AWS_services_on_AWS(1)[OF assms] obtain a where cl: "cl = DynAWSCluster a" by blast
  with assms obtain cfg where
    svc: "svc = S3_service (NewS3Service (sdk_s3_NewFromConfig sdk (sdk_AssumeRole sdk cfg (Role (aws_Credentials a)))) a)"
    by (auto simp: AWS_NewObjectStorageService_run split: prod.splits sum.splits)
  have conf: "AWS_configured buckets cl = S3_configured buckets a"
    by (simp add: cl AWS_configured_def fun_eq_iff)
  show ?thesis unfolding svc conf
    using s3_clients by (rule s3_api.s3_service)
qed

lemma aws_role_service:
  assumes "AWS_NewAccessRoleService sdk cl w = Some (Val (Inr ars), w')"
  shows "access_role_service ars (AWS_role_ready (sdk_arn_Parse sdk) roles cl) (IAM_role_gone roles) buckets"
proof -
  from AWS_services_on_AWS(2)[OF assms] obtain a where cl: "cl = DynAWSCluster a" by blast
  with assms obtain cfg acc where acc: "sdk_arn_Parse sdk (Role (aws_Credentials a)) = Inr acc"
    and ars: "ars = IAM_service (NewIamService
      (sdk_iam_NewFromConfig sdk (sdk_AssumeRole sdk cfg (Role (aws_Credentials a)))) acc a)"
    by (auto simp: AWS_NewAccessRoleService_run split: prod.splits sum.splits)
  have ready: "AWS_role_ready (sdk_arn_Parse sdk) roles cl = IAM_role_ready roles (NewIamService
      (sdk_iam_NewFromConfig sdk (sdk_AssumeRole sdk cfg (Role (aws_Credentials a)))) acc a)"
    by (auto simp: cl acc AWS_role_ready_def fun_eq_iff) (metis IAM_role_ready_client)
  show ?thesis unfolding ars ready
    using iam_clients by (rule iam_api.iam_service)
qed

lemma aws_methods_return:
  assumes "AWS_NewObjectStorageService sdk cl w = Some (Val (Inr svc), w1)"
    and "AWS_NewAccessRoleService sdk cl w2 = Some (Val (Inr ars), w3)"
  shows "methods_return svc ars"
proof -
  from AWS_services_on_AWS(1)[OF assms(1)] obtain a where cl: "cl = DynAWSCluster a" by blast
  with assms obtain g g' role acc where
    svc: "svc = S3_service (NewS3Service (sdk_s3_NewFromConfig sdk (sdk_AssumeRole sdk g role)) a)"
    and ars: "ars = IAM_service (NewIamService (sdk_iam_NewFromConfig sdk (sdk_AssumeRole sdk g' role)) acc a)"
    by (auto simp: AWS_NewObjectStorageService_run AWS_NewAccessRoleService_run split: prod.splits sum.splits)
  show ?thesis
    unfolding methods_return_def svc ars
    by (simp add: S3_service_def IAM_service_def s3_api.adapter_returns[OF s3_clients]
        iam_api.roles_return[OF iam_clients])
qed

lemma aws_factories_return:
  "returns (AWS_NewObjectStorageService sdk cl) w" "returns (AWS_NewAccessRoleService sdk cl) w"
  unfolding AWS_NewObjectStorageService_def AWS_NewAccessRoleService_def Let_def
  by (auto intro!: returns_attempt split: option.split)

text \<open>The operator on AWS neither panics nor runs forever.\<close>

lemma aws_Reconcile_returns: "returns (Reconcile (aws_reconciler client lib sdk mc) req) w"
  by (rule Reconcile_returns) (auto simp: AWS_GetCluster_returns aws_factories_return intro: aws_methods_return)

lemma aws_factory_frame:
  "AWS_NewObjectStorageService sdk cl w = Some (so, w') \<Longrightarrow> buckets (cloud w') = buckets (cloud w) \<and> kube w' = kube w"
  "AWS_NewAccessRoleService sdk cl w = Some (ro, w') \<Longrightarrow> buckets (cloud w') = buckets (cloud w) \<and> kube w' = kube w"
  using keepsD[OF keeps_AWS_factories(1)[OF keeps_leaves_cloud[OF load_config]], of cl w so w']
    keepsD[OF keeps_AWS_factories(2)[OF keeps_leaves_cloud[OF load_config]], of cl w ro w']
    keepsD[OF keeps_AWS_factories(1)[of "\<lambda>v. kube v = kube w"], of sdk cl w so w']
    keepsD[OF keeps_AWS_factories(2)[of "\<lambda>v. kube v = kube w"], of sdk cl w ro w']
  by auto

lemma keeps_crs_Get_Unstructured:
  "keeps (\<lambda>w. crs (kube w) = m) (onKube (Get_Unstructured client gvk key))"
  by (auto simp: keeps_def onKube_def split: prod.splits dest: get_unstructured_frame)

end

sublocale aws_env \<subseteq> aws_op: operator_env lib client crs secrets "aws_reconciler client lib sdk mc"
    "\<lambda>cl. S3_present buckets" "AWS_configured buckets" "AWS_role_ready (sdk_arn_Parse sdk) roles"
    "\<lambda>cl. IAM_role_gone roles" buckets
  for mc :: ManagementCluster
proof (intro operator_env.intro[OF kube_api_axioms] operator_env_axioms.intro, goal_cases)
  case (3 w go w')
  then have "AWS_GetCluster client lib mc w = Some (go, w')" by simp
  from keepsD[OF AWS_GetCluster_keeps[OF keeps_crs_Get_Unstructured] this]
    keepsD[OF aws_getter.getter_cloud this]
  show ?case by simp
next
  case (6 cl w svc w')
  then show ?case by (simp add: aws_storage_service)
next
  case (7 cl w ars w')
  then show ?case by (simp add: aws_role_service)
next
  case (8 c c' cl b)
  then show ?case by (simp add: S3_present_def AWS_configured_def S3_configured_def split: option.split)
next
  case (9 b b' cl)
  then show ?case
    by (auto simp: fun_eq_iff S3_present_def AWS_configured_def S3_configured_def S3_configure_spec_def
        S3_lifecycle_rules_def aws_tags_def AWS_role_ready_def IAM_role_ready_def IAM_rolePolicyData_def
        IAM_role_gone_def split: option.split sum.split)
qed (auto dest: aws_factory_frame)

text \<open>What the environment gives for the operator on AWS.\<close>

context aws_env
begin

lemma aws_ready:
  assumes "Reconcile (aws_reconciler client lib sdk mc) req w = Some (Val (Inr ()), w')"
    and "crs (kube w) req = Some b" "meta_DeletionTimestamp (ObjectMeta b) = None"
  shows "\<exists>cl sb. crs (kube w') = (crs (kube w))(req \<mapsto>
      (set_finalizers (if BucketFinalizer \<in> set (bucket_finalizers b) then bucket_finalizers b
         else bucket_finalizers b @ [BucketFinalizer]) b)\<lparr>Status := \<lparr>BucketReady = True, BucketID = bucket_name b\<rparr>\<rparr>) \<and>
    works_with (aws_reconciler client lib sdk mc) req w (DynAWSCluster cl) \<and>
    buckets (cloud w') (bucket_name b) = Some sb \<and> S3_configure_spec cl b sb = sb \<and>
    (has_access_role b \<longrightarrow> AWS_role_ready (sdk_arn_Parse sdk) roles (DynAWSCluster cl) b (cloud w'))"
proof -
  let ?fs = "fst (AddFinalizer lib (bucket_finalizers b) BucketFinalizer)"
  let ?b = "(set_finalizers ?fs b)\<lparr>Status := ready_status b\<rparr>"
  from aws_op.Reconcile_normal_ok[OF assms] obtain cl where
    "crs (kube w') = (crs (kube w))(req \<mapsto> ?b)" "works_with (aws_reconciler client lib sdk mc) req w cl"
    "AWS_configured buckets cl b (cloud w')"
    "has_access_role b \<longrightarrow> AWS_role_ready (sdk_arn_Parse sdk) roles cl b (cloud w')" by blast
  moreover from this(3) obtain a sb where "cl = DynAWSCluster a" "buckets (cloud w') (bucket_name b) = Some sb"
    "S3_configure_spec a b sb = sb"
    by (cases cl) (auto simp: AWS_configured_def S3_configured_def split: option.splits)
  ultimately show ?thesis
    by (intro exI[of _ a] exI[of _ sb]) (simp add: ready_status_def AddFinalizer_fst)
qed

lemma aws_finalizer_goes_last:
  assumes "Reconcile (aws_reconciler client lib sdk mc) req w = Some (oc, w')"
    and "crs (kube w) req = Some b" "meta_DeletionTimestamp (ObjectMeta b) \<noteq> None"
    and "crs (kube w') \<noteq> crs (kube w)"
  shows "oc = Val (Inr ()) \<and> ReclaimPolicy (Spec b) = ReclaimPolicyDelete \<and>
    crs (kube w') = put_object (crs (kube w))
      (set_finalizers (filter (\<lambda>f. f \<noteq> BucketFinalizer) (bucket_finalizers b)) b) \<and>
    buckets (cloud w') (bucket_name b) = None \<and> (has_access_role b \<longrightarrow> IAM_role_gone roles b (cloud w'))"
  using aws_op.Reconcile_delete[OF assms] by (auto simp: S3_present_def)

end

section \<open>The operator on Azure\<close>

definition Azure_op_present ::
  "('c \<Rightarrow> string \<times> string \<Rightarrow> az_account option) \<Rightarrow> azure_lib \<Rightarrow> Cluster \<Rightarrow> Bucket \<Rightarrow> 'c \<Rightarrow> bool" where
  "Azure_op_present view alib cl b c \<longleftrightarrow>
     (case as_AzureCluster cl of None \<Rightarrow> False | Some a \<Rightarrow> Azure_present view a alib b c)"

definition Azure_op_configured ::
  "('c \<Rightarrow> string \<times> string \<Rightarrow> az_account option) \<Rightarrow> azure_lib \<Rightarrow> Cluster \<Rightarrow> Bucket \<Rightarrow> 'c \<Rightarrow> bool" where
  "Azure_op_configured view alib cl b c \<longleftrightarrow>
     (case as_AzureCluster cl of None \<Rightarrow> False | Some a \<Rightarrow> Azure_configured view a alib b c)"

locale azure_operator_env = kube_api lib client crs secrets
  for lib and client :: "'k Client" and crs secrets +
  fixes clients :: "('c, 'q, 'cred, 'sf, 'nf, 'df) azure_clients"
    and accounts :: "'c \<Rightarrow> string \<times> string \<Rightarrow> az_account option"
    and alib :: azure_lib
  assumes arm_clients: "azure_api (sdk_clients clients sf nf df) accounts"
begin

lemma azure_storage_service:
  assumes "Azure_NewObjectStorageService clients client lib alib cl w = Some (Val (Inr svc), w')"
  shows "object_storage_service svc crs (Azure_op_present accounts alib cl) (Azure_op_configured accounts alib cl)"
proof -
  from Azure_NewObjectStorageService_nil[OF assms] obtain a sf nf df where cl: "cl = DynAzureCluster a"
    and svc: "svc = Azure_service (NewAzureStorageService (sdk_clients clients sf nf df) a client lib alib)"
    by blast
  have "Azure_op_present accounts alib cl = Azure_present accounts a alib"
    "Azure_op_configured accounts alib cl = Azure_configured accounts a alib"
    by (simp_all add: cl Azure_op_present_def Azure_op_configured_def fun_eq_iff)
  moreover have "azure_env lib client crs secrets (sdk_clients clients sf nf df) accounts"
    using kube_api_axioms arm_clients by (rule azure_env.intro)
  ultimately show ?thesis unfolding svc by (simp add: azure_env.azure_service)
qed

lemma keeps_crs_reads:
  "keeps (\<lambda>w. crs (kube w) = m) (onKube (Get_Unstructured client gvk key))"
  "keeps (\<lambda>w. crs (kube w) = m) (onKube (Get_Secret client key))"
  by (auto simp: keeps_def onKube_def split: prod.splits dest: get_unstructured_frame)
    (metis get_secret_ok get_secret_err sum.exhaust)

end

sublocale azure_operator_env \<subseteq> azure_op: operator_env lib client crs secrets
    "azure_reconciler client lib clients alib mc" "Azure_op_present accounts alib"
    "Azure_op_configured accounts alib" "\<lambda>cl b c. True" "\<lambda>cl b c. True" accounts
  for mc :: ManagementCluster
proof (intro operator_env.intro[OF kube_api_axioms] operator_env_axioms.intro, goal_cases)
  case (3 w go w')
  then have "Azure_GetCluster client lib mc w = Some (go, w')" by simp
  from keepsD[OF Azure_GetCluster_keeps[OF keeps_crs_reads] this] keepsD[OF azure_getter.getter_cloud this]
  show ?case by simp
next
  case (4 cl w so w')
  with Azure_NewObjectStorageService_returns[of clients client lib alib cl w] show ?case by auto
next
  case (6 cl w svc w')
  then show ?case by (simp add: azure_storage_service)
next
  case (7 cl w ars w')
  then show ?case by (simp add: Azure_NewAccessRoleService_def azure_access_service)
next
  case (8 c c' cl b)
  then show ?case
    by (simp add: Azure_op_present_def Azure_op_configured_def Azure_present_def Azure_configured_def
        split: option.split)
next
  case (9 b b' cl)
  then show ?case
    by (auto simp: fun_eq_iff Azure_op_present_def Azure_op_configured_def Azure_present_def Azure_configured_def
        split: option.split)
qed (auto simp: Azure_NewAccessRoleService_def)

text \<open>What the environment gives for the operator on Azure.\<close>

context azure_operator_env
begin

lemma azure_ready:
  assumes "Reconcile (azure_reconciler client lib clients alib mc) req w = Some (Val (Inr ()), w')"
    and "crs (kube w) req = Some b" "meta_DeletionTimestamp (ObjectMeta b) = None"
  shows "\<exists>cl. crs (kube w') = (crs (kube w))(req \<mapsto>
      (set_finalizers (if BucketFinalizer \<in> set (bucket_finalizers b) then bucket_finalizers b
         else bucket_finalizers b @ [BucketFinalizer]) b)\<lparr>Status := \<lparr>BucketReady = True, BucketID = bucket_name b\<rparr>\<rparr>) \<and>
    works_with (azure_reconciler client lib clients alib mc) req w (DynAzureCluster cl) \<and>
    Azure_present accounts cl alib b (cloud w') \<and> Azure_configured accounts cl alib b (cloud w')"
proof -
  let ?fs = "fst (AddFinalizer lib (bucket_finalizers b) BucketFinalizer)"
  let ?b = "(set_finalizers ?fs b)\<lparr>Status := ready_status b\<rparr>"
  from azure_op.Reconcile_normal_ok[OF assms] obtain cl where
    "crs (kube w') = (crs (kube w))(req \<mapsto> ?b)" "works_with (azure_reconciler client lib clients alib mc) req w cl"
    "Azure_op_present accounts alib cl b (cloud w')" "Azure_op_configured accounts alib cl b (cloud w')" by blast
  moreover from this(3) obtain a where "cl = DynAzureCluster a"
    by (cases cl) (auto simp: Azure_op_present_def)
  ultimately show ?thesis
    by (intro exI[of _ a]) (simp add: ready_status_def AddFinalizer_fst Azure_op_present_def Azure_op_configured_def)
qed

lemma azure_no_orphan:
  assumes "Reconcile (azure_reconciler client lib clients alib mc) req w = Some (oc, w')"
    and "crs (kube w) req = Some b" "meta_DeletionTimestamp (ObjectMeta b) = None"
    and "accounts (cloud w') \<noteq> accounts (cloud w)"
  shows "\<exists>b'. crs (kube w') req = Some b' \<and> Spec b' = Spec b \<and> BucketFinalizer \<in> set (bucket_finalizers b')"
  using assms by (rule azure_op.Reconcile_no_orphan)

lemma azure_finalizer_goes_last:
  assumes "Reconcile (azure_reconciler client lib clients alib mc) req w = Some (oc, w')"
    and "crs (kube w) req = Some b" "meta_DeletionTimestamp (ObjectMeta b) \<noteq> None"
    and "crs (kube w') \<noteq> crs (kube w)"
  shows "oc = Val (Inr ()) \<and> ReclaimPolicy (Spec b) = ReclaimPolicyDelete \<and>
    crs (kube w') = put_object (crs (kube w))
      (set_finalizers (filter (\<lambda>f. f \<noteq> BucketFinalizer) (bucket_finalizers b)) b) \<and>
    (\<exists>cl. works_with (azure_reconciler client lib clients alib mc) req w cl \<and>
      \<not> Azure_op_present accounts alib cl b (cloud w'))"
  using azure_op.Reconcile_delete[OF assms] by blast

text \<open>More than the container is gone: the storage account is.\<close>

lemma azure_account_deleted:
  assumes "Reconcile (azure_reconciler client lib clients alib mc) req w = Some (oc, w')"
    and "crs (kube w) req = Some b" "meta_DeletionTimestamp (ObjectMeta b) \<noteq> None"
    and "crs (kube w') \<noteq> crs (kube w)"
  shows "\<exists>cl. works_with (azure_reconciler client lib clients alib mc) req w (DynAzureCluster cl) \<and>
    accounts (cloud w') (AzureCluster_GetResourceGroup cl, sanitizeStorageAccountName alib (bucket_name b)) = None"
proof -
  from azure_op.Reconcile_deleted[OF assms] obtain cl svc v v1 u u1 where
    cl: "works_with (azure_reconciler client lib clients alib mc) req w cl"
    and svc: "Azure_NewObjectStorageService clients client lib alib cl v = Some (Val (Inr svc), v1)"
    and del: "DeleteBucket svc b u = Some (Val (Inr ()), u1)" and same: "accounts (cloud w') = accounts (cloud u1)"
    by auto
  from Azure_NewObjectStorageService_nil[OF svc] obtain a sf nf df where a: "cl = DynAzureCluster a"
    "svc = Azure_service (NewAzureStorageService (sdk_clients clients sf nf df) a client lib alib)" by blast
  have env: "azure_env lib client crs secrets (sdk_clients clients sf nf df) accounts"
    using kube_api_axioms arm_clients by (rule azure_env.intro)
  from del a have "Azure_DeleteBucket (NewAzureStorageService (sdk_clients clients sf nf df) a client lib alib) b u =
      Some (Val (Inr ()), u1)" by (simp add: Azure_service_def)
  from azure_env.delete_nil[OF env this] same cl a(1) show ?thesis by (intro exI[of _ a]) simp
qed

end

end
