(* ===== verification/Operator_History.thy ===== *)
theory Operator_History
  imports Operator_Main
begin

text \<open>
  The operator over time: a step relation whose steps are whole runs of \<^verbatim>\<open>Reconcile\<close>, in any order and with any
  outcome, interleaved with what users and the cloud do in between. The work queue calls
  \<^verbatim>\<open>Reconcile\<close> for one object at a time, and the operator keeps no state between calls.
\<close>

section \<open>Steps\<close>

text \<open>
  Users create Bucket objects, edit them (all but the name of the bucket and the finalizers) and delete
  them, which stamps the object and removes it at once if no finalizer holds it. In the cloud, storage
  may disappear, and anything else about it may change.
\<close>

inductive op_step ::
  "('k, 'c) BucketReconciler \<Rightarrow> ('k \<Rightarrow> ObjectKey \<Rightarrow> Bucket option) \<Rightarrow> (string \<Rightarrow> 'c \<Rightarrow> bool) \<Rightarrow>
     ('k, 'c) world \<Rightarrow> ('k, 'c) world \<Rightarrow> bool"
  for r :: "('k, 'c) BucketReconciler" and crs :: "'k \<Rightarrow> ObjectKey \<Rightarrow> Bucket option"
    and named :: "string \<Rightarrow> 'c \<Rightarrow> bool"
  where
  reconcile: "Reconcile r req w = Some (oc, w') \<Longrightarrow> op_step r crs named w w'"
| user_create: "crs (kube w) (key_of b) = None \<Longrightarrow> crs (kube w') = (crs (kube w))(key_of b \<mapsto> b) \<Longrightarrow>
    cloud w' = cloud w \<Longrightarrow> op_step r crs named w w'"
| user_edit: "crs (kube w) (key_of b') = Some b \<Longrightarrow> bucket_name b' = bucket_name b \<Longrightarrow>
    bucket_finalizers b' = bucket_finalizers b \<Longrightarrow> crs (kube w') = (crs (kube w))(key_of b' \<mapsto> b') \<Longrightarrow>
    cloud w' = cloud w \<Longrightarrow> op_step r crs named w w'"
| user_delete: "crs (kube w) (key_of b) = Some b \<Longrightarrow>
    crs (kube w') = put_object (crs (kube w)) (b\<lparr>ObjectMeta := (ObjectMeta b)\<lparr>meta_DeletionTimestamp := Some t\<rparr>\<rparr>) \<Longrightarrow>
    cloud w' = cloud w \<Longrightarrow> op_step r crs named w w'"
| cloud_change: "(\<And>n. named n (cloud w') \<Longrightarrow> named n (cloud w)) \<Longrightarrow> crs (kube w') = crs (kube w) \<Longrightarrow>
    op_step r crs named w w'"

text \<open>Some stored object with the finalizer names this storage.\<close>

definition held :: "('k \<Rightarrow> ObjectKey \<Rightarrow> Bucket option) \<Rightarrow> 'k \<Rightarrow> string \<Rightarrow> bool" where
  "held crs k n \<longleftrightarrow> (\<exists>key b. crs k key = Some b \<and> bucket_name b = n \<and> BucketFinalizer \<in> set (bucket_finalizers b))"

lemma heldI: "crs k key = Some b \<Longrightarrow> bucket_name b = n \<Longrightarrow> BucketFinalizer \<in> set (bucket_finalizers b) \<Longrightarrow> held crs k n"
  by (auto simp: held_def)

text \<open>An object under a key that a step leaves alone keeps holding its storage.\<close>

lemma held_frame:
  assumes "held crs k n" and "(crs k')(key := None) = (crs k)(key := None)"
    and "\<And>b. crs k key = Some b \<Longrightarrow> bucket_name b \<noteq> n"
  shows "held crs k' n"
proof -
  from assms(1) obtain key' b where b: "crs k key' = Some b" "bucket_name b = n"
    "BucketFinalizer \<in> set (bucket_finalizers b)" by (auto simp: held_def)
  with assms(3) have "key' \<noteq> key" by blast
  with fun_cong[OF assms(2), of key'] b(1) have "crs k' key' = Some b" by simp
  with b(2,3) show ?thesis by (intro heldI)
qed

text \<open>A run of \<^verbatim>\<open>Reconcile\<close> for a given key, or for an object that names other storage.\<close>

definition unrelated_run ::
  "('k, 'c) BucketReconciler \<Rightarrow> ('k \<Rightarrow> ObjectKey \<Rightarrow> Bucket option) \<Rightarrow> ObjectKey \<Rightarrow> string \<Rightarrow>
     ('k, 'c) world \<Rightarrow> ('k, 'c) world \<Rightarrow> bool" where
  "unrelated_run r crs req n w w' \<longleftrightarrow> (\<exists>req' oc. Reconcile r req' w = Some (oc, w') \<and>
     (req' = req \<or> (\<forall>b. crs (kube w) req' = Some b \<longrightarrow> bucket_name b \<noteq> n)))"

section \<open>The invariant\<close>

locale operator_history =
  operator_env lib client crs secrets r present configured role_ready role_gone storage
  for lib and client :: "'k Client" and crs secrets and r :: "('k, 'c) BucketReconciler"
    and present configured role_ready role_gone and storage :: "'c \<Rightarrow> 's" +
  fixes named :: "string \<Rightarrow> 'c \<Rightarrow> bool"
  assumes named_present:
      "rec_ClusterGetter r w = Some (Val (Inr cl), w') \<Longrightarrow> present cl b c = named (bucket_name b) c"
    and storage_named: "storage c = storage c' \<Longrightarrow> named n c = named n c'"
begin

lemma some_bucket: "\<exists>b :: Bucket. bucket_name b = n"
  by (rule exI[of _ "\<lparr>ObjectMeta = om, Spec = \<lparr>spec_Name = n, ExpirationPolicy = None, ReclaimPolicy = [],
    AccessRole = None, spec_Tags = []\<rparr>, Status = st\<rparr>" for om st]) simp

lemma works_with_named:
  assumes "works_with r req w cl"
  shows "present cl b c = named (bucket_name b) c"
proof -
  from assms obtain w1 w2 where "rec_ClusterGetter r w1 = Some (Val (Inr cl), w2)"
    unfolding works_with_def by (auto split: option.splits prod.splits outcome.splits sum.splits)
  then show ?thesis by (rule named_present)
qed

text \<open>No run of \<^verbatim>\<open>Reconcile\<close>, whatever its outcome, leaves storage behind that no stored object holds.\<close>

lemma reconcile_holds:
  assumes run: "Reconcile r req w = Some (oc, w')"
    and inv: "named n (cloud w) \<Longrightarrow> held crs (kube w) n" and ex: "named n (cloud w')"
  shows "held crs (kube w') n"
  using run
proof (cases rule: Reconcile_cases)
  case stopped
  with inv ex storage_named[of "cloud w'" "cloud w" n] show ?thesis by (simp add: held_def)
next
  case (working b cl svc ars w1 v v1)
  note env = working(2)[unfolded at_work_def] and named_present = works_with_named[OF working(3)]
  have key: "key_of b = req" using working(1) crs_key by blast
  have st: "crs (kube w1) (key_of b) = Some b" using working key by simp
  have inv1: "named n (cloud w1) \<Longrightarrow> held crs (kube w1) n"
    using inv storage_named[OF working(4)] working(5) by (simp add: held_def)
  obtain b' :: Bucket where b': "bucket_name b' = n" using some_bucket by blast
  show ?thesis
  proof (cases "meta_DeletionTimestamp (ObjectMeta b) = None")
    case True
    with working have normal: "reconcileNormal r svc ars b w1 = Some (oc, w')" by simp
    show ?thesis
    proof (cases "bucket_name b = n")
      case True
      from reconciler_env.normal_no_orphan[OF env st normal] show ?thesis
      proof
        assume "cloud w' = cloud w1 \<and> crs (kube w') = crs (kube w1)"
        with inv1 ex show ?thesis by (simp add: held_def)
      next
        assume "reconciler_env.finalized crs (key_of b) (Spec b) w'"
        then show ?thesis
          unfolding reconciler_env.finalized_def[OF env] using True by (metis heldI)
      qed
    next
      case False
      with reconciler_env.normal_frame[OF env st normal, of b'] b' ex named_present
      have "(crs (kube w'))(key_of b := None) = (crs (kube w1))(key_of b := None)" "named n (cloud w1)"
        by auto
      with inv1 held_frame[of crs "kube w1" n "kube w'" "key_of b"] st False show ?thesis by auto
    qed
  next
    case False
    with working obtain oc0 where del: "reconcileDelete r svc ars b w1 = Some (oc0, w')"
      by (auto simp: attempt_run split: option.splits prod.splits outcome.splits sum.splits)
    note frame = reconciler_env.delete_frame[OF env st del]
    show ?thesis
    proof (cases "bucket_name b = n")
      case True
      with frame(2,3) ex named_present have "named n (cloud w1)" "crs (kube w') = crs (kube w1)" by blast+
      with inv1 show ?thesis by (simp add: held_def)
    next
      case False
      with keepsD[OF reconciler_env.deleting_others[OF env, of b' b] del] b' ex named_present
      have "named n (cloud w1)" by auto
      with inv1 held_frame[of crs "kube w1" n "kube w'" "key_of b"] frame(1) st False show ?thesis by auto
    qed
  qed
qed

text \<open>Every step keeps the invariant.\<close>

lemma step_holds:
  assumes "op_step r crs named w w'" and "named n (cloud w) \<Longrightarrow> held crs (kube w) n" and "named n (cloud w')"
  shows "held crs (kube w') n"
  using assms
proof (cases rule: op_step.cases)
  case (reconcile req oc)
  with reconcile_holds assms(2,3) show ?thesis by blast
next
  case (user_create b)
  then have "(crs (kube w'))(key_of b := None) = (crs (kube w))(key_of b := None)" by simp
  with user_create assms(2,3) held_frame[of crs "kube w" n "kube w'" "key_of b"] show ?thesis by auto
next
  case (user_edit b' b)
  show ?thesis
  proof (cases "bucket_name b = n \<and> BucketFinalizer \<in> set (bucket_finalizers b)")
    case True
    with user_edit show ?thesis by (intro heldI[of crs "kube w'" "key_of b'" b']) auto
  next
    case False
    from assms(2,3) user_edit obtain key b0 where b0: "crs (kube w) key = Some b0" "bucket_name b0 = n"
      "BucketFinalizer \<in> set (bucket_finalizers b0)" by (auto simp: held_def)
    with False user_edit have "crs (kube w') key = Some b0" by (cases "key = key_of b'") auto
    with b0 show ?thesis by (intro heldI)
  qed
next
  case (user_delete b t)
  let ?b = "b\<lparr>ObjectMeta := (ObjectMeta b)\<lparr>meta_DeletionTimestamp := Some t\<rparr>\<rparr>"
  have key: "key_of ?b = key_of b" by (simp add: key_of_def)
  from assms(2,3) user_delete obtain key b0 where b0: "crs (kube w) key = Some b0" "bucket_name b0 = n"
    "BucketFinalizer \<in> set (bucket_finalizers b0)" by (auto simp: held_def)
  show ?thesis
  proof (cases "key = key_of b")
    case True
    with b0 user_delete have "b0 = b" "bucket_finalizers b \<noteq> []" by auto
    with b0 user_delete key True show ?thesis
      by (intro heldI[of crs "kube w'" "key_of b" ?b]) (auto simp: put_object_def)
  next
    case False
    with b0 user_delete key show ?thesis by (intro heldI[of crs "kube w'" key b0]) (auto simp: put_object_def)
  qed
next
  case cloud_change
  with assms(2,3) show ?thesis by (auto simp: held_def)
qed

text \<open>An object in deletion without storage is never released.\<close>

lemma unreleased_step:
  assumes stuck: "crs (kube w) req = Some b" "meta_DeletionTimestamp (ObjectMeta b) \<noteq> None"
      "\<not> named (bucket_name b) (cloud w)"
    and step: "unrelated_run r crs req (bucket_name b) w w'"
  shows "crs (kube w') req = Some b \<and> \<not> named (bucket_name b) (cloud w')"
proof -
  from step obtain req' oc where run: "Reconcile r req' w = Some (oc, w')"
    and other: "req' = req \<or> (\<forall>b'. crs (kube w) req' = Some b' \<longrightarrow> bucket_name b' \<noteq> bucket_name b)"
    by (auto simp: unrelated_run_def)
  from run show ?thesis
  proof (cases rule: Reconcile_cases)
    case stopped
    with stuck storage_named show ?thesis by metis
  next
    case (working b0 cl svc ars w1 v v1)
    note env = working(2)[unfolded at_work_def] and named_present = works_with_named[OF working(3)]
    have key: "key_of b0 = req'" using working(1) crs_key by blast
    have st: "crs (kube w1) (key_of b0) = Some b0" using working key by simp
    have absent: "\<not> present cl b (cloud w1)" using stuck(3) storage_named[OF working(4)] named_present by simp
    show ?thesis
    proof (cases "req' = req")
      case True
      with working stuck obtain oc0 where "b0 = b" "reconcileDelete r svc ars b w1 = Some (oc0, w')"
        by (auto simp: attempt_run split: option.splits prod.splits outcome.splits sum.splits)
      with reconciler_env.delete_frame(2)[OF env st] absent named_present working(5) stuck(1) show ?thesis by auto
    next
      case False
      with other working(1) have name: "bucket_name b \<noteq> bucket_name b0" by metis
      have "(crs (kube w'))(key_of b0 := None) = (crs (kube w1))(key_of b0 := None) \<and> \<not> present cl b (cloud w')"
      proof (cases "meta_DeletionTimestamp (ObjectMeta b0) = None")
        case True
        with working have "reconcileNormal r svc ars b0 w1 = Some (oc, w')" by simp
        from reconciler_env.normal_frame[OF env st this name] absent show ?thesis by simp
      next
        case False
        with working obtain oc0 where del: "reconcileDelete r svc ars b0 w1 = Some (oc0, w')"
          by (auto simp: attempt_run split: option.splits prod.splits outcome.splits sum.splits)
        from reconciler_env.delete_frame(1)[OF env st del] keepsD[OF reconciler_env.deleting_others[OF env name] del] absent
        show ?thesis by simp
      qed
      with False key stuck(1) working(5) named_present show ?thesis by (metis fun_upd_other)
    qed
  qed
qed

lemma unreleased:
  assumes "rtranclp (unrelated_run r crs req (bucket_name b)) w w'"
    and "crs (kube w) req = Some b" "meta_DeletionTimestamp (ObjectMeta b) \<noteq> None" "\<not> named (bucket_name b) (cloud w)"
  shows "crs (kube w') req = Some b \<and> \<not> named (bucket_name b) (cloud w')"
  using assms
proof (induction rule: rtranclp_induct)
  case (step y z)
  then show ?case using unreleased_step by blast
qed simp

lemma history_holds:
  assumes "rtranclp (op_step r crs named) w w'"
    and "named n (cloud w) \<Longrightarrow> held crs (kube w) n" and "named n (cloud w')"
  shows "held crs (kube w') n"
  using assms
proof (induction rule: rtranclp_induct)
  case (step y z)
  then show ?case using step_holds by blast
qed

end

text \<open>The operator on AWS is one: a bucket is present when the account has a bucket of its name.\<close>

definition aws_named :: "('c \<Rightarrow> string \<Rightarrow> s3_bucket option) \<Rightarrow> string \<Rightarrow> 'c \<Rightarrow> bool" where
  "aws_named view n c \<longleftrightarrow> view c n \<noteq> None"

sublocale aws_env \<subseteq> aws_hist: operator_history lib client crs secrets "aws_reconciler client lib sdk mc"
    "\<lambda>cl. S3_present buckets" "AWS_configured buckets" "AWS_role_ready (sdk_arn_Parse sdk) roles"
    "\<lambda>cl. IAM_role_gone roles" buckets "aws_named buckets"
  for mc :: ManagementCluster
  by (intro operator_history.intro aws_op.operator_env_axioms operator_history_axioms.intro)
    (simp_all add: aws_named_def S3_present_def)

context aws_env
begin

lemma aws_history_holds:
  assumes "rtranclp (op_step (aws_reconciler client lib sdk mc) crs (aws_named buckets)) w w'"
    and "aws_named buckets n (cloud w) \<Longrightarrow> held crs (kube w) n" and "aws_named buckets n (cloud w')"
  shows "held crs (kube w') n"
  using assms by (rule aws_hist.history_holds)

lemma aws_unreleased:
  assumes "rtranclp (unrelated_run (aws_reconciler client lib sdk mc) crs req (bucket_name b)) w w'"
    and "crs (kube w) req = Some b" "meta_DeletionTimestamp (ObjectMeta b) \<noteq> None"
    and "buckets (cloud w) (bucket_name b) = None"
  shows "crs (kube w') req = Some b \<and> buckets (cloud w') (bucket_name b) = None"
  using aws_hist.unreleased[OF assms(1-3)] assms(4) by (simp add: aws_named_def)

end

text \<open>
  The operator on Azure is one as long as the resource group of the management cluster does not change: the
  \<^verbatim>\<open>AzureCluster\<close> API has it immutable. A container is present when the account of its sanitized name in
  that resource group has it.
\<close>

definition azure_named ::
  "('c \<Rightarrow> string \<times> string \<Rightarrow> az_account option) \<Rightarrow> string \<Rightarrow> azure_lib \<Rightarrow> string \<Rightarrow> 'c \<Rightarrow> bool" where
  "azure_named view rg alib n c \<longleftrightarrow> container_in view c (rg, sanitizeStorageAccountName alib n) n"

locale azure_history = azure_operator_env lib client crs secrets clients accounts alib
  for lib and client :: "'k Client" and crs secrets
    and clients :: "('c, 'q, 'cred, 'sf, 'nf, 'df) azure_clients" and accounts alib +
  fixes rg :: string
  assumes resource_group_fixed:
      "Get_Unstructured client \<lparr>gvk_Group = Azure_Group, gvk_Version = Azure_VersionCluster, gvk_Kind = Azure_KindCluster\<rparr>
         key k = (Inr u, k') \<Longrightarrow> NestedString lib u [''spec'', ''resourceGroup''] = Inr (Some g) \<Longrightarrow> g = rg"
begin

lemma getter_resource_group:
  assumes "Azure_GetCluster client lib mc w = Some (Val (Inr cl), w')"
  obtains a where "cl = DynAzureCluster a" "AzureCluster_GetResourceGroup a = rg"
proof -
  have "\<exists>u g w1. Azure_getClusterCR client mc w = Some (Val (Inr u), w1) \<and>
      NestedString lib u [''spec'', ''resourceGroup''] = Inr (Some g) \<and>
      (\<exists>a. cl = DynAzureCluster a \<and> ResourceGroup (az_Credentials a) = g)"
    using assms by (auto simp: Azure_GetCluster_def Let_def split: prod.splits)
  then obtain u g w1 a where u: "Azure_getClusterCR client mc w = Some (Val (Inr u), w1)"
    "NestedString lib u [''spec'', ''resourceGroup''] = Inr (Some g)"
    and a: "cl = DynAzureCluster a" "ResourceGroup (az_Credentials a) = g" by blast
  from u(1) obtain key k k' where
    "Get_Unstructured client \<lparr>gvk_Group = Azure_Group, gvk_Version = Azure_VersionCluster, gvk_Kind = Azure_KindCluster\<rparr>
       key k = (Inr u, k')"
    by (auto simp: Azure_getClusterCR_def)
  from resource_group_fixed[OF this u(2)] a that show thesis by (simp add: AzureCluster_GetResourceGroup_def)
qed

lemma azure_present_named:
  assumes "Azure_GetCluster client lib mc w = Some (Val (Inr cl), w')"
  shows "Azure_op_present accounts alib cl b c = azure_named accounts rg alib (bucket_name b) c"
proof -
  from assms obtain a where "cl = DynAzureCluster a" "AzureCluster_GetResourceGroup a = rg"
    by (rule getter_resource_group)
  then show ?thesis by (simp add: Azure_op_present_def Azure_present_container azure_named_def)
qed

end

sublocale azure_history \<subseteq> azure_hist: operator_history lib client crs secrets
    "azure_reconciler client lib clients alib mc" "Azure_op_present accounts alib"
    "Azure_op_configured accounts alib" "\<lambda>cl b c. True" "\<lambda>cl b c. True" accounts "azure_named accounts rg alib"
  for mc :: ManagementCluster
  by (intro operator_history.intro azure_op.operator_env_axioms operator_history_axioms.intro)
    (auto simp: azure_present_named azure_named_def container_in_def)

context azure_history
begin

lemma azure_history_holds:
  assumes "rtranclp (op_step (azure_reconciler client lib clients alib mc) crs (azure_named accounts rg alib)) w w'"
    and "azure_named accounts rg alib n (cloud w) \<Longrightarrow> held crs (kube w) n"
    and "azure_named accounts rg alib n (cloud w')"
  shows "held crs (kube w') n"
  using assms by (rule azure_hist.history_holds)

end

end
