(* ===== verification/Azure_Returns.thy ===== *)
theory Azure_Returns
  imports Operator_Main
begin

text \<open>
  The Azure adapter dereferences what the SDK answers with: the answer about the availability of a name, the access keys
  with their names and values, and the name, properties and addresses of a private endpoint. This theory states that the answers are complete as a contract of its own
  (the interface description of the services guarantees it, the types of the SDK do not), and shows that the operator on
  Azure then never panics.
\<close>

definition complete_endpoint :: "PrivateEndpoint \<Rightarrow> bool" where
  "complete_endpoint pe \<longleftrightarrow> pe_Name pe \<noteq> None \<and>
     (case pe_CustomDNSConfigs pe of
        None \<Rightarrow> False
      | Some cs \<Rightarrow> list_all (\<lambda>c. case c of
            None \<Rightarrow> False
          | Some d \<Rightarrow> (case IPAddresses d of None \<Rightarrow> True | Some ps \<Rightarrow> list_all (\<lambda>p. p \<noteq> None) ps)) cs)"

definition complete_key :: "AccountKey option \<Rightarrow> bool" where
  "complete_key k \<longleftrightarrow> (case k of None \<Rightarrow> False | Some key \<Rightarrow> ak_KeyName key \<noteq> None \<and> ak_Value key \<noteq> None)"

locale azure_answers = azure_operator_env lib client crs secrets clients accounts alib
  for lib and client :: "'k Client" and crs secrets
    and clients :: "('c, 'q, 'cred, 'sf, 'nf, 'df) azure_clients" and accounts alib +
  assumes name_answered:
      "sdk_CheckNameAvailability (sdk_clients clients sf nf df) n t c = (Inr av, c') \<Longrightarrow> av \<noteq> None"
    and keys_complete:
      "sdk_ListKeys (sdk_clients clients sf nf df) rg n c = (Inr keys, c') \<Longrightarrow> list_all complete_key keys"
    and endpoint_complete:
      "sdk_PollEndpoint (sdk_clients clients sf nf df) q c = (Inr pe, c') \<Longrightarrow> complete_endpoint pe"

section \<open>What is dereferenced is there\<close>

lemma deref_all_complete: "list_all (\<lambda>p. \<exists>y. p = Some y) ps \<Longrightarrow> \<exists>ips. deref_all ps = Some ips"
  by (induction ps rule: deref_all.induct) auto

lemma endpoint_ips_complete:
  "list_all (\<lambda>c. case c of
       None \<Rightarrow> False
     | Some d \<Rightarrow> (case IPAddresses d of None \<Rightarrow> True | Some ps \<Rightarrow> list_all (\<lambda>p. p \<noteq> None) ps)) cs \<Longrightarrow>
   endpoint_ips cs \<noteq> None"
  by (induction cs rule: endpoint_ips.induct) (fastforce split: option.splits dest: deref_all_complete)+

lemma fillSecret_complete: "list_all complete_key keys \<Longrightarrow> Azure_fillSecret n keys s \<noteq> Panicked"
  by (induction n keys s rule: Azure_fillSecret.induct) (auto simp: complete_key_def split: option.splits)

lemma ARecords_return:
  "complete_endpoint pe \<Longrightarrow> returns (Azure_upsertPrivateEndpointARecords s b pe n) w"
  using endpoint_ips_complete unfolding complete_endpoint_def Azure_upsertPrivateEndpointARecords_def
  by (fastforce split: option.splits intro!: returns_attempt)

lemma private_return: "returns (Azure_isManagementClusterPrivate s) w"
  unfolding Azure_isManagementClusterPrivate_def Let_def
  by (auto intro!: returns_attempt returns_andThen split: sum.split option.split prod.split)

section \<open>The methods of the adapter\<close>

context azure_answers
begin

abbreviation the_adapter :: "'sf \<Rightarrow> 'nf \<Rightarrow> 'df \<Rightarrow> AzureCluster \<Rightarrow> ('k, 'c, 'q) AzureObjectStorageAdapter" where
  "the_adapter sf nf df cl \<equiv> NewAzureStorageService (sdk_clients clients sf nf df) cl client lib alib"

lemma account_exists_returns: "returns (Azure_existsStorageAccount (the_adapter sf nf df cl) n) w"
proof -
  have answer: "\<exists>b. av = Some b" if "sdk_CheckNameAvailability (sdk_clients clients sf nf df) n t c = (Inr av, c')" for t c c' av
    using name_answered[OF that] by simp
  then show ?thesis
    unfolding Azure_existsStorageAccount_def by (auto intro!: returns_attempt dest!: answer) (simp add: returns_def)
qed

lemma endpoint_returns:
  "returns (Azure_upsertPrivateEndpoint s b n) w"
  "Azure_upsertPrivateEndpoint (the_adapter sf nf df cl) b n w = Some (Val (Inr pe), w') \<Longrightarrow> complete_endpoint pe"
  unfolding Azure_upsertPrivateEndpoint_def
  by (auto intro!: returns_attempt dest: endpoint_complete)

lemma private_access_returns: "returns (Azure_privateAccess (the_adapter sf nf df cl) b n) w"
  unfolding Azure_privateAccess_def
  by (auto intro!: returns_attempt endpoint_returns(1) ARecords_return endpoint_returns(2))

lemma secret_returns:
  assumes "list_all complete_key keys"
  shows "returns (onKube_callback (CreateOrUpdate_Secret client s (Azure_fillSecret n keys))) w"
proof -
  have "fst (CreateOrUpdate_Secret client s (Azure_fillSecret n keys) (kube w)) \<noteq> Panicked"
    using create_or_update_panic fillSecret_complete[OF assms] by (metis prod.collapse)
  then show ?thesis
    by (auto simp: returns_def onKube_callback_def split: prod.split) (metis outcome.exhaust)
qed

lemma upsert_account_returns: "returns (Azure_upsertStorageAccount (the_adapter sf nf df cl) b n priv) w"
  unfolding Azure_upsertStorageAccount_def by (auto intro!: returns_attempt account_exists_returns)

lemma upsert_container_returns: "returns (Azure_upsertContainer s b n) w"
  unfolding Azure_upsertContainer_def Azure_existsContainer_def
  by (auto intro!: returns_attempt returns_andThen split: sum.split)

lemma create_returns: "returns (Azure_CreateBucket (the_adapter sf nf df cl) b) w"
  unfolding Azure_CreateBucket_def Let_def
  by (auto intro!: returns_attempt private_return upsert_account_returns upsert_container_returns
      private_access_returns secret_returns dest: keys_complete)

lemma exists_returns: "returns (Azure_ExistsBucket (the_adapter sf nf df cl) b) w"
  unfolding Azure_ExistsBucket_def Azure_existsContainer_def Let_def
  by (auto intro!: returns_attempt returns_andThen account_exists_returns split: sum.split)

lemma delete_returns: "returns (Azure_DeleteBucket (the_adapter sf nf df cl) b) w"
  unfolding Azure_DeleteBucket_def Azure_deleteStorageAccount_def Let_def
  by (auto intro!: returns_attempt returns_andThen split: sum.split)

lemma configure_returns: "returns (Azure_ConfigureBucket s b) w"
  unfolding Azure_ConfigureBucket_def Azure_setLifecycleRules_def Let_def
  by (auto intro!: returns_attempt returns_andThen split: sum.split option.split)

lemma azure_methods_return:
  assumes "Azure_NewObjectStorageService clients client lib alib cl w = Some (Val (Inr svc), w1)"
  shows "methods_return svc NewAzureAccessService"
proof -
  from Azure_NewObjectStorageService_nil[OF assms] obtain a sf nf df where
    svc: "svc = Azure_service (the_adapter sf nf df a)" by blast
  show ?thesis
    unfolding methods_return_def svc
    by (simp add: Azure_service_def exists_returns create_returns Azure_UpdateBucket_def configure_returns
        delete_returns NewAzureAccessService_def AzureAccess_ConfigureRole_def AzureAccess_DeleteRole_def)
qed

text \<open>The operator on Azure neither panics nor runs forever.\<close>

lemma azure_Reconcile_returns: "returns (Reconcile (azure_reconciler client lib clients alib mc) req) w"
proof (rule Reconcile_returns, goal_cases)
  case (2 cl w)
  then show ?case
    using Azure_NewObjectStorageService_returns[of clients client lib alib cl w] by (auto simp: returns_def)
qed (auto simp: Azure_GetCluster_returns Azure_NewAccessRoleService_def intro: azure_methods_return)

end

end
