(* ===== verification/Reference_Kube.thy ===== *)
theory Reference_Kube
  imports Kube_Client
begin

text \<open>
  An executable in-memory Kubernetes API that keeps the contract \<open>kube_api\<close>: a list of objects per kind, with
  the semantics of merge patches, of finalizers and of \<^verbatim>\<open>controllerutil.CreateOrUpdate\<close>. It shows that the
  contract can be kept, and the scenarios of the development run on it.
\<close>

record kstore =
  ks_buckets :: "Bucket list"
  ks_secrets :: "Secret list"
  ks_objects :: "((GroupVersionKind \<times> ObjectKey) \<times> uvalue) list"
  ks_configmaps :: "(ObjectKey \<times> (string \<times> string) list) list"

definition ref_not_found :: go_error where
  "ref_not_found = KubeStatusError ''NotFound'' ''not found''"

fun ref_IsNotFound :: "go_error option \<Rightarrow> bool" where
  "ref_IsNotFound (Some (KubeStatusError reason msg)) = (reason = ''NotFound'')"
| "ref_IsNotFound (Some (WrapError msg (Some e))) = ref_IsNotFound (Some e)"
| "ref_IsNotFound _ = False"

fun ref_nested :: "uvalue \<Rightarrow> string list \<Rightarrow> go_error + uvalue option" where
  "ref_nested v [] = Inr (Some v)"
| "ref_nested (UMap m) (f # fs) = (case map_of m f of None \<Rightarrow> Inr None | Some v \<Rightarrow> ref_nested v fs)"
| "ref_nested v (f # fs) = Inl (ErrorString (''accessor error: value at '' @ f @ '' is of the wrong type''))"

definition ref_NestedString :: "uvalue \<Rightarrow> string list \<Rightarrow> go_error + string option" where
  "ref_NestedString v fs =
     (case ref_nested v fs of
        Inl e \<Rightarrow> Inl e | Inr None \<Rightarrow> Inr None | Inr (Some (UString s)) \<Rightarrow> Inr (Some s)
      | Inr (Some _) \<Rightarrow> Inl (ErrorString ''accessor error: value is of the wrong type, expected string''))"

fun ref_strings :: "(string \<times> uvalue) list \<Rightarrow> (string \<times> string) list option" where
  "ref_strings [] = Some []"
| "ref_strings ((k, UString s) # m) = map_option ((#) (k, s)) (ref_strings m)"
| "ref_strings _ = None"

definition ref_NestedStringMap :: "uvalue \<Rightarrow> string list \<Rightarrow> go_error + go_map option" where
  "ref_NestedStringMap v fs =
     (case ref_nested v fs of
        Inl e \<Rightarrow> Inl e | Inr None \<Rightarrow> Inr None
      | Inr (Some (UMap m)) \<Rightarrow>
         (case ref_strings m of
            Some sm \<Rightarrow> Inr (Some sm)
          | None \<Rightarrow> Inl (ErrorString ''accessor error: contains non-string value in the map''))
      | Inr (Some _) \<Rightarrow> Inl (ErrorString ''accessor error: value is of the wrong type, expected map''))"

definition ref_lib :: kube_lib where
  "ref_lib =
     \<lparr>AddFinalizer = (\<lambda>fs f. if f \<in> set fs then (fs, False) else (fs @ [f], True)),
      RemoveFinalizer = (\<lambda>fs f. (filter (\<lambda>g. g \<noteq> f) fs, f \<in> set fs)),
      IgnoreNotFound = (\<lambda>e. if ref_IsNotFound e then None else e),
      IsNotFound = ref_IsNotFound,
      NestedString = ref_NestedString, NestedStringMap = ref_NestedStringMap\<rparr>"

definition ref_crs :: "kstore \<Rightarrow> ObjectKey \<Rightarrow> Bucket option" where
  "ref_crs k key = find (\<lambda>b. key_of b = key) (ks_buckets k)"

definition ref_secrets :: "kstore \<Rightarrow> ObjectKey \<Rightarrow> Secret option" where
  "ref_secrets k key = find (\<lambda>s. secret_key_of s = key) (ks_secrets k)"

definition ref_put :: "Bucket \<Rightarrow> kstore \<Rightarrow> kstore" where
  "ref_put b k = k\<lparr>ks_buckets :=
     (if meta_DeletionTimestamp (ObjectMeta b) \<noteq> None \<and> bucket_finalizers b = [] then [] else [b]) @
     filter (\<lambda>x. key_of x \<noteq> key_of b) (ks_buckets k)\<rparr>"

definition ref_put_secret :: "Secret \<Rightarrow> kstore \<Rightarrow> kstore" where
  "ref_put_secret s k = k\<lparr>ks_secrets := s # filter (\<lambda>x. secret_key_of x \<noteq> secret_key_of s) (ks_secrets k)\<rparr>"

definition ref_patch ::
  "(Bucket \<Rightarrow> Bucket \<Rightarrow> Bucket \<Rightarrow> Bucket) \<Rightarrow> Bucket \<Rightarrow> Bucket \<Rightarrow> (kstore, Bucket) api" where
  "ref_patch merge orig modified k =
     (case ref_crs k (key_of modified) of
        None \<Rightarrow> (Inl ref_not_found, k)
      | Some b \<Rightarrow> (let b' = merge orig modified b in (Inr b', ref_put b' k)))"

definition ref_patch_secret :: "Secret \<Rightarrow> Secret \<Rightarrow> (kstore, Secret) api" where
  "ref_patch_secret orig modified k =
     (case ref_secrets k (secret_key_of modified) of
        None \<Rightarrow> (Inl ref_not_found, k)
      | Some s \<Rightarrow>
         (let s' = (if secret_Finalizers orig = secret_Finalizers modified then s
                    else s\<lparr>secret_Finalizers := secret_Finalizers modified\<rparr>)
          in (Inr s', ref_put_secret s' k)))"

definition ref_delete_secret :: "Secret \<Rightarrow> (kstore, unit) api" where
  "ref_delete_secret s k =
     (case ref_secrets k (secret_key_of s) of
        None \<Rightarrow> (Inl ref_not_found, k)
      | Some s0 \<Rightarrow>
         (Inr (), if secret_Finalizers s0 \<noteq> [] then k
                  else k\<lparr>ks_secrets := filter (\<lambda>x. secret_key_of x \<noteq> secret_key_of s) (ks_secrets k)\<rparr>))"

definition ref_create_or_update ::
  "Secret \<Rightarrow> (Secret \<Rightarrow> (go_error + Secret) outcome) \<Rightarrow> kstore \<Rightarrow> (go_error + Secret) outcome \<times> kstore" where
  "ref_create_or_update s f k =
     (case f (case ref_secrets k (secret_key_of s) of None \<Rightarrow> s | Some s0 \<Rightarrow> s0) of
        Panicked \<Rightarrow> (Panicked, k)
      | Val (Inl e) \<Rightarrow> (Val (Inl e), k)
      | Val (Inr s') \<Rightarrow>
          if secret_key_of s' \<noteq> secret_key_of s
          then (Val (Inl (ErrorString ''MutateFn cannot mutate object name and/or object namespace'')), k)
          else (Val (Inr s'), ref_put_secret s' k))"

definition ref_client :: "kstore Client" where
  "ref_client =
     \<lparr>Get_Bucket = (\<lambda>key k. (case ref_crs k key of None \<Rightarrow> Inl ref_not_found | Some b \<Rightarrow> Inr b, k)),
      Get_Unstructured = (\<lambda>gvk key k.
        (case map_of (ks_objects k) (gvk, key) of None \<Rightarrow> Inl ref_not_found | Some u \<Rightarrow> Inr u, k)),
      Get_Secret = (\<lambda>key k. (case ref_secrets k key of None \<Rightarrow> Inl ref_not_found | Some s \<Rightarrow> Inr s, k)),
      Get_ConfigMap = (\<lambda>key k.
        (case map_of (ks_configmaps k) key of None \<Rightarrow> Inl ref_not_found | Some m \<Rightarrow> Inr \<lparr>cm_Data = map_of m\<rparr>, k)),
      Patch_Bucket = ref_patch merge_finalizers,
      Status_Patch_Bucket = ref_patch merge_status,
      Patch_Secret = ref_patch_secret,
      Delete_Secret = ref_delete_secret,
      CreateOrUpdate_Secret = ref_create_or_update\<rparr>"

section \<open>It keeps the contract\<close>

lemma find_filter_other:
  "find (\<lambda>b. f b = key) (filter (\<lambda>x. f x \<noteq> key') xs) =
     (if key = key' then None else find (\<lambda>b. f b = key) xs)"
  by (induction xs) auto

lemma ref_crs_key: "ref_crs k key = Some b \<Longrightarrow> key_of b = key"
  by (simp add: ref_crs_def find_Some_iff) blast

lemma ref_secrets_key: "ref_secrets k key = Some s \<Longrightarrow> secret_key_of s = key"
  by (simp add: ref_secrets_def find_Some_iff) blast

lemma ref_put_run [simp]:
  "ref_crs (ref_put b k) = put_object (ref_crs k) b" "ref_secrets (ref_put b k) = ref_secrets k"
  by (auto simp: fun_eq_iff ref_crs_def ref_secrets_def ref_put_def put_object_def find_filter_other)

lemma ref_put_secret_run [simp]:
  "ref_crs (ref_put_secret s k) = ref_crs k"
  "ref_secrets (ref_put_secret s k) = (ref_secrets k)(secret_key_of s \<mapsto> s)"
  by (auto simp: fun_eq_iff ref_crs_def ref_secrets_def ref_put_secret_def find_filter_other)

lemma ref_delete_secret_run:
  assumes "ref_delete_secret s k = (r, k')"
  shows "ref_crs k' = ref_crs k"
    and "ref_secrets k (secret_key_of s) = Some s0 \<Longrightarrow> secret_Finalizers s0 = [] \<Longrightarrow>
      ref_secrets k' = (ref_secrets k)(secret_key_of s := None)"
  using assms
  by (auto simp: fun_eq_iff ref_crs_def ref_secrets_def ref_delete_secret_def find_filter_other
      split: option.splits if_splits)

lemma ref_patch_run:
  assumes "ref_patch merge orig modified k = (r, k')"
  shows "(case r of
      Inl e \<Rightarrow> k' = k
    | Inr b' \<Rightarrow> (\<exists>b. ref_crs k (key_of modified) = Some b \<and> b' = merge orig modified b) \<and>
        ref_crs k' = put_object (ref_crs k) b' \<and> ref_secrets k' = ref_secrets k)"
  using assms by (auto simp: ref_patch_def Let_def split: option.splits)

lemma ref_patch_secret_run:
  assumes "ref_patch_secret orig s k = (r, k')"
  shows "ref_crs k' = ref_crs k"
    and "r = Inr s' \<Longrightarrow>
      (\<exists>s0. ref_secrets k (secret_key_of s) = Some s0 \<and>
         s' = (if secret_Finalizers orig = secret_Finalizers s then s0
               else s0\<lparr>secret_Finalizers := secret_Finalizers s\<rparr>)) \<and>
      ref_secrets k' = (ref_secrets k)(secret_key_of s \<mapsto> s')"
  using assms
  by (auto simp: ref_patch_secret_def Let_def secret_key_of_def dest!: ref_secrets_key split: option.splits if_splits)

interpretation ref_kube: kube_api ref_lib ref_client ref_crs ref_secrets
proof (unfold_locales, goal_cases)
  case (6 k key b)
  then show ?case by (rule ref_crs_key)
next
  case (7 k key s)
  then show ?case by (rule ref_secrets_key)
next
  case (14 orig modified k b' k')
  then show ?case using ref_patch_run[of merge_finalizers orig modified k "Inr b'" k'] by (simp add: ref_client_def)
next
  case (15 orig modified k e k')
  then show ?case using ref_patch_run[of merge_finalizers orig modified k "Inl e" k'] by (simp add: ref_client_def)
next
  case (16 orig modified k b' k')
  then show ?case using ref_patch_run[of merge_status orig modified k "Inr b'" k'] by (simp add: ref_client_def)
next
  case (17 orig modified k e k')
  then show ?case using ref_patch_run[of merge_status orig modified k "Inl e" k'] by (simp add: ref_client_def)
next
  case (18 sorig s k sr k')
  then show ?case by (simp add: ref_client_def ref_patch_secret_run(1))
next
  case (19 sorig s k s' k')
  then show ?case using ref_patch_secret_run(2)[of sorig s k "Inr s'" k' s'] by (simp add: ref_client_def)
next
  case (20 s k ur k')
  then show ?case by (simp add: ref_client_def ref_delete_secret_run(1))
next
  case (21 s k k' s0)
  then show ?case by (simp add: ref_client_def ref_delete_secret_run(2))
qed (auto simp: ref_lib_def ref_client_def ref_create_or_update_def ref_not_found_def
    split: option.splits outcome.splits sum.splits if_splits)

end
