(* ===== verification/Reference_AWS.thy ===== *)
theory Reference_AWS
  imports AWS_Service
begin

text \<open>
  An executable in-memory AWS account that keeps the contracts \<open>s3_api\<close> and \<open>iam_api\<close>: buckets that cannot be
  deleted while they hold objects, listings in pages of two keys that are taken from the listing at
  the first page, and roles that cannot be deleted while they have policies.
\<close>

record ref_bucket =
  rb_location :: "string option"
  rb_objects :: "string list"
  rb_lifecycle :: "LifecycleRule list"
  rb_policy :: "string option"
  rb_tags :: "tag list"

record ref_role =
  rr_trust :: string
  rr_tags :: "tag list"
  rr_inline :: "(string \<times> string) list"
  rr_attached :: "(string \<times> string) list"

record aws_account =
  acc_buckets :: "(string \<times> ref_bucket) list"
  acc_roles :: "(string \<times> ref_role) list"

definition view_bucket :: "ref_bucket \<Rightarrow> s3_bucket" where
  "view_bucket b = \<lparr>s3_location = rb_location b, s3_objects = set (rb_objects b),
     s3_lifecycle = rb_lifecycle b, s3_policy = rb_policy b, s3_tags = rb_tags b\<rparr>"

definition ref_buckets :: "aws_account \<Rightarrow> string \<Rightarrow> s3_bucket option" where
  "ref_buckets c n = map_option view_bucket (map_of (acc_buckets c) n)"

definition view_role :: "ref_role \<Rightarrow> iam_role" where
  "view_role r = \<lparr>ir_trust = rr_trust r, ir_tags = map_of (rr_tags r), ir_inline = map_of (rr_inline r),
     ir_attached = snd ` set (rr_attached r)\<rparr>"

definition ref_roles :: "aws_account \<Rightarrow> string \<Rightarrow> iam_role option" where
  "ref_roles c n = map_option view_role (map_of (acc_roles c) n)"

section \<open>S3\<close>

definition api_error :: "string \<Rightarrow> go_error" where
  "api_error code = SmithyAPIError (OtherAPIError code) code"

definition on_bucket :: "string \<Rightarrow> (ref_bucket \<Rightarrow> ref_bucket) \<Rightarrow> (aws_account, unit) api" where
  "on_bucket n f c =
     (case map_of (acc_buckets c) n of
        None \<Rightarrow> (Inl (api_error ''NoSuchBucket''), c)
      | Some b \<Rightarrow> (Inr (), c\<lparr>acc_buckets := map_put n (f b) (acc_buckets c)\<rparr>))"

definition ref_HeadBucket :: "string \<Rightarrow> (aws_account, unit) api" where
  "ref_HeadBucket n c =
     (case map_of (acc_buckets c) n of
        None \<Rightarrow> (Inl (SmithyAPIError NotFound ''NotFound''), c) | Some b \<Rightarrow> (Inr (), c))"

definition ref_CreateBucket :: "CreateBucketInput \<Rightarrow> (aws_account, unit) api" where
  "ref_CreateBucket i c =
     (case map_of (acc_buckets c) (cb_Bucket i) of
        Some b \<Rightarrow> (Inl (api_error ''BucketAlreadyOwnedByYou''), c)
      | None \<Rightarrow> (Inr (), c\<lparr>acc_buckets := map_put (cb_Bucket i)
          \<lparr>rb_location = cb_LocationConstraint i, rb_objects = [], rb_lifecycle = [], rb_policy = None, rb_tags = []\<rparr>
          (acc_buckets c)\<rparr>))"

type_synonym ref_paginator = "string \<times> string list option"

fun ref_HasMorePages :: "ref_paginator \<Rightarrow> bool" where
  "ref_HasMorePages (n, None) = True"
| "ref_HasMorePages (n, Some ks) = (ks \<noteq> [])"

fun ref_NextPage :: "ref_paginator \<Rightarrow> aws_account \<Rightarrow> (go_error + string list) \<times> ref_paginator \<times> aws_account" where
  "ref_NextPage (n, None) c =
     (case map_of (acc_buckets c) n of
        None \<Rightarrow> (Inl (api_error ''NoSuchBucket''), (n, None), c)
      | Some b \<Rightarrow> (Inr (take 2 (rb_objects b)), (n, Some (drop 2 (rb_objects b))), c))"
| "ref_NextPage (n, Some ks) c = (Inr (take 2 ks), (n, Some (drop 2 ks)), c)"

definition ref_DeleteObjects :: "string \<Rightarrow> string list \<Rightarrow> (aws_account, string list) api" where
  "ref_DeleteObjects n keys c =
     (case on_bucket n (\<lambda>b. b\<lparr>rb_objects := filter (\<lambda>k. k \<notin> set keys) (rb_objects b)\<rparr>) c of
        (Inl e, c') \<Rightarrow> (Inl e, c') | (Inr u, c') \<Rightarrow> (Inr [], c'))"

definition ref_DeleteBucket :: "string \<Rightarrow> (aws_account, unit) api" where
  "ref_DeleteBucket n c =
     (case map_of (acc_buckets c) n of
        None \<Rightarrow> (Inl (api_error ''NoSuchBucket''), c)
      | Some b \<Rightarrow> if rb_objects b \<noteq> [] then (Inl (api_error ''BucketNotEmpty''), c)
                 else (Inr (), c\<lparr>acc_buckets := map_del n (acc_buckets c)\<rparr>))"

definition ref_s3 :: "(aws_account, ref_paginator) s3_client" where
  "ref_s3 =
     \<lparr>sdk_HeadBucket = ref_HeadBucket, sdk_CreateBucket = ref_CreateBucket,
      sdk_NewListObjectsV2Paginator = (\<lambda>n. (n, None)), sdk_HasMorePages = ref_HasMorePages,
      sdk_NextPage = ref_NextPage, sdk_DeleteObjects = ref_DeleteObjects, sdk_DeleteBucket = ref_DeleteBucket,
      sdk_PutBucketLifecycleConfiguration = (\<lambda>n rules. on_bucket n (\<lambda>b. b\<lparr>rb_lifecycle := rules\<rparr>)),
      sdk_DeleteBucketLifecycle = (\<lambda>n. on_bucket n (\<lambda>b. b\<lparr>rb_lifecycle := []\<rparr>)),
      sdk_PutBucketPolicy = (\<lambda>n doc. on_bucket n (\<lambda>b. b\<lparr>rb_policy := Some doc\<rparr>)),
      sdk_PutBucketTagging = (\<lambda>n tags. on_bucket n (\<lambda>b. b\<lparr>rb_tags := tags\<rparr>))\<rparr>"

fun ref_unlisted :: "ref_paginator \<Rightarrow> aws_account \<Rightarrow> string set" where
  "ref_unlisted (n, None) c = (case map_of (acc_buckets c) n of None \<Rightarrow> {} | Some b \<Rightarrow> set (rb_objects b))"
| "ref_unlisted (n, Some ks) c = set ks"

fun ref_pages_left :: "ref_paginator \<Rightarrow> aws_account \<Rightarrow> nat" where
  "ref_pages_left (n, None) c =
     Suc (case map_of (acc_buckets c) n of None \<Rightarrow> 0 | Some b \<Rightarrow> length (rb_objects b))"
| "ref_pages_left (n, Some ks) c = length ks"

lemma on_bucket_ok:
  assumes "on_bucket n f c = (Inr (), c')"
  shows "\<exists>b. map_of (acc_buckets c) n = Some b \<and>
    ref_buckets c' = (ref_buckets c)(n \<mapsto> view_bucket (f b))"
  using assms by (auto simp: on_bucket_def ref_buckets_def fun_eq_iff split: option.splits)

lemma ref_bucket_update:
  assumes "on_bucket n f c = (Inr (), c')" and "\<And>b. view_bucket (f b) = g (view_bucket b)"
  shows "\<exists>b. ref_buckets c n = Some b \<and> ref_buckets c' = (ref_buckets c)(n \<mapsto> g b)"
  using on_bucket_ok[OF assms(1)] assms(2) by (auto simp: ref_buckets_def)

lemma in_drop_or_take: "x \<in> set ks \<Longrightarrow> x \<notin> set (take n ks) \<Longrightarrow> x \<in> set (drop n ks)"
  by (metis Un_iff append_take_drop_id set_append)

lemma ref_page:
  assumes "ref_HasMorePages p" "ref_NextPage p c = (Inr keys, p', c')"
  shows "c' = c \<and> ref_unlisted p c \<subseteq> ref_unlisted p' c' \<union> set keys \<and> ref_pages_left p' c' < ref_pages_left p c"
  using assms
  by (cases "(p, c)" rule: ref_NextPage.cases) (auto split: option.splits intro: in_drop_or_take)

lemma ref_delete_objects_pages:
  assumes "ref_DeleteObjects n keys c = (r, c')"
  shows "ref_pages_left p c' \<le> ref_pages_left p c \<and> ref_unlisted p c \<subseteq> ref_unlisted p c' \<union> set keys"
  using assms
  by (cases "(p, c)" rule: ref_pages_left.cases)
    (auto simp: ref_DeleteObjects_def on_bucket_def split: option.splits if_splits)

lemma ref_others:
  "leaves (\<lambda>c. (ref_buckets c)(n := None)) (on_bucket n f)"
  "leaves (\<lambda>c. (ref_buckets c)(n := None)) (ref_DeleteBucket n)"
  "leaves (\<lambda>c. (ref_buckets c)(n := None)) (ref_DeleteObjects n keys)"
  "leaves (\<lambda>c. (ref_buckets c)(cb_Bucket i := None)) (ref_CreateBucket i)"
  by (auto simp: leaves_def on_bucket_def ref_DeleteBucket_def ref_DeleteObjects_def ref_CreateBucket_def
      ref_buckets_def fun_eq_iff split: option.splits)

lemma ref_next_page_others: "ref_NextPage p c = (r, p', c') \<Longrightarrow> c' = c"
  by (cases "(p, c)" rule: ref_NextPage.cases) (auto split: option.splits)

interpretation ref_s3: s3_api ref_s3 ref_buckets ref_unlisted ref_pages_left
proof (unfold_locales, goal_cases)
  case (4 n rules c c')
  then show ?case
    by (intro ref_bucket_update[where g = "\<lambda>b. b\<lparr>s3_lifecycle := rules\<rparr>"])
       (auto simp: ref_s3_def view_bucket_def)
next
  case (5 n c c')
  then show ?case
    by (intro ref_bucket_update[where g = "\<lambda>b. b\<lparr>s3_lifecycle := []\<rparr>"]) (auto simp: ref_s3_def view_bucket_def)
next
  case (6 n doc c c')
  then show ?case
    by (intro ref_bucket_update[where g = "\<lambda>b. b\<lparr>s3_policy := Some doc\<rparr>"]) (auto simp: ref_s3_def view_bucket_def)
next
  case (7 n tags c c')
  then show ?case
    by (intro ref_bucket_update[where g = "\<lambda>b. b\<lparr>s3_tags := tags\<rparr>"]) (auto simp: ref_s3_def view_bucket_def)
next
  case (9 n keys c failed c')
  let ?f = "\<lambda>b. b\<lparr>rb_objects := filter (\<lambda>k. k \<notin> set keys) (rb_objects b)\<rparr>"
  from 9 have "failed = []" "on_bucket n ?f c = (Inr (), c')"
    by (auto simp: ref_s3_def ref_DeleteObjects_def split: prod.splits sum.splits)
  then show ?case
    by (simp only:) (rule ref_bucket_update, auto simp: view_bucket_def set_diff_eq)
next
  case (10 n keys c r c' p)
  then show ?case using ref_delete_objects_pages by (simp add: ref_s3_def)
next
  case (12 p c keys p' c')
  then show ?case using ref_page[of p c keys p' c'] by (auto simp: ref_s3_def)
next
  case (13 p c)
  then show ?case by (cases p; cases "snd p") (auto simp: ref_s3_def)
qed (auto simp: ref_s3_def ref_HeadBucket_def ref_CreateBucket_def ref_DeleteBucket_def ref_buckets_def
    new_s3_bucket_def view_bucket_def fun_eq_iff ref_others split: option.splits if_splits
    dest: ref_next_page_others)

section \<open>IAM\<close>

definition no_such_entity :: go_error where
  "no_such_entity = SmithyAPIError NoSuchEntityException ''NoSuchEntity''"

definition on_role :: "string \<Rightarrow> (ref_role \<Rightarrow> ref_role) \<Rightarrow> (aws_account, unit) api" where
  "on_role n f c =
     (case map_of (acc_roles c) n of
        None \<Rightarrow> (Inl no_such_entity, c)
      | Some r \<Rightarrow> (Inr (), c\<lparr>acc_roles := map_put n (f r) (acc_roles c)\<rparr>))"

definition read_role :: "string \<Rightarrow> (ref_role \<Rightarrow> 'a) \<Rightarrow> (aws_account, 'a) api" where
  "read_role n f c =
     (case map_of (acc_roles c) n of None \<Rightarrow> (Inl no_such_entity, c) | Some r \<Rightarrow> (Inr (f r), c))"

definition ref_CreateRole :: "CreateRoleInput \<Rightarrow> (aws_account, unit) api" where
  "ref_CreateRole i c =
     (case map_of (acc_roles c) (cr_RoleName i) of
        Some r \<Rightarrow> (Inl (api_error ''EntityAlreadyExists''), c)
      | None \<Rightarrow> (Inr (), c\<lparr>acc_roles := map_put (cr_RoleName i)
          \<lparr>rr_trust = cr_AssumeRolePolicyDocument i, rr_tags = cr_Tags i, rr_inline = [], rr_attached = []\<rparr>
          (acc_roles c)\<rparr>))"

definition ref_DeleteRole :: "string \<Rightarrow> (aws_account, unit) api" where
  "ref_DeleteRole n c =
     (case map_of (acc_roles c) n of
        None \<Rightarrow> (Inl no_such_entity, c)
      | Some r \<Rightarrow> if rr_inline r \<noteq> [] \<or> rr_attached r \<noteq> [] then (Inl (api_error ''DeleteConflict''), c)
                 else (Inr (), c\<lparr>acc_roles := map_del n (acc_roles c)\<rparr>))"

definition ref_iam :: "aws_account iam_client" where
  "ref_iam =
     \<lparr>sdk_GetRole = (\<lambda>n. read_role n (\<lambda>r. Some
        \<lparr>role_Tags = (if rr_tags r = [] then None else Some (sdk_tags (rr_tags r)))\<rparr>)),
      sdk_CreateRole = ref_CreateRole,
      sdk_UpdateAssumeRolePolicy = (\<lambda>n doc. on_role n (\<lambda>r. r\<lparr>rr_trust := doc\<rparr>)),
      sdk_UntagRole = (\<lambda>n keys. on_role n (\<lambda>r. r\<lparr>rr_tags := filter (\<lambda>p. fst p \<in> - set keys) (rr_tags r)\<rparr>)),
      sdk_TagRole = (\<lambda>n tags. on_role n (\<lambda>r. r\<lparr>rr_tags := tags @ rr_tags r\<rparr>)),
      sdk_PutRolePolicy = (\<lambda>n p doc. on_role n (\<lambda>r. r\<lparr>rr_inline := map_put p doc (rr_inline r)\<rparr>)),
      sdk_RemoveRoleFromInstanceProfile = (\<lambda>p n c. (Inl no_such_entity, c)),
      sdk_DeleteInstanceProfile = (\<lambda>p c. (Inl no_such_entity, c)),
      sdk_DeleteRole = ref_DeleteRole,
      sdk_ListAttachedRolePolicies = (\<lambda>n. read_role n (\<lambda>r. map (\<lambda>(name, arn).
        \<lparr>ap_PolicyName = Some name, ap_PolicyArn = Some arn\<rparr>) (rr_attached r))),
      sdk_DetachRolePolicy = (\<lambda>arn n. on_role n (\<lambda>r. r\<lparr>rr_attached := filter (\<lambda>p. Some (snd p) \<noteq> arn) (rr_attached r)\<rparr>)),
      sdk_ListRolePolicies = (\<lambda>n. read_role n (\<lambda>r. map fst (rr_inline r))),
      sdk_DeleteRolePolicy = (\<lambda>n p. on_role n (\<lambda>r. r\<lparr>rr_inline := map_del p (rr_inline r)\<rparr>))\<rparr>"

lemma ref_role_update:
  assumes "on_role n f c = (Inr (), c')" and "\<And>r. view_role (f r) = g (view_role r)"
  shows "\<exists>ir. ref_roles c n = Some ir \<and> ref_roles c' = (ref_roles c)(n \<mapsto> g ir)"
  using assms by (auto simp: on_role_def ref_roles_def fun_eq_iff split: option.splits)

lemma read_role_ok:
  assumes "read_role n f c = (Inr x, c')"
  shows "\<exists>r. map_of (acc_roles c) n = Some r \<and> x = f r \<and> c' = c"
  using assms by (auto simp: read_role_def split: option.splits)

lemma iam_leaves_buckets:
  "leaves ref_buckets (on_role n f)" "leaves ref_buckets (read_role n g)"
  "leaves ref_buckets (ref_CreateRole i)" "leaves ref_buckets (ref_DeleteRole n)"
  "leaves ref_buckets (\<lambda>c. (e, c))"
  by (auto simp: leaves_def on_role_def read_role_def ref_CreateRole_def ref_DeleteRole_def ref_buckets_def
      fun_eq_iff split: option.splits)

interpretation ref_iam: iam_api ref_iam ref_roles ref_buckets
proof (unfold_locales, goal_cases)
  case (1 n c rp c')
  then show ?case
    by (auto simp: ref_iam_def ref_roles_def view_role_def sdk_tags_def dest!: read_role_ok
        intro!: exI[of _ "rr_tags r" for r])
next
  case (4 n doc c c')
  then show ?case
    by (intro ref_role_update[where g = "\<lambda>r. r\<lparr>ir_trust := doc\<rparr>"]) (auto simp: ref_iam_def view_role_def)
next
  case (5 n keys c c')
  then show ?case
    by (intro ref_role_update[where g = "\<lambda>r. r\<lparr>ir_tags := ir_tags r |` (- set keys)\<rparr>"])
      (auto simp: ref_iam_def view_role_def map_of_filter_keys simp del: Compl_iff)
next
  case (6 n tags c c')
  then show ?case
    by (intro ref_role_update[where g = "\<lambda>r. r\<lparr>ir_tags := ir_tags r ++ map_of tags\<rparr>"])
      (auto simp: ref_iam_def view_role_def)
next
  case (7 n p doc c c')
  then show ?case
    by (intro ref_role_update[where g = "\<lambda>r. r\<lparr>ir_inline := (ir_inline r)(p \<mapsto> doc)\<rparr>"])
      (auto simp: ref_iam_def view_role_def)
next
  case (9 n c ps c')
  then show ?case by (auto simp: ref_iam_def dest!: read_role_ok)
next
  case (10 n c names c')
  then show ?case by (auto simp: ref_iam_def dest!: read_role_ok)
next
  case (11 arn n c c')
  then show ?case
    by (intro ref_role_update[where g = "\<lambda>r. r\<lparr>ir_attached := ir_attached r - {arn}\<rparr>"])
      (auto simp: ref_iam_def view_role_def)
next
  case (12 n p c c')
  then show ?case
    by (intro ref_role_update[where g = "\<lambda>r. r\<lparr>ir_inline := (ir_inline r)(p := None)\<rparr>"])
      (auto simp: ref_iam_def view_role_def)
qed (auto simp: ref_iam_def ref_CreateRole_def ref_DeleteRole_def read_role_def ref_roles_def new_iam_role_def
    view_role_def no_such_entity_def fun_eq_iff iam_leaves_buckets split: option.splits if_splits)

section \<open>The SDK\<close>

text \<open>A configuration is the region it was loaded for; an ARN is split at its colons.\<close>

fun split_colons :: "string \<Rightarrow> string list" where
  "split_colons [] = [[]]"
| "split_colons (c # s) =
     (if c = CHR '':'' then [] # split_colons s
      else case split_colons s of [] \<Rightarrow> [[c]] | p # ps \<Rightarrow> (c # p) # ps)"

definition ref_arn_Parse :: "string \<Rightarrow> go_error + string" where
  "ref_arn_Parse s =
     (case split_colons s of
        pre # part # service # region # account # resource # rest \<Rightarrow>
          if pre = ''arn'' then Inr account else Inl (ErrorString ''arn: invalid prefix'')
      | _ \<Rightarrow> Inl (ErrorString ''arn: not enough sections''))"

definition ref_aws :: "(aws_account, ref_paginator, string) aws_sdk" where
  "ref_aws =
     \<lparr>sdk_LoadDefaultConfig = (\<lambda>region c. (Inr region, c)),
      sdk_AssumeRole = (\<lambda>cfg role. cfg),
      sdk_arn_Parse = ref_arn_Parse,
      sdk_iam_NewFromConfig = (\<lambda>cfg. ref_iam),
      sdk_s3_NewFromConfig = (\<lambda>cfg. ref_s3)\<rparr>"

end
