(* ===== verification/Reference_Azure.thy ===== *)
theory Reference_Azure
  imports Azure_Service
begin

text \<open>
  An executable in-memory Azure subscription that keeps the contract \<open>azure_api\<close>, and executable versions of
  the library functions the adapter uses, as far as the scenarios of the development need them: of
  YAML only the empty document and the one that makes a management cluster private.
\<close>

record ref_account =
  ra_params :: AccountCreateParameters
  ra_containers :: "(string \<times> BlobContainer) list"
  ra_policies :: "(string \<times> ManagementPolicyRule list) list"

record az_subscription =
  sub_accounts :: "((string \<times> string) \<times> ref_account) list"
  sub_records :: "(string \<times> RecordSet) list"

datatype ref_poller = AccountPoller string string AccountCreateParameters | EndpointPoller string

definition view_account :: "ref_account \<Rightarrow> az_account" where
  "view_account a = \<lparr>aa_params = ra_params a, aa_containers = map_of (ra_containers a),
     aa_policies = map_of (ra_policies a)\<rparr>"

definition ref_accounts :: "az_subscription \<Rightarrow> string \<times> string \<Rightarrow> az_account option" where
  "ref_accounts c key = map_option view_account (map_of (sub_accounts c) key)"

definition az_not_found :: go_error where
  "az_not_found = AzureResponseError 404 ''ResourceNotFound''"

definition on_account ::
  "string \<Rightarrow> string \<Rightarrow> (ref_account \<Rightarrow> ref_account option) \<Rightarrow> (az_subscription, unit) api" where
  "on_account rg n f c =
     (case map_of (sub_accounts c) (rg, n) of
        None \<Rightarrow> (Inl az_not_found, c)
      | Some a \<Rightarrow>
         (case f a of
            None \<Rightarrow> (Inl az_not_found, c)
          | Some a' \<Rightarrow> (Inr (), c\<lparr>sub_accounts := map_put (rg, n) a' (sub_accounts c)\<rparr>)))"

definition ref_GetContainer :: "string \<Rightarrow> string \<Rightarrow> string \<Rightarrow> (az_subscription, unit) api" where
  "ref_GetContainer rg n k c =
     (case map_of (sub_accounts c) (rg, n) of
        None \<Rightarrow> (Inl az_not_found, c)
      | Some a \<Rightarrow> (case map_of (ra_containers a) k of None \<Rightarrow> (Inl az_not_found, c) | Some bc \<Rightarrow> (Inr (), c)))"

fun ref_PollAccount :: "ref_poller \<Rightarrow> (az_subscription, unit) api" where
  "ref_PollAccount (AccountPoller rg n ps) c =
     (Inr (), c\<lparr>sub_accounts := map_put (rg, n)
        (case map_of (sub_accounts c) (rg, n) of
           None \<Rightarrow> \<lparr>ra_params = ps, ra_containers = [], ra_policies = []\<rparr>
         | Some a \<Rightarrow> a\<lparr>ra_params := ps\<rparr>) (sub_accounts c)\<rparr>)"
| "ref_PollAccount (EndpointPoller n) c = (Inl (ErrorString ''not an account operation''), c)"

fun ref_PollEndpoint :: "ref_poller \<Rightarrow> (az_subscription, PrivateEndpoint) api" where
  "ref_PollEndpoint (EndpointPoller n) c =
     (Inr \<lparr>pe_Name = Some n, pe_CustomDNSConfigs = Some [Some \<lparr>IPAddresses = Some [Some ''10.0.0.4'']\<rparr>]\<rparr>, c)"
| "ref_PollEndpoint (AccountPoller rg n ps) c = (Inl (ErrorString ''not an endpoint operation''), c)"

definition ref_ListKeys :: "string \<Rightarrow> string \<Rightarrow> (az_subscription, AccountKey option list) api" where
  "ref_ListKeys rg n c =
     (case map_of (sub_accounts c) (rg, n) of
        None \<Rightarrow> (Inl az_not_found, c)
      | Some a \<Rightarrow> (Inr [Some \<lparr>ak_KeyName = Some ''key1'', ak_Value = Some (''secret-of-'' @ n)\<rparr>,
                       Some \<lparr>ak_KeyName = Some ''key2'', ak_Value = Some ''other''\<rparr>], c))"

definition ref_put_container :: "BlobContainer \<Rightarrow> BlobContainer \<Rightarrow> BlobContainer" where
  "ref_put_container bc old = \<lparr>bc_PublicAccess =
     (case bc_PublicAccess bc of None \<Rightarrow> bc_PublicAccess old | Some x \<Rightarrow> Some x), bc_Metadata = bc_Metadata bc\<rparr>"

definition ref_azure :: "(az_subscription, ref_poller) azure_sdk" where
  "ref_azure =
     \<lparr>arm_ManagementPolicyNameDefault = ''default'',
      sdk_CheckNameAvailability = (\<lambda>n t c. (Inr (Some (\<forall>p \<in> set (sub_accounts c). snd (fst p) \<noteq> n)), c)),
      sdk_BeginCreate = (\<lambda>rg n ps c. (Inr (AccountPoller rg n ps), c)),
      sdk_PollAccount = ref_PollAccount,
      sdk_DeleteAccount = (\<lambda>rg n c. (Inr (), c\<lparr>sub_accounts := map_del (rg, n) (sub_accounts c)\<rparr>)),
      sdk_ListKeys = ref_ListKeys,
      sdk_GetContainer = ref_GetContainer,
      sdk_CreateContainer = (\<lambda>rg n k bc. on_account rg n (\<lambda>a.
        Some (a\<lparr>ra_containers := map_put k bc (ra_containers a)\<rparr>))),
      sdk_UpdateContainer = (\<lambda>rg n k bc. on_account rg n (\<lambda>a.
        case map_of (ra_containers a) k of None \<Rightarrow> None
        | Some old \<Rightarrow> Some (a\<lparr>ra_containers := map_put k (ref_put_container bc old) (ra_containers a)\<rparr>))),
      sdk_CreateOrUpdatePolicy = (\<lambda>rg n p rules. on_account rg n (\<lambda>a.
        Some (a\<lparr>ra_policies := map_put p rules (ra_policies a)\<rparr>))),
      sdk_DeletePolicy = (\<lambda>rg n p. on_account rg n (\<lambda>a.
        case map_of (ra_policies a) p of None \<Rightarrow> None
        | Some rules \<Rightarrow> Some (a\<lparr>ra_policies := map_del p (ra_policies a)\<rparr>))),
      sdk_BeginCreateOrUpdateEndpoint = (\<lambda>rg n ps c. (Inr (EndpointPoller n), c)),
      sdk_PollEndpoint = ref_PollEndpoint,
      sdk_CreateOrUpdateRecordSet = (\<lambda>rg z n rs c. (Inr rs, c\<lparr>sub_records := map_put n rs (sub_records c)\<rparr>))\<rparr>"

lemma on_account_ok:
  assumes "on_account rg n f c = (Inr (), c')"
  shows "\<exists>a a'. map_of (sub_accounts c) (rg, n) = Some a \<and> f a = Some a' \<and>
    ref_accounts c (rg, n) = Some (view_account a) \<and>
    ref_accounts c' = (ref_accounts c)((rg, n) \<mapsto> view_account a')"
  using assms by (auto simp: on_account_def ref_accounts_def fun_eq_iff split: option.splits)

lemma on_account_err: "on_account rg n f c = (Inl e, c') \<Longrightarrow> c' = c"
  by (auto simp: on_account_def split: option.splits)

lemma ref_azure_leaves:
  "leaves ref_accounts (ref_ListKeys rg n)" "leaves ref_accounts (ref_PollEndpoint q)"
  "leaves ref_accounts (\<lambda>c. (x, c))" "leaves ref_accounts (\<lambda>c. (y, c\<lparr>sub_records := r c\<rparr>))"
     apply (simp add: leaves_def ref_ListKeys_def split: option.splits)
    apply (cases q; simp add: leaves_def)
   apply (simp add: leaves_def)
  apply (simp add: leaves_def ref_accounts_def fun_eq_iff)
  done

lemma ref_container_in:
  "container_in ref_accounts c key k \<longleftrightarrow>
     (case map_of (sub_accounts c) key of None \<Rightarrow> False | Some a \<Rightarrow> map_of (ra_containers a) k \<noteq> None)"
  by (simp add: container_in_def ref_accounts_def view_account_def split: option.split)

lemma on_account_others:
  assumes "\<And>a a'. f a = Some a' \<Longrightarrow> map_of (ra_containers a) k' = None \<Longrightarrow> map_of (ra_containers a') k' = None"
  shows "spares (\<lambda>c. \<not> container_in ref_accounts c key k') (on_account rg n f)"
  unfolding spares_def
proof (intro allI impI)
  fix c
  assume absent: "\<not> container_in ref_accounts c key k'"
  show "\<not> container_in ref_accounts (snd (on_account rg n f c)) key k'"
  proof (cases "key = (rg, n)")
    case True
    with absent assms show ?thesis by (auto simp: on_account_def ref_container_in split: option.splits)
  next
    case False
    with absent show ?thesis by (auto simp: on_account_def ref_container_in split: option.splits)
  qed
qed

lemma ref_azure_others:
  "spares (\<lambda>c. \<not> container_in ref_accounts c key k') (ref_PollAccount q)"
  "spares (\<lambda>c. \<not> container_in ref_accounts c key k') (\<lambda>c. (x c, c))"
  "spares (\<lambda>c. \<not> container_in ref_accounts c key k') (ref_GetContainer rg n k)"
  "spares (\<lambda>c. \<not> container_in ref_accounts c key k')
     (\<lambda>c. (Inr (), c\<lparr>sub_accounts := map_del (rg, n) (sub_accounts c)\<rparr>))"
     apply (cases q; auto simp: spares_def ref_container_in split: option.splits if_splits)
    apply (simp add: spares_def)
   apply (auto simp: spares_def ref_GetContainer_def split: option.splits)[1]
  apply (auto simp: spares_def ref_container_in split: option.splits)
  done

interpretation ref_azure: azure_api ref_azure ref_accounts
proof (unfold_locales, goal_cases)
  case (2 n t c av c' rg)
  then have av: "av = Some (\<forall>p \<in> set (sub_accounts c). snd (fst p) \<noteq> n)" "c' = c"
    by (auto simp: ref_azure_def)
  have "\<exists>p \<in> set (sub_accounts c). snd (fst p) = n" if "ref_accounts c (rg, n) \<noteq> None"
  proof -
    from that obtain a where "map_of (sub_accounts c) (rg, n) = Some a" by (auto simp: ref_accounts_def)
    from map_of_SomeD[OF this] show ?thesis by force
  qed
  then show ?case by (simp add: av)
next
  case (3 rg n ps c q c1 c2)
  then show ?case
    by (auto simp: ref_azure_def ref_accounts_def upsert_account_def view_account_def fun_eq_iff
        split: option.splits)
next
  case (4 rg n c c')
  then show ?case by (auto simp: ref_azure_def ref_accounts_def fun_eq_iff)
next
  case (5 rg n k c c')
  then show ?case by (auto simp: ref_azure_def ref_GetContainer_def ref_accounts_def view_account_def split: option.splits)
next
  case (6 rg n k c e c')
  then show ?case by (auto simp: ref_azure_def ref_GetContainer_def ref_accounts_def view_account_def split: option.splits)
next
  case (7 rg n k bc c c')
  then show ?case by (auto simp: ref_azure_def view_account_def dest!: on_account_ok)
next
  case (8 rg n k bc c c')
  let ?f = "\<lambda>a. case map_of (ra_containers a) k of None \<Rightarrow> None
    | Some old \<Rightarrow> Some (a\<lparr>ra_containers := map_put k (ref_put_container bc old) (ra_containers a)\<rparr>)"
  from 8 have "on_account rg n ?f c = (Inr (), c')" by (simp add: ref_azure_def)
  from on_account_ok[OF this] obtain a old where "map_of (ra_containers a) k = Some old"
    "ref_accounts c (rg, n) = Some (view_account a)"
    "ref_accounts c' = (ref_accounts c)((rg, n) \<mapsto>
       view_account (a\<lparr>ra_containers := map_put k (ref_put_container bc old) (ra_containers a)\<rparr>))"
    by (auto split: option.splits)
  then show ?case
    by (intro exI[of _ "view_account a"] exI[of _ old] exI[of _ "ref_put_container bc old"])
      (auto simp: view_account_def ref_put_container_def split: option.split)
next
  case (9 rg n p rules c c')
  then show ?case by (auto simp: ref_azure_def view_account_def dest!: on_account_ok)
next
  case (10 rg n p c c')
  then show ?case by (auto simp: ref_azure_def view_account_def dest!: on_account_ok split: option.splits)
next
  case (11 rg n p c e c')
  then show ?case by (auto simp: ref_azure_def dest!: on_account_err)
qed (auto simp: ref_azure_def ref_azure_leaves ref_azure_others intro!: on_account_others split: option.splits)

section \<open>Library functions and client factories\<close>

definition is_alnum :: "char \<Rightarrow> bool" where
  "is_alnum c \<longleftrightarrow> c \<in> set ''abcdefghijklmnopqrstuvwxyzABCDEFGHIJKLMNOPQRSTUVWXYZ0123456789''"

definition private_values :: string where
  "private_values = ''global: {connectivity: {network: {mode: private}}}''"

definition ref_alib :: azure_lib where
  "ref_alib =
     \<lparr>sanitize_AlphaNumeric = (\<lambda>s spaces. filter (\<lambda>c. is_alnum c \<or> spaces \<and> c = CHR '' '') s),
      truncate_Truncate = (\<lambda>s n omission pos. if length s \<le> n then s else take (n - length omission) s @ omission),
      yaml_Unmarshal = (\<lambda>s.
        if s = private_values then
          Inr \<lparr>nc_Global = Some \<lparr>nc_Connectivity = Some \<lparr>nc_Network = Some \<lparr>nc_Mode = Some ''private''\<rparr>\<rparr>\<rparr>\<rparr>
        else if s = [] then Inr \<lparr>nc_Global = None\<rparr>
        else Inl (ErrorString ''yaml: not in the fragment''))\<rparr>"

definition ref_azure_clients :: "(az_subscription, ref_poller, string, unit, unit, unit) azure_clients" where
  "ref_azure_clients =
     \<lparr>sdk_NewManagedIdentityCredential = (\<lambda>i. Inr i),
      sdk_NewClientSecretCredential = (\<lambda>t i s. if t = [] then Inl (ErrorString ''no tenant'') else Inr i),
      sdk_NewWorkloadIdentityCredential = (\<lambda>t i. Inr i),
      armstorage_NewClientFactory = (\<lambda>sub cred. Inr ()),
      armnetwork_NewClientFactory = (\<lambda>sub cred. Inr ()),
      armprivatedns_NewClientFactory = (\<lambda>sub cred. Inr ()),
      sdk_clients = (\<lambda>sf nf df. ref_azure)\<rparr>"

end
