(* ===== verification/Reference_Operator.thy ===== *)
theory Reference_Operator
  imports Operator_History Azure_Returns Reference_Kube Reference_AWS Reference_Azure
begin

text \<open>
  The two operators on the reference services: the reference Kubernetes API with the reference AWS account
  keeps the contract \<open>aws_env\<close>, and with the reference Azure subscription the contract
  \<open>azure_operator_env\<close>. The worlds below are the starting points of the scenarios.
\<close>

interpretation ref_aws_op: aws_env ref_lib ref_client ref_crs ref_secrets ref_aws ref_buckets ref_unlisted
  ref_pages_left ref_roles
  by (intro aws_env.intro[OF ref_kube.kube_api_axioms] aws_env_axioms.intro)
    (simp_all add: ref_aws_def ref_s3.s3_api_axioms ref_iam.iam_api_axioms leaves_def)

interpretation ref_azure_op: azure_operator_env ref_lib ref_client ref_crs ref_secrets ref_azure_clients
  ref_accounts ref_alib
  by (intro azure_operator_env.intro[OF ref_kube.kube_api_axioms] azure_operator_env_axioms.intro)
    (simp add: ref_azure_clients_def ref_azure.azure_api_axioms)

section \<open>A management cluster on AWS\<close>

definition the_mc :: ManagementCluster where
  "the_mc = \<lparr>mc_BaseDomain = ''example.io'', mc_Name = ''mc'', mc_Namespace = ''org'', mc_Provider = ''capa'',
     mc_Region = ''eu-west-1''\<rparr>"

definition aws_objects :: "((GroupVersionKind \<times> ObjectKey) \<times> uvalue) list" where
  "aws_objects =
     [((\<lparr>gvk_Group = AWS_Group, gvk_Version = AWS_VersionCluster, gvk_Kind = AWS_KindCluster\<rparr>,
        \<lparr>key_Namespace = ''org'', key_Name = ''mc''\<rparr>),
       UMap [(''spec'', UMap [(''identityRef'', UMap [(''name'', UString ''id'')]),
         (''additionalTags'', UMap [(''team'', UString ''a'')])])]),
      ((\<lparr>gvk_Group = AWS_Group, gvk_Version = AWS_VersionClusterIdentity, gvk_Kind = AWS_KindClusterIdentity\<rparr>,
        \<lparr>key_Namespace = ''org'', key_Name = ''id''\<rparr>),
       UMap [(''spec'', UMap [(''roleARN'', UString ''arn:aws:iam::1234:role/r'')])])]"

section \<open>A management cluster on Azure\<close>

definition az_mc :: ManagementCluster where
  "az_mc = \<lparr>mc_BaseDomain = ''example.io'', mc_Name = ''mc'', mc_Namespace = ''org'', mc_Provider = ''capz'',
     mc_Region = ''westeurope''\<rparr>"

definition az_objects :: "((GroupVersionKind \<times> ObjectKey) \<times> uvalue) list" where
  "az_objects =
     [((\<lparr>gvk_Group = Azure_Group, gvk_Version = Azure_VersionCluster, gvk_Kind = Azure_KindCluster\<rparr>,
        \<lparr>key_Namespace = ''org'', key_Name = ''mc''\<rparr>),
       UMap [(''spec'', UMap [(''identityRef'', UMap [(''name'', UString ''id'')]),
         (''additionalTags'', UMap [(''team-x'', UString ''a'')]),
         (''resourceGroup'', UString ''rg''), (''subscriptionID'', UString ''sub'')])]),
      ((\<lparr>gvk_Group = Azure_Group, gvk_Version = Azure_VersionClusterIdentity, gvk_Kind = Azure_KindClusterIdentity\<rparr>,
        \<lparr>key_Namespace = ''org'', key_Name = ''id''\<rparr>),
       UMap [(''spec'', UMap [(''type'', UString ''WorkloadIdentity''), (''tenantID'', UString ''t''),
         (''clientID'', UString ''c'')])])]"

text \<open>The reference subscription answers completely.\<close>

interpretation ref_azure_answers: azure_answers ref_lib ref_client ref_crs ref_secrets ref_azure_clients
  ref_accounts ref_alib
proof (intro azure_answers.intro[OF ref_azure_op.azure_operator_env_axioms] azure_answers_axioms.intro, goal_cases)
  case (1 sf nf df n t c av c')
  then show ?case by (auto simp: ref_azure_clients_def ref_azure_def)
next
  case (2 sf nf df rg n c keys c')
  then show ?case
    by (auto simp: ref_azure_clients_def ref_azure_def ref_ListKeys_def complete_key_def split: option.splits)
next
  case (3 sf nf df q c pe c')
  then show ?case
    by (cases q) (auto simp: ref_azure_clients_def ref_azure_def complete_endpoint_def)
qed

text \<open>A Kubernetes API on which the objects of the management cluster do not change.\<close>

definition ref_fixed_client :: "kstore Client" where
  "ref_fixed_client = ref_client\<lparr>Get_Unstructured := (\<lambda>gvk key k.
     (case map_of az_objects (gvk, key) of None \<Rightarrow> Inl ref_not_found | Some u \<Rightarrow> Inr u, k))\<rparr>"

interpretation ref_fixed_kube: kube_api ref_lib ref_fixed_client ref_crs ref_secrets
  unfolding ref_fixed_client_def by (rule kube_api_reads[OF ref_kube.kube_api_axioms]) simp

interpretation ref_azure_history: azure_history ref_lib ref_fixed_client ref_crs ref_secrets ref_azure_clients
  ref_accounts ref_alib "''rg''"
proof (intro azure_history.intro azure_operator_env.intro[OF ref_fixed_kube.kube_api_axioms] azure_operator_env_axioms.intro
    azure_history_axioms.intro, goal_cases)
  case (1 sf nf df)
  show ?case by (rule ref_azure_op.arm_clients)
next
  case (2 key k u k' g)
  then show ?case
    by (auto simp: ref_fixed_client_def az_objects_def ref_lib_def ref_NestedString_def Azure_KindCluster_def Azure_KindClusterIdentity_def
        split: option.splits if_splits)
qed

section \<open>Buckets\<close>

definition the_role :: BucketAccessRole where
  "the_role = \<lparr>RoleName = ''loki'', ExtraBucketNames = [], ServiceAccountName = ''sa'',
     ServiceAccountNamespace = ''ns''\<rparr>"

definition the_bucket :: Bucket where
  "the_bucket =
     \<lparr>ObjectMeta = \<lparr>meta_Name = ''cr'', meta_Namespace = ''ns'', meta_Finalizers = [], meta_DeletionTimestamp = None\<rparr>,
      Spec = \<lparr>spec_Name = ''logs'', ExpirationPolicy = Some \<lparr>Days = 30\<rparr>, ReclaimPolicy = ReclaimPolicyDelete,
        AccessRole = Some the_role, spec_Tags = [\<lparr>tag_Key = ''app'', tag_Value = ''loki''\<rparr>]\<rparr>,
      Status = \<lparr>BucketReady = False, BucketID = []\<rparr>\<rparr>"

definition the_key :: ObjectKey where
  "the_key = \<lparr>key_Namespace = ''ns'', key_Name = ''cr''\<rparr>"

definition kube_with :: "Bucket list \<Rightarrow> ((GroupVersionKind \<times> ObjectKey) \<times> uvalue) list \<Rightarrow> kstore" where
  "kube_with bs objs = \<lparr>ks_buckets = bs, ks_secrets = [], ks_objects = objs, ks_configmaps = []\<rparr>"

definition fresh_world :: "(kstore, aws_account) world" where
  "fresh_world = \<lparr>kube = kube_with [the_bucket] aws_objects, cloud = \<lparr>acc_buckets = [], acc_roles = []\<rparr>\<rparr>"

abbreviation ref_reconcile :: "ObjectKey \<Rightarrow> ((kstore, aws_account) world, go_error + unit) prog" where
  "ref_reconcile \<equiv> Reconcile (aws_reconciler ref_client ref_lib ref_aws the_mc)"

definition ran :: "('a outcome \<times> 'w) option \<Rightarrow> 'w \<Rightarrow> 'w" where
  "ran r w = (case r of None \<Rightarrow> w | Some (oc, w') \<Rightarrow> w')"

definition ran_nil :: "((go_error + unit) outcome \<times> 'w) option \<Rightarrow> bool" where
  "ran_nil r = (case r of Some (Val (Inr u), w') \<Rightarrow> True | _ \<Rightarrow> False)"

lemma ran_nil_run: "ran_nil r \<Longrightarrow> r = Some (Val (Inr ()), ran r w)"
  by (auto simp: ran_nil_def ran_def split: option.splits prod.splits outcome.splits sum.splits)

lemma fresh_reconciled: "ran_nil (ref_reconcile the_key fresh_world)"
  by code_simp

text \<open>An Azure SDK that is never reached.\<close>

definition no_azure :: "(aws_account, unit, unit, unit, unit, unit) azure_clients" where
  "no_azure =
     \<lparr>sdk_NewManagedIdentityCredential = (\<lambda>i. Inr ()), sdk_NewClientSecretCredential = (\<lambda>t i s. Inr ()),
      sdk_NewWorkloadIdentityCredential = (\<lambda>t i. Inr ()),
      armstorage_NewClientFactory = (\<lambda>sub cred. Inr ()), armnetwork_NewClientFactory = (\<lambda>sub cred. Inr ()),
      armprivatedns_NewClientFactory = (\<lambda>sub cred. Inr ()),
      sdk_clients = (\<lambda>sf nf df.
        (\<lparr>arm_ManagementPolicyNameDefault = ''default'',
          sdk_CheckNameAvailability = (\<lambda>n t c. (Inl (ErrorString ''offline''), c)),
          sdk_BeginCreate = (\<lambda>rg n ps c. (Inl (ErrorString ''offline''), c)),
          sdk_PollAccount = (\<lambda>q c. (Inl (ErrorString ''offline''), c)),
          sdk_DeleteAccount = (\<lambda>rg n c. (Inl (ErrorString ''offline''), c)),
          sdk_ListKeys = (\<lambda>rg n c. (Inl (ErrorString ''offline''), c)),
          sdk_GetContainer = (\<lambda>rg n k c. (Inl (ErrorString ''offline''), c)),
          sdk_CreateContainer = (\<lambda>rg n k bc c. (Inl (ErrorString ''offline''), c)),
          sdk_UpdateContainer = (\<lambda>rg n k bc c. (Inl (ErrorString ''offline''), c)),
          sdk_CreateOrUpdatePolicy = (\<lambda>rg n p rules c. (Inl (ErrorString ''offline''), c)),
          sdk_DeletePolicy = (\<lambda>rg n p c. (Inl (ErrorString ''offline''), c)),
          sdk_BeginCreateOrUpdateEndpoint = (\<lambda>rg n ps c. (Inl (ErrorString ''offline''), c)),
          sdk_PollEndpoint = (\<lambda>q c. (Inl (ErrorString ''offline''), c)),
          sdk_CreateOrUpdateRecordSet = (\<lambda>rg z n rs c. (Inl (ErrorString ''offline''), c))\<rparr>))\<rparr>"

end
