(* ===== verification/Properties_AWS.thy ===== *)
theory Properties_AWS
  imports Reference_Operator
begin

text \<open>
  The properties of the AWS adapters, each with a witness on the reference account where it has hypotheses:
  the S3 adapter, the access role adapter and the policy documents.
\<close>

definition sample_cluster :: AWSCluster where
  "sample_cluster = \<lparr>aws_Name = ''mc'', aws_Namespace = ''org'', aws_BaseDomain = ''example.io'',
     aws_Region = ''eu-west-1'', aws_Tags = [(''team'', ''a'')], aws_Credentials = \<lparr>Role = ''arn:aws:iam::1234:role/r''\<rparr>\<rparr>"

abbreviation sample_s3 :: "(aws_account, ref_paginator) S3ObjectStorageAdapter" where
  "sample_s3 \<equiv> NewS3Service ref_s3 sample_cluster"

abbreviation sample_iam :: "aws_account IAMAccessRoleServiceAdapter" where
  "sample_iam \<equiv> NewIamService ref_iam ''1234'' sample_cluster"

text \<open>An account with a full bucket and a role with policies.\<close>

definition full_bucket :: ref_bucket where
  "full_bucket = \<lparr>rb_location = Some ''eu-west-1'', rb_objects = [''a'', ''b'', ''c''], rb_lifecycle = [],
     rb_policy = None, rb_tags = []\<rparr>"

definition full_role :: ref_role where
  "full_role = \<lparr>rr_trust = [], rr_tags = [(''old'', ''x'')], rr_inline = [(''loki'', ''doc'')],
     rr_attached = [(''p'', ''arn:p'')]\<rparr>"

definition full_world :: "(kstore, aws_account) world" where
  "full_world = \<lparr>kube = kube_with [the_bucket] aws_objects,
     cloud = \<lparr>acc_buckets = [(''logs'', full_bucket)], acc_roles = [(''loki'', full_role)]\<rparr>\<rparr>"

section \<open>The S3 adapter\<close>

text \<open>C15: \<^verbatim>\<open>ConfigureBucket\<close> of the S3 adapter refines the specified update of one bucket: when it returns nil,
  lifecycle rules, policy and tags of that bucket are the ones the CR and the cluster ask for, its
  objects and location and all other buckets of the account are as they were.\<close>

theorem S3_ConfigureBucket_refines:
  assumes "s3_api s3 buckets unlisted pages_left"
    and "S3_ConfigureBucket (NewS3Service s3 cl) b w = Some (Val (Inr ()), w')"
  shows "\<exists>sb. buckets (cloud w) (bucket_name b) = Some sb \<and>
    buckets (cloud w') = (buckets (cloud w))(bucket_name b \<mapsto> S3_configure_spec cl b sb)"
  using assms by (rule s3_api.configure_bucket_nil)

lemma full_configured: "ran_nil (S3_ConfigureBucket sample_s3 the_bucket full_world)"
  by code_simp

theorem S3_ConfigureBucket_refines_witness:
  "\<exists>sb. ref_buckets (cloud full_world) ''logs'' = Some sb \<and>
     ref_buckets (cloud (ran (S3_ConfigureBucket sample_s3 the_bucket full_world) full_world)) =
       (ref_buckets (cloud full_world))(''logs'' \<mapsto> S3_configure_spec sample_cluster the_bucket sb)"
  using S3_ConfigureBucket_refines[OF ref_s3.s3_api_axioms ran_nil_run[OF full_configured]]
  by (simp add: the_bucket_def)

text \<open>\<^verbatim>\<open>DeleteBucket\<close> of the S3 adapter always returns, with nil or an error: its loop over the pages of
  objects ends.\<close>

theorem S3_DeleteBucket_returns:
  assumes "s3_api s3 buckets unlisted pages_left"
  shows "returns (S3_DeleteBucket (NewS3Service s3 cl) b) w"
  using assms by (rule s3_api.adapter_returns(5))

theorem S3_DeleteBucket_returns_witness: "returns (S3_DeleteBucket sample_s3 the_bucket) full_world"
  by (rule S3_DeleteBucket_returns[OF ref_s3.s3_api_axioms])

text \<open>C16: The loop of \<^verbatim>\<open>DeleteBucket\<close>, when it ends without an error, has removed every object from the bucket but those whose
  keys one of its own calls of \<^verbatim>\<open>DeleteObjects\<close> reported as not deleted, and has changed nothing else in the account. If none of
  its calls reported a key, the bucket is empty.\<close>

theorem S3_emptyBucket_empties:
  assumes "s3_api s3 buckets unlisted pages_left"
    and "S3_emptyBucket s3 name (sdk_NewListObjectsV2Paginator s3 name) w = Some (Val (Inr ()), w')"
    and "buckets (cloud w) name = Some sb"
  shows "\<exists>failed left. page_calls s3 name (sdk_NewListObjectsV2Paginator s3 name) (cloud w) failed (cloud w') \<and>
    left \<subseteq> s3_objects sb \<inter> set failed \<and>
    buckets (cloud w') = (buckets (cloud w))(name \<mapsto> sb\<lparr>s3_objects := left\<rparr>)"
  using s3_api.emptyBucket_empties[OF assms, of "{}"] s3_api.paginator_start[OF assms(1,3)] by simp

lemma ref_deletes_all: "sdk_DeleteObjects ref_s3 name keys c = (Inr failed, c') \<Longrightarrow> failed = []"
  by (auto simp: ref_s3_def ref_DeleteObjects_def split: prod.splits sum.splits)

lemma full_emptied: "ran_nil (S3_emptyBucket ref_s3 ''logs'' (sdk_NewListObjectsV2Paginator ref_s3 ''logs'') full_world)"
  by code_simp

theorem S3_emptyBucket_empties_witness:
  "ref_buckets (cloud (ran (S3_emptyBucket ref_s3 ''logs'' (sdk_NewListObjectsV2Paginator ref_s3 ''logs'') full_world)
       full_world)) =
     (ref_buckets (cloud full_world))(''logs'' \<mapsto> (view_bucket full_bucket)\<lparr>s3_objects := {}\<rparr>)"
proof -
  have none: "failed = []" if "page_calls ref_s3 name p c failed c'" for name p c failed c'
    using that by (induction rule: page_calls.induct) (auto dest: ref_deletes_all)
  have "ref_buckets (cloud full_world) ''logs'' = Some (view_bucket full_bucket)"
    by (simp add: full_world_def ref_buckets_def)
  from S3_emptyBucket_empties[OF ref_s3.s3_api_axioms ran_nil_run[OF full_emptied, of full_world] this]
  obtain failed left where
    "page_calls ref_s3 ''logs'' (sdk_NewListObjectsV2Paginator ref_s3 ''logs'') (cloud full_world) failed
       (cloud (ran (S3_emptyBucket ref_s3 ''logs'' (sdk_NewListObjectsV2Paginator ref_s3 ''logs'') full_world) full_world))"
    "left \<subseteq> set failed" and emptied:
    "ref_buckets (cloud (ran (S3_emptyBucket ref_s3 ''logs'' (sdk_NewListObjectsV2Paginator ref_s3 ''logs'') full_world)
       full_world)) = (ref_buckets (cloud full_world))(''logs'' \<mapsto> (view_bucket full_bucket)\<lparr>s3_objects := left\<rparr>)"
    by blast
  with none have "left = {}" by fastforce
  with emptied show ?thesis by simp
qed

text \<open>\<^verbatim>\<open>ExistsBucket\<close> of the S3 adapter says that a bucket does not exist only for the typed not-found error of
  the API, and then without an error; for every other error it returns that error itself.\<close>

theorem S3_ExistsBucket_classifies:
  "S3_ExistsBucket s b w =
     (case sdk_HeadBucket (s3Client s) (bucket_name b) (cloud w) of
        (Inr u, c) \<Rightarrow> Some (Val (True, None), w\<lparr>cloud := c\<rparr>)
      | (Inl e, c) \<Rightarrow> Some (Val (if errors_As_APIError e = Some NotFound then (False, None)
                             else (True, Some e)), w\<lparr>cloud := c\<rparr>))"
  by (rule S3_ExistsBucket_run)

text \<open>C26: \<^verbatim>\<open>CreateBucket\<close> of the S3 adapter, when it returns nil for a name the account does not have, has added one
  empty bucket of that name, with the cluster's region as its location except for \<^verbatim>\<open>us-east-1\<close>, where the
  location has to stay unset.\<close>

theorem S3_CreateBucket_creates:
  assumes "s3_api s3 buckets unlisted pages_left"
    and "S3_CreateBucket (NewS3Service s3 cl) b w = Some (Val (Inr ()), w')"
    and "buckets (cloud w) (bucket_name b) = None"
  shows "buckets (cloud w') = (buckets (cloud w))(bucket_name b \<mapsto>
    new_s3_bucket (if aws_Region cl \<noteq> ''us-east-1'' then Some (aws_Region cl) else None))"
  using assms by (rule s3_api.create_bucket_nil)

lemma fresh_created: "ran_nil (S3_CreateBucket sample_s3 the_bucket fresh_world)"
  by code_simp

theorem S3_CreateBucket_creates_witness:
  "ref_buckets (cloud (ran (S3_CreateBucket sample_s3 the_bucket fresh_world) fresh_world)) =
     (ref_buckets (cloud fresh_world))(bucket_name the_bucket \<mapsto> new_s3_bucket (Some ''eu-west-1''))"
  using S3_CreateBucket_creates[OF ref_s3.s3_api_axioms ran_nil_run[OF fresh_created, of fresh_world]]
  by (simp add: fresh_world_def ref_buckets_def sample_cluster_def)

text \<open>The tags of an S3 bucket and of an IAM role are the tags of the CR and of the cluster that have both a
  key and a value, and no others.\<close>

theorem aws_tags_complete:
  "set (aws_tags b m) = {(k, v). k \<noteq> [] \<and> v \<noteq> [] \<and>
     ((\<exists>t \<in> set (spec_Tags (Spec b)). k = tag_Key t \<and> v = tag_Value t) \<or> (k, v) \<in> set m)}"
  by (auto simp: aws_tags_def image_iff)

theorem aws_tags_complete_witness:
  "set (aws_tags the_bucket [(''team'', ''a'')]) = {(k, v). k \<noteq> [] \<and> v \<noteq> [] \<and>
     ((\<exists>t \<in> set (spec_Tags (Spec the_bucket)). k = tag_Key t \<and> v = tag_Value t) \<or> (k, v) \<in> set [(''team'', ''a'')])}"
  by (rule aws_tags_complete)

section \<open>The policy documents\<close>

text \<open>C24: The bucket policy the adapter puts is a JSON document, and it says: deny every action of S3 on the bucket
  and its objects, to everyone, when the transport is not secure. This holds for all bucket names
  without quotes, backslashes and control characters.\<close>

theorem bucketPolicy_enforces_TLS:
  assumes "json_clean name"
  shows "parse_json (bucketPolicy \<lparr>bp_AWSDomain = awsDomain region, bp_BucketName = name\<rparr>) =
    Some (bucket_policy_doc \<lparr>bp_AWSDomain = awsDomain region, bp_BucketName = name\<rparr>)"
  using assms by (intro parse_json_lexed bucketPolicy_lex) simp_all

theorem bucketPolicy_enforces_TLS_witness:
  "json_clean ''logs'' \<and> parse_json (bucketPolicy \<lparr>bp_AWSDomain = awsDomain ''cn-north-1'', bp_BucketName = ''logs''\<rparr>) =
     Some (bucket_policy_doc \<lparr>bp_AWSDomain = awsDomain ''cn-north-1'', bp_BucketName = ''logs''\<rparr>)"
  using bucketPolicy_enforces_TLS[of "''logs''" "''cn-north-1''"] by (simp add: json_char_def)

text \<open>C23: The inline policy of the access role is a JSON document. It grants listing, reading, writing and deleting on
  the extra buckets of the CR, in their order, and on its bucket, with the objects of each, and the three account level
  reads, in the partition \<^verbatim>\<open>aws-cn\<close> if the region of the cluster contains \<^verbatim>\<open>cn-\<close> and \<^verbatim>\<open>aws\<close> otherwise, for any number of extra
  buckets. This holds for all bucket names without quotes, backslashes and control characters.\<close>

theorem rolePolicy_grants:
  assumes "json_clean (bucket_name b)" "\<forall>n \<in> set (ExtraBucketNames ar). json_clean n"
    and "part = (if sublist ''cn-'' (aws_Region (iam_cluster s)) then ''aws-cn'' else ''aws'')"
  shows "parse_json (rolePolicy (IAM_rolePolicyData s b ar)) = Some (JObject [(''Version'', JString ''2012-10-17''),
    (''Statement'', JArray
      [JObject [(''Effect'', JString ''Allow''),
         (''Action'', JArray [JString ''s3:ListBucket'', JString ''s3:PutObject'', JString ''s3:GetObject'',
            JString ''s3:DeleteObject'']),
         (''Resource'', JArray (concat (map (\<lambda>n. [JString (''arn:'' @ part @ '':s3:::'' @ n),
            JString (''arn:'' @ part @ '':s3:::'' @ n @ ''/*'')]) (ExtraBucketNames ar @ [bucket_name b]))))],
       JObject [(''Effect'', JString ''Allow''),
         (''Action'', JArray [JString ''s3:GetAccessPoint'', JString ''s3:GetAccountPublicAccessBlock'',
            JString ''s3:ListAccessPoints'']),
         (''Resource'', JString ''*'')]])])"
proof -
  have "parse_json (rolePolicy (IAM_rolePolicyData s b ar)) = Some (role_policy_doc (IAM_rolePolicyData s b ar))"
    using assms(1,2) by (intro parse_json_lexed rolePolicy_lex) (simp_all add: IAM_rolePolicyData_def)
  then show ?thesis
    by (simp add: role_policy_doc_def policy_doc_def bucket_arns_def[abs_def] s3_arn_def IAM_rolePolicyData_def awsDomain_def
        isChinaRegion_def strings_Contains_iff_sublist assms(3))
qed

theorem rolePolicy_grants_witness:
  "parse_json (rolePolicy (IAM_rolePolicyData sample_iam the_bucket (the_role\<lparr>ExtraBucketNames := [''x'']\<rparr>))) =
     Some (JObject [(''Version'', JString ''2012-10-17''), (''Statement'', JArray
      [JObject [(''Effect'', JString ''Allow''),
         (''Action'', JArray [JString ''s3:ListBucket'', JString ''s3:PutObject'', JString ''s3:GetObject'',
            JString ''s3:DeleteObject'']),
         (''Resource'', JArray [JString ''arn:aws:s3:::x'', JString ''arn:aws:s3:::x/*'',
            JString ''arn:aws:s3:::logs'', JString ''arn:aws:s3:::logs/*''])],
       JObject [(''Effect'', JString ''Allow''),
         (''Action'', JArray [JString ''s3:GetAccessPoint'', JString ''s3:GetAccountPublicAccessBlock'',
            JString ''s3:ListAccessPoints'']),
         (''Resource'', JString ''*'')]])])"
proof -
  let ?role = "the_role\<lparr>ExtraBucketNames := [''x'']\<rparr>"
  have "json_clean (bucket_name the_bucket)" "\<forall>n \<in> set (ExtraBucketNames ?role). json_clean n"
    by (simp_all add: the_bucket_def json_char_def)
  moreover have "\<not> strings_Contains (aws_Region (iam_cluster sample_iam)) ''cn-''" by code_simp
  ultimately show ?thesis
    using rolePolicy_grants[of the_bucket ?role "''aws''" sample_iam] by (simp add: strings_Contains_iff_sublist the_bucket_def)
qed

lemma irsaDomain_clean:
  assumes "json_clean (accountId s)" "json_clean (aws_Region (iam_cluster s))" "json_clean (aws_Name (iam_cluster s))"
    "json_clean (aws_BaseDomain (iam_cluster s))"
  shows "json_clean (irsaDomain s)"
  using assms by (simp add: irsaDomain_def json_char_def)

text \<open>C22: The trust policy of the access role is a JSON document that lets exactly the service account of the CR assume
  the role and, if its name contains \<^verbatim>\<open>grafana-postgresql\<close>, the two fixed recovery accounts, each through
  the OIDC provider of the management cluster: outside China the provider \<^verbatim>\<open>irsa.<cluster>.<base domain>\<close>, and in a region that
  contains \<^verbatim>\<open>cn-\<close> the path of the account's pod identity bucket in S3. This holds for names without quotes, backslashes
  and control characters.\<close>

theorem trustIdentityPolicy_trusts:
  assumes "json_clean account" "json_clean (aws_Region cl)" "json_clean (aws_Name cl)" "json_clean (aws_BaseDomain cl)"
    and "json_clean (ServiceAccountNamespace ar)" "json_clean (ServiceAccountName ar)"
    and "part = (if sublist ''cn-'' (aws_Region cl) then ''aws-cn'' else ''aws'')"
    and "provider = (if sublist ''cn-'' (aws_Region cl)
      then ''s3.'' @ aws_Region cl @ ''.amazonaws.com.cn/'' @ account @ ''-g8s-'' @ aws_Name cl @ ''-oidc-pod-identity-v3''
      else ''irsa.'' @ aws_Name cl @ ''.'' @ aws_BaseDomain cl)"
  shows "parse_json (trustIdentityPolicy (IAM_trustData (NewIamService iam account cl) ar)) =
    Some (JObject [(''Version'', JString ''2012-10-17''), (''Statement'', JArray (map (\<lambda>subject.
      JObject [(''Effect'', JString ''Allow''),
        (''Principal'', JObject [(''Federated'', JString (''arn:'' @ part @ '':iam::'' @ account @ '':oidc-provider/'' @ provider))]),
        (''Action'', JString ''sts:AssumeRoleWithWebIdentity''),
        (''Condition'', JObject [(''StringEquals'', JObject [(provider @ '':sub'', JString (''system:serviceaccount:'' @ subject))])])])
      ((ServiceAccountNamespace ar @ '':'' @ ServiceAccountName ar) #
       (if sublist ''grafana-postgresql'' (ServiceAccountName ar)
        then [''monitoring:grafana-postgresql-recovery-test'', ''monitoring:plugin-barman-cloud''] else []))))])"
proof -
  let ?s = "NewIamService iam account cl"
  have clean: "json_clean (irsaDomain ?s)" using assms(1-4) by (intro irsaDomain_clean) simp_all
  have "parse_json (trustIdentityPolicy (IAM_trustData ?s ar)) = Some (trust_doc (IAM_trustData ?s ar))"
    using assms(1-6) clean by (intro parse_json_lexed trustIdentityPolicy_lex) (simp_all add: IAM_trustData_def)
  moreover have "irsaDomain ?s = provider" "awsDomain (aws_Region cl) = part"
    by (simp_all add: irsaDomain_def awsDomain_def isChinaRegion_def strings_Contains_iff_sublist assms(7,8))
  ultimately show ?thesis
    by (simp add: trust_doc_def policy_doc_def trust_subjects_def IAM_trustData_def strings_Contains_iff_sublist)
qed

theorem trustIdentityPolicy_trusts_witness:
  "parse_json (trustIdentityPolicy (IAM_trustData sample_iam the_role)) =
    Some (JObject [(''Version'', JString ''2012-10-17''), (''Statement'', JArray [
      JObject [(''Effect'', JString ''Allow''),
        (''Principal'', JObject [(''Federated'', JString ''arn:aws:iam::1234:oidc-provider/irsa.mc.example.io'')]),
        (''Action'', JString ''sts:AssumeRoleWithWebIdentity''),
        (''Condition'', JObject [(''StringEquals'', JObject [(''irsa.mc.example.io:sub'',
           JString (''system:serviceaccount:'' @ ServiceAccountNamespace the_role @ '':'' @ ServiceAccountName the_role))])])]])])"
proof -
  have clean: "json_clean ''1234''" "json_clean (aws_Region sample_cluster)" "json_clean (aws_Name sample_cluster)"
    "json_clean (aws_BaseDomain sample_cluster)"
    "json_clean (ServiceAccountNamespace the_role)" "json_clean (ServiceAccountName the_role)"
    by (simp_all add: sample_cluster_def the_role_def json_char_def)
  have "\<not> strings_Contains (aws_Region sample_cluster) ''cn-''"
    "\<not> strings_Contains (ServiceAccountName the_role) ''grafana-postgresql''" by code_simp+
  then have "\<not> sublist ''cn-'' (aws_Region sample_cluster)" "\<not> sublist ''grafana-postgresql'' (ServiceAccountName the_role)"
    "aws_Name sample_cluster = ''mc''" "aws_BaseDomain sample_cluster = ''example.io''"
    by (simp_all add: strings_Contains_iff_sublist sample_cluster_def)
  with trustIdentityPolicy_trusts[OF clean refl refl, of ref_iam] show ?thesis by simp
qed

section \<open>The access role adapter\<close>

text \<open>C17: \<^verbatim>\<open>ConfigureRole\<close>, when it returns nil, has created or updated the one role the CR names and no other: the role has
  the trust policy, exactly the tags of the CR and the cluster (no tag it had before survives) and,
  under its own name, the inline policy for the bucket.\<close>

theorem IAM_ConfigureRole_configures:
  assumes "iam_api iam roles storage" and "AccessRole (Spec b) = Some ar"
    and "IAM_ConfigureRole (NewIamService iam acc cl) b w = Some (Val (Inr ()), w')"
  shows "\<exists>ir. roles (cloud w') = (roles (cloud w))(RoleName ar \<mapsto> ir) \<and>
    ir_trust ir = trustIdentityPolicy (IAM_trustData (NewIamService iam acc cl) ar) \<and>
    ir_tags ir = map_of (aws_tags b (aws_Tags cl)) \<and>
    ir_inline ir (RoleName ar) = Some (rolePolicy (IAM_rolePolicyData (NewIamService iam acc cl) b ar))"
  using assms(1,3,2) by (rule iam_api.configure_role_nil)

lemma full_role_configured: "ran_nil (IAM_ConfigureRole sample_iam the_bucket full_world)"
  by code_simp

theorem IAM_ConfigureRole_configures_witness:
  "\<exists>ir. ref_roles (cloud (ran (IAM_ConfigureRole sample_iam the_bucket full_world) full_world)) =
       (ref_roles (cloud full_world))(RoleName the_role \<mapsto> ir) \<and>
     ir_trust ir = trustIdentityPolicy (IAM_trustData sample_iam the_role) \<and>
     ir_tags ir = map_of (aws_tags the_bucket (aws_Tags sample_cluster)) \<and>
     ir_inline ir (RoleName the_role) = Some (rolePolicy (IAM_rolePolicyData sample_iam the_bucket the_role))"
  by (rule IAM_ConfigureRole_configures[OF ref_iam.iam_api_axioms _ ran_nil_run[OF full_role_configured]])
    (simp add: the_bucket_def)

text \<open>C18: \<^verbatim>\<open>DeleteRole\<close>, when it returns nil, leaves the account without the role the CR names, whether the role was there
  before or not.\<close>

theorem IAM_DeleteRole_deletes:
  assumes "iam_api iam roles storage" and "AccessRole (Spec b) = Some ar"
    and "IAM_DeleteRole (NewIamService iam acc cl) b w = Some (Val (Inr ()), w')"
  shows "roles (cloud w') (RoleName ar) = None"
  using assms(1,3,2) by (rule iam_api.delete_role_nil)

lemma full_role_deleted: "ran_nil (IAM_DeleteRole sample_iam the_bucket full_world)"
  by code_simp

theorem IAM_DeleteRole_deletes_witness:
  "ref_roles (cloud (ran (IAM_DeleteRole sample_iam the_bucket full_world) full_world)) (RoleName the_role) = None"
  by (rule IAM_DeleteRole_deletes[OF ref_iam.iam_api_axioms _ ran_nil_run[OF full_role_deleted]])
    (simp add: the_bucket_def)

text \<open>C25: \<^verbatim>\<open>cleanAttachedPolicies\<close>, when it returns nil, has detached every managed policy that its first listing named, made when it was
  called, and deleted every inline policy that its second listing named, made when the managed policies were detached. It kept the other
  policies, and changed nothing else of the role nor any other role.\<close>

theorem IAM_cleanAttachedPolicies_cleans:
  assumes "iam_api iam roles storage" and "roles (cloud w) n = Some ir"
    and "IAM_cleanAttachedPolicies (NewIamService iam acc cl) n w = Some (Val (Inr ()), w')"
  shows "\<exists>ps c1 w1 names c2. sdk_ListAttachedRolePolicies iam n (cloud w) = (Inr ps, c1) \<and>
    for_each ps (IAM_detachPolicy (NewIamService iam acc cl) n) (w\<lparr>cloud := c1\<rparr>) = Some (Val (Inr ()), w1) \<and>
    sdk_ListRolePolicies iam n (cloud w1) = (Inr names, c2) \<and>
    for_each names (IAM_deleteInlinePolicy (NewIamService iam acc cl) n) (w1\<lparr>cloud := c2\<rparr>) = Some (Val (Inr ()), w') \<and>
    roles (cloud w') = (roles (cloud w))(n \<mapsto> ir\<lparr>
      ir_attached := ir_attached ir - {arn. \<exists>p \<in> set ps. ap_PolicyArn p = Some arn},
      ir_inline := ir_inline ir |` (- set names)\<rparr>)"
  by (rule iam_api.clean_policies_nil[OF assms(1,3,2)]) blast

lemma full_role_cleaned: "ran_nil (IAM_cleanAttachedPolicies sample_iam ''loki'' full_world)"
  by code_simp

theorem IAM_cleanAttachedPolicies_cleans_witness:
  "\<exists>ps c1 names. sdk_ListAttachedRolePolicies ref_iam ''loki'' (cloud full_world) = (Inr ps, c1) \<and>
     ref_roles (cloud (ran (IAM_cleanAttachedPolicies sample_iam ''loki'' full_world) full_world)) =
       (ref_roles (cloud full_world))(''loki'' \<mapsto> (view_role full_role)\<lparr>
         ir_attached := ir_attached (view_role full_role) - {arn. \<exists>p \<in> set ps. ap_PolicyArn p = Some arn},
         ir_inline := ir_inline (view_role full_role) |` (- set names)\<rparr>)"
proof -
  have "ref_roles (cloud full_world) ''loki'' = Some (view_role full_role)"
    by (simp add: full_world_def ref_roles_def)
  from IAM_cleanAttachedPolicies_cleans[OF ref_iam.iam_api_axioms this ran_nil_run[OF full_role_cleaned, of full_world]]
  show ?thesis by blast
qed

text \<open>On the two instance profile calls of \<^verbatim>\<open>DeleteRole\<close>, a missing profile and every error that is not an API error
  are passed over, and every other API error ends the deletion with that error wrapped.\<close>

theorem IAM_instance_profile_errors:
  "IAM_tolerate call msg k w =
     (case call (cloud w) of (r, c) \<Rightarrow>
        (case r of
           Inl e \<Rightarrow> (if errors_As_APIError e \<in> {None, Some NoSuchEntityException} then k (w\<lparr>cloud := c\<rparr>)
                    else Some (Val (Inl (Errorf_w msg e)), w\<lparr>cloud := c\<rparr>))
         | Inr u \<Rightarrow> k (w\<lparr>cloud := c\<rparr>)))"
  by (rule IAM_tolerate_run)

section \<open>An SDK without credentials\<close>

definition broken_aws :: "(aws_account, ref_paginator, string) aws_sdk" where
  "broken_aws = ref_aws\<lparr>sdk_LoadDefaultConfig := (\<lambda>region c. (Inl (ErrorString ''no credentials''), c))\<rparr>"

end
