(* ===== verification/Properties_Azure.thy ===== *)
theory Properties_Azure
  imports Reference_Operator
begin

text \<open>
  The properties of the Azure adapter, each with a witness on the reference subscription where it has
  hypotheses: names and tags, the storage account and its container, the secret with the access key,
  the lifecycle policy and private access.
\<close>

section \<open>A management cluster on Azure\<close>

definition az_cl :: AzureCluster where
  "az_cl = \<lparr>az_Name = ''mc'', az_Namespace = ''org'', az_BaseDomain = ''example.io'', az_Region = ''westeurope'',
     az_Tags = [(''team-x'', ''a'')], az_Credentials = \<lparr>ResourceGroup = ''rg'', SubscriptionID = ''sub'',
       TypeIdentity = ''WorkloadIdentity'', ClientID = ''c'', TenantID = ''t'', SecretRef = empty_secret\<rparr>\<rparr>"

definition az_world :: "(kstore, az_subscription) world" where
  "az_world = \<lparr>kube = (kube_with [the_bucket] az_objects)\<lparr>ks_configmaps :=
       [(\<lparr>key_Namespace = ''org-giantswarm'', key_Name = ''mc-user-values''\<rparr>, [(''values'', private_values)])]\<rparr>,
     cloud = \<lparr>sub_accounts = [], sub_records = []\<rparr>\<rparr>"

abbreviation sample_az :: "(kstore, az_subscription, ref_poller) AzureObjectStorageAdapter" where
  "sample_az \<equiv> NewAzureStorageService ref_azure az_cl ref_client ref_lib ref_alib"

definition az_created :: "(kstore, az_subscription) world" where
  "az_created = ran (Azure_CreateBucket sample_az the_bucket az_world) az_world"

lemma az_created_nil: "ran_nil (Azure_CreateBucket sample_az the_bucket az_world)"
  by code_simp

lemma ref_azure_env: "azure_env ref_lib ref_client ref_crs ref_secrets ref_azure ref_accounts"
  using ref_kube.kube_api_axioms ref_azure.azure_api_axioms by (rule azure_env.intro)

section \<open>Storage accounts\<close>

text \<open>C19: \<^verbatim>\<open>CreateBucket\<close> of the Azure adapter, when it returns nil, has put exactly one storage account in place, the one
  of the sanitized name in the cluster's resource group. It takes HTTPS traffic only, with TLS 1.2 at
  least, it is closed to public networks exactly if the management cluster is private, it holds the
  container of the bucket, and account and container carry the tags.\<close>

theorem Azure_CreateBucket_creates:
  assumes "azure_env lib client crs secrets sdk accounts"
    and "Azure_CreateBucket (NewAzureStorageService sdk cl client lib alib) b w = Some (Val (Inr ()), w')"
  shows "\<exists>priv w1 acc bc.
    Azure_isManagementClusterPrivate (NewAzureStorageService sdk cl client lib alib) w = Some (Val (Inr priv), w1) \<and>
    accounts (cloud w') = (accounts (cloud w))
      ((AzureCluster_GetResourceGroup cl, sanitizeStorageAccountName alib (bucket_name b)) \<mapsto> acc) \<and>
    ac_EnableHTTPSTrafficOnly (aa_params acc) \<and> ac_MinimumTLSVersion (aa_params acc) = MinimumTLSVersionTLS12 \<and>
    (ac_PublicNetworkAccess (aa_params acc) = PublicNetworkAccessDisabled \<longleftrightarrow> priv) \<and>
    ac_Tags (aa_params acc) = getBucketTags (az_Tags cl) b \<and>
    aa_containers acc (bucket_name b) = Some bc \<and> bc_Metadata bc = getBucketTags (az_Tags cl) b"
proof -
  from azure_env.create_bucket_nil[OF assms] obtain priv w1 a bc where
    1: "Azure_isManagementClusterPrivate (NewAzureStorageService sdk cl client lib alib) w = Some (Val (Inr priv), w1)"
    and a: "a = upsert_account (Azure_accountParameters (NewAzureStorageService sdk cl client lib alib) b priv)
      (accounts (cloud w) (AzureCluster_GetResourceGroup cl, sanitizeStorageAccountName alib (bucket_name b)))"
    and bc: "bc_Metadata bc = getBucketTags (az_Tags cl) b"
    and acc: "accounts (cloud w') = (accounts (cloud w))
      ((AzureCluster_GetResourceGroup cl, sanitizeStorageAccountName alib (bucket_name b)) \<mapsto>
        a\<lparr>aa_containers := (aa_containers a)(bucket_name b \<mapsto> bc)\<rparr>)"
    by auto
  have "aa_params a = Azure_accountParameters (NewAzureStorageService sdk cl client lib alib) b priv"
    by (simp add: a upsert_account_def split: option.split)
  with 1 bc acc show ?thesis
    by (intro exI[of _ priv] exI[of _ w1] exI[of _ "a\<lparr>aa_containers := (aa_containers a)(bucket_name b \<mapsto> bc)\<rparr>"]
        exI[of _ bc]) (simp add: Azure_accountParameters_def)
qed

theorem Azure_CreateBucket_creates_witness:
  "\<exists>acc. ref_accounts (cloud az_created) (''rg'', ''logs'') = Some acc \<and>
     ac_PublicNetworkAccess (aa_params acc) = PublicNetworkAccessDisabled \<and> aa_containers acc ''logs'' \<noteq> None"
proof -
  have priv: "Azure_isManagementClusterPrivate sample_az az_world = Some (Val (Inr True), az_world)"
    by code_simp
  have name: "sanitizeStorageAccountName ref_alib ''logs'' = ''logs''"
    "AzureCluster_GetResourceGroup az_cl = ''rg''" "bucket_name the_bucket = ''logs''"
    by code_simp+
  from Azure_CreateBucket_creates[OF ref_azure_env ran_nil_run[OF az_created_nil, of az_world]] priv
  show ?thesis by (auto simp: az_created_def name)
qed

text \<open>C21: \<^verbatim>\<open>CreateBucket\<close> of the Azure adapter, when it returns nil, has stored a secret of the bucket's name in the namespace of
  the CR whose data are the name of the storage account and the value of the access key named \<^verbatim>\<open>key1\<close> in the keys
  that the final call to the cloud listed for that account, after the account was in its final state.\<close>

theorem Azure_CreateBucket_secret:
  assumes "azure_env lib client crs secrets sdk accounts"
    and "Azure_CreateBucket (NewAzureStorageService sdk cl client lib alib) b w = Some (Val (Inr ()), w')"
  shows "\<exists>s keys k v c. secrets (kube w') \<lparr>key_Namespace = meta_Namespace (ObjectMeta b), key_Name = bucket_name b\<rparr> = Some s \<and>
    sdk_ListKeys sdk (AzureCluster_GetResourceGroup cl) (sanitizeStorageAccountName alib (bucket_name b)) c =
      (Inr keys, cloud w') \<and>
    accounts c = accounts (cloud w') \<and> Some k \<in> set keys \<and> ak_KeyName k = Some ''key1'' \<and> ak_Value k = Some v \<and>
    secret_Data s = [(''accountName'', sanitizeStorageAccountName alib (bucket_name b)), (''accountKey'', v)]"
  using azure_env.create_bucket_secret[OF assms] by (simp add: secret_key_of_def Azure_secret_def)

lemma ref_azure_keys: "sdk_ListKeys ref_azure = ref_ListKeys"
  by (simp add: ref_azure_def)

theorem Azure_CreateBucket_secret_witness:
  "\<exists>s. ref_secrets (kube az_created) \<lparr>key_Namespace = ''ns'', key_Name = ''logs''\<rparr> = Some s \<and>
     secret_Data s = [(''accountName'', ''logs''), (''accountKey'', ''secret-of-logs'')]"
proof -
  have names: "meta_Namespace (ObjectMeta the_bucket) = ''ns''" "bucket_name the_bucket = ''logs''"
    "sanitizeStorageAccountName ref_alib ''logs'' = ''logs''" "AzureCluster_GetResourceGroup az_cl = ''rg''"
    by code_simp+
  from Azure_CreateBucket_secret[OF ref_azure_env ran_nil_run[OF az_created_nil, of az_world]]
  show ?thesis
    by (auto simp: names az_created_def[symmetric] ref_azure_keys ref_ListKeys_def split: option.splits)
qed

text \<open>C20: \<^verbatim>\<open>DeleteBucket\<close> of the Azure adapter, when it returns nil, has removed the storage account of the bucket and no
  other, and the secret with the access key, unless a finalizer other than the operator's holds it.\<close>

theorem Azure_DeleteBucket_deletes:
  assumes "azure_env lib client crs secrets sdk accounts"
    and "Azure_DeleteBucket (NewAzureStorageService sdk cl client lib alib) b w = Some (Val (Inr ()), w')"
  shows "accounts (cloud w') = (accounts (cloud w))
      ((AzureCluster_GetResourceGroup cl, sanitizeStorageAccountName alib (bucket_name b)) := None) \<and>
    ((\<forall>s. secrets (kube w) (secret_key_of (Azure_secret b)) = Some s \<longrightarrow>
        set (secret_Finalizers s) \<subseteq> {AzureSecretFinalizer}) \<longrightarrow>
      secrets (kube w') (secret_key_of (Azure_secret b)) = None)"
  using azure_env.delete_nil[OF assms] azure_env.delete_bucket_secret[OF assms] by simp

lemma az_deleted_nil: "ran_nil (Azure_DeleteBucket sample_az the_bucket az_created)"
  by code_simp

theorem Azure_DeleteBucket_deletes_witness:
  "ref_accounts (cloud (ran (Azure_DeleteBucket sample_az the_bucket az_created) az_created)) (''rg'', ''logs'') = None \<and>
   ref_secrets (kube (ran (Azure_DeleteBucket sample_az the_bucket az_created) az_created))
     (secret_key_of (Azure_secret the_bucket)) = None"
proof -
  have held: "list_all (\<lambda>s. secret_Finalizers s = [AzureSecretFinalizer]) (ks_secrets (kube az_created))"
    by code_simp
  have "\<forall>s. ref_secrets (kube az_created) (secret_key_of (Azure_secret the_bucket)) = Some s \<longrightarrow>
      set (secret_Finalizers s) \<subseteq> {AzureSecretFinalizer}"
    using held by (auto simp: ref_secrets_def find_Some_iff list_all_length)
  moreover have "sanitizeStorageAccountName ref_alib (bucket_name the_bucket) = ''logs''"
    "AzureCluster_GetResourceGroup az_cl = ''rg''" by code_simp+
  ultimately show ?thesis
    using Azure_DeleteBucket_deletes[OF ref_azure_env ran_nil_run[OF az_deleted_nil, of az_created]] by simp
qed

section \<open>The lifecycle policy\<close>


lemma float32_exact:
  assumes "\<bar>d\<bar> \<le> 2 ^ 24"
  shows "float32_of_int d = d"
proof (cases "\<bar>d\<bar> < 2 ^ 24")
  case True
  then show ?thesis by (simp add: float32_of_int_def Let_def mult_sgn_abs)
next
  case False
  with assms have "\<bar>d\<bar> = 2 ^ 24" by simp
  then show ?thesis by (simp add: float32_of_int_def Let_def) (simp add: sgn_if abs_if split: if_splits)
qed


definition az_configured :: "(kstore, az_subscription) world" where
  "az_configured = ran (Azure_ConfigureBucket sample_az the_bucket az_created) az_created"



text \<open>C28: Removing the expiration from a CR does not remove the rule: \<^verbatim>\<open>ConfigureBucket\<close> on a CR without an expiration deletes
  the policy named after the rule, not the policy \<^verbatim>\<open>default\<close> that holds the rule, so the policy
  \<^verbatim>\<open>default\<close> of every account is as it was, whatever the outcome.\<close>

theorem Azure_expiration_never_removed:
  assumes "azure_env lib client crs secrets sdk accounts"
    and "ExpirationPolicy (Spec b) = None"
    and "Azure_ConfigureBucket (NewAzureStorageService sdk cl client lib alib) b w = Some (oc, w')"
    and "accounts (cloud w) key = Some acc" and "aa_policies acc ''default'' = Some rules"
  shows "\<exists>acc'. accounts (cloud w') key = Some acc' \<and> aa_policies acc' ''default'' = Some rules"
proof -
  note api = azure_env.axioms(2)[OF assms(1)]
  from assms(2,3) obtain r where call:
    "sdk_DeletePolicy sdk (AzureCluster_GetResourceGroup cl) (sanitizeStorageAccountName alib (bucket_name b))
       LifecycleRuleName (cloud w) = (r, cloud w')"
    by (auto simp: Azure_ConfigureBucket_def Azure_setLifecycleRules_run split: prod.splits sum.splits)
  show ?thesis
  proof (cases r)
    case (Inl e)
    with azure_api.delete_policy_err[OF api call[unfolded Inl]] assms(4,5) show ?thesis by simp
  next
    case (Inr u)
    with azure_api.delete_policy_ok[OF api] call assms(4,5) show ?thesis
      by (fastforce simp: LifecycleRuleName_def)
  qed
qed

definition unexpiring_bucket :: Bucket where
  "unexpiring_bucket = the_bucket\<lparr>Spec := (Spec the_bucket)\<lparr>ExpirationPolicy := None\<rparr>\<rparr>"

lemma az_unconfigured_nil: "ran_nil (Azure_ConfigureBucket sample_az unexpiring_bucket az_configured)"
  by code_simp

theorem Azure_expiration_never_removed_witness:
  "\<exists>acc'. ref_accounts (cloud (ran (Azure_ConfigureBucket sample_az unexpiring_bucket az_configured) az_configured))
       (''rg'', ''logs'') = Some acc' \<and> aa_policies acc' ''default'' = Some [Azure_lifecycleRule \<lparr>Days = 30\<rparr>]"
proof -
  have st: "map_option ra_policies (map_of (sub_accounts (cloud az_configured)) (''rg'', ''logs'')) =
      Some [(''default'', [Azure_lifecycleRule \<lparr>Days = 30\<rparr>])]"
    by code_simp
  then obtain a where "map_of (sub_accounts (cloud az_configured)) (''rg'', ''logs'') = Some a"
    "ra_policies a = [(''default'', [Azure_lifecycleRule \<lparr>Days = 30\<rparr>])]" by auto
  then have "ref_accounts (cloud az_configured) (''rg'', ''logs'') = Some (view_account a)"
    "aa_policies (view_account a) ''default'' = Some [Azure_lifecycleRule \<lparr>Days = 30\<rparr>]"
    by (simp_all add: ref_accounts_def view_account_def)
  from Azure_expiration_never_removed[OF ref_azure_env _ ran_nil_run[OF az_unconfigured_nil] this] show ?thesis
    by (simp add: unexpiring_bucket_def)
qed

text \<open>C36: The expiration in days reaches Azure unchanged up to 16777216 days in either direction: the conversion to a 32-bit
  float is exact there.\<close>

theorem Azure_expiration_exact:
  assumes "\<bar>sint (Days p)\<bar> \<le> 2 ^ 24"
  shows "mp_DaysAfterModificationGreaterThan (Azure_lifecycleRule p) = sint (Days p)"
  using assms by (simp add: Azure_lifecycleRule_def float32_exact)

theorem Azure_expiration_exact_witness:
  "mp_DaysAfterModificationGreaterThan (Azure_lifecycleRule \<lparr>Days = 30\<rparr>) = 30"
  using Azure_expiration_exact[of "\<lparr>Days = 30\<rparr>"] by simp

section \<open>Names\<close>

text \<open>C29: With the documented behaviour of the two library functions (one drops every character that is no letter or digit, the
  other keeps a prefix of at most the given length when nothing marks the cut), the name of a storage
  account has at most 24 characters, all of them letters and digits of the bucket's name in their
  order.\<close>

theorem sanitizeStorageAccountName_bounds:
  assumes "\<And>s. sanitize_AlphaNumeric lib s False = filter is_alnum s"
    and "\<And>s n. truncate_Truncate lib s n [] PositionEnd = take n s"
  shows "length (sanitizeStorageAccountName lib name) \<le> 24 \<and>
    list_all is_alnum (sanitizeStorageAccountName lib name) \<and>
    subseq (sanitizeStorageAccountName lib name) name"
proof -
  have "subseq (take 24 (filter is_alnum name)) (filter is_alnum name)"
    by (metis prefix_imp_subseq take_is_prefix)
  then have "subseq (take 24 (filter is_alnum name)) name"
    using subseq_filter_left subseq_order.order_trans by blast
  then show ?thesis
    by (auto simp: sanitizeStorageAccountName_def assms list_all_iff dest: in_set_takeD)
qed

theorem sanitizeStorageAccountName_bounds_witness:
  "length (sanitizeStorageAccountName ref_alib ''my-bucket'') \<le> 24 \<and>
   list_all is_alnum (sanitizeStorageAccountName ref_alib ''my-bucket'') \<and>
   subseq (sanitizeStorageAccountName ref_alib ''my-bucket'') ''my-bucket''"
  by (rule sanitizeStorageAccountName_bounds) (simp_all add: ref_alib_def)

section \<open>Tags\<close>

lemma map_of_put_tag:
  "map_of (put_tag k v tags) = (if k \<noteq> [] \<and> v \<noteq> [] then (map_of tags)(sanitizeTagKey k \<mapsto> v) else map_of tags)"
  by (simp add: put_tag_def)

lemma fold_tags_other:
  "\<forall>p \<in> set m. sanitizeTagKey (fst p) \<noteq> x \<Longrightarrow>
   map_of (fold (\<lambda>(key, value). put_tag key value) m tags) x = map_of tags x"
  by (induction m arbitrary: tags) (auto simp: map_of_put_tag)

lemma fold_tags_mem:
  assumes "distinct (map (\<lambda>p. sanitizeTagKey (fst p)) m)" "(k, v) \<in> set m" "k \<noteq> []" "v \<noteq> []"
  shows "map_of (fold (\<lambda>(key, value). put_tag key value) m tags) (sanitizeTagKey k) = Some v"
  using assms
proof (induction m arbitrary: tags)
  case (Cons p m)
  obtain k0 v0 where p: "p = (k0, v0)" by (cases p)
  show ?case
  proof (cases "(k, v) = p")
    case True
    with Cons.prems p have "\<forall>q \<in> set m. sanitizeTagKey (fst q) \<noteq> sanitizeTagKey k" by force
    from fold_tags_other[OF this] True p Cons.prems show ?thesis by (simp add: map_of_put_tag)
  next
    case False
    with Cons show ?thesis by auto
  qed
qed simp

text \<open>C33: The tags of the Azure resources: every tag of the cluster with a key and a value is there under its sanitized key, and it
  wins over a tag of the CR with the same sanitized key. This needs that no two keys of the cluster
  are sanitized to the same key; then the order in which the map is read does not matter.\<close>

theorem getBucketTags_cluster:
  assumes "distinct (map (\<lambda>p. sanitizeTagKey (fst p)) m)" "(k, v) \<in> set m" "k \<noteq> []" "v \<noteq> []"
  shows "map_of (getBucketTags m b) (sanitizeTagKey k) = Some v"
  unfolding getBucketTags_def using assms by (rule fold_tags_mem)

theorem getBucketTags_cluster_witness:
  "map_of (getBucketTags [(''app'', ''x''), (''team-x'', ''a'')] the_bucket) (sanitizeTagKey ''app'') = Some ''x''"
proof -
  have "distinct (map (\<lambda>p. sanitizeTagKey (fst p)) [(''app'', ''x''), (''team-x'', ''a'')])"
    by code_simp
  from getBucketTags_cluster[OF this, of "''app''" "''x''" the_bucket] show ?thesis by simp
qed

lemma sanitizeTagKey_no_dash: "CHR ''-'' \<notin> set (sanitizeTagKey k)"
  by (auto simp: sanitizeTagKey_def strings_ReplaceAll_char)

definition tag_ok :: "string \<times> string \<Rightarrow> bool" where
  "tag_ok p \<longleftrightarrow> CHR ''-'' \<notin> set (fst p) \<and> snd p \<noteq> []"

lemma put_tag_ok: "wf_map tags \<and> list_all tag_ok tags \<Longrightarrow> wf_map (put_tag k v tags) \<and> list_all tag_ok (put_tag k v tags)"
  using set_map_put[of "sanitizeTagKey k" v tags] sanitizeTagKey_no_dash[of k]
  by (auto simp: put_tag_def list_all_iff tag_ok_def)

text \<open>C34: The keys of the tags of the Azure resources are distinct and free of dashes, and no tag is empty, whatever the tags of
  the CR and the cluster are.\<close>

theorem getBucketTags_well_formed:
  "wf_map (getBucketTags m b) \<and> list_all tag_ok (getBucketTags m b)"
proof -
  have spec: "wf_map t \<and> list_all tag_ok t \<Longrightarrow>
      wf_map (fold (\<lambda>tag. put_tag (tag_Key tag) (tag_Value tag)) ts t) \<and>
      list_all tag_ok (fold (\<lambda>tag. put_tag (tag_Key tag) (tag_Value tag)) ts t)" for ts t
  proof (induction ts arbitrary: t)
    case (Cons a ts)
    from Cons.IH[OF put_tag_ok[OF Cons.prems]] show ?case by simp
  qed simp
  have cluster: "wf_map t \<and> list_all tag_ok t \<Longrightarrow>
      wf_map (fold (\<lambda>(key, value). put_tag key value) m t) \<and>
      list_all tag_ok (fold (\<lambda>(key, value). put_tag key value) m t)" for t
  proof (induction m arbitrary: t)
    case (Cons a m)
    from Cons.IH[OF put_tag_ok[OF Cons.prems]] show ?case by (simp add: case_prod_beta)
  qed simp
  show ?thesis unfolding getBucketTags_def by (rule cluster[OF spec]) simp
qed

section \<open>Private access\<close>

text \<open>C31: Whether the management cluster is private: it is if its user values set the network mode to \<^verbatim>\<open>private\<close>; a missing
  config map and a missing field of any level mean that it is not; any other failure to read the
  config map and values that are no YAML are errors.\<close>

theorem Azure_private_decision:
  assumes "kube_lib_laws (az_kube_lib s)" and "\<not> IsNotFound (az_kube_lib s) None"
    and "Get_ConfigMap (az_client s) \<lparr>key_Namespace = ''org-giantswarm'', key_Name = az_Name (az_cluster s) @ ''-user-values''\<rparr>
      (kube w) = (r, k)"
  shows "Azure_isManagementClusterPrivate s w = Some (Val (case r of
      Inl e \<Rightarrow> if IsNotFound (az_kube_lib s) (Some e) then Inr False else Inl e
    | Inr cm \<Rightarrow> (case yaml_Unmarshal (az_lib s) (case cm_Data cm ''values'' of None \<Rightarrow> [] | Some v \<Rightarrow> v) of
        Inl e \<Rightarrow> Inl (Errorf_w (''failed to unmarshal network config for cluster '' @ az_Name (az_cluster s) @ '': '') e)
      | Inr cfg \<Rightarrow> Inr (\<exists>g c n. nc_Global cfg = Some g \<and> nc_Connectivity g = Some c \<and> nc_Network c = Some n \<and>
          nc_Mode n = Some ''private''))), w\<lparr>kube := k\<rparr>)"
proof -
  have mode: "isPrivateMode cfg = (\<exists>g c n. nc_Global cfg = Some g \<and> nc_Connectivity g = Some c \<and>
      nc_Network c = Some n \<and> nc_Mode n = Some ''private'')" for cfg
    by (auto simp: isPrivateMode_def split: option.splits)
  show ?thesis
    using assms(2,3) kube_lib_laws.IgnoreNotFound_nil[OF assms(1)] kube_lib_laws.IgnoreNotFound_err[OF assms(1)]
    by (cases r) (auto simp: Azure_isManagementClusterPrivate_def andThen_run onKube_run attempt_run mode Let_def
        split: sum.splits)
qed

theorem Azure_private_decision_witness:
  "Azure_isManagementClusterPrivate sample_az az_world = Some (Val (Inr True), az_world)"
proof -
  let ?key = "\<lparr>key_Namespace = ''org-giantswarm'', key_Name = az_Name (az_cluster sample_az) @ ''-user-values''\<rparr>"
  have laws: "kube_lib_laws (az_kube_lib sample_az)" "\<not> IsNotFound (az_kube_lib sample_az) None"
    using ref_kube.kube_lib_laws_axioms by (simp_all add: ref_lib_def)
  have get: "Get_ConfigMap (az_client sample_az) ?key (kube az_world) =
      (Inr \<lparr>cm_Data = map_of [(''values'', private_values)]\<rparr>, kube az_world)"
    by (simp add: ref_client_def az_world_def az_cl_def)
  from Azure_private_decision[OF laws get] show ?thesis by (simp add: ref_alib_def)
qed

text \<open>C35: The A record of a private endpoint: its addresses are those of all DNS configurations of the endpoint that have
  addresses, in their order; configurations without addresses are skipped.\<close>

theorem Azure_A_record_addresses:
  assumes "\<forall>c \<in> set cs. \<forall>ps. IPAddresses c = Some ps \<longrightarrow> None \<notin> set ps"
    and "pe_Name pe = Some n" "pe_CustomDNSConfigs pe = Some (map Some cs)"
  shows "Azure_upsertPrivateEndpointARecords s b pe account w =
    attempt (onCloud (sdk_CreateOrUpdateRecordSet (az_sdk s) (AzureCluster_GetResourceGroup (az_cluster s))
      ''privatelink.blob.core.windows.net'' account
      \<lparr>rs_ARecords = concat (map (\<lambda>c. case IPAddresses c of None \<Rightarrow> [] | Some ps \<Rightarrow> map the ps) cs), rs_TTL = 3600,
       rs_Metadata = getBucketTags (az_Tags (az_cluster s)) b\<rparr>)) (\<lambda>e. e) (\<lambda>rs. ret (Inr rs)) w"
proof -
  have all: "deref_all ps = Some (map the ps)" if "None \<notin> set ps" for ps :: "string option list"
    using that by (induction ps rule: deref_all.induct) auto
  have "endpoint_ips (map Some cs) =
      Some (concat (map (\<lambda>c. case IPAddresses c of None \<Rightarrow> [] | Some ps \<Rightarrow> map the ps) cs))"
    using assms(1) by (induction cs) (auto simp: all split: option.split)
  with assms(2,3) show ?thesis
    by (simp add: Azure_upsertPrivateEndpointARecords_def privateZoneID_def)
qed

definition two_configs :: "CustomDNSConfig list" where
  "two_configs = [\<lparr>IPAddresses = None\<rparr>, \<lparr>IPAddresses = Some [Some ''10.0.0.4'', Some ''10.0.0.5'']\<rparr>]"

theorem Azure_A_record_addresses_witness:
  "Azure_upsertPrivateEndpointARecords sample_az the_bucket
     \<lparr>pe_Name = Some ''logs'', pe_CustomDNSConfigs = Some (map Some two_configs)\<rparr> ''logs'' az_world =
   attempt (onCloud (sdk_CreateOrUpdateRecordSet (az_sdk sample_az) (AzureCluster_GetResourceGroup (az_cluster sample_az))
      ''privatelink.blob.core.windows.net'' ''logs''
      \<lparr>rs_ARecords = concat (map (\<lambda>c. case IPAddresses c of None \<Rightarrow> [] | Some ps \<Rightarrow> map the ps) two_configs), rs_TTL = 3600,
       rs_Metadata = getBucketTags (az_Tags (az_cluster sample_az)) the_bucket\<rparr>)) (\<lambda>e. e) (\<lambda>rs. ret (Inr rs)) az_world"
  by (rule Azure_A_record_addresses) (auto simp: two_configs_def)

section \<open>The access key\<close>

text \<open>If the account has keys with names but none is named \<^verbatim>\<open>key1\<close>, filling in the secret fails with an error that names the
  account; the secret is not touched. If there is one, its value goes into the secret.\<close>

theorem Azure_fillSecret_key1:
  assumes "\<forall>k \<in> set keys. ak_KeyName k \<noteq> None \<and> ak_Value k \<noteq> None"
  shows "Azure_fillSecret account (map Some keys) s =
    (case find (\<lambda>k. ak_KeyName k = Some ''key1'') keys of
       None \<Rightarrow> Val (Inl (ErrorString (''unable to retrieve access keys 'key1' from storage account '' @ account)))
     | Some k \<Rightarrow> Val (Inr (s\<lparr>secret_Data := [(''accountName'', account), (''accountKey'', the (ak_Value k))]\<rparr>)))"
  using assms by (induction keys) (auto split: option.splits)

theorem Azure_fillSecret_key1_witness:
  "Azure_fillSecret ''logs'' [Some \<lparr>ak_KeyName = Some ''key2'', ak_Value = Some ''v''\<rparr>] empty_secret =
     Val (Inl (ErrorString ''unable to retrieve access keys 'key1' from storage account logs''))"
  using Azure_fillSecret_key1[of "[\<lparr>ak_KeyName = Some ''key2'', ak_Value = Some ''v''\<rparr>]" "''logs''" empty_secret] by simp

end
