(* ===== verification/Go_Heap.thy ===== *)
theory Go_Heap
  imports Kube_Client "HOL-Library.Monad_Syntax"
begin

text \<open>
  Pointers and slices. In the rest of the development structs are values; in the program they are
  reached through pointers, and \<^verbatim>\<open>DeepCopy\<close> decides whether two of them share memory. This theory has the
  heap on which the generated copies (\<^verbatim>\<open>src/api/v1alpha1/zz_generated.deepcopy.go\<close>) are modelled: the pointer
  level structs, allocation and stores, readers that turn a pointer level struct into the value the
  other theories use, and the contract of a deep copy. The value read depends on the cells that
  are reached only, so sharing is a matter of which part of the heap a reader needs.
\<close>

section \<open>Structs with pointers\<close>

record slice =
  sl_array :: nat
  sl_off :: nat
  sl_len :: nat
  sl_cap :: nat

record TypeMeta =
  Kind :: string
  APIVersion :: string

record go_ObjectMeta =
  g_meta_Name :: string
  g_meta_Namespace :: string
  g_Finalizers :: "slice option"
  g_DeletionTimestamp :: "nat option"

record go_ListMeta =
  g_ResourceVersion :: string
  g_Continue :: string
  g_RemainingItemCount :: "nat option"

record go_BucketAccessRole =
  g_RoleName :: string
  g_ExtraBucketNames :: "slice option"
  g_ServiceAccountName :: string
  g_ServiceAccountNamespace :: string

record go_BucketSpec =
  g_Name :: string
  g_ExpirationPolicy :: "nat option"
  g_ReclaimPolicy :: string
  g_AccessRole :: "nat option"
  g_Tags :: "slice option"

record go_Bucket =
  g_TypeMeta :: TypeMeta
  g_ObjectMeta :: go_ObjectMeta
  g_Spec :: go_BucketSpec
  g_Status :: BucketStatus

record go_BucketList =
  g_list_TypeMeta :: TypeMeta
  g_ListMeta :: go_ListMeta
  g_Items :: "slice option"

text \<open>What an allocated address holds: a struct, or the array under a slice.\<close>

datatype cell =
    PolicyCell BucketExpirationPolicy
  | TagCell BucketTag
  | StatusCell BucketStatus
  | RoleCell go_BucketAccessRole
  | SpecCell go_BucketSpec
  | BucketCell go_Bucket
  | ListCell go_BucketList
  | NumberCell int
  | StringsCell "string list"
  | TagsCell "BucketTag list"
  | BucketsCell "go_Bucket list"

fun policy_of :: "cell \<Rightarrow> BucketExpirationPolicy option" where
  "policy_of (PolicyCell x) = Some x" | "policy_of _ = None"

fun tag_of :: "cell \<Rightarrow> BucketTag option" where
  "tag_of (TagCell x) = Some x" | "tag_of _ = None"

fun status_of :: "cell \<Rightarrow> BucketStatus option" where
  "status_of (StatusCell x) = Some x" | "status_of _ = None"

fun role_of :: "cell \<Rightarrow> go_BucketAccessRole option" where
  "role_of (RoleCell x) = Some x" | "role_of _ = None"

fun spec_of :: "cell \<Rightarrow> go_BucketSpec option" where
  "spec_of (SpecCell x) = Some x" | "spec_of _ = None"

fun bucket_of :: "cell \<Rightarrow> go_Bucket option" where
  "bucket_of (BucketCell x) = Some x" | "bucket_of _ = None"

fun list_of :: "cell \<Rightarrow> go_BucketList option" where
  "list_of (ListCell x) = Some x" | "list_of _ = None"

fun number_of :: "cell \<Rightarrow> int option" where
  "number_of (NumberCell x) = Some x" | "number_of _ = None"

fun strings_of :: "cell \<Rightarrow> string list option" where
  "strings_of (StringsCell x) = Some x" | "strings_of _ = None"

fun tags_of :: "cell \<Rightarrow> BucketTag list option" where
  "tags_of (TagsCell x) = Some x" | "tags_of _ = None"

fun buckets_of :: "cell \<Rightarrow> go_Bucket list option" where
  "buckets_of (BucketsCell x) = Some x" | "buckets_of _ = None"

section \<open>The heap\<close>

type_synonym cells = "nat \<Rightarrow> cell option"

record go_heap =
  cells :: cells
  lim :: nat

definition wf_heap :: "go_heap \<Rightarrow> bool" where
  "wf_heap h \<longleftrightarrow> dom (cells h) \<subseteq> {..<lim h}"

definition alloc :: "cell \<Rightarrow> go_heap \<Rightarrow> nat \<times> go_heap" where
  "alloc c h = (lim h, \<lparr>cells = (cells h)(lim h \<mapsto> c), lim = Suc (lim h)\<rparr>)"

definition store :: "nat \<Rightarrow> cell \<Rightarrow> go_heap \<Rightarrow> go_heap" where
  "store a c h = h\<lparr>cells := (cells h)(a \<mapsto> c)\<rparr>"

lemma alloc_sel [simp]:
  "fst (alloc c h) = lim h" "cells (snd (alloc c h)) = (cells h)(lim h \<mapsto> c)" "lim (snd (alloc c h)) = Suc (lim h)"
  by (simp_all add: alloc_def)

lemma store_sel [simp]: "cells (store a c h) = (cells h)(a \<mapsto> c)" "lim (store a c h) = lim h"
  by (simp_all add: store_def)

lemma wf_alloc [simp]: "wf_heap h \<Longrightarrow> wf_heap (snd (alloc c h))"
  by (auto simp: wf_heap_def less_Suc_eq)

lemma wf_store: "wf_heap h \<Longrightarrow> a < lim h \<Longrightarrow> wf_heap (store a c h)"
  by (auto simp: wf_heap_def)

lemma wf_fresh: "wf_heap h \<Longrightarrow> lim h \<le> a \<Longrightarrow> cells h a = None"
  by (auto simp: wf_heap_def dom_def)

text \<open>\<open>ext h h'\<close>: everything allocated in \<open>h\<close> is as it was.\<close>

definition ext :: "go_heap \<Rightarrow> go_heap \<Rightarrow> bool" where
  "ext h h' \<longleftrightarrow> lim h \<le> lim h' \<and> cells h \<subseteq>\<^sub>m cells h'"

lemma ext_refl [simp]: "ext h h"
  by (simp add: ext_def)

lemma ext_trans: "ext h h1 \<Longrightarrow> ext h1 h2 \<Longrightarrow> ext h h2"
  by (auto simp: ext_def intro: map_le_trans)

lemma ext_alloc: "wf_heap h \<Longrightarrow> ext h (snd (alloc c h))"
  by (auto simp: ext_def map_le_def dom_def wf_fresh)

lemma ext_store: "ext h h' \<Longrightarrow> wf_heap h \<Longrightarrow> lim h \<le> a \<Longrightarrow> ext h (store a c h')"
  by (auto simp: ext_def map_le_def dom_def wf_fresh)

text \<open>The part of the cells that is newer than the heap \<open>h\<close>.\<close>

abbreviation newer :: "go_heap \<Rightarrow> cells \<Rightarrow> cells" where
  "newer h m \<equiv> m |` {lim h..}"

lemma restrict_le: "m \<subseteq>\<^sub>m m' \<Longrightarrow> A \<subseteq> B \<Longrightarrow> m |` A \<subseteq>\<^sub>m m' |` B"
  by (auto simp: map_le_def restrict_map_def dom_def)

lemma newer_le: "ext h1 h2 \<Longrightarrow> newer h (cells h1) \<subseteq>\<^sub>m newer h (cells h2)"
  by (simp add: ext_def restrict_le)

lemma newer_older: "ext h h1 \<Longrightarrow> newer h1 m \<subseteq>\<^sub>m newer h m"
  by (auto simp: ext_def intro: restrict_le)

lemma map_le_Some: "m \<subseteq>\<^sub>m m' \<Longrightarrow> m a = Some c \<Longrightarrow> m' a = Some c"
  by (auto simp: map_le_def dom_def)

section \<open>Readers\<close>

text \<open>A reader gives the value of something on the heap, if it is there; more cells never change it.\<close>

type_synonym ('p, 'v) reader = "cells \<Rightarrow> 'p \<Rightarrow> 'v option"

definition mono_reader :: "('p, 'v) reader \<Rightarrow> bool" where
  "mono_reader rd \<longleftrightarrow> (\<forall>m m' x v. m \<subseteq>\<^sub>m m' \<longrightarrow> rd m x = Some v \<longrightarrow> rd m' x = Some v)"

named_theorems mono_readers "readers that more cells do not change"

lemma mono_readerI: "(\<And>m m' x v. m \<subseteq>\<^sub>m m' \<Longrightarrow> rd m x = Some v \<Longrightarrow> rd m' x = Some v) \<Longrightarrow> mono_reader rd"
  by (simp add: mono_reader_def)

lemma mono_readerD: "mono_reader rd \<Longrightarrow> rd m x = Some v \<Longrightarrow> m \<subseteq>\<^sub>m m' \<Longrightarrow> rd m' x = Some v"
  by (simp add: mono_reader_def)

text \<open>A struct without pointers is its own value.\<close>

definition plain_read :: "('p, 'p) reader" where
  "plain_read m x = Some x"

definition ptr_read :: "(cell \<Rightarrow> 'p option) \<Rightarrow> ('p, 'v) reader \<Rightarrow> (nat option, 'v option) reader" where
  "ptr_read sel rd m p =
     (case p of
        None \<Rightarrow> Some None
      | Some a \<Rightarrow> do { c \<leftarrow> m a; x \<leftarrow> sel c; v \<leftarrow> rd m x; Some (Some v) })"

text \<open>
  The elements of a slice. The bounds are the ones every Go slice keeps. A nil slice has no elements, and so its value is that of an
  empty slice: the value of an object is what its elements are, while the
  deep copies, which test for nil, see the slice itself.
\<close>

definition slice_read :: "(cell \<Rightarrow> 'e list option) \<Rightarrow> (slice option, 'e list) reader" where
  "slice_read sel m s =
     (case s of
        None \<Rightarrow> Some []
      | Some sl \<Rightarrow> do {
          c \<leftarrow> m (sl_array sl);
          xs \<leftarrow> sel c;
          if sl_len sl \<le> sl_cap sl \<and> sl_off sl + sl_cap sl \<le> length xs
          then Some (take (sl_len sl) (drop (sl_off sl) xs)) else None })"

definition role_read :: "(go_BucketAccessRole, BucketAccessRole) reader" where
  "role_read m r = do {
     extra \<leftarrow> slice_read strings_of m (g_ExtraBucketNames r);
     Some \<lparr>RoleName = g_RoleName r, ExtraBucketNames = extra, ServiceAccountName = g_ServiceAccountName r,
       ServiceAccountNamespace = g_ServiceAccountNamespace r\<rparr> }"

definition spec_read :: "(go_BucketSpec, BucketSpec) reader" where
  "spec_read m s = do {
     p \<leftarrow> ptr_read policy_of plain_read m (g_ExpirationPolicy s);
     r \<leftarrow> ptr_read role_of role_read m (g_AccessRole s);
     ts \<leftarrow> slice_read tags_of m (g_Tags s);
     Some \<lparr>spec_Name = g_Name s, ExpirationPolicy = p, ReclaimPolicy = g_ReclaimPolicy s, AccessRole = r,
       spec_Tags = ts\<rparr> }"

definition meta_read :: "(go_ObjectMeta, ObjectMeta) reader" where
  "meta_read m om = do {
     fs \<leftarrow> slice_read strings_of m (g_Finalizers om);
     t \<leftarrow> ptr_read number_of plain_read m (g_DeletionTimestamp om);
     Some \<lparr>meta_Name = g_meta_Name om, meta_Namespace = g_meta_Namespace om, meta_Finalizers = fs,
       meta_DeletionTimestamp = t\<rparr> }"

definition bucket_read :: "(go_Bucket, TypeMeta \<times> Bucket) reader" where
  "bucket_read m b = do {
     om \<leftarrow> meta_read m (g_ObjectMeta b);
     s \<leftarrow> spec_read m (g_Spec b);
     Some (g_TypeMeta b, \<lparr>ObjectMeta = om, Spec = s, Status = g_Status b\<rparr>) }"

definition list_meta_read :: "(go_ListMeta, string \<times> string \<times> int option) reader" where
  "list_meta_read m lm = do {
     n \<leftarrow> ptr_read number_of plain_read m (g_RemainingItemCount lm);
     Some (g_ResourceVersion lm, g_Continue lm, n) }"

definition items_read :: "('e, 'v) reader \<Rightarrow> (cell \<Rightarrow> 'e list option) \<Rightarrow> (slice option, 'v list) reader" where
  "items_read rd sel m s = do { xs \<leftarrow> slice_read sel m s; those (map (rd m) xs) }"

definition list_read :: "(go_BucketList, TypeMeta \<times> (string \<times> string \<times> int option) \<times> (TypeMeta \<times> Bucket) list) reader" where
  "list_read m l = do {
     lm \<leftarrow> list_meta_read m (g_ListMeta l);
     bs \<leftarrow> items_read bucket_read buckets_of m (g_Items l);
     Some (g_list_TypeMeta l, lm, bs) }"

lemma mono_const [mono_readers]: "mono_reader (\<lambda>m x. c x)"
  by (rule mono_readerI)

lemma mono_at: "mono_reader rd \<Longrightarrow> mono_reader (\<lambda>m x. rd m (f x))"
  by (auto simp: mono_reader_def)

lemma mono_lookup [mono_readers]: "mono_reader (\<lambda>m x. m (f x))"
  by (rule mono_readerI) (auto simp: map_le_def dom_def)

lemma mono_bind [mono_readers]:
  assumes "mono_reader f" and "\<And>v. mono_reader (\<lambda>m x. g m x v)"
  shows "mono_reader (\<lambda>m x. Option.bind (f m x) (g m x))"
proof (rule mono_readerI)
  fix m m' x v assume le: "m \<subseteq>\<^sub>m m'" and "Option.bind (f m x) (g m x) = Some v"
  then obtain u where "f m x = Some u" "g m x u = Some v" by (auto simp: bind_eq_Some_conv)
  with mono_readerD[OF assms(1) _ le] mono_readerD[OF assms(2) _ le]
  have "f m' x = Some u" "g m' x u = Some v" by blast+
  then show "Option.bind (f m' x) (g m' x) = Some v" by simp
qed

lemma mono_case_option [mono_readers]:
  assumes "mono_reader (\<lambda>m x. a m x)" and "\<And>y. mono_reader (\<lambda>m x. b m x y)"
  shows "mono_reader (\<lambda>m x. case f x of None \<Rightarrow> a m x | Some y \<Rightarrow> b m x y)"
proof (rule mono_readerI)
  fix m m' x v assume le: "m \<subseteq>\<^sub>m m'" and "(case f x of None \<Rightarrow> a m x | Some y \<Rightarrow> b m x y) = Some v"
  then show "(case f x of None \<Rightarrow> a m' x | Some y \<Rightarrow> b m' x y) = Some v"
    using mono_readerD[OF assms(1) _ le] mono_readerD[OF assms(2) _ le] by (cases "f x") simp_all
qed

lemma mono_plain: "mono_reader plain_read"
  unfolding plain_read_def by (rule mono_const)

lemmas mono_plain_at [mono_readers] = mono_at[OF mono_plain]

lemma mono_ptr: "mono_reader rd \<Longrightarrow> mono_reader (ptr_read sel rd)"
  unfolding ptr_read_def by (intro mono_readers) (simp add: mono_reader_def)

lemmas mono_ptr_at [mono_readers] = mono_at[OF mono_ptr]

lemma mono_slice: "mono_reader (slice_read sel)"
  unfolding slice_read_def by (intro mono_readers)

lemmas mono_slice_at [mono_readers] = mono_at[OF mono_slice]

lemma mono_role: "mono_reader role_read"
  unfolding role_read_def by (intro mono_readers)

lemmas mono_role_at [mono_readers] = mono_at[OF mono_role]

lemma mono_spec: "mono_reader spec_read"
  unfolding spec_read_def by (intro mono_readers mono_plain mono_role)

lemmas mono_spec_at [mono_readers] = mono_at[OF mono_spec]

lemma mono_meta: "mono_reader meta_read"
  unfolding meta_read_def by (intro mono_readers mono_plain)

lemmas mono_meta_at [mono_readers] = mono_at[OF mono_meta]

lemma mono_bucket: "mono_reader bucket_read"
  unfolding bucket_read_def by (intro mono_readers)

lemmas mono_bucket_at [mono_readers] = mono_at[OF mono_bucket]

lemma mono_list_meta: "mono_reader list_meta_read"
  unfolding list_meta_read_def by (intro mono_readers mono_plain)

lemmas mono_list_meta_at [mono_readers] = mono_at[OF mono_list_meta]

lemma those_Some_iff: "those xs = Some ys \<longleftrightarrow> xs = map Some ys"
  by (induction xs arbitrary: ys) (auto split: option.splits)

lemma mono_those: 
  assumes "mono_reader rd" shows "mono_reader (\<lambda>m (x :: 'a). those (map (rd m) xs))"
proof (rule mono_readerI)
  fix m m' :: cells and x :: 'a and vs assume le: "m \<subseteq>\<^sub>m m'" and "those (map (rd m) xs) = Some vs"
  then have "map (rd m) xs = map Some vs" by (simp add: those_Some_iff)
  then have "map (rd m') xs = map Some vs"
    using mono_readerD[OF assms _ le] by (metis (mono_tags, lifting) length_map nth_equalityI nth_map)
  then show "those (map (rd m') xs) = Some vs" by (simp add: those_Some_iff)
qed

lemma mono_items: "mono_reader rd \<Longrightarrow> mono_reader (items_read rd sel)"
  unfolding items_read_def by (intro mono_bind mono_slice mono_those)

lemmas mono_items_at [mono_readers] = mono_at[OF mono_items]

lemma mono_list: "mono_reader list_read"
  unfolding list_read_def by (intro mono_readers mono_bucket)

end
