(* ===== verification/Deep_Copy.thy ===== *)
theory Deep_Copy
  imports Go_Heap
begin

text \<open>
  The generated copies (\<^verbatim>\<open>src/api/v1alpha1/zz_generated.deepcopy.go\<close>). \<^verbatim>\<open>in.DeepCopyInto(out)\<close> overwrites
  \<^verbatim>\<open>*out\<close> before anything else, so it is a function from the heap and the struct \<^verbatim>\<open>*in\<close> to the struct \<^verbatim>\<open>*out\<close>
  ends up with, and the next heap; \<open>None\<close> stands for a dangling pointer or slice, which Go does not have.
  The receiver and the target are different variables in every call. \<^verbatim>\<open>DeepCopyInto\<close> of the object and
  list metadata is library code, so it is a parameter, with the contract that all the copies here have.
\<close>

section \<open>The contract of a deep copy\<close>

text \<open>
  \<open>copied rd h v y h'\<close>: starting in \<open>h\<close> nothing that was allocated has changed, and \<open>v\<close> can be read off
  \<open>y\<close> from the new cells alone.
\<close>

definition copied :: "('p, 'v) reader \<Rightarrow> go_heap \<Rightarrow> 'v \<Rightarrow> 'p \<Rightarrow> go_heap \<Rightarrow> bool" where
  "copied rd h v y h' \<longleftrightarrow> wf_heap h' \<and> ext h h' \<and> rd (newer h (cells h')) y = Some v"

locale deep_copier =
  fixes copy :: "go_heap \<Rightarrow> 'p \<Rightarrow> ('p \<times> go_heap) option" and rd :: "('p, 'v) reader"
  assumes reader_mono: "mono_reader rd"
    and copy_copies: "wf_heap h \<Longrightarrow> rd (cells h) x = Some v \<Longrightarrow> \<exists>y h'. copy h x = Some (y, h') \<and> copied rd h v y h'"
begin

text \<open>Whatever is written to the old cells, the copy keeps its value, and whatever is written to the new
  ones, the original does.\<close>

lemma copy_isolated:
  assumes "wf_heap h" "rd (cells h) x = Some v"
  obtains y h' where "copy h x = Some (y, h')" "wf_heap h'" "ext h h'"
    "\<And>m. (\<And>l. lim h \<le> l \<Longrightarrow> l < lim h' \<Longrightarrow> m l = cells h' l) \<Longrightarrow> rd m y = Some v"
    "\<And>m. (\<And>l. l < lim h \<Longrightarrow> m l = cells h' l) \<Longrightarrow> rd m x = Some v"
proof -
  from copy_copies[OF assms] obtain y h' where c: "copy h x = Some (y, h')" "wf_heap h'" "ext h h'"
    "rd (newer h (cells h')) y = Some v" by (auto simp: copied_def)
  have "rd m y = Some v" if "\<And>l. lim h \<le> l \<Longrightarrow> l < lim h' \<Longrightarrow> m l = cells h' l" for m
  proof (rule mono_readerD[OF reader_mono c(4)])
    show "newer h (cells h') \<subseteq>\<^sub>m m"
      using that c(2) by (auto simp: wf_heap_def dom_def map_le_def restrict_map_def split: if_splits)
  qed
  moreover have "rd m x = Some v" if "\<And>l. l < lim h \<Longrightarrow> m l = cells h' l" for m
  proof (rule mono_readerD[OF reader_mono assms(2)])
    have "m l = cells h l" if "l \<in> dom (cells h)" for l
    proof -
      from that assms(1) have "l < lim h" by (auto simp: wf_heap_def)
      with \<open>\<And>l. l < lim h \<Longrightarrow> m l = cells h' l\<close> c(3) that show ?thesis by (simp add: ext_def map_le_def)
    qed
    then show "cells h \<subseteq>\<^sub>m m" by (simp add: map_le_def)
  qed
  ultimately show thesis using that c(1-3) by blast
qed

end

text \<open>Rules for copies that are made one after the other.\<close>

lemma copied_read_later:
  assumes "copied rd h v y h1" "ext h1 h2" "mono_reader rd"
  shows "rd (newer h (cells h2)) y = Some v"
  using mono_readerD[OF assms(3) _ newer_le[OF assms(2)]] assms(1) by (simp add: copied_def)

lemma copied_read_earlier:
  assumes "rd (newer h1 m) y = Some v" "ext h h1" "mono_reader rd"
  shows "rd (newer h m) y = Some v"
  using mono_readerD[OF assms(3,1) newer_older[OF assms(2)]] .

lemma read_later:
  assumes "rd (cells h) x = Some v" "ext h h'" "mono_reader rd"
  shows "rd (cells h') x = Some v"
  using mono_readerD[OF assms(3,1)] assms(2) by (simp add: ext_def)

section \<open>Pointers\<close>

text \<open>\<^verbatim>\<open>if in == nil { return nil }; out := new(T); in.DeepCopyInto(out); return out\<close>, and the same for a field
  that is a pointer.\<close>

definition copy_ptr ::
  "('p \<Rightarrow> cell) \<Rightarrow> (cell \<Rightarrow> 'p option) \<Rightarrow> 'p \<Rightarrow> (go_heap \<Rightarrow> 'p \<Rightarrow> ('p \<times> go_heap) option) \<Rightarrow>
     go_heap \<Rightarrow> nat option \<Rightarrow> (nat option \<times> go_heap) option" where
  "copy_ptr con sel zero into h p =
     (case p of
        None \<Rightarrow> Some (None, h)
      | Some a \<Rightarrow> do {
          let (out, h1) = alloc (con zero) h;
          c \<leftarrow> cells h1 a;
          x \<leftarrow> sel c;
          (y, h2) \<leftarrow> into h1 x;
          Some (Some out, store out (con y) h2) })"


lemma copy_ptr_copies:
  assumes "deep_copier into rd" and sel: "\<And>x. sel (con x) = Some x"
  shows "deep_copier (copy_ptr con sel zero into) (ptr_read sel rd)"
proof
  note mono = deep_copier.reader_mono[OF assms(1)]
  show mono_ptr': "mono_reader (ptr_read sel rd)" by (rule mono_ptr[OF mono])
  fix h p v assume wf: "wf_heap h" and v: "ptr_read sel rd (cells h) p = Some v"
  show "\<exists>y h'. copy_ptr con sel zero into h p = Some (y, h') \<and> copied (ptr_read sel rd) h v y h'"
  proof (cases p)
    case None
    with v wf show ?thesis by (simp add: copy_ptr_def copied_def ptr_read_def)
  next
    case (Some a)
    define h1 where "h1 = snd (alloc (con zero) h)"
    from v Some obtain c x u where x: "cells h a = Some c" "sel c = Some x" "rd (cells h) x = Some u" "v = Some u"
      by (auto simp: ptr_read_def bind_eq_Some_conv)
    have e1: "ext h h1" and wf1: "wf_heap h1" using wf by (simp_all add: h1_def ext_alloc)
    have a: "a \<noteq> lim h" using x(1) wf_fresh[OF wf] by auto
    from deep_copier.copy_copies[OF assms(1) wf1 read_later[OF x(3) e1 mono]] obtain y h2 where
      y: "into h1 x = Some (y, h2)" "wf_heap h2" "ext h1 h2" "rd (newer h1 (cells h2)) y = Some u"
      by (auto simp: copied_def)
    let ?h3 = "store (lim h) (con y) h2"
    have less: "lim h < lim h1" "lim h1 \<le> lim h2" using y(3) by (simp_all add: h1_def ext_def)
    have run: "copy_ptr con sel zero into h p = Some (Some (lim h), ?h3)"
      using Some x y(1) a by (simp add: copy_ptr_def alloc_def h1_def)
    have "rd (newer h (cells ?h3)) y = Some u"
      by (rule mono_readerD[OF mono y(4)]) (use less in \<open>auto simp: map_le_def restrict_map_def split: if_splits\<close>)
    then have "ptr_read sel rd (newer h (cells ?h3)) (Some (lim h)) = Some v"
      using x(4) sel by (simp add: ptr_read_def)
    moreover have "ext h ?h3" using ext_store[OF ext_trans[OF e1 y(3)] wf] by simp
    moreover have "wf_heap ?h3" using wf_store[OF y(2)] less by simp
    ultimately show ?thesis using run by (simp add: copied_def)
  qed
qed

section \<open>Slices\<close>

text \<open>\<^verbatim>\<open>copy(dst, src)\<close>: as many elements as the shorter one has.\<close>

definition go_copy :: "'e list \<Rightarrow> 'e list \<Rightarrow> 'e list" where
  "go_copy dst src = take (length dst) src @ drop (length src) dst"

lemma go_copy_same [simp]: "length dst = length src \<Longrightarrow> go_copy dst src = src"
  by (simp add: go_copy_def)

text \<open>\<^verbatim>\<open>if *in != nil { *out = make([]T, len(*in)); copy(*out, *in) }\<close>.\<close>

definition copy_slice ::
  "('e list \<Rightarrow> cell) \<Rightarrow> (cell \<Rightarrow> 'e list option) \<Rightarrow> 'e \<Rightarrow> go_heap \<Rightarrow> slice option \<Rightarrow> (slice option \<times> go_heap) option"
  where
  "copy_slice con sel zero h s =
     (case s of
        None \<Rightarrow> Some (None, h)
      | Some sl \<Rightarrow> do {
          let n = sl_len sl;
          let (out, h1) = alloc (con (replicate n zero)) h;
          xs \<leftarrow> slice_read sel (cells h1) (Some sl);
          Some (Some \<lparr>sl_array = out, sl_off = 0, sl_len = n, sl_cap = n\<rparr>,
            store out (con (go_copy (replicate n zero) xs)) h1) })"

lemma slice_read_length: "slice_read sel m (Some sl) = Some xs \<Longrightarrow> length xs = sl_len sl"
  by (auto simp: slice_read_def bind_eq_Some_conv split: if_splits)

lemma copy_slice_copies:
  assumes sel: "\<And>xs. sel (con xs) = Some xs"
  shows "deep_copier (copy_slice con sel zero) (slice_read sel)"
proof
  show "mono_reader (slice_read sel)" by (rule mono_slice)
  fix h s v assume wf: "wf_heap h" and v: "slice_read sel (cells h) s = Some v"
  show "\<exists>y h'. copy_slice con sel zero h s = Some (y, h') \<and> copied (slice_read sel) h v y h'"
  proof (cases s)
    case None
    with v wf show ?thesis by (simp add: copy_slice_def copied_def slice_read_def)
  next
    case (Some sl)
    define h1 where "h1 = snd (alloc (con (replicate (sl_len sl) zero)) h)"
    have e1: "ext h h1" and wf1: "wf_heap h1" using wf by (simp_all add: h1_def ext_alloc)
    have xs: "slice_read sel (cells h1) (Some sl) = Some v" using read_later[OF _ e1 mono_slice] v Some by simp
    let ?h2 = "store (lim h) (con v) h1"
    let ?y = "\<lparr>sl_array = lim h, sl_off = 0, sl_len = sl_len sl, sl_cap = sl_len sl\<rparr>"
    have "copy_slice con sel zero h s = Some (Some ?y, ?h2)"
      using Some xs slice_read_length[OF xs] by (simp add: copy_slice_def alloc_def h1_def Let_def)
    moreover have "slice_read sel (newer h (cells ?h2)) (Some ?y) = Some v"
      using sel slice_read_length[OF xs] by (simp add: slice_read_def)
    moreover have "ext h ?h2" using ext_store[OF e1 wf] by simp
    moreover have "wf_heap ?h2" using wf_store[OF wf1] by (simp add: h1_def)
    ultimately show ?thesis by (auto simp: copied_def)
  qed
qed

section \<open>The generated methods\<close>

text \<open>Structs without pointers: \<^verbatim>\<open>*out = *in\<close>.\<close>

definition BucketExpirationPolicy_DeepCopyInto ::
  "go_heap \<Rightarrow> BucketExpirationPolicy \<Rightarrow> (BucketExpirationPolicy \<times> go_heap) option" where
  "BucketExpirationPolicy_DeepCopyInto h inn = Some (inn, h)"

definition BucketStatus_DeepCopyInto :: "go_heap \<Rightarrow> BucketStatus \<Rightarrow> (BucketStatus \<times> go_heap) option" where
  "BucketStatus_DeepCopyInto h inn = Some (inn, h)"

definition BucketTag_DeepCopyInto :: "go_heap \<Rightarrow> BucketTag \<Rightarrow> (BucketTag \<times> go_heap) option" where
  "BucketTag_DeepCopyInto h inn = Some (inn, h)"

definition zero_policy :: BucketExpirationPolicy where
  "zero_policy = \<lparr>Days = 0\<rparr>"

definition zero_tag :: BucketTag where
  "zero_tag = \<lparr>tag_Key = [], tag_Value = []\<rparr>"

definition zero_status :: BucketStatus where
  "zero_status = \<lparr>BucketReady = False, BucketID = []\<rparr>"

definition zero_role :: go_BucketAccessRole where
  "zero_role = \<lparr>g_RoleName = [], g_ExtraBucketNames = None, g_ServiceAccountName = [], g_ServiceAccountNamespace = []\<rparr>"

definition zero_spec :: go_BucketSpec where
  "zero_spec = \<lparr>g_Name = [], g_ExpirationPolicy = None, g_ReclaimPolicy = [], g_AccessRole = None, g_Tags = None\<rparr>"

definition zero_TypeMeta :: TypeMeta where
  "zero_TypeMeta = \<lparr>Kind = [], APIVersion = []\<rparr>"

definition zero_bucket :: go_Bucket where
  "zero_bucket = \<lparr>g_TypeMeta = zero_TypeMeta,
     g_ObjectMeta = \<lparr>g_meta_Name = [], g_meta_Namespace = [], g_Finalizers = None, g_DeletionTimestamp = None\<rparr>,
     g_Spec = zero_spec, g_Status = zero_status\<rparr>"

definition zero_list :: go_BucketList where
  "zero_list = \<lparr>g_list_TypeMeta = zero_TypeMeta,
     g_ListMeta = \<lparr>g_ResourceVersion = [], g_Continue = [], g_RemainingItemCount = None\<rparr>, g_Items = None\<rparr>"

definition BucketAccessRole_DeepCopyInto ::
  "go_heap \<Rightarrow> go_BucketAccessRole \<Rightarrow> (go_BucketAccessRole \<times> go_heap) option" where
  "BucketAccessRole_DeepCopyInto h inn = do {
     let out = inn;
     (extra, h1) \<leftarrow> copy_slice StringsCell strings_of [] h (g_ExtraBucketNames inn);
     Some (out\<lparr>g_ExtraBucketNames := extra\<rparr>, h1) }"

definition BucketExpirationPolicy_DeepCopy :: "go_heap \<Rightarrow> nat option \<Rightarrow> (nat option \<times> go_heap) option" where
  "BucketExpirationPolicy_DeepCopy = copy_ptr PolicyCell policy_of zero_policy BucketExpirationPolicy_DeepCopyInto"

definition BucketAccessRole_DeepCopy :: "go_heap \<Rightarrow> nat option \<Rightarrow> (nat option \<times> go_heap) option" where
  "BucketAccessRole_DeepCopy = copy_ptr RoleCell role_of zero_role BucketAccessRole_DeepCopyInto"

definition BucketStatus_DeepCopy :: "go_heap \<Rightarrow> nat option \<Rightarrow> (nat option \<times> go_heap) option" where
  "BucketStatus_DeepCopy = copy_ptr StatusCell status_of zero_status BucketStatus_DeepCopyInto"

definition BucketTag_DeepCopy :: "go_heap \<Rightarrow> nat option \<Rightarrow> (nat option \<times> go_heap) option" where
  "BucketTag_DeepCopy = copy_ptr TagCell tag_of zero_tag BucketTag_DeepCopyInto"

text \<open>The two pointer fields of the spec are copied as \<^verbatim>\<open>DeepCopy\<close> copies a pointer.\<close>

definition BucketSpec_DeepCopyInto :: "go_heap \<Rightarrow> go_BucketSpec \<Rightarrow> (go_BucketSpec \<times> go_heap) option" where
  "BucketSpec_DeepCopyInto h inn = do {
     let out = inn;
     (policy, h1) \<leftarrow> copy_ptr PolicyCell policy_of zero_policy BucketExpirationPolicy_DeepCopyInto h (g_ExpirationPolicy inn);
     (role, h2) \<leftarrow> copy_ptr RoleCell role_of zero_role BucketAccessRole_DeepCopyInto h1 (g_AccessRole inn);
     (tags, h3) \<leftarrow> copy_slice TagsCell tags_of zero_tag h2 (g_Tags inn);
     Some (out\<lparr>g_ExpirationPolicy := policy, g_AccessRole := role, g_Tags := tags\<rparr>, h3) }"

definition BucketSpec_DeepCopy :: "go_heap \<Rightarrow> nat option \<Rightarrow> (nat option \<times> go_heap) option" where
  "BucketSpec_DeepCopy = copy_ptr SpecCell spec_of zero_spec BucketSpec_DeepCopyInto"

text \<open>The copies of the object and of the list take the copy of the metadata as an argument.\<close>

type_synonym 'p copier = "go_heap \<Rightarrow> 'p \<Rightarrow> ('p \<times> go_heap) option"

definition Bucket_DeepCopyInto :: "go_ObjectMeta copier \<Rightarrow> go_heap \<Rightarrow> go_Bucket \<Rightarrow> (go_Bucket \<times> go_heap) option" where
  "Bucket_DeepCopyInto ObjectMeta_DeepCopyInto h inn = do {
     let out = inn\<lparr>g_TypeMeta := g_TypeMeta inn\<rparr>;
     (om, h1) \<leftarrow> ObjectMeta_DeepCopyInto h (g_ObjectMeta inn);
     (s, h2) \<leftarrow> BucketSpec_DeepCopyInto h1 (g_Spec inn);
     Some (out\<lparr>g_ObjectMeta := om, g_Spec := s, g_Status := g_Status inn\<rparr>, h2) }"

definition Bucket_DeepCopy :: "go_ObjectMeta copier \<Rightarrow> go_heap \<Rightarrow> nat option \<Rightarrow> (nat option \<times> go_heap) option" where
  "Bucket_DeepCopy omc = copy_ptr BucketCell bucket_of zero_bucket (Bucket_DeepCopyInto omc)"

text \<open>The loop over the items: \<^verbatim>\<open>for i := range *in { (*in)[i].DeepCopyInto(&(*out)[i]) }\<close>.\<close>

fun copy_items :: "go_Bucket copier \<Rightarrow> slice \<Rightarrow> nat \<Rightarrow> nat list \<Rightarrow> go_heap \<Rightarrow> go_heap option" where
  "copy_items into sl out [] h = Some h"
| "copy_items into sl out (i # is) h = do {
     xs \<leftarrow> slice_read buckets_of (cells h) (Some sl);
     (y, h1) \<leftarrow> into h (xs ! i);
     c \<leftarrow> cells h1 out;
     ys \<leftarrow> buckets_of c;
     copy_items into sl out is (store out (BucketsCell (ys[i := y])) h1) }"

definition copy_buckets :: "go_Bucket copier \<Rightarrow> go_heap \<Rightarrow> slice option \<Rightarrow> (slice option \<times> go_heap) option" where
  "copy_buckets into h s =
     (case s of
        None \<Rightarrow> Some (None, h)
      | Some sl \<Rightarrow> do {
          let n = sl_len sl;
          let (out, h1) = alloc (BucketsCell (replicate n zero_bucket)) h;
          h2 \<leftarrow> copy_items into sl out [0..<n] h1;
          Some (Some \<lparr>sl_array = out, sl_off = 0, sl_len = n, sl_cap = n\<rparr>, h2) })"

definition BucketList_DeepCopyInto ::
  "go_ObjectMeta copier \<Rightarrow> go_ListMeta copier \<Rightarrow> go_heap \<Rightarrow> go_BucketList \<Rightarrow> (go_BucketList \<times> go_heap) option" where
  "BucketList_DeepCopyInto omc ListMeta_DeepCopyInto h inn = do {
     let out = inn\<lparr>g_list_TypeMeta := g_list_TypeMeta inn\<rparr>;
     (lm, h1) \<leftarrow> ListMeta_DeepCopyInto h (g_ListMeta inn);
     (items, h2) \<leftarrow> copy_buckets (Bucket_DeepCopyInto omc) h1 (g_Items inn);
     Some (out\<lparr>g_ListMeta := lm, g_Items := items\<rparr>, h2) }"

definition BucketList_DeepCopy ::
  "go_ObjectMeta copier \<Rightarrow> go_ListMeta copier \<Rightarrow> go_heap \<Rightarrow> nat option \<Rightarrow> (nat option \<times> go_heap) option" where
  "BucketList_DeepCopy omc lmc = copy_ptr ListCell list_of zero_list (BucketList_DeepCopyInto omc lmc)"

text \<open>\<^verbatim>\<open>DeepCopyObject\<close> returns a \<^verbatim>\<open>runtime.Object\<close>. An interface value that holds a nil pointer is not the
  nil interface, hence the two levels of \<open>None\<close>.\<close>

datatype runtime_Object = BucketObject "nat option" | BucketListObject "nat option"

definition Bucket_DeepCopyObject ::
  "go_ObjectMeta copier \<Rightarrow> go_heap \<Rightarrow> nat option \<Rightarrow> (runtime_Object option \<times> go_heap) option" where
  "Bucket_DeepCopyObject omc h inn = do {
     (c, h1) \<leftarrow> Bucket_DeepCopy omc h inn;
     Some (if c \<noteq> None then Some (BucketObject c) else None, h1) }"

definition BucketList_DeepCopyObject ::
  "go_ObjectMeta copier \<Rightarrow> go_ListMeta copier \<Rightarrow> go_heap \<Rightarrow> nat option \<Rightarrow> (runtime_Object option \<times> go_heap) option" where
  "BucketList_DeepCopyObject omc lmc h inn = do {
     (c, h1) \<leftarrow> BucketList_DeepCopy omc lmc h inn;
     Some (if c \<noteq> None then Some (BucketListObject c) else None, h1) }"

section \<open>The generated methods are deep copies\<close>

lemma plain_copies: "deep_copier (\<lambda>h x. Some (x, h)) plain_read"
  by unfold_locales (simp_all add: mono_plain copied_def plain_read_def)

interpretation policy_copier: deep_copier BucketExpirationPolicy_DeepCopyInto plain_read
  using plain_copies by (simp add: BucketExpirationPolicy_DeepCopyInto_def[abs_def])

interpretation status_copier: deep_copier BucketStatus_DeepCopyInto plain_read
  using plain_copies by (simp add: BucketStatus_DeepCopyInto_def[abs_def])

interpretation tag_copier: deep_copier BucketTag_DeepCopyInto plain_read
  using plain_copies by (simp add: BucketTag_DeepCopyInto_def[abs_def])

interpretation strings_copier: deep_copier "copy_slice StringsCell strings_of []" "slice_read strings_of"
  by (rule copy_slice_copies) simp

interpretation tags_copier: deep_copier "copy_slice TagsCell tags_of zero_tag" "slice_read tags_of"
  by (rule copy_slice_copies) simp

interpretation policy_ptr_copier: deep_copier
    "copy_ptr PolicyCell policy_of zero_policy BucketExpirationPolicy_DeepCopyInto" "ptr_read policy_of plain_read"
  by (rule copy_ptr_copies[OF policy_copier.deep_copier_axioms]) simp

interpretation number_copier: deep_copier "copy_ptr NumberCell number_of 0 (\<lambda>h x. Some (x, h))" "ptr_read number_of plain_read"
  by (rule copy_ptr_copies[OF plain_copies]) simp

interpretation role_copier: deep_copier BucketAccessRole_DeepCopyInto role_read
proof
  show "mono_reader role_read" by (rule mono_role)
  fix h x v assume wf: "wf_heap h" and v: "role_read (cells h) x = Some v"
  from v obtain extra where e: "slice_read strings_of (cells h) (g_ExtraBucketNames x) = Some extra"
    by (auto simp: role_read_def bind_eq_Some_conv)
  from strings_copier.copy_copies[OF wf e] obtain y h1 where
    y: "copy_slice StringsCell strings_of [] h (g_ExtraBucketNames x) = Some (y, h1)"
    "copied (slice_read strings_of) h extra y h1" by auto
  with v e show "\<exists>y h'. BucketAccessRole_DeepCopyInto h x = Some (y, h') \<and> copied role_read h v y h'"
    by (auto simp: BucketAccessRole_DeepCopyInto_def role_read_def copied_def)
qed

interpretation role_ptr_copier: deep_copier
    "copy_ptr RoleCell role_of zero_role BucketAccessRole_DeepCopyInto" "ptr_read role_of role_read"
  by (rule copy_ptr_copies[OF role_copier.deep_copier_axioms]) simp

text \<open>Two copies in a row: both values can be read off the new cells.\<close>

lemma copies_in_a_row:
  assumes "deep_copier c1 r1" "deep_copier c2 r2" and wf: "wf_heap h"
    and "r1 (cells h) x1 = Some v1" "r2 (cells h) x2 = Some v2"
  obtains y1 h1 y2 h2 where "c1 h x1 = Some (y1, h1)" "c2 h1 x2 = Some (y2, h2)" "wf_heap h2" "ext h h1" "ext h1 h2"
    "ext h h2" "r1 (newer h (cells h2)) y1 = Some v1" "r2 (newer h (cells h2)) y2 = Some v2"
proof -
  note m1 = deep_copier.reader_mono[OF assms(1)] and m2 = deep_copier.reader_mono[OF assms(2)]
  from deep_copier.copy_copies[OF assms(1) wf assms(4)] obtain y1 h1 where
    1: "c1 h x1 = Some (y1, h1)" "copied r1 h v1 y1 h1" by auto
  then have e1: "wf_heap h1" "ext h h1" by (simp_all add: copied_def)
  from deep_copier.copy_copies[OF assms(2) e1(1) read_later[OF assms(5) e1(2) m2]] obtain y2 h2 where
    2: "c2 h1 x2 = Some (y2, h2)" "copied r2 h1 v2 y2 h2" by auto
  then have e2: "wf_heap h2" "ext h1 h2" "r2 (newer h1 (cells h2)) y2 = Some v2" by (simp_all add: copied_def)
  show thesis
    using that[OF 1(1) 2(1) e2(1) e1(2) e2(2) ext_trans[OF e1(2) e2(2)] copied_read_later[OF 1(2) e2(2) m1]
        copied_read_earlier[OF e2(3) e1(2) m2]] .
qed

interpretation spec_copier: deep_copier BucketSpec_DeepCopyInto spec_read
proof
  show "mono_reader spec_read" by (rule mono_spec)
  fix h x v assume wf: "wf_heap h" and v: "spec_read (cells h) x = Some v"
  from v obtain p r ts where s: "ptr_read policy_of plain_read (cells h) (g_ExpirationPolicy x) = Some p"
    "ptr_read role_of role_read (cells h) (g_AccessRole x) = Some r" "slice_read tags_of (cells h) (g_Tags x) = Some ts"
    by (auto simp: spec_read_def bind_eq_Some_conv)
  from copies_in_a_row[OF policy_ptr_copier.deep_copier_axioms role_ptr_copier.deep_copier_axioms wf s(1,2)]
  obtain y1 h1 y2 h2 where 12:
    "copy_ptr PolicyCell policy_of zero_policy BucketExpirationPolicy_DeepCopyInto h (g_ExpirationPolicy x) = Some (y1, h1)"
    "copy_ptr RoleCell role_of zero_role BucketAccessRole_DeepCopyInto h1 (g_AccessRole x) = Some (y2, h2)"
    "wf_heap h2" "ext h h2"
    "ptr_read policy_of plain_read (newer h (cells h2)) y1 = Some p"
    "ptr_read role_of role_read (newer h (cells h2)) y2 = Some r" by metis
  from tags_copier.copy_copies[OF 12(3) read_later[OF s(3) 12(4) mono_slice]] obtain y3 h3 where 3:
    "copy_slice TagsCell tags_of zero_tag h2 (g_Tags x) = Some (y3, h3)" "wf_heap h3" "ext h2 h3"
    "slice_read tags_of (newer h2 (cells h3)) y3 = Some ts" by (auto simp: copied_def)
  note later = newer_le[OF 3(3), of h]
  have "ptr_read policy_of plain_read (newer h (cells h3)) y1 = Some p"
    "ptr_read role_of role_read (newer h (cells h3)) y2 = Some r"
    "slice_read tags_of (newer h (cells h3)) y3 = Some ts"
    using mono_readerD[OF mono_ptr[OF mono_plain] 12(5) later] mono_readerD[OF mono_ptr[OF mono_role] 12(6) later]
      copied_read_earlier[OF 3(4) 12(4) mono_slice] by auto
  with v s 12 3 show "\<exists>y h'. BucketSpec_DeepCopyInto h x = Some (y, h') \<and> copied spec_read h v y h'"
    by (auto simp: BucketSpec_DeepCopyInto_def spec_read_def copied_def intro: ext_trans)
qed

section \<open>Objects and lists\<close>

text \<open>What the program relies on: the library's copies of the metadata are deep copies.\<close>

locale metadata_copier =
  om: deep_copier omc meta_read + lm: deep_copier lmc list_meta_read
  for omc :: "go_ObjectMeta copier" and lmc :: "go_ListMeta copier"
begin

lemma bucket_copies: "deep_copier (Bucket_DeepCopyInto omc) bucket_read"
proof
  show "mono_reader bucket_read" by (rule mono_bucket)
  fix h x v assume wf: "wf_heap h" and v: "bucket_read (cells h) x = Some v"
  from v obtain m s where ms: "meta_read (cells h) (g_ObjectMeta x) = Some m" "spec_read (cells h) (g_Spec x) = Some s"
    by (auto simp: bucket_read_def bind_eq_Some_conv)
  from copies_in_a_row[OF om.deep_copier_axioms spec_copier.deep_copier_axioms wf ms]
  obtain y1 h1 y2 h2 where "omc h (g_ObjectMeta x) = Some (y1, h1)"
    "BucketSpec_DeepCopyInto h1 (g_Spec x) = Some (y2, h2)" "wf_heap h2" "ext h h2"
    "meta_read (newer h (cells h2)) y1 = Some m" "spec_read (newer h (cells h2)) y2 = Some s" by metis
  with v ms show "\<exists>y h'. Bucket_DeepCopyInto omc h x = Some (y, h') \<and> copied bucket_read h v y h'"
    by (auto simp: Bucket_DeepCopyInto_def bucket_read_def copied_def)
qed

lemma bucket_ptr_copies: "deep_copier (Bucket_DeepCopy omc) (ptr_read bucket_of bucket_read)"
  unfolding Bucket_DeepCopy_def by (rule copy_ptr_copies[OF bucket_copies]) simp

end

sublocale metadata_copier \<subseteq> bucket: deep_copier "Bucket_DeepCopyInto omc" bucket_read
  by (rule bucket_copies)

sublocale metadata_copier \<subseteq> bucket_ptr: deep_copier "Bucket_DeepCopy omc" "ptr_read bucket_of bucket_read"
  by (rule bucket_ptr_copies)

text \<open>
  The state of the loop over the items: the array of the copy is at \<open>lim h0\<close>, and the elements copied so
  far can be read off the cells that are newer than it.
\<close>

definition items_copied :: "('e, 'v) reader \<Rightarrow> ('e list \<Rightarrow> cell) \<Rightarrow> go_heap \<Rightarrow> nat \<Rightarrow> 'v list \<Rightarrow> go_heap \<Rightarrow> bool" where
  "items_copied rd con h0 i vs h \<longleftrightarrow> wf_heap h \<and> ext h0 h \<and> lim h0 < lim h \<and>
     (\<exists>ys. cells h (lim h0) = Some (con ys) \<and> length ys = length vs \<and>
       (\<forall>j < i. rd (cells h |` {lim h0 <..}) (ys ! j) = Some (vs ! j)))"

lemma copy_items_step:
  assumes into: "deep_copier into rd" and wf0: "wf_heap h0" and inv: "items_copied rd BucketsCell h0 i vs h"
    and i: "i < length vs" and x: "rd (cells h) x = Some (vs ! i)"
  obtains y h1 ys where "into h x = Some (y, h1)" "cells h1 (lim h0) = Some (BucketsCell ys)"
    "items_copied rd BucketsCell h0 (Suc i) vs (store (lim h0) (BucketsCell (ys[i := y])) h1)"
proof -
  note mono = deep_copier.reader_mono[OF into]
  from inv obtain ys where wf: "wf_heap h" and e: "ext h0 h" and less: "lim h0 < lim h"
    and ys: "cells h (lim h0) = Some (BucketsCell ys)" "length ys = length vs"
      "\<And>j. j < i \<Longrightarrow> rd (cells h |` {lim h0 <..}) (ys ! j) = Some (vs ! j)"
    unfolding items_copied_def by blast
  from deep_copier.copy_copies[OF into wf x] obtain y h1 where y: "into h x = Some (y, h1)" "wf_heap h1" "ext h h1"
    "rd (newer h (cells h1)) y = Some (vs ! i)" by (auto simp: copied_def)
  have at: "cells h1 (lim h0) = Some (BucketsCell ys)" using y(3) ys(1) by (auto simp: ext_def map_le_Some)
  let ?h2 = "store (lim h0) (BucketsCell (ys[i := y])) h1"
  have less1: "lim h0 < lim h1" using less y(3) by (simp add: ext_def)
  have le: "cells h |` {lim h0 <..} \<subseteq>\<^sub>m cells ?h2 |` {lim h0 <..}" "newer h (cells h1) \<subseteq>\<^sub>m cells ?h2 |` {lim h0 <..}"
    using y(3) less by (auto simp: ext_def map_le_def restrict_map_def dom_def split: if_splits)
  have "rd (cells ?h2 |` {lim h0 <..}) (ys[i := y] ! j) = Some (vs ! j)" if "j < Suc i" for j
  proof (cases "j = i")
    case True
    with mono_readerD[OF mono y(4) le(2)] i ys(2) show ?thesis by simp
  next
    case False
    with that have "j < i" by simp
    with mono_readerD[OF mono ys(3) le(1)] False show ?thesis by simp
  qed
  moreover have "ext h0 ?h2" using ext_store[OF ext_trans[OF e y(3)] wf0] by simp
  moreover have "wf_heap ?h2" using wf_store[OF y(2) less1] .
  ultimately have "items_copied rd BucketsCell h0 (Suc i) vs ?h2"
    using less1 ys(2) by (auto simp: items_copied_def)
  with that y(1) at show thesis by blast
qed

lemma copy_items_copies:
  assumes into: "deep_copier into rd" and wf0: "wf_heap h0"
    and xs: "slice_read buckets_of (cells h0) (Some sl) = Some xs" "map (rd (cells h0)) xs = map Some vs"
    and "items_copied rd BucketsCell h0 i vs h" "i \<le> length vs"
  shows "\<exists>h'. copy_items into sl (lim h0) [i..<length vs] h = Some h' \<and> items_copied rd BucketsCell h0 (length vs) vs h'"
  using assms(5,6)
proof (induction "length vs - i" arbitrary: i h)
  case (Suc k)
  then have i: "i < length vs" by simp
  have e: "ext h0 h" using Suc.prems(1) by (simp add: items_copied_def)
  have len: "length xs = length vs" using arg_cong[OF xs(2), of length] by simp
  have "rd (cells h0) (xs ! i) = Some (vs ! i)"
    using arg_cong[OF xs(2), of "\<lambda>l. l ! i"] i len by simp
  from copy_items_step[OF into wf0 Suc.prems(1) i read_later[OF this e deep_copier.reader_mono[OF into]]]
  obtain y h1 ys where s: "into h (xs ! i) = Some (y, h1)" "cells h1 (lim h0) = Some (BucketsCell ys)"
    "items_copied rd BucketsCell h0 (Suc i) vs (store (lim h0) (BucketsCell (ys[i := y])) h1)" .
  have k: "k = length vs - Suc i" "Suc i \<le> length vs" using Suc.hyps(2) i by simp_all
  from Suc.hyps(1)[OF k(1) s(3) k(2)] obtain h' where
    "copy_items into sl (lim h0) [Suc i..<length vs] (store (lim h0) (BucketsCell (ys[i := y])) h1) = Some h'"
    "items_copied rd BucketsCell h0 (length vs) vs h'" by auto
  with s read_later[OF xs(1) e mono_slice] i show ?case by (simp add: upt_conv_Cons)
qed simp

lemma copy_buckets_copies:
  assumes into: "deep_copier into rd"
  shows "deep_copier (copy_buckets into) (items_read rd buckets_of)"
proof
  note mono = deep_copier.reader_mono[OF into]
  show "mono_reader (items_read rd buckets_of)" by (rule mono_items[OF mono])
  fix h s vs assume wf: "wf_heap h" and v: "items_read rd buckets_of (cells h) s = Some vs"
  show "\<exists>y h'. copy_buckets into h s = Some (y, h') \<and> copied (items_read rd buckets_of) h vs y h'"
  proof (cases s)
    case None
    with v wf show ?thesis by (simp add: copy_buckets_def copied_def items_read_def slice_read_def)
  next
    case (Some sl)
    with v obtain xs where xs: "slice_read buckets_of (cells h) (Some sl) = Some xs" "map (rd (cells h)) xs = map Some vs"
      by (auto simp: items_read_def bind_eq_Some_conv those_Some_iff)
    have len: "sl_len sl = length vs" using slice_read_length[OF xs(1)] arg_cong[OF xs(2), of length] by simp
    let ?h1 = "snd (alloc (BucketsCell (replicate (length vs) zero_bucket)) h)"
    have "items_copied rd BucketsCell h 0 vs ?h1" using wf by (simp add: items_copied_def ext_alloc)
    from copy_items_copies[OF into wf xs this] obtain h2 where
      h2: "copy_items into sl (lim h) [0..<length vs] ?h1 = Some h2" "items_copied rd BucketsCell h (length vs) vs h2"
      by auto
    let ?y = "\<lparr>sl_array = lim h, sl_off = 0, sl_len = length vs, sl_cap = length vs\<rparr>"
    from h2(2) obtain ys where ys: "wf_heap h2" "ext h h2" "cells h2 (lim h) = Some (BucketsCell ys)" "length ys = length vs"
      "\<And>j. j < length vs \<Longrightarrow> rd (cells h2 |` {lim h <..}) (ys ! j) = Some (vs ! j)" by (auto simp: items_copied_def)
    have "rd (newer h (cells h2)) (ys ! j) = Some (vs ! j)" if "j < length vs" for j
      by (rule mono_readerD[OF mono ys(5)[OF that]]) (auto intro: restrict_le)
    then have "map (rd (newer h (cells h2))) ys = map Some vs" using ys(4) by (simp add: list_eq_iff_nth_eq)
    then have "items_read rd buckets_of (newer h (cells h2)) (Some ?y) = Some vs"
      using ys(3,4) by (simp add: items_read_def slice_read_def those_Some_iff)
    moreover have "copy_buckets into h s = Some (Some ?y, h2)"
      using Some h2(1) len by (simp add: copy_buckets_def alloc_def Let_def)
    ultimately show ?thesis using ys(1,2) by (auto simp: copied_def)
  qed
qed

context metadata_copier
begin

lemma list_copies: "deep_copier (BucketList_DeepCopyInto omc lmc) list_read"
proof
  show "mono_reader list_read" by (rule mono_list)
  fix h x v assume wf: "wf_heap h" and v: "list_read (cells h) x = Some v"
  from v obtain m bs where ms: "list_meta_read (cells h) (g_ListMeta x) = Some m"
    "items_read bucket_read buckets_of (cells h) (g_Items x) = Some bs"
    by (auto simp: list_read_def bind_eq_Some_conv)
  from copies_in_a_row[OF lm.deep_copier_axioms copy_buckets_copies[OF bucket_copies] wf ms]
  obtain y1 h1 y2 h2 where "lmc h (g_ListMeta x) = Some (y1, h1)"
    "copy_buckets (Bucket_DeepCopyInto omc) h1 (g_Items x) = Some (y2, h2)" "wf_heap h2" "ext h h2"
    "list_meta_read (newer h (cells h2)) y1 = Some m"
    "items_read bucket_read buckets_of (newer h (cells h2)) y2 = Some bs" by metis
  with v ms show "\<exists>y h'. BucketList_DeepCopyInto omc lmc h x = Some (y, h') \<and> copied list_read h v y h'"
    by (auto simp: BucketList_DeepCopyInto_def list_read_def copied_def)
qed

lemma list_ptr_copies: "deep_copier (BucketList_DeepCopy omc lmc) (ptr_read list_of list_read)"
  unfolding BucketList_DeepCopy_def by (rule copy_ptr_copies[OF list_copies]) simp

end

sublocale metadata_copier \<subseteq> list_ptr: deep_copier "BucketList_DeepCopy omc lmc" "ptr_read list_of list_read"
  by (rule list_ptr_copies)

end
