(* ===== verification/Heap_Reconcile.thy ===== *)
theory Heap_Reconcile
  imports Controller Deep_Copy
begin

text \<open>
  The places of the reconciler (\<^verbatim>\<open>src/internal/controller/bucket_controller.go\<close>) that depend on pointers: before each
  patch the object is copied, then the object itself is changed in place, and the patch is the difference of
  the two. The theory \<open>Controller\<close> passes values; here the three places are modelled on the heap, and shown to hand
  the patch the values that \<open>Controller\<close> hands it.
\<close>

definition bucket_at :: "cells \<Rightarrow> nat \<Rightarrow> (TypeMeta \<times> Bucket) option" where
  "bucket_at m a = do { c \<leftarrow> m a; x \<leftarrow> bucket_of c; bucket_read m x }"

section \<open>The helpers that change the finalizers\<close>

text \<open>
  \<^verbatim>\<open>controllerutil.AddFinalizer\<close> and \<^verbatim>\<open>controllerutil.RemoveFinalizer\<close> change the object in place: they may write to the array of its finalizers
  or to a new one. So the array must not be part of the rest of the object; a decoded object is like that.
\<close>

definition finalizers_owned :: "cells \<Rightarrow> nat \<Rightarrow> bool" where
  "finalizers_owned m a \<longleftrightarrow> (\<exists>x. m a = Some (BucketCell x) \<and>
     (\<forall>sl. g_Finalizers (g_ObjectMeta x) = Some sl \<longrightarrow>
        spec_read (m(sl_array sl := None)) (g_Spec x) = spec_read m (g_Spec x)))"

text \<open>
  The contract of such a helper, with \<open>upd\<close> as its effect on the list of finalizers: if the object at \<open>a\<close> lies in the region
  \<open>R\<close> of the heap, then only cells of \<open>R\<close> and new ones are written, and the object has the new finalizers.
\<close>

locale finalizer_helper =
  fixes helper :: "go_heap \<Rightarrow> nat \<Rightarrow> string \<Rightarrow> (bool \<times> go_heap) option"
    and upd :: "string list \<Rightarrow> string \<Rightarrow> string list \<times> bool"
  assumes helper_updates:
    "wf_heap h \<Longrightarrow> bucket_at (cells h |` R) a = Some (t, b) \<Longrightarrow> finalizers_owned (cells h) a \<Longrightarrow>
       upd (bucket_finalizers b) f = (fs, ok) \<Longrightarrow>
       \<exists>h'. helper h a f = Some (ok, h') \<and> wf_heap h' \<and> lim h \<le> lim h' \<and>
         (\<forall>l < lim h. l \<notin> R \<longrightarrow> cells h' l = cells h l) \<and> bucket_at (cells h') a = Some (t, set_finalizers fs b)"

section \<open>The three places\<close>

text \<open>\<^verbatim>\<open>originalBucket := bucket.DeepCopy()\<close> and then the call of a finalizer helper on \<^verbatim>\<open>bucket\<close>, as \<^verbatim>\<open>reconcileNormal\<close> and
  \<^verbatim>\<open>reconcileDelete\<close> have it.\<close>

definition copy_and_update ::
  "go_ObjectMeta copier \<Rightarrow> (go_heap \<Rightarrow> nat \<Rightarrow> string \<Rightarrow> (bool \<times> go_heap) option) \<Rightarrow> go_heap \<Rightarrow> nat \<Rightarrow>
     (nat option \<times> bool \<times> go_heap) option" where
  "copy_and_update omc helper h bucket = do {
     (originalBucket, h1) \<leftarrow> Bucket_DeepCopy omc h (Some bucket);
     (updated, h2) \<leftarrow> helper h1 bucket BucketFinalizer;
     Some (originalBucket, updated, h2) }"

text \<open>\<^verbatim>\<open>originalBucket = bucket.DeepCopy(); bucket.Status = v1alpha1.BucketStatus{...}\<close>.\<close>

definition copy_and_set_status :: "go_ObjectMeta copier \<Rightarrow> go_heap \<Rightarrow> nat \<Rightarrow> (nat option \<times> go_heap) option" where
  "copy_and_set_status omc h bucket = do {
     (originalBucket, h1) \<leftarrow> Bucket_DeepCopy omc h (Some bucket);
     c \<leftarrow> cells h1 bucket;
     x \<leftarrow> bucket_of c;
     Some (originalBucket, store bucket
       (BucketCell (x\<lparr>g_Status := \<lparr>BucketReady = True, BucketID = g_Name (g_Spec x)\<rparr>\<rparr>)) h1) }"

section \<open>Reading an object after a store\<close>

lemma mono_bucket_at: "mono_reader bucket_at"
  unfolding bucket_at_def by (intro mono_readers mono_lookup[of "\<lambda>a. a"])

lemma bucket_at_Some:
  "bucket_at m a = Some v \<longleftrightarrow> (\<exists>x. m a = Some (BucketCell x) \<and> bucket_read m x = Some v)"
proof -
  have "bucket_of c = Some x \<longleftrightarrow> c = BucketCell x" for c x by (cases c) auto
  then show ?thesis by (auto simp: bucket_at_def bind_eq_Some_conv)
qed

lemma bucket_at_ptr: "ptr_read bucket_of bucket_read m (Some a) = Some (Some v) \<longleftrightarrow> bucket_at m a = Some v"
  by (cases v) (auto simp: ptr_read_def bucket_at_def bind_eq_Some_conv)

text \<open>A cell that the reader of a slice or of a pointer would refuse is not read.\<close>

definition unread :: "(cell \<Rightarrow> 'e option) \<Rightarrow> cell option \<Rightarrow> bool" where
  "unread sel c \<longleftrightarrow> (case c of None \<Rightarrow> True | Some d \<Rightarrow> sel d = None)"

lemma slice_read_unread:
  assumes "unread sel (m a)" "unread sel c"
  shows "slice_read sel (m(a := c)) s = slice_read sel m s"
  using assms by (cases s) (auto simp: slice_read_def unread_def split: option.splits)

lemma ptr_read_unread:
  assumes "unread sel (m a)" "unread sel c" and "\<And>x. rd (m(a := c)) x = rd m x"
  shows "ptr_read sel rd (m(a := c)) p = ptr_read sel rd m p"
  using assms by (cases p) (auto simp: ptr_read_def unread_def split: option.splits)

definition bucket_or_none :: "cell option \<Rightarrow> bool" where
  "bucket_or_none c \<longleftrightarrow> (case c of None \<Rightarrow> True | Some (BucketCell x) \<Rightarrow> True | _ \<Rightarrow> False)"

lemma bucket_or_none_unread:
  "bucket_or_none c \<Longrightarrow> unread strings_of c \<and> unread tags_of c \<and> unread policy_of c \<and> unread role_of c \<and> unread number_of c"
  by (auto simp: bucket_or_none_def unread_def split: option.splits cell.splits)

lemma read_beside_bucket:
  assumes "bucket_or_none (m a)" "bucket_or_none c"
  shows "meta_read (m(a := c)) om = meta_read m om" "spec_read (m(a := c)) s = spec_read m s"
proof -
  note un = bucket_or_none_unread[OF assms(1)] bucket_or_none_unread[OF assms(2)]
  have role: "role_read (m(a := c)) r = role_read m r" for r
    using un slice_read_unread[where sel = strings_of and m = m and a = a and c = c] by (simp add: role_read_def)
  show "meta_read (m(a := c)) om = meta_read m om"
    using un by (simp add: meta_read_def slice_read_unread ptr_read_unread plain_read_def)
  show "spec_read (m(a := c)) s = spec_read m s"
    using un by (simp add: spec_read_def slice_read_unread ptr_read_unread plain_read_def role)
qed

section \<open>The copy and the change\<close>

text \<open>The copy of an object: what it is, and what is left to the object itself.\<close>

context metadata_copier
begin

lemma bucket_copy_at:
  assumes wf: "wf_heap h" and b: "bucket_at (cells h) a = Some v"
  obtains c h1 where "Bucket_DeepCopy omc h (Some a) = Some (Some c, h1)" "wf_heap h1" "ext h h1"
    "bucket_at (newer h (cells h1)) c = Some v" "bucket_at (cells h1 |` {..<lim h}) a = Some v" "lim h \<le> c"
proof -
  from bucket_ptr.copy_copies[OF wf, of "Some a" "Some v"] b obtain y h1 where
    y: "Bucket_DeepCopy omc h (Some a) = Some (y, h1)" "wf_heap h1" "ext h h1"
    "ptr_read bucket_of bucket_read (newer h (cells h1)) y = Some (Some v)"
    by (auto simp: copied_def bucket_at_ptr)
  from y(4) obtain c where c: "y = Some c" by (cases y) (auto simp: ptr_read_def)
  with y(4) have at: "bucket_at (newer h (cells h1)) c = Some v" by (simp add: bucket_at_ptr)
  then have "lim h \<le> c" by (auto simp: bucket_at_Some restrict_map_def split: if_splits)
  moreover have "bucket_at (cells h1 |` {..<lim h}) a = Some v"
  proof (rule mono_readerD[OF mono_bucket_at b])
    show "cells h \<subseteq>\<^sub>m cells h1 |` {..<lim h}"
      using wf y(3) by (auto simp: wf_heap_def ext_def map_le_def restrict_map_def dom_def)
  qed
  ultimately show thesis using that y(1-3) c at by blast
qed

lemma owned_later:
  assumes "wf_heap h" "ext h h1" "bucket_at (cells h) a = Some v" "finalizers_owned (cells h) a"
  shows "finalizers_owned (cells h1) a"
proof -
  have le: "cells h \<subseteq>\<^sub>m cells h1" using assms(2) by (simp add: ext_def)
  from assms(4) obtain x where x: "cells h a = Some (BucketCell x)"
    "\<And>sl. g_Finalizers (g_ObjectMeta x) = Some sl \<Longrightarrow>
       spec_read ((cells h)(sl_array sl := None)) (g_Spec x) = spec_read (cells h) (g_Spec x)"
    by (auto simp: finalizers_owned_def)
  from assms(3) x(1) obtain s where s: "spec_read (cells h) (g_Spec x) = Some s"
    by (auto simp: bucket_at_Some bucket_read_def bind_eq_Some_conv)
  have "spec_read ((cells h1)(sl_array sl := None)) (g_Spec x) = spec_read (cells h1) (g_Spec x)"
    if "g_Finalizers (g_ObjectMeta x) = Some sl" for sl
  proof -
    have "(cells h)(sl_array sl := None) \<subseteq>\<^sub>m (cells h1)(sl_array sl := None)" using le by (auto simp: map_le_def)
    with x(2)[OF that] s have "spec_read ((cells h1)(sl_array sl := None)) (g_Spec x) = Some s"
      using mono_readerD[OF mono_spec] by metis
    with mono_readerD[OF mono_spec s le] show ?thesis by simp
  qed
  with map_le_Some[OF le x(1)] show ?thesis by (auto simp: finalizers_owned_def)
qed

text \<open>The original that the patch gets has the value the object had, and the object has the new finalizers.\<close>

lemma copy_and_update_values:
  assumes hp: "finalizer_helper helper upd" and wf: "wf_heap h"
    and b: "bucket_at (cells h) a = Some (t, b)" "finalizers_owned (cells h) a"
    and u: "upd (bucket_finalizers b) BucketFinalizer = (fs, ok)"
  shows "\<exists>c h'. copy_and_update omc helper h a = Some (Some c, ok, h') \<and>
    bucket_at (cells h') c = Some (t, b) \<and> bucket_at (cells h') a = Some (t, set_finalizers fs b)"
proof -
  from bucket_copy_at[OF wf b(1)] obtain c h1 where c: "Bucket_DeepCopy omc h (Some a) = Some (Some c, h1)"
    "wf_heap h1" "ext h h1" "bucket_at (newer h (cells h1)) c = Some (t, b)"
    "bucket_at (cells h1 |` {..<lim h}) a = Some (t, b)" by blast
  from finalizer_helper.helper_updates[OF hp c(2,5) owned_later[OF wf c(3) b] u] obtain h2 where
    h2: "helper h1 a BucketFinalizer = Some (ok, h2)" "bucket_at (cells h2) a = Some (t, set_finalizers fs b)"
    "\<And>l. l < lim h1 \<Longrightarrow> lim h \<le> l \<Longrightarrow> cells h2 l = cells h1 l" by fastforce
  have "newer h (cells h1) \<subseteq>\<^sub>m cells h2"
    using h2(3) c(2) by (auto simp: wf_heap_def dom_def map_le_def restrict_map_def split: if_splits)
  with c(4) have "bucket_at (cells h2) c = Some (t, b)" using mono_readerD[OF mono_bucket_at] by blast
  with c(1) h2(1,2) show ?thesis by (auto simp: copy_and_update_def)
qed

lemma copy_and_set_status_values:
  assumes wf: "wf_heap h" and b: "bucket_at (cells h) a = Some (t, b)"
  shows "\<exists>c h'. copy_and_set_status omc h a = Some (Some c, h') \<and>
    bucket_at (cells h') c = Some (t, b) \<and> bucket_at (cells h') a = Some (t, b\<lparr>Status := ready_status b\<rparr>)"
proof -
  from bucket_copy_at[OF wf b(1)] obtain c h1 where c: "Bucket_DeepCopy omc h (Some a) = Some (Some c, h1)"
    "wf_heap h1" "ext h h1" "bucket_at (newer h (cells h1)) c = Some (t, b)"
    "bucket_at (cells h1 |` {..<lim h}) a = Some (t, b)" "lim h \<le> c" by blast
  have b1: "bucket_at (cells h1) a = Some (t, b)" by (rule mono_readerD[OF mono_bucket_at c(5)]) (auto simp: map_le_def)
  then obtain x where x: "cells h1 a = Some (BucketCell x)" "bucket_read (cells h1) x = Some (t, b)"
    by (auto simp: bucket_at_Some)
  let ?x = "x\<lparr>g_Status := \<lparr>BucketReady = True, BucketID = g_Name (g_Spec x)\<rparr>\<rparr>"
  let ?h2 = "store a (BucketCell ?x) h1"
  have old: "bucket_or_none (cells h1 a)" by (simp add: bucket_or_none_def x(1))
  have name: "g_Name (g_Spec x) = bucket_name b" using x(2) by (auto simp: bucket_read_def spec_read_def bind_eq_Some_conv)
  have "bucket_at (cells ?h2) a = Some (t, b\<lparr>Status := ready_status b\<rparr>)"
    using x(2) name read_beside_bucket[where m = "cells h1" and a = a and c = "Some (BucketCell ?x)", OF old]
    by (auto simp: bucket_at_Some bucket_read_def bind_eq_Some_conv ready_status_def bucket_or_none_def)
  moreover have "a < lim h" using b wf by (auto simp: bucket_at_Some wf_heap_def dom_def)
  then have "newer h (cells h1) \<subseteq>\<^sub>m cells ?h2" by (auto simp: map_le_def restrict_map_def split: if_splits)
  with c(4) have "bucket_at (cells ?h2) c = Some (t, b)" using mono_readerD[OF mono_bucket_at] by blast
  ultimately show ?thesis using c(1) x(1) by (auto simp: copy_and_set_status_def)
qed

end

end
