(* ===== verification/Reference_Heap.thy ===== *)
theory Reference_Heap
  imports Heap_Reconcile Reference_Kube
begin

text \<open>
  Executable versions of the library code that works on pointers: the copies of the metadata, and the finalizer
  helpers, which write to the old array where the new list fits into it, as \<^verbatim>\<open>append\<close> does. They keep the contracts
  \<open>metadata_copier\<close> and \<open>finalizer_helper\<close>.
\<close>

section \<open>The copies of the metadata\<close>

definition ref_ObjectMeta_copy :: "go_ObjectMeta copier" where
  "ref_ObjectMeta_copy h om = do {
     (fs, h1) \<leftarrow> copy_slice StringsCell strings_of [] h (g_Finalizers om);
     (t, h2) \<leftarrow> copy_ptr NumberCell number_of 0 (\<lambda>h x. Some (x, h)) h1 (g_DeletionTimestamp om);
     Some (om\<lparr>g_Finalizers := fs, g_DeletionTimestamp := t\<rparr>, h2) }"

definition ref_ListMeta_copy :: "go_ListMeta copier" where
  "ref_ListMeta_copy h lm = do {
     (n, h1) \<leftarrow> copy_ptr NumberCell number_of 0 (\<lambda>h x. Some (x, h)) h (g_RemainingItemCount lm);
     Some (lm\<lparr>g_RemainingItemCount := n\<rparr>, h1) }"

interpretation ref_om: deep_copier ref_ObjectMeta_copy meta_read
proof
  show "mono_reader meta_read" by (rule mono_meta)
  fix h x v assume wf: "wf_heap h" and v: "meta_read (cells h) x = Some v"
  from v obtain fs t where m: "slice_read strings_of (cells h) (g_Finalizers x) = Some fs"
    "ptr_read number_of plain_read (cells h) (g_DeletionTimestamp x) = Some t"
    by (auto simp: meta_read_def bind_eq_Some_conv)
  from copies_in_a_row[OF strings_copier.deep_copier_axioms number_copier.deep_copier_axioms wf m]
  obtain y1 h1 y2 h2 where "copy_slice StringsCell strings_of [] h (g_Finalizers x) = Some (y1, h1)"
    "copy_ptr NumberCell number_of 0 (\<lambda>h x. Some (x, h)) h1 (g_DeletionTimestamp x) = Some (y2, h2)"
    "wf_heap h2" "ext h h2" "slice_read strings_of (newer h (cells h2)) y1 = Some fs"
    "ptr_read number_of plain_read (newer h (cells h2)) y2 = Some t" by metis
  with v m show "\<exists>y h'. ref_ObjectMeta_copy h x = Some (y, h') \<and> copied meta_read h v y h'"
    by (auto simp: ref_ObjectMeta_copy_def meta_read_def copied_def)
qed

interpretation ref_lm: deep_copier ref_ListMeta_copy list_meta_read
proof
  show "mono_reader list_meta_read" by (rule mono_list_meta)
  fix h x v assume wf: "wf_heap h" and v: "list_meta_read (cells h) x = Some v"
  from v obtain n where n: "ptr_read number_of plain_read (cells h) (g_RemainingItemCount x) = Some n"
    by (auto simp: list_meta_read_def bind_eq_Some_conv)
  from number_copier.copy_copies[OF wf n] v n
  show "\<exists>y h'. ref_ListMeta_copy h x = Some (y, h') \<and> copied list_meta_read h v y h'"
    by (auto simp: ref_ListMeta_copy_def list_meta_read_def copied_def)
qed

interpretation ref_meta: metadata_copier ref_ObjectMeta_copy ref_ListMeta_copy ..

section \<open>The finalizer helpers\<close>

definition ref_write :: "go_heap \<Rightarrow> slice option \<Rightarrow> string list \<Rightarrow> (slice \<times> go_heap) option" where
  "ref_write h s fs =
     (let fresh = (case alloc (StringsCell fs) h of (a, h1) \<Rightarrow>
        (\<lparr>sl_array = a, sl_off = 0, sl_len = length fs, sl_cap = length fs\<rparr>, h1)) in
      case s of
        None \<Rightarrow> Some fresh
      | Some sl \<Rightarrow>
          if length fs \<le> sl_cap sl then do {
            c \<leftarrow> cells h (sl_array sl);
            arr \<leftarrow> strings_of c;
            Some (sl\<lparr>sl_len := length fs\<rparr>,
              store (sl_array sl) (StringsCell (take (sl_off sl) arr @ fs @ drop (sl_off sl + length fs) arr)) h) }
          else Some fresh)"

definition ref_helper ::
  "(string list \<Rightarrow> string \<Rightarrow> string list \<times> bool) \<Rightarrow> go_heap \<Rightarrow> nat \<Rightarrow> string \<Rightarrow> (bool \<times> go_heap) option" where
  "ref_helper upd h a f = do {
     c \<leftarrow> cells h a;
     x \<leftarrow> bucket_of c;
     old \<leftarrow> slice_read strings_of (cells h) (g_Finalizers (g_ObjectMeta x));
     let (fs, ok) = upd old f;
     if ok then do {
       (s, h1) \<leftarrow> ref_write h (g_Finalizers (g_ObjectMeta x)) fs;
       Some (True, store a (BucketCell (x\<lparr>g_ObjectMeta := (g_ObjectMeta x)\<lparr>g_Finalizers := Some s\<rparr>\<rparr>)) h1) }
     else Some (False, h) }"

text \<open>Where the new list is written: at one address, which holds strings and is either new or that of the old array.\<close>

lemma ref_write_spec:
  assumes wf: "wf_heap h" and old: "slice_read strings_of (cells h) s = Some xs"
  obtains sl ss where "ref_write h s fs = Some (sl, \<lparr>cells = (cells h)(sl_array sl \<mapsto> StringsCell ss),
      lim = max (lim h) (Suc (sl_array sl))\<rparr>)"
    "\<And>m. m (sl_array sl) = Some (StringsCell ss) \<Longrightarrow> slice_read strings_of m (Some sl) = Some fs"
    "sl_array sl = lim h \<or> sl_array sl < lim h \<and>
       (\<exists>sl0 ss0. s = Some sl0 \<and> sl_array sl0 = sl_array sl \<and> cells h (sl_array sl) = Some (StringsCell ss0))"
proof (cases "\<exists>sl0. s = Some sl0 \<and> length fs \<le> sl_cap sl0")
  case True
  then obtain sl0 where s: "s = Some sl0" "length fs \<le> sl_cap sl0" by blast
  from old s(1) obtain c arr where c: "cells h (sl_array sl0) = Some c" "strings_of c = Some arr"
    "sl_len sl0 \<le> sl_cap sl0" "sl_off sl0 + sl_cap sl0 \<le> length arr"
    by (auto simp: slice_read_def bind_eq_Some_conv split: if_splits)
  have c': "c = StringsCell arr" using c(2) by (cases c) auto
  have less: "sl_array sl0 < lim h" using wf c(1) by (auto simp: wf_heap_def dom_def)
  let ?sl = "sl0\<lparr>sl_len := length fs\<rparr>" and ?ss = "take (sl_off sl0) arr @ fs @ drop (sl_off sl0 + length fs) arr"
  show thesis
  proof (rule that[of ?sl ?ss])
    show "ref_write h s fs = Some (?sl, \<lparr>cells = (cells h)(sl_array ?sl \<mapsto> StringsCell ?ss), lim = max (lim h) (Suc (sl_array ?sl))\<rparr>)"
      using s c c' less by (simp add: ref_write_def store_def)
    show "slice_read strings_of m (Some ?sl) = Some fs" if "m (sl_array ?sl) = Some (StringsCell ?ss)" for m
      using that s(2) c(3,4) by (simp add: slice_read_def)
  qed (use s(1) c(1) c' less in auto)
next
  case False
  let ?sl = "\<lparr>sl_array = lim h, sl_off = 0, sl_len = length fs, sl_cap = length fs\<rparr>"
  show thesis
    by (rule that[of ?sl fs]) (use False in \<open>auto simp: ref_write_def alloc_def slice_read_def Let_def split: option.split\<close>)
qed

lemma ref_helper_updates:
  assumes same: "\<And>xs f ys. upd xs f = (ys, False) \<Longrightarrow> ys = xs"
  shows "finalizer_helper (ref_helper upd) upd"
proof
  fix h R a t b f fs ok
  assume wf: "wf_heap h" and b: "bucket_at (cells h |` R) a = Some (t, b)" and owned: "finalizers_owned (cells h) a"
    and u: "upd (bucket_finalizers b) f = (fs, ok)"
  have le: "cells h |` R \<subseteq>\<^sub>m cells h" by (auto simp: map_le_def)
  from b obtain x where x: "a \<in> R" "cells h a = Some (BucketCell x)" "bucket_read (cells h |` R) x = Some (t, b)"
    by (auto simp: bucket_at_Some restrict_map_def split: if_splits)
  note xb = mono_readerD[OF mono_bucket x(3) le]
  let ?old = "g_Finalizers (g_ObjectMeta x)"
  have old: "slice_read strings_of (cells h) ?old = Some (bucket_finalizers b)"
    using xb by (auto simp: bucket_read_def meta_read_def bind_eq_Some_conv)
  show "\<exists>h'. ref_helper upd h a f = Some (ok, h') \<and> wf_heap h' \<and> lim h \<le> lim h' \<and>
      (\<forall>l < lim h. l \<notin> R \<longrightarrow> cells h' l = cells h l) \<and> bucket_at (cells h') a = Some (t, set_finalizers fs b)"
  proof (cases ok)
    case False
    with u same have "fs = bucket_finalizers b" by simp
    with False x(2) xb old u wf show ?thesis by (simp add: ref_helper_def bucket_at_Some)
  next
    case True
    from ref_write_spec[OF wf old, of fs] obtain sl ss where
      w: "ref_write h ?old fs = Some (sl, \<lparr>cells = (cells h)(sl_array sl \<mapsto> StringsCell ss), lim = max (lim h) (Suc (sl_array sl))\<rparr>)"
        "\<And>m. m (sl_array sl) = Some (StringsCell ss) \<Longrightarrow> slice_read strings_of m (Some sl) = Some fs"
        "sl_array sl = lim h \<or> sl_array sl < lim h \<and>
          (\<exists>sl0 ss0. ?old = Some sl0 \<and> sl_array sl0 = sl_array sl \<and> cells h (sl_array sl) = Some (StringsCell ss0))" by blast
    let ?arr = "sl_array sl" and ?x = "x\<lparr>g_ObjectMeta := (g_ObjectMeta x)\<lparr>g_Finalizers := Some sl\<rparr>\<rparr>"
    let ?m1 = "(cells h)(?arr \<mapsto> StringsCell ss)"
    let ?h2 = "\<lparr>cells = ?m1(a \<mapsto> BucketCell ?x), lim = max (lim h) (Suc ?arr)\<rparr>"
    have a: "a < lim h" using wf x(2) by (auto simp: wf_heap_def dom_def)
    have ne: "?arr \<noteq> a" using w(3) x(2) a by auto
    from xb obtain s tm where s: "spec_read (cells h) (g_Spec x) = Some s"
      "ptr_read number_of plain_read (cells h) (g_DeletionTimestamp (g_ObjectMeta x)) = Some tm"
      by (auto simp: bucket_read_def meta_read_def bind_eq_Some_conv)
    have un: "unread number_of (cells h ?arr)" "unread number_of (Some (StringsCell ss))"
      using w(3) wf_fresh[OF wf] by (auto simp: unread_def)
    have "spec_read ?m1 (g_Spec x) = Some s"
      using w(3)
    proof
      assume "?arr = lim h"
      then have "cells h \<subseteq>\<^sub>m ?m1" using wf_fresh[OF wf] by (auto simp: map_le_def)
      with mono_readerD[OF mono_spec s(1)] show ?thesis .
    next
      assume "?arr < lim h \<and> (\<exists>sl0 ss0. ?old = Some sl0 \<and> sl_array sl0 = ?arr \<and> cells h ?arr = Some (StringsCell ss0))"
      then obtain sl0 where "?old = Some sl0" "sl_array sl0 = ?arr" by blast
      with owned x(2) s(1) have "spec_read ((cells h)(?arr := None)) (g_Spec x) = Some s"
        by (auto simp: finalizers_owned_def)
      then show ?thesis by (rule mono_readerD[OF mono_spec]) (auto simp: map_le_def)
    qed
    moreover have "ptr_read number_of plain_read ?m1 (g_DeletionTimestamp (g_ObjectMeta x)) = Some tm"
      using ptr_read_unread[where sel = number_of and m = "cells h" and a = ?arr and c = "Some (StringsCell ss)" and rd = plain_read, OF un] s(2)
      by (simp add: plain_read_def)
    moreover have "slice_read strings_of ?m1 (Some sl) = Some fs" by (rule w(2)) simp
    ultimately have "bucket_read ?m1 ?x = Some (t, set_finalizers fs b)"
      using xb s by (auto simp: bucket_read_def meta_read_def bind_eq_Some_conv)
    moreover have "bucket_or_none (?m1 a)" using x(2) ne by (simp add: bucket_or_none_def)
    note read_beside_bucket[where m = ?m1 and a = a and c = "Some (BucketCell ?x)", OF this]
    ultimately have "bucket_at (cells ?h2) a = Some (t, set_finalizers fs b)"
      by (simp add: bucket_at_Some bucket_read_def bucket_or_none_def)
    moreover have "cells ?h2 l = cells h l" if "l < lim h" "l \<notin> R" for l
    proof -
      have "?arr \<noteq> l"
        using w(3)
      proof
        assume "?arr < lim h \<and> (\<exists>sl0 ss0. ?old = Some sl0 \<and> sl_array sl0 = ?arr \<and> cells h ?arr = Some (StringsCell ss0))"
        then obtain sl0 where "?old = Some sl0" "sl_array sl0 = ?arr" by blast
        with x(3) have "?arr \<in> R"
          by (auto simp: bucket_read_def meta_read_def slice_read_def bind_eq_Some_conv restrict_map_def split: if_splits)
        with that show ?thesis by blast
      qed (use that in simp)
      with that x(1) show ?thesis by auto
    qed
    moreover have "wf_heap ?h2" using wf a by (auto simp: wf_heap_def dom_def)
    moreover have "ref_helper upd h a f = Some (ok, ?h2)"
      using True x(2) old u w(1) by (simp add: ref_helper_def store_def)
    ultimately show ?thesis by (intro exI[of _ ?h2]) simp
  qed
qed

interpretation ref_add: finalizer_helper "ref_helper (AddFinalizer ref_lib)" "AddFinalizer ref_lib"
  by (rule ref_helper_updates) (simp add: ref_lib_def split: if_splits)

interpretation ref_remove: finalizer_helper "ref_helper (RemoveFinalizer ref_lib)" "RemoveFinalizer ref_lib"
  by (rule ref_helper_updates) (auto simp: ref_lib_def filter_id_conv)

end
