(* ===== verification/Properties_Heap.thy ===== *)
theory Properties_Heap
  imports Reference_Heap
begin

text \<open>
  The properties of the generated copies and of the places where the reconciler relies on them, with witnesses on a
  heap whose object has spare room in the array of its finalizers, so that the helper writes in place.
\<close>

section \<open>A heap with an object and a list\<close>

definition heap_bucket :: go_Bucket where
  "heap_bucket =
     \<lparr>g_TypeMeta = \<lparr>Kind = ''Bucket'', APIVersion = ''objectstorage.giantswarm.io/v1alpha1''\<rparr>,
      g_ObjectMeta = \<lparr>g_meta_Name = ''cr'', g_meta_Namespace = ''ns'',
        g_Finalizers = Some \<lparr>sl_array = 1, sl_off = 0, sl_len = 1, sl_cap = 2\<rparr>, g_DeletionTimestamp = None\<rparr>,
      g_Spec = \<lparr>g_Name = ''logs'', g_ExpirationPolicy = Some 2, g_ReclaimPolicy = ReclaimPolicyDelete,
        g_AccessRole = Some 3, g_Tags = Some \<lparr>sl_array = 5, sl_off = 1, sl_len = 1, sl_cap = 1\<rparr>\<rparr>,
      g_Status = zero_status\<rparr>"

definition heap_list :: go_BucketList where
  "heap_list =
     \<lparr>g_list_TypeMeta = \<lparr>Kind = ''BucketList'', APIVersion = ''objectstorage.giantswarm.io/v1alpha1''\<rparr>,
      g_ListMeta = \<lparr>g_ResourceVersion = ''7'', g_Continue = [], g_RemainingItemCount = Some 6\<rparr>,
      g_Items = Some \<lparr>sl_array = 7, sl_off = 0, sl_len = 2, sl_cap = 2\<rparr>\<rparr>"

definition sample_heap :: go_heap where
  "sample_heap = \<lparr>cells = map_of
     [(0, BucketCell heap_bucket),
      (1, StringsCell [''other'', ''unused'']),
      (2, PolicyCell \<lparr>Days = 30\<rparr>),
      (3, RoleCell \<lparr>g_RoleName = ''loki'', g_ExtraBucketNames = Some \<lparr>sl_array = 4, sl_off = 0, sl_len = 1, sl_cap = 1\<rparr>,
         g_ServiceAccountName = ''sa'', g_ServiceAccountNamespace = ''ns''\<rparr>),
      (4, StringsCell [''ruler'']),
      (5, TagsCell [zero_tag, \<lparr>tag_Key = ''app'', tag_Value = ''loki''\<rparr>]),
      (6, NumberCell 0),
      (7, BucketsCell [heap_bucket, heap_bucket]),
      (8, ListCell heap_list)], lim = 9\<rparr>"

definition heap_value :: "TypeMeta \<times> Bucket" where
  "heap_value =
     (\<lparr>Kind = ''Bucket'', APIVersion = ''objectstorage.giantswarm.io/v1alpha1''\<rparr>,
      \<lparr>ObjectMeta = \<lparr>meta_Name = ''cr'', meta_Namespace = ''ns'', meta_Finalizers = [''other''], meta_DeletionTimestamp = None\<rparr>,
       Spec = \<lparr>spec_Name = ''logs'', ExpirationPolicy = Some \<lparr>Days = 30\<rparr>, ReclaimPolicy = ReclaimPolicyDelete,
         AccessRole = Some \<lparr>RoleName = ''loki'', ExtraBucketNames = [''ruler''], ServiceAccountName = ''sa'',
           ServiceAccountNamespace = ''ns''\<rparr>, spec_Tags = [\<lparr>tag_Key = ''app'', tag_Value = ''loki''\<rparr>]\<rparr>,
       Status = zero_status\<rparr>)"

lemma sample_wf: "wf_heap sample_heap"
  by (simp add: wf_heap_def sample_heap_def)

lemma sample_at: "bucket_at (cells sample_heap) 0 = Some heap_value"
  by code_simp

lemma sample_owned: "finalizers_owned (cells sample_heap) 0"
  by (simp add: finalizers_owned_def sample_heap_def heap_bucket_def spec_read_def slice_read_def ptr_read_def role_read_def
      plain_read_def)

section \<open>Copies share nothing\<close>

text \<open>C14: \<^verbatim>\<open>DeepCopy\<close> of an object returns a new object of the same value that shares no memory with it: whatever is written
  later to memory that existed before the call, the copy keeps its value, and whatever is written to
  the memory the call allocated, the object does. \<^verbatim>\<open>DeepCopyObject\<close> wraps the same copy, and gives the nil
  interface for a nil pointer.\<close>

theorem DeepCopy_isolated:
  assumes "metadata_copier omc lmc" and "wf_heap h" and "bucket_at (cells h) a = Some v"
  shows "\<exists>c h'. Bucket_DeepCopy omc h (Some a) = Some (Some c, h') \<and> c \<noteq> a \<and>
    Bucket_DeepCopyObject omc h (Some a) = Some (Some (BucketObject (Some c)), h') \<and>
    Bucket_DeepCopyObject omc h None = Some (None, h) \<and>
    (\<forall>m. (\<forall>l. lim h \<le> l \<and> l < lim h' \<longrightarrow> m l = cells h' l) \<longrightarrow> bucket_at m c = Some v) \<and>
    (\<forall>m. (\<forall>l < lim h. m l = cells h' l) \<longrightarrow> bucket_at m a = Some v)"
proof -
  from assms(3) have "ptr_read bucket_of bucket_read (cells h) (Some a) = Some (Some v)" by (simp add: bucket_at_ptr)
  from deep_copier.copy_isolated[OF metadata_copier.bucket_ptr_copies[OF assms(1)] assms(2) this] obtain y h' where
    y: "Bucket_DeepCopy omc h (Some a) = Some (y, h')" 
    "\<And>m. (\<And>l. lim h \<le> l \<Longrightarrow> l < lim h' \<Longrightarrow> m l = cells h' l) \<Longrightarrow> ptr_read bucket_of bucket_read m y = Some (Some v)"
    "\<And>m. (\<And>l. l < lim h \<Longrightarrow> m l = cells h' l) \<Longrightarrow> bucket_at m a = Some v"
    unfolding bucket_at_ptr by metis
  from metadata_copier.bucket_copy_at[OF assms] obtain c where "y = Some c" "lim h \<le> c"
    using y(1) by (metis old.prod.inject option.inject)
  moreover have "a < lim h" using assms(2,3) by (auto simp: bucket_at_Some wf_heap_def dom_def)
  ultimately show ?thesis
    using y by (auto simp: bucket_at_ptr Bucket_DeepCopyObject_def Bucket_DeepCopy_def copy_ptr_def)
qed

theorem DeepCopy_isolated_witness:
  "\<exists>c h'. Bucket_DeepCopy ref_ObjectMeta_copy sample_heap (Some 0) = Some (Some c, h') \<and>
     bucket_at (cells (store 2 (PolicyCell \<lparr>Days = 1\<rparr>) h')) c = Some heap_value"
proof -
  from DeepCopy_isolated[OF ref_meta.metadata_copier_axioms sample_wf sample_at] obtain c h' where
    c: "Bucket_DeepCopy ref_ObjectMeta_copy sample_heap (Some 0) = Some (Some c, h')"
    "\<And>m. (\<And>l. lim sample_heap \<le> l \<and> l < lim h' \<Longrightarrow> m l = cells h' l) \<Longrightarrow> bucket_at m c = Some heap_value"
    by metis
  have "bucket_at (cells (store 2 (PolicyCell \<lparr>Days = 1\<rparr>) h')) c = Some heap_value"
    by (rule c(2)) (simp add: sample_heap_def)
  with c(1) show ?thesis by blast
qed

text \<open>\<^verbatim>\<open>DeepCopy\<close> of a list of objects returns a new list of the same value, with the loop over the items
  copying every object; it shares no memory with the list it was made from, in either direction.\<close>

theorem BucketList_DeepCopy_isolated:
  assumes "metadata_copier omc lmc" and "wf_heap h"
    and "cells h a = Some (ListCell l)" and "list_read (cells h) l = Some v"
  shows "\<exists>c h'. BucketList_DeepCopy omc lmc h (Some a) = Some (Some c, h') \<and>
    (\<forall>m. (\<forall>i. lim h \<le> i \<and> i < lim h' \<longrightarrow> m i = cells h' i) \<longrightarrow>
       (\<exists>l'. m c = Some (ListCell l') \<and> list_read m l' = Some v)) \<and>
    (\<forall>m. (\<forall>i < lim h. m i = cells h' i) \<longrightarrow> m a = Some (ListCell l) \<and> list_read m l = Some v)"
proof -
  have ptr: "ptr_read list_of list_read m p = Some (Some u) \<longleftrightarrow>
      (\<exists>b l'. p = Some b \<and> m b = Some (ListCell l') \<and> list_read m l' = Some u)" for m p u
  proof -
    have "list_of x = Some l' \<longleftrightarrow> x = ListCell l'" for x l' by (cases x) auto
    then show ?thesis by (cases u; cases p) (auto simp: ptr_read_def bind_eq_Some_conv)
  qed
  from assms(3,4) have "ptr_read list_of list_read (cells h) (Some a) = Some (Some v)" by (simp add: ptr)
  from deep_copier.copy_isolated[OF metadata_copier.list_ptr_copies[OF assms(1)] assms(2) this] obtain y h' where
    y: "BucketList_DeepCopy omc lmc h (Some a) = Some (y, h')" "wf_heap h'" "ext h h'"
    "\<And>m. (\<And>i. lim h \<le> i \<Longrightarrow> i < lim h' \<Longrightarrow> m i = cells h' i) \<Longrightarrow> ptr_read list_of list_read m y = Some (Some v)"
    "\<And>m. (\<And>i. i < lim h \<Longrightarrow> m i = cells h' i) \<Longrightarrow> ptr_read list_of list_read m (Some a) = Some (Some v)"
    by metis
  from y(4)[of "cells h'"] obtain c where c: "y = Some c" by (auto simp: ptr)
  have old: "m a = Some (ListCell l)" if "\<And>i. i < lim h \<Longrightarrow> m i = cells h' i" for m
  proof -
    have "a < lim h" using assms(2,3) by (auto simp: wf_heap_def dom_def)
    moreover have "cells h' a = Some (ListCell l)" using y(3) assms(3) by (auto simp: ext_def intro: map_le_Some)
    ultimately show ?thesis using that by simp
  qed
  have copy: "\<exists>l'. m c = Some (ListCell l') \<and> list_read m l' = Some v"
    if "\<And>i. lim h \<le> i \<Longrightarrow> i < lim h' \<Longrightarrow> m i = cells h' i" for m
    using y(4)[OF that] c by (simp add: ptr)
  have old': "list_read m l = Some v" if "\<And>i. i < lim h \<Longrightarrow> m i = cells h' i" for m
    using y(5)[OF that] old[OF that] by (simp add: ptr)
  show ?thesis
    by (intro exI[of _ c] exI[of _ h'] conjI allI impI; (rule copy old old')?) (use y(1) c in auto)
qed

lemma sample_list: "cells sample_heap 8 = Some (ListCell heap_list)"
  by (simp add: sample_heap_def)

lemma sample_list_value:
  "list_read (cells sample_heap) heap_list = Some (g_list_TypeMeta heap_list, (''7'', [], Some 0), [heap_value, heap_value])"
  by code_simp

theorem BucketList_DeepCopy_isolated_witness:
  "\<exists>c h' l'. BucketList_DeepCopy ref_ObjectMeta_copy ref_ListMeta_copy sample_heap (Some 8) = Some (Some c, h') \<and>
     cells h' c = Some (ListCell l') \<and>
     list_read (cells h') l' = Some (g_list_TypeMeta heap_list, (''7'', [], Some 0), [heap_value, heap_value])"
  using BucketList_DeepCopy_isolated[OF ref_meta.metadata_copier_axioms sample_wf sample_list sample_list_value] by blast

section \<open>What the patches are given\<close>

text \<open>C13: Before it registers or removes the finalizer, the reconciler copies the object and then changes the object in place.
  The original that the patch is computed from keeps the old finalizers, even where the helper writes to the
  old array, and the object differs from it in the finalizers only: these are the two values that
  \<^verbatim>\<open>reconcileNormal\<close> and \<^verbatim>\<open>reconcileDelete\<close> of the theory Controller pass to \<^verbatim>\<open>Patch\<close>.\<close>

theorem finalizer_patch_arguments:
  assumes "metadata_copier omc lmc" and "finalizer_helper helper upd" and "wf_heap h"
    and "bucket_at (cells h) a = Some (t, b)" and "finalizers_owned (cells h) a"
    and "upd (bucket_finalizers b) BucketFinalizer = (fs, changed)"
  shows "\<exists>c h'. copy_and_update omc helper h a = Some (Some c, changed, h') \<and>
    bucket_at (cells h') c = Some (t, b) \<and> bucket_at (cells h') a = Some (t, set_finalizers fs b)"
  using assms by (rule metadata_copier.copy_and_update_values)

theorem finalizer_patch_arguments_witness:
  "\<exists>c h'. copy_and_update ref_ObjectMeta_copy (ref_helper (AddFinalizer ref_lib)) sample_heap 0 = Some (Some c, True, h') \<and>
     bucket_at (cells h') c = Some heap_value \<and>
     bucket_at (cells h') 0 =
       Some (fst heap_value, set_finalizers [''other'', BucketFinalizer] (snd heap_value))"
proof -
  have at: "bucket_at (cells sample_heap) 0 = Some (fst heap_value, snd heap_value)" by (simp add: sample_at)
  have "AddFinalizer ref_lib (bucket_finalizers (snd heap_value)) BucketFinalizer = ([''other'', BucketFinalizer], True)"
    by code_simp
  from finalizer_patch_arguments[OF ref_meta.metadata_copier_axioms ref_add.finalizer_helper_axioms sample_wf at
      sample_owned this] show ?thesis by simp
qed

text \<open>Before it sets the status, the reconciler copies the object: the original of the status patch keeps the old status, and the object
  differs from it in the ready status only.\<close>

theorem status_patch_arguments:
  assumes "metadata_copier omc lmc" and "wf_heap h" and "bucket_at (cells h) a = Some (t, b)"
  shows "\<exists>c h'. copy_and_set_status omc h a = Some (Some c, h') \<and>
    bucket_at (cells h') c = Some (t, b) \<and> bucket_at (cells h') a = Some (t, b\<lparr>Status := ready_status b\<rparr>)"
  using assms by (rule metadata_copier.copy_and_set_status_values)

theorem status_patch_arguments_witness:
  "\<exists>c h'. copy_and_set_status ref_ObjectMeta_copy sample_heap 0 = Some (Some c, h') \<and>
     bucket_at (cells h') c = Some heap_value \<and>
     bucket_at (cells h') 0 = Some (fst heap_value, (snd heap_value)\<lparr>Status := \<lparr>BucketReady = True, BucketID = ''logs''\<rparr>\<rparr>)"
proof -
  have at: "bucket_at (cells sample_heap) 0 = Some (fst heap_value, snd heap_value)" by (simp add: sample_at)
  have "ready_status (snd heap_value) = \<lparr>BucketReady = True, BucketID = ''logs''\<rparr>" by code_simp
  with status_patch_arguments[OF ref_meta.metadata_copier_axioms sample_wf at] show ?thesis by simp
qed

end
