(* ===== verification/Test_Doubles.thy ===== *)
theory Test_Doubles
  imports Controller
begin

text \<open>
  The test doubles of the repository (\<^verbatim>\<open>objectstoragefakes\<close> and \<^verbatim>\<open>clusterfakes\<close>, generated by
  \<^verbatim>\<open>counterfeiter\<close>), in which the test suite of the reconciler runs. All their methods have the same
  shape, which \<open>fake_method\<close> captures: a call is recorded, and then answered by the stub if there is one,
  else by what was set for a call of that index, else by the default. Contexts and loggers are left out of the
  arguments; \<open>'b\<close> stands for the pointer to the bucket, and a stub is a function of its arguments. Taking
  and releasing the mutexes has no effect in a sequential run.
\<close>

section \<open>One method of a fake\<close>

record ('a, 'r) fake_method =
  fm_Stub :: "('a \<Rightarrow> 'r) option"
  fm_ArgsForCall :: "'a list"
  fm_Returns :: 'r
  fm_ReturnsOnCall :: "(int \<Rightarrow> 'r option) option"

text \<open>Reading a nil map finds nothing.\<close>

definition specific_return :: "('a, 'r) fake_method \<Rightarrow> int \<Rightarrow> 'r option" where
  "specific_return m i = (case fm_ReturnsOnCall m of None \<Rightarrow> None | Some results \<Rightarrow> results i)"

definition fake_call :: "'a \<Rightarrow> ('a, 'r) fake_method \<Rightarrow> 'r \<times> ('a, 'r) fake_method" where
  "fake_call arg m =
     (let specific = specific_return m (int (length (fm_ArgsForCall m)));
          result = (case fm_Stub m of
             Some stub \<Rightarrow> stub arg
           | None \<Rightarrow> (case specific of Some r \<Rightarrow> r | None \<Rightarrow> fm_Returns m)) in
      (result, m\<lparr>fm_ArgsForCall := fm_ArgsForCall m @ [arg]\<rparr>))"

definition fake_CallCount :: "('a, 'r) fake_method \<Rightarrow> nat" where
  "fake_CallCount m = length (fm_ArgsForCall m)"

definition fake_Calls :: "('a \<Rightarrow> 'r) option \<Rightarrow> ('a, 'r) fake_method \<Rightarrow> ('a, 'r) fake_method" where
  "fake_Calls stub m = m\<lparr>fm_Stub := stub\<rparr>"

text \<open>An index out of range panics.\<close>

definition fake_ArgsForCall :: "('a, 'r) fake_method \<Rightarrow> int \<Rightarrow> 'a outcome" where
  "fake_ArgsForCall m i =
     (if 0 \<le> i \<and> i < int (length (fm_ArgsForCall m)) then Val (fm_ArgsForCall m ! nat i) else Panicked)"

definition fake_Returns :: "'r \<Rightarrow> ('a, 'r) fake_method \<Rightarrow> ('a, 'r) fake_method" where
  "fake_Returns result m = m\<lparr>fm_Stub := None, fm_Returns := result\<rparr>"

definition fake_ReturnsOnCall :: "int \<Rightarrow> 'r \<Rightarrow> ('a, 'r) fake_method \<Rightarrow> ('a, 'r) fake_method" where
  "fake_ReturnsOnCall i result m =
     (let results = (case fm_ReturnsOnCall m of None \<Rightarrow> (\<lambda>_. None) | Some results \<Rightarrow> results) in
      m\<lparr>fm_Stub := None, fm_ReturnsOnCall := Some (results(i \<mapsto> result))\<rparr>)"

text \<open>The arguments of the two methods of the factory.\<close>

datatype 'k factory_arg = ClusterArg Cluster | ClientArg 'k

text \<open>The record of all calls of a fake, by the name of the method; the map is nil before the first call.\<close>

type_synonym 'a invocations = "(string \<Rightarrow> 'a list list option) option"

definition record_invocation :: "string \<Rightarrow> 'a list \<Rightarrow> 'a invocations \<Rightarrow> 'a invocations" where
  "record_invocation key args recorded =
     (let m = (case recorded of None \<Rightarrow> (\<lambda>_. None) | Some m \<Rightarrow> m);
          calls = (case m key of None \<Rightarrow> [] | Some calls \<Rightarrow> calls) in
      Some (m(key \<mapsto> calls @ [args])))"

definition copied_invocations :: "'a invocations \<Rightarrow> string \<Rightarrow> 'a list list option" where
  "copied_invocations recorded = (case recorded of None \<Rightarrow> (\<lambda>_. None) | Some m \<Rightarrow> m)"

section \<open>\<^verbatim>\<open>FakeAccessRoleService\<close>\<close>

record 'b FakeAccessRoleService =
  frole_configureRole :: "('b, go_error option) fake_method"
  frole_deleteRole :: "('b, go_error option) fake_method"
  frole_invocations :: "('b) invocations"

definition FakeAccessRoleService_recordInvocation ::
  "string \<Rightarrow> 'b list \<Rightarrow> 'b FakeAccessRoleService \<Rightarrow> 'b FakeAccessRoleService" where
  "FakeAccessRoleService_recordInvocation key args fake =
     fake\<lparr>frole_invocations := record_invocation key args (frole_invocations fake)\<rparr>"

definition FakeAccessRoleService_Invocations ::
  "'b FakeAccessRoleService \<Rightarrow> string \<Rightarrow> 'b list list option" where
  "FakeAccessRoleService_Invocations fake = copied_invocations (frole_invocations fake)"

definition FakeAccessRoleService_ConfigureRole ::
  "('b) \<Rightarrow> 'b FakeAccessRoleService \<Rightarrow> (go_error option) \<times> 'b FakeAccessRoleService" where
  "FakeAccessRoleService_ConfigureRole arg fake =
     (let (result, meth) = fake_call arg (frole_configureRole fake) in
      (result, FakeAccessRoleService_recordInvocation ''ConfigureRole'' [arg] (fake\<lparr>frole_configureRole := meth\<rparr>)))"

definition FakeAccessRoleService_ConfigureRoleCallCount :: "'b FakeAccessRoleService \<Rightarrow> nat" where
  "FakeAccessRoleService_ConfigureRoleCallCount fake = fake_CallCount (frole_configureRole fake)"

definition FakeAccessRoleService_ConfigureRoleCalls ::
  "(('b) \<Rightarrow> go_error option) option \<Rightarrow> 'b FakeAccessRoleService \<Rightarrow> 'b FakeAccessRoleService" where
  "FakeAccessRoleService_ConfigureRoleCalls stub fake =
     fake\<lparr>frole_configureRole := fake_Calls stub (frole_configureRole fake)\<rparr>"

definition FakeAccessRoleService_ConfigureRoleArgsForCall ::
  "'b FakeAccessRoleService \<Rightarrow> int \<Rightarrow> ('b) outcome" where
  "FakeAccessRoleService_ConfigureRoleArgsForCall fake i = fake_ArgsForCall (frole_configureRole fake) i"

definition FakeAccessRoleService_ConfigureRoleReturns ::
  "go_error option \<Rightarrow> 'b FakeAccessRoleService \<Rightarrow> 'b FakeAccessRoleService" where
  "FakeAccessRoleService_ConfigureRoleReturns result fake =
     fake\<lparr>frole_configureRole := fake_Returns result (frole_configureRole fake)\<rparr>"

definition FakeAccessRoleService_ConfigureRoleReturnsOnCall ::
  "int \<Rightarrow> go_error option \<Rightarrow> 'b FakeAccessRoleService \<Rightarrow> 'b FakeAccessRoleService" where
  "FakeAccessRoleService_ConfigureRoleReturnsOnCall i result fake =
     fake\<lparr>frole_configureRole := fake_ReturnsOnCall i result (frole_configureRole fake)\<rparr>"

definition FakeAccessRoleService_DeleteRole ::
  "('b) \<Rightarrow> 'b FakeAccessRoleService \<Rightarrow> (go_error option) \<times> 'b FakeAccessRoleService" where
  "FakeAccessRoleService_DeleteRole arg fake =
     (let (result, meth) = fake_call arg (frole_deleteRole fake) in
      (result, FakeAccessRoleService_recordInvocation ''DeleteRole'' [arg] (fake\<lparr>frole_deleteRole := meth\<rparr>)))"

definition FakeAccessRoleService_DeleteRoleCallCount :: "'b FakeAccessRoleService \<Rightarrow> nat" where
  "FakeAccessRoleService_DeleteRoleCallCount fake = fake_CallCount (frole_deleteRole fake)"

definition FakeAccessRoleService_DeleteRoleCalls ::
  "(('b) \<Rightarrow> go_error option) option \<Rightarrow> 'b FakeAccessRoleService \<Rightarrow> 'b FakeAccessRoleService" where
  "FakeAccessRoleService_DeleteRoleCalls stub fake =
     fake\<lparr>frole_deleteRole := fake_Calls stub (frole_deleteRole fake)\<rparr>"

definition FakeAccessRoleService_DeleteRoleArgsForCall ::
  "'b FakeAccessRoleService \<Rightarrow> int \<Rightarrow> ('b) outcome" where
  "FakeAccessRoleService_DeleteRoleArgsForCall fake i = fake_ArgsForCall (frole_deleteRole fake) i"

definition FakeAccessRoleService_DeleteRoleReturns ::
  "go_error option \<Rightarrow> 'b FakeAccessRoleService \<Rightarrow> 'b FakeAccessRoleService" where
  "FakeAccessRoleService_DeleteRoleReturns result fake =
     fake\<lparr>frole_deleteRole := fake_Returns result (frole_deleteRole fake)\<rparr>"

definition FakeAccessRoleService_DeleteRoleReturnsOnCall ::
  "int \<Rightarrow> go_error option \<Rightarrow> 'b FakeAccessRoleService \<Rightarrow> 'b FakeAccessRoleService" where
  "FakeAccessRoleService_DeleteRoleReturnsOnCall i result fake =
     fake\<lparr>frole_deleteRole := fake_ReturnsOnCall i result (frole_deleteRole fake)\<rparr>"

section \<open>\<^verbatim>\<open>FakeObjectStorageService\<close>\<close>

record 'b FakeObjectStorageService =
  fsvc_configureBucket :: "('b, go_error option) fake_method"
  fsvc_createBucket :: "('b, go_error option) fake_method"
  fsvc_deleteBucket :: "('b, go_error option) fake_method"
  fsvc_existsBucket :: "('b, bool \<times> go_error option) fake_method"
  fsvc_updateBucket :: "('b, go_error option) fake_method"
  fsvc_invocations :: "('b) invocations"

definition FakeObjectStorageService_recordInvocation ::
  "string \<Rightarrow> 'b list \<Rightarrow> 'b FakeObjectStorageService \<Rightarrow> 'b FakeObjectStorageService" where
  "FakeObjectStorageService_recordInvocation key args fake =
     fake\<lparr>fsvc_invocations := record_invocation key args (fsvc_invocations fake)\<rparr>"

definition FakeObjectStorageService_Invocations ::
  "'b FakeObjectStorageService \<Rightarrow> string \<Rightarrow> 'b list list option" where
  "FakeObjectStorageService_Invocations fake = copied_invocations (fsvc_invocations fake)"

definition FakeObjectStorageService_ConfigureBucket ::
  "('b) \<Rightarrow> 'b FakeObjectStorageService \<Rightarrow> (go_error option) \<times> 'b FakeObjectStorageService" where
  "FakeObjectStorageService_ConfigureBucket arg fake =
     (let (result, meth) = fake_call arg (fsvc_configureBucket fake) in
      (result, FakeObjectStorageService_recordInvocation ''ConfigureBucket'' [arg] (fake\<lparr>fsvc_configureBucket := meth\<rparr>)))"

definition FakeObjectStorageService_ConfigureBucketCallCount :: "'b FakeObjectStorageService \<Rightarrow> nat" where
  "FakeObjectStorageService_ConfigureBucketCallCount fake = fake_CallCount (fsvc_configureBucket fake)"

definition FakeObjectStorageService_ConfigureBucketCalls ::
  "(('b) \<Rightarrow> go_error option) option \<Rightarrow> 'b FakeObjectStorageService \<Rightarrow> 'b FakeObjectStorageService" where
  "FakeObjectStorageService_ConfigureBucketCalls stub fake =
     fake\<lparr>fsvc_configureBucket := fake_Calls stub (fsvc_configureBucket fake)\<rparr>"

definition FakeObjectStorageService_ConfigureBucketArgsForCall ::
  "'b FakeObjectStorageService \<Rightarrow> int \<Rightarrow> ('b) outcome" where
  "FakeObjectStorageService_ConfigureBucketArgsForCall fake i = fake_ArgsForCall (fsvc_configureBucket fake) i"

definition FakeObjectStorageService_ConfigureBucketReturns ::
  "go_error option \<Rightarrow> 'b FakeObjectStorageService \<Rightarrow> 'b FakeObjectStorageService" where
  "FakeObjectStorageService_ConfigureBucketReturns result fake =
     fake\<lparr>fsvc_configureBucket := fake_Returns result (fsvc_configureBucket fake)\<rparr>"

definition FakeObjectStorageService_ConfigureBucketReturnsOnCall ::
  "int \<Rightarrow> go_error option \<Rightarrow> 'b FakeObjectStorageService \<Rightarrow> 'b FakeObjectStorageService" where
  "FakeObjectStorageService_ConfigureBucketReturnsOnCall i result fake =
     fake\<lparr>fsvc_configureBucket := fake_ReturnsOnCall i result (fsvc_configureBucket fake)\<rparr>"

definition FakeObjectStorageService_CreateBucket ::
  "('b) \<Rightarrow> 'b FakeObjectStorageService \<Rightarrow> (go_error option) \<times> 'b FakeObjectStorageService" where
  "FakeObjectStorageService_CreateBucket arg fake =
     (let (result, meth) = fake_call arg (fsvc_createBucket fake) in
      (result, FakeObjectStorageService_recordInvocation ''CreateBucket'' [arg] (fake\<lparr>fsvc_createBucket := meth\<rparr>)))"

definition FakeObjectStorageService_CreateBucketCallCount :: "'b FakeObjectStorageService \<Rightarrow> nat" where
  "FakeObjectStorageService_CreateBucketCallCount fake = fake_CallCount (fsvc_createBucket fake)"

definition FakeObjectStorageService_CreateBucketCalls ::
  "(('b) \<Rightarrow> go_error option) option \<Rightarrow> 'b FakeObjectStorageService \<Rightarrow> 'b FakeObjectStorageService" where
  "FakeObjectStorageService_CreateBucketCalls stub fake =
     fake\<lparr>fsvc_createBucket := fake_Calls stub (fsvc_createBucket fake)\<rparr>"

definition FakeObjectStorageService_CreateBucketArgsForCall ::
  "'b FakeObjectStorageService \<Rightarrow> int \<Rightarrow> ('b) outcome" where
  "FakeObjectStorageService_CreateBucketArgsForCall fake i = fake_ArgsForCall (fsvc_createBucket fake) i"

definition FakeObjectStorageService_CreateBucketReturns ::
  "go_error option \<Rightarrow> 'b FakeObjectStorageService \<Rightarrow> 'b FakeObjectStorageService" where
  "FakeObjectStorageService_CreateBucketReturns result fake =
     fake\<lparr>fsvc_createBucket := fake_Returns result (fsvc_createBucket fake)\<rparr>"

definition FakeObjectStorageService_CreateBucketReturnsOnCall ::
  "int \<Rightarrow> go_error option \<Rightarrow> 'b FakeObjectStorageService \<Rightarrow> 'b FakeObjectStorageService" where
  "FakeObjectStorageService_CreateBucketReturnsOnCall i result fake =
     fake\<lparr>fsvc_createBucket := fake_ReturnsOnCall i result (fsvc_createBucket fake)\<rparr>"

definition FakeObjectStorageService_DeleteBucket ::
  "('b) \<Rightarrow> 'b FakeObjectStorageService \<Rightarrow> (go_error option) \<times> 'b FakeObjectStorageService" where
  "FakeObjectStorageService_DeleteBucket arg fake =
     (let (result, meth) = fake_call arg (fsvc_deleteBucket fake) in
      (result, FakeObjectStorageService_recordInvocation ''DeleteBucket'' [arg] (fake\<lparr>fsvc_deleteBucket := meth\<rparr>)))"

definition FakeObjectStorageService_DeleteBucketCallCount :: "'b FakeObjectStorageService \<Rightarrow> nat" where
  "FakeObjectStorageService_DeleteBucketCallCount fake = fake_CallCount (fsvc_deleteBucket fake)"

definition FakeObjectStorageService_DeleteBucketCalls ::
  "(('b) \<Rightarrow> go_error option) option \<Rightarrow> 'b FakeObjectStorageService \<Rightarrow> 'b FakeObjectStorageService" where
  "FakeObjectStorageService_DeleteBucketCalls stub fake =
     fake\<lparr>fsvc_deleteBucket := fake_Calls stub (fsvc_deleteBucket fake)\<rparr>"

definition FakeObjectStorageService_DeleteBucketArgsForCall ::
  "'b FakeObjectStorageService \<Rightarrow> int \<Rightarrow> ('b) outcome" where
  "FakeObjectStorageService_DeleteBucketArgsForCall fake i = fake_ArgsForCall (fsvc_deleteBucket fake) i"

definition FakeObjectStorageService_DeleteBucketReturns ::
  "go_error option \<Rightarrow> 'b FakeObjectStorageService \<Rightarrow> 'b FakeObjectStorageService" where
  "FakeObjectStorageService_DeleteBucketReturns result fake =
     fake\<lparr>fsvc_deleteBucket := fake_Returns result (fsvc_deleteBucket fake)\<rparr>"

definition FakeObjectStorageService_DeleteBucketReturnsOnCall ::
  "int \<Rightarrow> go_error option \<Rightarrow> 'b FakeObjectStorageService \<Rightarrow> 'b FakeObjectStorageService" where
  "FakeObjectStorageService_DeleteBucketReturnsOnCall i result fake =
     fake\<lparr>fsvc_deleteBucket := fake_ReturnsOnCall i result (fsvc_deleteBucket fake)\<rparr>"

definition FakeObjectStorageService_ExistsBucket ::
  "('b) \<Rightarrow> 'b FakeObjectStorageService \<Rightarrow> (bool \<times> go_error option) \<times> 'b FakeObjectStorageService" where
  "FakeObjectStorageService_ExistsBucket arg fake =
     (let (result, meth) = fake_call arg (fsvc_existsBucket fake) in
      (result, FakeObjectStorageService_recordInvocation ''ExistsBucket'' [arg] (fake\<lparr>fsvc_existsBucket := meth\<rparr>)))"

definition FakeObjectStorageService_ExistsBucketCallCount :: "'b FakeObjectStorageService \<Rightarrow> nat" where
  "FakeObjectStorageService_ExistsBucketCallCount fake = fake_CallCount (fsvc_existsBucket fake)"

definition FakeObjectStorageService_ExistsBucketCalls ::
  "(('b) \<Rightarrow> bool \<times> go_error option) option \<Rightarrow> 'b FakeObjectStorageService \<Rightarrow> 'b FakeObjectStorageService" where
  "FakeObjectStorageService_ExistsBucketCalls stub fake =
     fake\<lparr>fsvc_existsBucket := fake_Calls stub (fsvc_existsBucket fake)\<rparr>"

definition FakeObjectStorageService_ExistsBucketArgsForCall ::
  "'b FakeObjectStorageService \<Rightarrow> int \<Rightarrow> ('b) outcome" where
  "FakeObjectStorageService_ExistsBucketArgsForCall fake i = fake_ArgsForCall (fsvc_existsBucket fake) i"

definition FakeObjectStorageService_ExistsBucketReturns ::
  "bool \<times> go_error option \<Rightarrow> 'b FakeObjectStorageService \<Rightarrow> 'b FakeObjectStorageService" where
  "FakeObjectStorageService_ExistsBucketReturns result fake =
     fake\<lparr>fsvc_existsBucket := fake_Returns result (fsvc_existsBucket fake)\<rparr>"

definition FakeObjectStorageService_ExistsBucketReturnsOnCall ::
  "int \<Rightarrow> bool \<times> go_error option \<Rightarrow> 'b FakeObjectStorageService \<Rightarrow> 'b FakeObjectStorageService" where
  "FakeObjectStorageService_ExistsBucketReturnsOnCall i result fake =
     fake\<lparr>fsvc_existsBucket := fake_ReturnsOnCall i result (fsvc_existsBucket fake)\<rparr>"

definition FakeObjectStorageService_UpdateBucket ::
  "('b) \<Rightarrow> 'b FakeObjectStorageService \<Rightarrow> (go_error option) \<times> 'b FakeObjectStorageService" where
  "FakeObjectStorageService_UpdateBucket arg fake =
     (let (result, meth) = fake_call arg (fsvc_updateBucket fake) in
      (result, FakeObjectStorageService_recordInvocation ''UpdateBucket'' [arg] (fake\<lparr>fsvc_updateBucket := meth\<rparr>)))"

definition FakeObjectStorageService_UpdateBucketCallCount :: "'b FakeObjectStorageService \<Rightarrow> nat" where
  "FakeObjectStorageService_UpdateBucketCallCount fake = fake_CallCount (fsvc_updateBucket fake)"

definition FakeObjectStorageService_UpdateBucketCalls ::
  "(('b) \<Rightarrow> go_error option) option \<Rightarrow> 'b FakeObjectStorageService \<Rightarrow> 'b FakeObjectStorageService" where
  "FakeObjectStorageService_UpdateBucketCalls stub fake =
     fake\<lparr>fsvc_updateBucket := fake_Calls stub (fsvc_updateBucket fake)\<rparr>"

definition FakeObjectStorageService_UpdateBucketArgsForCall ::
  "'b FakeObjectStorageService \<Rightarrow> int \<Rightarrow> ('b) outcome" where
  "FakeObjectStorageService_UpdateBucketArgsForCall fake i = fake_ArgsForCall (fsvc_updateBucket fake) i"

definition FakeObjectStorageService_UpdateBucketReturns ::
  "go_error option \<Rightarrow> 'b FakeObjectStorageService \<Rightarrow> 'b FakeObjectStorageService" where
  "FakeObjectStorageService_UpdateBucketReturns result fake =
     fake\<lparr>fsvc_updateBucket := fake_Returns result (fsvc_updateBucket fake)\<rparr>"

definition FakeObjectStorageService_UpdateBucketReturnsOnCall ::
  "int \<Rightarrow> go_error option \<Rightarrow> 'b FakeObjectStorageService \<Rightarrow> 'b FakeObjectStorageService" where
  "FakeObjectStorageService_UpdateBucketReturnsOnCall i result fake =
     fake\<lparr>fsvc_updateBucket := fake_ReturnsOnCall i result (fsvc_updateBucket fake)\<rparr>"

section \<open>\<^verbatim>\<open>FakeObjectStorageServiceFactory\<close>\<close>

record ('a, 's, 'k) FakeObjectStorageServiceFactory =
  ffac_newAccessRoleService :: "(Cluster, 'a option \<times> go_error option) fake_method"
  ffac_newObjectStorageService :: "(Cluster \<times> 'k, 's option \<times> go_error option) fake_method"
  ffac_invocations :: "('k factory_arg) invocations"

definition FakeObjectStorageServiceFactory_recordInvocation ::
  "string \<Rightarrow> 'k factory_arg list \<Rightarrow> ('a, 's, 'k) FakeObjectStorageServiceFactory \<Rightarrow> ('a, 's, 'k) FakeObjectStorageServiceFactory" where
  "FakeObjectStorageServiceFactory_recordInvocation key args fake =
     fake\<lparr>ffac_invocations := record_invocation key args (ffac_invocations fake)\<rparr>"

definition FakeObjectStorageServiceFactory_Invocations ::
  "('a, 's, 'k) FakeObjectStorageServiceFactory \<Rightarrow> string \<Rightarrow> 'k factory_arg list list option" where
  "FakeObjectStorageServiceFactory_Invocations fake = copied_invocations (ffac_invocations fake)"

definition FakeObjectStorageServiceFactory_NewAccessRoleService ::
  "(Cluster) \<Rightarrow> ('a, 's, 'k) FakeObjectStorageServiceFactory \<Rightarrow> ('a option \<times> go_error option) \<times> ('a, 's, 'k) FakeObjectStorageServiceFactory" where
  "FakeObjectStorageServiceFactory_NewAccessRoleService arg fake =
     (let (result, meth) = fake_call arg (ffac_newAccessRoleService fake) in
      (result, FakeObjectStorageServiceFactory_recordInvocation ''NewAccessRoleService'' [ClusterArg arg] (fake\<lparr>ffac_newAccessRoleService := meth\<rparr>)))"

definition FakeObjectStorageServiceFactory_NewAccessRoleServiceCallCount ::
  "('a, 's, 'k) FakeObjectStorageServiceFactory \<Rightarrow> nat" where
  "FakeObjectStorageServiceFactory_NewAccessRoleServiceCallCount fake = fake_CallCount (ffac_newAccessRoleService fake)"

definition FakeObjectStorageServiceFactory_NewAccessRoleServiceCalls ::
  "((Cluster) \<Rightarrow> 'a option \<times> go_error option) option \<Rightarrow> ('a, 's, 'k) FakeObjectStorageServiceFactory \<Rightarrow> ('a, 's, 'k) FakeObjectStorageServiceFactory" where
  "FakeObjectStorageServiceFactory_NewAccessRoleServiceCalls stub fake =
     fake\<lparr>ffac_newAccessRoleService := fake_Calls stub (ffac_newAccessRoleService fake)\<rparr>"

definition FakeObjectStorageServiceFactory_NewAccessRoleServiceArgsForCall ::
  "('a, 's, 'k) FakeObjectStorageServiceFactory \<Rightarrow> int \<Rightarrow> (Cluster) outcome" where
  "FakeObjectStorageServiceFactory_NewAccessRoleServiceArgsForCall fake i = fake_ArgsForCall (ffac_newAccessRoleService fake) i"

definition FakeObjectStorageServiceFactory_NewAccessRoleServiceReturns ::
  "'a option \<times> go_error option \<Rightarrow> ('a, 's, 'k) FakeObjectStorageServiceFactory \<Rightarrow> ('a, 's, 'k) FakeObjectStorageServiceFactory" where
  "FakeObjectStorageServiceFactory_NewAccessRoleServiceReturns result fake =
     fake\<lparr>ffac_newAccessRoleService := fake_Returns result (ffac_newAccessRoleService fake)\<rparr>"

definition FakeObjectStorageServiceFactory_NewAccessRoleServiceReturnsOnCall ::
  "int \<Rightarrow> 'a option \<times> go_error option \<Rightarrow> ('a, 's, 'k) FakeObjectStorageServiceFactory \<Rightarrow> ('a, 's, 'k) FakeObjectStorageServiceFactory" where
  "FakeObjectStorageServiceFactory_NewAccessRoleServiceReturnsOnCall i result fake =
     fake\<lparr>ffac_newAccessRoleService := fake_ReturnsOnCall i result (ffac_newAccessRoleService fake)\<rparr>"

definition FakeObjectStorageServiceFactory_NewObjectStorageService ::
  "(Cluster \<times> 'k) \<Rightarrow> ('a, 's, 'k) FakeObjectStorageServiceFactory \<Rightarrow> ('s option \<times> go_error option) \<times> ('a, 's, 'k) FakeObjectStorageServiceFactory" where
  "FakeObjectStorageServiceFactory_NewObjectStorageService arg fake =
     (let (result, meth) = fake_call arg (ffac_newObjectStorageService fake) in
      (result, FakeObjectStorageServiceFactory_recordInvocation ''NewObjectStorageService'' [ClusterArg (fst arg), ClientArg (snd arg)] (fake\<lparr>ffac_newObjectStorageService := meth\<rparr>)))"

definition FakeObjectStorageServiceFactory_NewObjectStorageServiceCallCount ::
  "('a, 's, 'k) FakeObjectStorageServiceFactory \<Rightarrow> nat" where
  "FakeObjectStorageServiceFactory_NewObjectStorageServiceCallCount fake = fake_CallCount (ffac_newObjectStorageService fake)"

definition FakeObjectStorageServiceFactory_NewObjectStorageServiceCalls ::
  "((Cluster \<times> 'k) \<Rightarrow> 's option \<times> go_error option) option \<Rightarrow> ('a, 's, 'k) FakeObjectStorageServiceFactory \<Rightarrow> ('a, 's, 'k) FakeObjectStorageServiceFactory" where
  "FakeObjectStorageServiceFactory_NewObjectStorageServiceCalls stub fake =
     fake\<lparr>ffac_newObjectStorageService := fake_Calls stub (ffac_newObjectStorageService fake)\<rparr>"

definition FakeObjectStorageServiceFactory_NewObjectStorageServiceArgsForCall ::
  "('a, 's, 'k) FakeObjectStorageServiceFactory \<Rightarrow> int \<Rightarrow> (Cluster \<times> 'k) outcome" where
  "FakeObjectStorageServiceFactory_NewObjectStorageServiceArgsForCall fake i = fake_ArgsForCall (ffac_newObjectStorageService fake) i"

definition FakeObjectStorageServiceFactory_NewObjectStorageServiceReturns ::
  "'s option \<times> go_error option \<Rightarrow> ('a, 's, 'k) FakeObjectStorageServiceFactory \<Rightarrow> ('a, 's, 'k) FakeObjectStorageServiceFactory" where
  "FakeObjectStorageServiceFactory_NewObjectStorageServiceReturns result fake =
     fake\<lparr>ffac_newObjectStorageService := fake_Returns result (ffac_newObjectStorageService fake)\<rparr>"

definition FakeObjectStorageServiceFactory_NewObjectStorageServiceReturnsOnCall ::
  "int \<Rightarrow> 's option \<times> go_error option \<Rightarrow> ('a, 's, 'k) FakeObjectStorageServiceFactory \<Rightarrow> ('a, 's, 'k) FakeObjectStorageServiceFactory" where
  "FakeObjectStorageServiceFactory_NewObjectStorageServiceReturnsOnCall i result fake =
     fake\<lparr>ffac_newObjectStorageService := fake_ReturnsOnCall i result (ffac_newObjectStorageService fake)\<rparr>"

section \<open>\<^verbatim>\<open>FakeClusterGetter\<close>\<close>

record FakeClusterGetter =
  fget_getCluster :: "(unit, Cluster option \<times> go_error option) fake_method"
  fget_invocations :: "(unit) invocations"

definition FakeClusterGetter_recordInvocation ::
  "string \<Rightarrow> unit list \<Rightarrow> FakeClusterGetter \<Rightarrow> FakeClusterGetter" where
  "FakeClusterGetter_recordInvocation key args fake =
     fake\<lparr>fget_invocations := record_invocation key args (fget_invocations fake)\<rparr>"

definition FakeClusterGetter_Invocations ::
  "FakeClusterGetter \<Rightarrow> string \<Rightarrow> unit list list option" where
  "FakeClusterGetter_Invocations fake = copied_invocations (fget_invocations fake)"

definition FakeClusterGetter_GetCluster ::
  "(unit) \<Rightarrow> FakeClusterGetter \<Rightarrow> (Cluster option \<times> go_error option) \<times> FakeClusterGetter" where
  "FakeClusterGetter_GetCluster arg fake =
     (let (result, meth) = fake_call arg (fget_getCluster fake) in
      (result, FakeClusterGetter_recordInvocation ''GetCluster'' [] (fake\<lparr>fget_getCluster := meth\<rparr>)))"

definition FakeClusterGetter_GetClusterCallCount :: "FakeClusterGetter \<Rightarrow> nat" where
  "FakeClusterGetter_GetClusterCallCount fake = fake_CallCount (fget_getCluster fake)"

definition FakeClusterGetter_GetClusterCalls ::
  "((unit) \<Rightarrow> Cluster option \<times> go_error option) option \<Rightarrow> FakeClusterGetter \<Rightarrow> FakeClusterGetter" where
  "FakeClusterGetter_GetClusterCalls stub fake =
     fake\<lparr>fget_getCluster := fake_Calls stub (fget_getCluster fake)\<rparr>"

definition FakeClusterGetter_GetClusterArgsForCall ::
  "FakeClusterGetter \<Rightarrow> int \<Rightarrow> (unit) outcome" where
  "FakeClusterGetter_GetClusterArgsForCall fake i = fake_ArgsForCall (fget_getCluster fake) i"

definition FakeClusterGetter_GetClusterReturns ::
  "Cluster option \<times> go_error option \<Rightarrow> FakeClusterGetter \<Rightarrow> FakeClusterGetter" where
  "FakeClusterGetter_GetClusterReturns result fake =
     fake\<lparr>fget_getCluster := fake_Returns result (fget_getCluster fake)\<rparr>"

definition FakeClusterGetter_GetClusterReturnsOnCall ::
  "int \<Rightarrow> Cluster option \<times> go_error option \<Rightarrow> FakeClusterGetter \<Rightarrow> FakeClusterGetter" where
  "FakeClusterGetter_GetClusterReturnsOnCall i result fake =
     fake\<lparr>fget_getCluster := fake_ReturnsOnCall i result (fget_getCluster fake)\<rparr>"

section \<open>What a fake promises\<close>

text \<open>
  The contract of a method of a fake, over the state \<open>'f\<close> of the whole fake: a call is one of \<open>fake_call\<close> on its own
  part of the state, and the other operations look at or change that part.
\<close>

locale counterfeiter_method =
  fixes call :: "'a \<Rightarrow> 'f \<Rightarrow> 'r \<times> 'f" and count :: "'f \<Rightarrow> nat" and args :: "'f \<Rightarrow> int \<Rightarrow> 'a outcome"
    and set_returns :: "'r \<Rightarrow> 'f \<Rightarrow> 'f" and set_returns_on_call :: "int \<Rightarrow> 'r \<Rightarrow> 'f \<Rightarrow> 'f"
    and meth :: "'f \<Rightarrow> ('a, 'r) fake_method"
  assumes call_result: "fst (call a f) = fst (fake_call a (meth f))"
    and call_method: "meth (snd (call a f)) = snd (fake_call a (meth f))"
    and count_method: "count f = fake_CallCount (meth f)"
    and args_method: "args f i = fake_ArgsForCall (meth f) i"
    and returns_method: "meth (set_returns r f) = fake_Returns r (meth f)"
    and returns_on_call_method: "meth (set_returns_on_call i r f) = fake_ReturnsOnCall i r (meth f)"
begin

lemma count_call: "count (snd (call a f)) = Suc (count f)"
  by (simp add: count_method call_method fake_call_def fake_CallCount_def)

text \<open>A sequence of calls: their results, and the fake afterwards.\<close>

primrec calls :: "'a list \<Rightarrow> 'f \<Rightarrow> 'r list \<times> 'f" where
  "calls [] f = ([], f)"
| "calls (a # as) f = (case call a f of (r, f1) \<Rightarrow> case calls as f1 of (rs, f2) \<Rightarrow> (r # rs, f2))"

lemma calls_method: "meth (snd (calls as f)) = (meth f)\<lparr>fm_ArgsForCall := fm_ArgsForCall (meth f) @ as\<rparr>"
proof (induction as arbitrary: f)
  case (Cons a as)
  from Cons.IH[of "snd (call a f)"] show ?case
    by (simp add: case_prod_beta call_method fake_call_def Let_def)
qed simp

lemma calls_count: "count (snd (calls as f)) = count f + length as"
  by (simp add: count_method calls_method fake_CallCount_def)

lemma calls_args: "i < length as \<Longrightarrow> args (snd (calls as f)) (int (count f + i)) = Val (as ! i)"
  by (simp add: args_method calls_method count_method fake_ArgsForCall_def fake_CallCount_def nth_append nat_int_add)

lemma calls_results:
  "fst (calls as f) = map (\<lambda>(i, a). case fm_Stub (meth f) of
       Some stub \<Rightarrow> stub a
     | None \<Rightarrow> (case specific_return (meth f) (int (count f + i)) of Some r \<Rightarrow> r | None \<Rightarrow> fm_Returns (meth f)))
     (enumerate 0 as)"
proof -
  have "fst (calls as g) = map (\<lambda>(i, a). case fm_Stub (meth f) of
       Some stub \<Rightarrow> stub a
     | None \<Rightarrow> (case specific_return (meth f) (int (count f + i)) of Some r \<Rightarrow> r | None \<Rightarrow> fm_Returns (meth f)))
     (enumerate k as)"
    if "meth g = (meth f)\<lparr>fm_ArgsForCall := fm_ArgsForCall (meth f) @ ds\<rparr>" "k = length ds" for as g ds k
    using that
  proof (induction as arbitrary: g ds k)
    case (Cons a as)
    have "meth (snd (call a g)) = (meth f)\<lparr>fm_ArgsForCall := fm_ArgsForCall (meth f) @ (ds @ [a])\<rparr>"
      using Cons.prems by (simp add: call_method fake_call_def Let_def)
    from Cons.IH[OF this, of "Suc k"] Cons.prems show ?case
      by (simp add: case_prod_beta call_result fake_call_def Let_def specific_return_def count_method fake_CallCount_def
          split: option.split)
  qed simp
  from this[of f "[]" 0] show ?thesis by simp
qed

end

text \<open>Every method of every fake keeps it.\<close>

interpretation configureRole_fake: counterfeiter_method FakeAccessRoleService_ConfigureRole FakeAccessRoleService_ConfigureRoleCallCount FakeAccessRoleService_ConfigureRoleArgsForCall FakeAccessRoleService_ConfigureRoleReturns
    FakeAccessRoleService_ConfigureRoleReturnsOnCall frole_configureRole
  by unfold_locales (simp_all add: FakeAccessRoleService_ConfigureRole_def FakeAccessRoleService_recordInvocation_def FakeAccessRoleService_ConfigureRoleCallCount_def
    FakeAccessRoleService_ConfigureRoleArgsForCall_def FakeAccessRoleService_ConfigureRoleReturns_def FakeAccessRoleService_ConfigureRoleReturnsOnCall_def case_prod_beta)

interpretation deleteRole_fake: counterfeiter_method FakeAccessRoleService_DeleteRole FakeAccessRoleService_DeleteRoleCallCount FakeAccessRoleService_DeleteRoleArgsForCall FakeAccessRoleService_DeleteRoleReturns
    FakeAccessRoleService_DeleteRoleReturnsOnCall frole_deleteRole
  by unfold_locales (simp_all add: FakeAccessRoleService_DeleteRole_def FakeAccessRoleService_recordInvocation_def FakeAccessRoleService_DeleteRoleCallCount_def
    FakeAccessRoleService_DeleteRoleArgsForCall_def FakeAccessRoleService_DeleteRoleReturns_def FakeAccessRoleService_DeleteRoleReturnsOnCall_def case_prod_beta)

interpretation configureBucket_fake: counterfeiter_method FakeObjectStorageService_ConfigureBucket FakeObjectStorageService_ConfigureBucketCallCount FakeObjectStorageService_ConfigureBucketArgsForCall FakeObjectStorageService_ConfigureBucketReturns
    FakeObjectStorageService_ConfigureBucketReturnsOnCall fsvc_configureBucket
  by unfold_locales (simp_all add: FakeObjectStorageService_ConfigureBucket_def FakeObjectStorageService_recordInvocation_def FakeObjectStorageService_ConfigureBucketCallCount_def
    FakeObjectStorageService_ConfigureBucketArgsForCall_def FakeObjectStorageService_ConfigureBucketReturns_def FakeObjectStorageService_ConfigureBucketReturnsOnCall_def case_prod_beta)

interpretation createBucket_fake: counterfeiter_method FakeObjectStorageService_CreateBucket FakeObjectStorageService_CreateBucketCallCount FakeObjectStorageService_CreateBucketArgsForCall FakeObjectStorageService_CreateBucketReturns
    FakeObjectStorageService_CreateBucketReturnsOnCall fsvc_createBucket
  by unfold_locales (simp_all add: FakeObjectStorageService_CreateBucket_def FakeObjectStorageService_recordInvocation_def FakeObjectStorageService_CreateBucketCallCount_def
    FakeObjectStorageService_CreateBucketArgsForCall_def FakeObjectStorageService_CreateBucketReturns_def FakeObjectStorageService_CreateBucketReturnsOnCall_def case_prod_beta)

interpretation deleteBucket_fake: counterfeiter_method FakeObjectStorageService_DeleteBucket FakeObjectStorageService_DeleteBucketCallCount FakeObjectStorageService_DeleteBucketArgsForCall FakeObjectStorageService_DeleteBucketReturns
    FakeObjectStorageService_DeleteBucketReturnsOnCall fsvc_deleteBucket
  by unfold_locales (simp_all add: FakeObjectStorageService_DeleteBucket_def FakeObjectStorageService_recordInvocation_def FakeObjectStorageService_DeleteBucketCallCount_def
    FakeObjectStorageService_DeleteBucketArgsForCall_def FakeObjectStorageService_DeleteBucketReturns_def FakeObjectStorageService_DeleteBucketReturnsOnCall_def case_prod_beta)

interpretation existsBucket_fake: counterfeiter_method FakeObjectStorageService_ExistsBucket FakeObjectStorageService_ExistsBucketCallCount FakeObjectStorageService_ExistsBucketArgsForCall FakeObjectStorageService_ExistsBucketReturns
    FakeObjectStorageService_ExistsBucketReturnsOnCall fsvc_existsBucket
  by unfold_locales (simp_all add: FakeObjectStorageService_ExistsBucket_def FakeObjectStorageService_recordInvocation_def FakeObjectStorageService_ExistsBucketCallCount_def
    FakeObjectStorageService_ExistsBucketArgsForCall_def FakeObjectStorageService_ExistsBucketReturns_def FakeObjectStorageService_ExistsBucketReturnsOnCall_def case_prod_beta)

interpretation updateBucket_fake: counterfeiter_method FakeObjectStorageService_UpdateBucket FakeObjectStorageService_UpdateBucketCallCount FakeObjectStorageService_UpdateBucketArgsForCall FakeObjectStorageService_UpdateBucketReturns
    FakeObjectStorageService_UpdateBucketReturnsOnCall fsvc_updateBucket
  by unfold_locales (simp_all add: FakeObjectStorageService_UpdateBucket_def FakeObjectStorageService_recordInvocation_def FakeObjectStorageService_UpdateBucketCallCount_def
    FakeObjectStorageService_UpdateBucketArgsForCall_def FakeObjectStorageService_UpdateBucketReturns_def FakeObjectStorageService_UpdateBucketReturnsOnCall_def case_prod_beta)

interpretation newAccessRoleService_fake: counterfeiter_method FakeObjectStorageServiceFactory_NewAccessRoleService FakeObjectStorageServiceFactory_NewAccessRoleServiceCallCount FakeObjectStorageServiceFactory_NewAccessRoleServiceArgsForCall FakeObjectStorageServiceFactory_NewAccessRoleServiceReturns
    FakeObjectStorageServiceFactory_NewAccessRoleServiceReturnsOnCall ffac_newAccessRoleService
  by unfold_locales (simp_all add: FakeObjectStorageServiceFactory_NewAccessRoleService_def FakeObjectStorageServiceFactory_recordInvocation_def FakeObjectStorageServiceFactory_NewAccessRoleServiceCallCount_def
    FakeObjectStorageServiceFactory_NewAccessRoleServiceArgsForCall_def FakeObjectStorageServiceFactory_NewAccessRoleServiceReturns_def FakeObjectStorageServiceFactory_NewAccessRoleServiceReturnsOnCall_def case_prod_beta)

interpretation newObjectStorageService_fake: counterfeiter_method FakeObjectStorageServiceFactory_NewObjectStorageService FakeObjectStorageServiceFactory_NewObjectStorageServiceCallCount FakeObjectStorageServiceFactory_NewObjectStorageServiceArgsForCall FakeObjectStorageServiceFactory_NewObjectStorageServiceReturns
    FakeObjectStorageServiceFactory_NewObjectStorageServiceReturnsOnCall ffac_newObjectStorageService
  by unfold_locales (simp_all add: FakeObjectStorageServiceFactory_NewObjectStorageService_def FakeObjectStorageServiceFactory_recordInvocation_def FakeObjectStorageServiceFactory_NewObjectStorageServiceCallCount_def
    FakeObjectStorageServiceFactory_NewObjectStorageServiceArgsForCall_def FakeObjectStorageServiceFactory_NewObjectStorageServiceReturns_def FakeObjectStorageServiceFactory_NewObjectStorageServiceReturnsOnCall_def case_prod_beta)

interpretation getCluster_fake: counterfeiter_method FakeClusterGetter_GetCluster FakeClusterGetter_GetClusterCallCount FakeClusterGetter_GetClusterArgsForCall FakeClusterGetter_GetClusterReturns
    FakeClusterGetter_GetClusterReturnsOnCall fget_getCluster
  by unfold_locales (simp_all add: FakeClusterGetter_GetCluster_def FakeClusterGetter_recordInvocation_def FakeClusterGetter_GetClusterCallCount_def
    FakeClusterGetter_GetClusterArgsForCall_def FakeClusterGetter_GetClusterReturns_def FakeClusterGetter_GetClusterReturnsOnCall_def case_prod_beta)


end
