(* ===== verification/Properties_Tests.thy ===== *)
theory Properties_Tests
  imports Test_Doubles Reference_Operator
begin

text \<open>
  The reconciler in the test doubles. The test suite (\<^verbatim>\<open>bucket_controller_test.go\<close>) runs it in fakes that are set up with a few
  results and checks how often their methods were called; here the counts are shown for all fakes, whatever
  they are set up to return.
\<close>

section \<open>Fakes as services\<close>

text \<open>The state of the two fakes takes the place of the cloud.\<close>

record doubles =
  dbl_service :: "Bucket FakeObjectStorageService"
  dbl_role :: "Bucket FakeAccessRoleService"

definition as_error :: "go_error option \<Rightarrow> go_error + unit" where
  "as_error r = (case r of None \<Rightarrow> Inr () | Some e \<Rightarrow> Inl e)"

definition on_service ::
  "('r \<Rightarrow> 'x) \<Rightarrow> (Bucket FakeObjectStorageService \<Rightarrow> 'r \<times> Bucket FakeObjectStorageService) \<Rightarrow> (('k, doubles) world, 'x) prog" where
  "on_service conv f = (\<lambda>w. case f (dbl_service (cloud w)) of (r, s) \<Rightarrow>
     Some (Val (conv r), w\<lparr>cloud := (cloud w)\<lparr>dbl_service := s\<rparr>\<rparr>))"

definition on_role ::
  "('r \<Rightarrow> 'x) \<Rightarrow> (Bucket FakeAccessRoleService \<Rightarrow> 'r \<times> Bucket FakeAccessRoleService) \<Rightarrow> (('k, doubles) world, 'x) prog" where
  "on_role conv f = (\<lambda>w. case f (dbl_role (cloud w)) of (r, s) \<Rightarrow>
     Some (Val (conv r), w\<lparr>cloud := (cloud w)\<lparr>dbl_role := s\<rparr>\<rparr>))"

definition fake_service :: "('k, doubles) world ObjectStorageService" where
  "fake_service =
     \<lparr>ConfigureBucket = (\<lambda>b. on_service as_error (FakeObjectStorageService_ConfigureBucket b)),
      CreateBucket = (\<lambda>b. on_service as_error (FakeObjectStorageService_CreateBucket b)),
      UpdateBucket = (\<lambda>b. on_service as_error (FakeObjectStorageService_UpdateBucket b)),
      DeleteBucket = (\<lambda>b. on_service as_error (FakeObjectStorageService_DeleteBucket b)),
      ExistsBucket = (\<lambda>b. on_service (\<lambda>r. r) (FakeObjectStorageService_ExistsBucket b))\<rparr>"

definition fake_role :: "('k, doubles) world AccessRoleService" where
  "fake_role =
     \<lparr>ConfigureRole = (\<lambda>b. on_role as_error (FakeAccessRoleService_ConfigureRole b)),
      DeleteRole = (\<lambda>b. on_role as_error (FakeAccessRoleService_DeleteRole b))\<rparr>"

section \<open>Counts\<close>

text \<open>How often each method of the two fakes was called: the five methods of the service and the two of the role.\<close>

definition service_counts :: "Bucket FakeObjectStorageService \<Rightarrow> nat list" where
  "service_counts f =
     [FakeObjectStorageService_ExistsBucketCallCount f, FakeObjectStorageService_CreateBucketCallCount f,
      FakeObjectStorageService_UpdateBucketCallCount f, FakeObjectStorageService_ConfigureBucketCallCount f,
      FakeObjectStorageService_DeleteBucketCallCount f]"

definition role_counts :: "Bucket FakeAccessRoleService \<Rightarrow> nat list" where
  "role_counts f = [FakeAccessRoleService_ConfigureRoleCallCount f, FakeAccessRoleService_DeleteRoleCallCount f]"

definition add_counts :: "nat list \<Rightarrow> nat list \<Rightarrow> nat list" where
  "add_counts xs ys = map2 (+) xs ys"

lemmas fake_call_defs = fake_call_def Let_def case_prod_beta fake_CallCount_def
  FakeObjectStorageService_recordInvocation_def FakeAccessRoleService_recordInvocation_def

lemma service_counts_call:
  "service_counts (snd (FakeObjectStorageService_ExistsBucket b f)) = add_counts (service_counts f) [1, 0, 0, 0, 0]"
  "service_counts (snd (FakeObjectStorageService_CreateBucket b f)) = add_counts (service_counts f) [0, 1, 0, 0, 0]"
  "service_counts (snd (FakeObjectStorageService_UpdateBucket b f)) = add_counts (service_counts f) [0, 0, 1, 0, 0]"
  "service_counts (snd (FakeObjectStorageService_ConfigureBucket b f)) = add_counts (service_counts f) [0, 0, 0, 1, 0]"
  "service_counts (snd (FakeObjectStorageService_DeleteBucket b f)) = add_counts (service_counts f) [0, 0, 0, 0, 1]"
  by (simp_all add: service_counts_def add_counts_def fake_call_defs FakeObjectStorageService_ExistsBucket_def
      FakeObjectStorageService_CreateBucket_def FakeObjectStorageService_UpdateBucket_def
      FakeObjectStorageService_ConfigureBucket_def FakeObjectStorageService_DeleteBucket_def
      FakeObjectStorageService_ExistsBucketCallCount_def FakeObjectStorageService_CreateBucketCallCount_def
      FakeObjectStorageService_UpdateBucketCallCount_def FakeObjectStorageService_ConfigureBucketCallCount_def
      FakeObjectStorageService_DeleteBucketCallCount_def)

lemma role_counts_call:
  "role_counts (snd (FakeAccessRoleService_ConfigureRole b f)) = add_counts (role_counts f) [1, 0]"
  "role_counts (snd (FakeAccessRoleService_DeleteRole b f)) = add_counts (role_counts f) [0, 1]"
  by (simp_all add: role_counts_def add_counts_def fake_call_defs FakeAccessRoleService_ConfigureRole_def
      FakeAccessRoleService_DeleteRole_def FakeAccessRoleService_ConfigureRoleCallCount_def
      FakeAccessRoleService_DeleteRoleCallCount_def)

lemma add_counts_zero [simp]:
  "add_counts (service_counts f) [0, 0, 0, 0, 0] = service_counts f" "add_counts (role_counts g) [0, 0] = role_counts g"
  by (simp_all add: add_counts_def service_counts_def role_counts_def)

lemma add_counts_twice:
  "add_counts (add_counts (service_counts f) [a, b, c, d, e]) [a', b', c', d', e'] =
     add_counts (service_counts f) [a + a', b + b', c + c', d + d', e + e']"
  by (simp add: add_counts_def service_counts_def)

text \<open>A call of a fake as a step of a program.\<close>

lemma on_fake_runs:
  "on_service conv f w = Some (Val (conv (fst (f (dbl_service (cloud w))))),
     w\<lparr>cloud := (cloud w)\<lparr>dbl_service := snd (f (dbl_service (cloud w)))\<rparr>\<rparr>)"
  "on_role conv' g w = Some (Val (conv' (fst (g (dbl_role (cloud w))))),
     w\<lparr>cloud := (cloud w)\<lparr>dbl_role := snd (g (dbl_role (cloud w)))\<rparr>\<rparr>)"
  by (simp_all add: on_service_def on_role_def case_prod_beta)

lemma fake_sel [simp]:
  "ExistsBucket fake_service b = on_service (\<lambda>r. r) (FakeObjectStorageService_ExistsBucket b)"
  "CreateBucket fake_service b = on_service as_error (FakeObjectStorageService_CreateBucket b)"
  "UpdateBucket fake_service b = on_service as_error (FakeObjectStorageService_UpdateBucket b)"
  "ConfigureBucket fake_service b = on_service as_error (FakeObjectStorageService_ConfigureBucket b)"
  "DeleteBucket fake_service b = on_service as_error (FakeObjectStorageService_DeleteBucket b)"
  "ConfigureRole fake_role b = on_role as_error (FakeAccessRoleService_ConfigureRole b)"
  "DeleteRole fake_role b = on_role as_error (FakeAccessRoleService_DeleteRole b)"
  by (simp_all add: fake_service_def fake_role_def)

text \<open>C40: Whatever the fakes are set up to return, \<^verbatim>\<open>reconcileDelete\<close> calls \<^verbatim>\<open>ExistsBucket\<close> once; it calls \<^verbatim>\<open>DeleteBucket\<close> once if the
  answer is that the bucket exists, without an error, and the policy is \<^verbatim>\<open>Delete\<close>, and not at all otherwise; it calls
  \<^verbatim>\<open>DeleteRole\<close> once if, on top of that, the bucket was deleted without an error and has a role; and it calls no other method.\<close>

theorem fakes_count_reconcileDelete:
  assumes "reconcileDelete r fake_service fake_role b w = Some (oc, w')"
    and "deletes \<longleftrightarrow> fst (FakeObjectStorageService_ExistsBucket b (dbl_service (cloud w))) = (True, None) \<and>
      ReclaimPolicy (Spec b) = ReclaimPolicyDelete"
    and "deleted \<longleftrightarrow> deletes \<and> fst (FakeObjectStorageService_DeleteBucket b
      (snd (FakeObjectStorageService_ExistsBucket b (dbl_service (cloud w))))) = None"
  shows "service_counts (dbl_service (cloud w')) =
      add_counts (service_counts (dbl_service (cloud w))) [1, 0, 0, 0, if deletes then 1 else 0] \<and>
    role_counts (dbl_role (cloud w')) =
      add_counts (role_counts (dbl_role (cloud w))) [0, if deleted \<and> has_access_role b then 1 else 0]"
proof -
  note runs = on_fake_runs service_counts_call role_counts_call add_counts_twice
  from assms(1) show ?thesis
  proof (cases rule: reconcileDelete_cases)
    case looked
    then have "\<not> deletes" "dbl_service (cloud w') = snd (FakeObjectStorageService_ExistsBucket b (dbl_service (cloud w)))"
      "dbl_role (cloud w') = dbl_role (cloud w)"
      using assms(2) by (auto simp: on_fake_runs)
    with assms(3) show ?thesis by (simp add: runs)
  next
    case (deleting w1)
    then have "deletes"
      "w1 = w\<lparr>cloud := (cloud w)\<lparr>dbl_service := snd (FakeObjectStorageService_ExistsBucket b (dbl_service (cloud w)))\<rparr>\<rparr>"
      using assms(2) by (auto simp: on_fake_runs)
    with assms(3) deleting(3) show ?thesis
      by (auto simp: attempt_run runs as_error_def onKube_def split: option.splits sum.splits prod.splits if_splits)
  qed
qed

text \<open>
  The test of a deletion: fakes fresh from \<^verbatim>\<open>new\<close>, of which \<^verbatim>\<open>ExistsBucket\<close> is set up to say that the bucket exists.
  The remaining zero values make every other method return nil.
\<close>

definition new_method :: "'r \<Rightarrow> ('a, 'r) fake_method" where
  "new_method zero = \<lparr>fm_Stub = None, fm_ArgsForCall = [], fm_Returns = zero, fm_ReturnsOnCall = None\<rparr>"

definition new_service :: "Bucket FakeObjectStorageService" where
  "new_service =
     \<lparr>fsvc_configureBucket = new_method None, fsvc_createBucket = new_method None, fsvc_deleteBucket = new_method None,
      fsvc_existsBucket = new_method (False, None), fsvc_updateBucket = new_method None, fsvc_invocations = None\<rparr>"

definition new_role :: "Bucket FakeAccessRoleService" where
  "new_role = \<lparr>frole_configureRole = new_method None, frole_deleteRole = new_method None, frole_invocations = None\<rparr>"

definition doubles_world :: "(kstore, doubles) world" where
  "doubles_world = \<lparr>kube = kube_with [the_bucket] aws_objects,
     cloud = \<lparr>dbl_service = FakeObjectStorageService_ExistsBucketReturns (True, None) new_service, dbl_role = new_role\<rparr>\<rparr>"

definition doubles_reconciler :: "(kstore, doubles) BucketReconciler" where
  "doubles_reconciler =
     \<lparr>rec_Client = ref_client, rec_lib = ref_lib, rec_ClusterGetter = AWS_GetCluster ref_client ref_lib the_mc,
      rec_Factory = \<lparr>NewObjectStorageService = (\<lambda>_. ret (Inr fake_service)), NewAccessRoleService = (\<lambda>_. ret (Inr fake_role))\<rparr>,
      rec_ManagementCluster = the_mc\<rparr>"

theorem fakes_count_reconcileDelete_witness:
  "\<exists>oc w'. reconcileDelete doubles_reconciler fake_service fake_role the_bucket doubles_world = Some (oc, w') \<and>
     service_counts (dbl_service (cloud w')) = [1, 0, 0, 0, 1] \<and> role_counts (dbl_role (cloud w')) = [0, 1]"
proof -
  have "\<not> Option.is_none (reconcileDelete doubles_reconciler fake_service fake_role the_bucket doubles_world)"
    by code_simp
  then obtain oc w' where
    run: "reconcileDelete doubles_reconciler fake_service fake_role the_bucket doubles_world = Some (oc, w')"
    by (auto simp: Option.is_none_def)
  have seen: "fst (FakeObjectStorageService_ExistsBucket the_bucket (dbl_service (cloud doubles_world))) = (True, None)"
    "Option.is_none (fst (FakeObjectStorageService_DeleteBucket the_bucket
       (snd (FakeObjectStorageService_ExistsBucket the_bucket (dbl_service (cloud doubles_world))))))"
    "ReclaimPolicy (Spec the_bucket) = ReclaimPolicyDelete" "has_access_role the_bucket"
    "service_counts (dbl_service (cloud doubles_world)) = [0, 0, 0, 0, 0]"
    "role_counts (dbl_role (cloud doubles_world)) = [0, 0]"
    by code_simp+
  from run fakes_count_reconcileDelete[OF run, of True True] seen show ?thesis
    by (simp add: Option.is_none_def add_counts_def)
qed

end
