(* ===== verification/Command_Line.thy ===== *)
theory Command_Line
  imports Prelude
begin

text \<open>
  What \<^verbatim>\<open>src/main.go\<close> uses of the package \<^verbatim>\<open>flag\<close> of the standard library: declaring variables on the command line
  of the process and parsing its arguments. The variables are the state \<open>'s\<close>; a flag knows how to set its
  variable from a text. The messages of errors go to the terminal and are left out.
\<close>

section \<open>Flags and their declaration\<close>

record 's go_flag =
  fl_Name :: string
  fl_IsBool :: bool
  fl_Set :: "string \<Rightarrow> 's \<Rightarrow> go_error + 's"

record 's command_line =
  cl_Formal :: "'s go_flag list"
  cl_Vars :: 's

definition flag_Lookup :: "'s go_flag list \<Rightarrow> string \<Rightarrow> 's go_flag option" where
  "flag_Lookup formal name = find (\<lambda>f. fl_Name f = name) formal"

text \<open>Declaring a flag panics if its name begins with a dash, has an equals sign in it or is taken.\<close>

definition flag_Var :: "'s go_flag \<Rightarrow> ('s command_line, unit) prog" where
  "flag_Var f = (\<lambda>cl.
     if take 1 (fl_Name f) = ''-'' \<or> CHR ''='' \<in> set (fl_Name f) \<or> flag_Lookup (cl_Formal cl) (fl_Name f) \<noteq> None
     then panic cl
     else ret () (cl\<lparr>cl_Formal := cl_Formal cl @ [f]\<rparr>))"

definition string_flag :: "(string \<Rightarrow> 's \<Rightarrow> 's) \<Rightarrow> string \<Rightarrow> 's go_flag" where
  "string_flag assign name = \<lparr>fl_Name = name, fl_IsBool = False, fl_Set = (\<lambda>v s. Inr (assign v s))\<rparr>"

text \<open>\<^verbatim>\<open>strconv.ParseBool\<close>.\<close>

definition ParseBool :: "string \<Rightarrow> bool option" where
  "ParseBool s =
     (if s \<in> {''1'', ''t'', ''T'', ''true'', ''TRUE'', ''True''} then Some True
      else if s \<in> {''0'', ''f'', ''F'', ''false'', ''FALSE'', ''False''} then Some False
      else None)"

definition bool_flag :: "(bool \<Rightarrow> 's \<Rightarrow> 's) \<Rightarrow> string \<Rightarrow> 's go_flag" where
  "bool_flag assign name =
     \<lparr>fl_Name = name, fl_IsBool = True,
      fl_Set = (\<lambda>v s. case ParseBool v of None \<Rightarrow> Inl (ErrorString ''parse error'') | Some b \<Rightarrow> Inr (assign b s))\<rparr>"

text \<open>Declaring a variable gives it its default.\<close>

definition flag_StringVar :: "(string \<Rightarrow> 's \<Rightarrow> 's) \<Rightarrow> string \<Rightarrow> string \<Rightarrow> ('s command_line, unit) prog" where
  "flag_StringVar assign name value =
     (\<lambda>cl. flag_Var (string_flag assign name) (cl\<lparr>cl_Vars := assign value (cl_Vars cl)\<rparr>))"

definition flag_BoolVar :: "(bool \<Rightarrow> 's \<Rightarrow> 's) \<Rightarrow> string \<Rightarrow> bool \<Rightarrow> ('s command_line, unit) prog" where
  "flag_BoolVar assign name value =
     (\<lambda>cl. flag_Var (bool_flag assign name) (cl\<lparr>cl_Vars := assign value (cl_Vars cl)\<rparr>))"

section \<open>Parsing\<close>

datatype flag_end = ErrHelp | ErrFlag

text \<open>A flag and the value it was given with \<^verbatim>\<open>=\<close>, which cannot be its first character.\<close>

definition cut_value :: "string \<Rightarrow> string \<times> string option" where
  "cut_value body =
     (let name = take 1 body @ takeWhile (\<lambda>c. c \<noteq> CHR ''='') (drop 1 body) in
      (name, case drop (length name) body of [] \<Rightarrow> None | _ # v \<Rightarrow> Some v))"

definition set_flag :: "'s go_flag \<Rightarrow> string \<Rightarrow> string list \<Rightarrow> 's \<Rightarrow> flag_end + bool \<times> string list \<times> 's" where
  "set_flag f value rest s = (case fl_Set f value s of Inl e \<Rightarrow> Inl ErrFlag | Inr s' \<Rightarrow> Inr (True, rest, s'))"

definition given_flag ::
  "'s go_flag list \<Rightarrow> string \<Rightarrow> string option \<Rightarrow> string list \<Rightarrow> 's \<Rightarrow> flag_end + bool \<times> string list \<times> 's" where
  "given_flag formal name value rest s =
     (case flag_Lookup formal name of
        None \<Rightarrow> Inl (if name = ''help'' \<or> name = ''h'' then ErrHelp else ErrFlag)
      | Some f \<Rightarrow>
        if fl_IsBool f then set_flag f (case value of None \<Rightarrow> ''true'' | Some v \<Rightarrow> v) rest s
        else (case value of
            Some v \<Rightarrow> set_flag f v rest s
          | None \<Rightarrow> (case rest of [] \<Rightarrow> Inl ErrFlag | v # rest' \<Rightarrow> set_flag f v rest' s)))"

definition parseOne :: "'s go_flag list \<Rightarrow> string list \<Rightarrow> 's \<Rightarrow> flag_end + bool \<times> string list \<times> 's" where
  "parseOne formal args s =
     (case args of
        [] \<Rightarrow> Inr (False, [], s)
      | arg # rest \<Rightarrow>
        if length arg < 2 \<or> hd arg \<noteq> CHR ''-'' then Inr (False, args, s)
        else if arg = ''--'' then Inr (False, rest, s)
        else (let body = drop (if arg ! 1 = CHR ''-'' then 2 else 1) arg in
          if body = [] \<or> hd body = CHR ''-'' \<or> hd body = CHR ''='' then Inl ErrFlag
          else (let (name, value) = cut_value body in given_flag formal name value rest s)))"

lemma set_flag_rest: "set_flag f v rest s = Inr (seen, rest', s') \<Longrightarrow> rest' = rest"
  by (auto simp: set_flag_def split: sum.splits)

lemma given_flag_rest: "given_flag formal name value rest s = Inr (seen, rest', s') \<Longrightarrow> length rest' \<le> length rest"
  by (auto simp: given_flag_def dest!: set_flag_rest split: option.splits if_splits list.splits)

lemma parseOne_shortens:
  assumes "parseOne formal args s = Inr (True, rest, s')"
  shows "length rest < length args"
proof (cases args)
  case Nil
  with assms show ?thesis by (simp add: parseOne_def)
next
  case (Cons arg rest0)
  let ?body = "drop (if arg ! 1 = CHR ''-'' then 2 else 1) arg"
  have "\<not> (length arg < 2 \<or> hd arg \<noteq> CHR ''-'')" "arg \<noteq> ''--''"
    "\<not> (?body = [] \<or> hd ?body = CHR ''-'' \<or> hd ?body = CHR ''='')"
    using assms unfolding parseOne_def Cons Let_def list.case by (metis Inl_Inr_False prod.inject sum.inject(2))+
  then have "given_flag formal (fst (cut_value ?body)) (snd (cut_value ?body)) rest0 s = Inr (True, rest, s')"
    using assms unfolding parseOne_def Cons Let_def list.case case_prod_beta by (simp only: if_False simp_thms)
  from given_flag_rest[OF this] Cons show ?thesis by simp
qed

text \<open>\<^verbatim>\<open>Parse\<close> takes flags until there is none, and leaves the other arguments.\<close>

function flag_Parse :: "'s go_flag list \<Rightarrow> string list \<Rightarrow> 's \<Rightarrow> flag_end + string list \<times> 's" where
  "flag_Parse formal args s =
     (case parseOne formal args s of
        Inl e \<Rightarrow> Inl e
      | Inr (seen, rest, s') \<Rightarrow> if seen then flag_Parse formal rest s' else Inr (rest, s'))"
  by pat_completeness auto
termination
  by (relation "measure (\<lambda>(formal, args, s). length args)") (auto dest: parseOne_shortens)

declare flag_Parse.simps [simp del]

section \<open>What an argument does\<close>

lemma cut_value_eq:
  assumes "name \<noteq> []" and "CHR ''='' \<notin> set name"
  shows "cut_value (name @ CHR ''='' # v) = (name, Some v)" "cut_value name = (name, None)"
proof -
  from assms obtain c cs where name: "name = c # cs" "\<forall>x \<in> set cs. x \<noteq> CHR ''=''" by (cases name) auto
  then have tw: "takeWhile (\<lambda>x. x \<noteq> CHR ''='') (cs @ CHR ''='' # v) = cs" "takeWhile (\<lambda>x. x \<noteq> CHR ''='') cs = cs"
    by (simp_all add: takeWhile_tail takeWhile_eq_all_conv)
  show "cut_value (name @ CHR ''='' # v) = (name, Some v)" "cut_value name = (name, None)"
    by (simp_all add: cut_value_def name(1) tw)
qed

text \<open>The two forms of an argument that the deployment uses: \<^verbatim>\<open>--name=value\<close>, and \<^verbatim>\<open>--name\<close> for a flag that is a bool.\<close>

definition option_arg :: "string \<Rightarrow> string \<Rightarrow> string" where
  "option_arg name v = ''--'' @ name @ ''='' @ v"

definition switch_arg :: "string \<Rightarrow> string" where
  "switch_arg name = ''--'' @ name"

definition flag_name :: "string \<Rightarrow> bool" where
  "flag_name name \<longleftrightarrow> name \<noteq> [] \<and> hd name \<noteq> CHR ''-'' \<and> CHR ''='' \<notin> set name"

lemma flag_Parse_option:
  assumes "flag_name name" and "flag_Lookup formal name = Some f" and "fl_Set f v s = Inr s'"
  shows "flag_Parse formal (option_arg name v # args) s = flag_Parse formal args s'"
proof -
  from assms(1) obtain c cs where name: "name = c # cs" "c \<noteq> CHR ''-''" "c \<noteq> CHR ''=''"
    by (cases name) (auto simp: flag_name_def)
  then have "cut_value (c # cs @ CHR ''='' # v) = (name, Some v)"
    using assms(1) cut_value_eq(1)[of name v] by (simp add: flag_name_def)
  with name assms(2,3) have "parseOne formal (option_arg name v # args) s = Inr (True, args, s')"
    by (simp add: parseOne_def option_arg_def given_flag_def set_flag_def)
  then show ?thesis by (subst flag_Parse.simps) simp
qed

lemma flag_Parse_switch:
  assumes "flag_name name" and "flag_Lookup formal name = Some f" and "fl_IsBool f" and "fl_Set f ''true'' s = Inr s'"
  shows "flag_Parse formal (switch_arg name # args) s = flag_Parse formal args s'"
proof -
  from assms(1) obtain c cs where name: "name = c # cs" "c \<noteq> CHR ''-''" "c \<noteq> CHR ''=''"
    by (cases name) (auto simp: flag_name_def)
  then have "cut_value (c # cs) = (name, None)"
    using assms(1) cut_value_eq(2)[of name] by (simp add: flag_name_def)
  with name assms(2-4) have "parseOne formal (switch_arg name # args) s = Inr (True, args, s')"
    by (simp add: parseOne_def switch_arg_def given_flag_def set_flag_def)
  then show ?thesis by (subst flag_Parse.simps) simp
qed

lemma flag_Parse_Nil: "flag_Parse formal [] s = Inr ([], s)"
  by (subst flag_Parse.simps) (simp add: parseOne_def)

end
