(* ===== verification/Main_Program.thy ===== *)
theory Main_Program
  imports Operator_Main Command_Line
begin

text \<open>
  The program \<^verbatim>\<open>src/main.go\<close>: registration of the types, flags, manager, provider switch, controller, health checks,
  start, and the exits. The libraries are parameters: the flags they declare, the scheme they build, and the
  controller runtime, whose manager is an abstract value \<open>'m\<close> in the world \<open>'w\<close> of the process. Contexts,
  signal handling and log output are not modelled. The result of the program is its exit status.
\<close>

section \<open>The types of the API\<close>

record GroupVersion =
  gv_Group :: string
  gv_Version :: string

definition API_GroupVersion :: GroupVersion where
  "API_GroupVersion = \<lparr>gv_Group = ''objectstorage.giantswarm.io'', gv_Version = ''v1alpha1''\<rparr>"

text \<open>The types registered by the \<^verbatim>\<open>init\<close> function of \<^verbatim>\<open>bucket_types.go\<close>.\<close>

datatype api_type = BucketType | BucketListType

definition registered_types :: "api_type list" where
  "registered_types = [BucketType, BucketListType]"

section \<open>The libraries\<close>

record ('sc, 'sel) manager_Options =
  opt_Scheme :: 'sc
  opt_MetricsBindAddress :: string
  opt_HealthProbeBindAddress :: string
  opt_LeaderElection :: bool
  opt_LeaderElectionID :: string
  opt_SecretLabel :: 'sel

text \<open>
  \<open>'o\<close> are the variables behind the flags of the libraries: those declared when the packages are imported, and
  those of \<^verbatim>\<open>zap\<close>. \<open>ml_Complete\<close> is \<^verbatim>\<open>NewControllerManagedBy(mgr).For(type).Complete(r)\<close>.
\<close>

record ('w, 'k, 'c, 'o, 'sc, 'sel, 'cfg, 'm) main_lib =
  ml_NewScheme :: 'sc
  ml_clientgo_AddToScheme :: "('sc, unit) api"
  ml_Builder_AddToScheme :: "GroupVersion \<Rightarrow> api_type list \<Rightarrow> ('sc, unit) api"
  ml_imported_flags :: "'o go_flag list"
  ml_zap_flags :: "'o go_flag list"
  ml_options :: 'o
  ml_labels_Parse :: "string \<Rightarrow> go_error + 'sel"
  ml_GetConfig :: "'o \<Rightarrow> ('w, go_error + 'cfg) prog"
  ml_NewManager :: "'cfg \<Rightarrow> ('sc, 'sel) manager_Options \<Rightarrow> ('w, go_error + 'm) prog"
  ml_GetClient :: "'m \<Rightarrow> 'k Client"
  ml_Complete :: "'m \<Rightarrow> api_type \<Rightarrow> ('k, 'c) BucketReconciler \<Rightarrow> ('w, go_error + unit) prog"
  ml_AddHealthzCheck :: "'m \<Rightarrow> string \<Rightarrow> ('w, go_error + unit) prog"
  ml_AddReadyzCheck :: "'m \<Rightarrow> string \<Rightarrow> ('w, go_error + unit) prog"
  ml_Start :: "'m \<Rightarrow> ('w, go_error + unit) prog"

section \<open>Registration of the types\<close>

text \<open>\<^verbatim>\<open>utilruntime.Must\<close> panics on an error.\<close>

definition Must :: "('s, unit) api \<Rightarrow> ('s, unit) prog" where
  "Must f = (\<lambda>s. case f s of (Inl e, s') \<Rightarrow> panic s' | (Inr (), s') \<Rightarrow> ret () s')"

definition API_AddToScheme :: "('w, 'k, 'c, 'o, 'sc, 'sel, 'cfg, 'm) main_lib \<Rightarrow> ('sc, unit) api" where
  "API_AddToScheme lib = ml_Builder_AddToScheme lib API_GroupVersion registered_types"

definition main_init :: "('w, 'k, 'c, 'o, 'sc, 'sel, 'cfg, 'm) main_lib \<Rightarrow> ('sc, unit) prog" where
  "main_init lib = andThen (Must (ml_clientgo_AddToScheme lib)) (\<lambda>_. Must (API_AddToScheme lib))"

section \<open>The flags\<close>

record 'o main_vars =
  metricsAddr :: string
  probeAddr :: string
  enableLeaderElection :: bool
  managementCluster :: ManagementCluster
  library_vars :: 'o

definition zero_vars :: "'o \<Rightarrow> 'o main_vars" where
  "zero_vars opts = \<lparr>metricsAddr = [], probeAddr = [], enableLeaderElection = False,
     managementCluster = \<lparr>mc_BaseDomain = [], mc_Name = [], mc_Namespace = [], mc_Provider = [], mc_Region = []\<rparr>,
     library_vars = opts\<rparr>"

definition library_flag :: "'o go_flag \<Rightarrow> 'o main_vars go_flag" where
  "library_flag f = \<lparr>fl_Name = fl_Name f, fl_IsBool = fl_IsBool f,
     fl_Set = (\<lambda>v s. case fl_Set f v (library_vars s) of Inl e \<Rightarrow> Inl e | Inr opts \<Rightarrow> Inr (s\<lparr>library_vars := opts\<rparr>))\<rparr>"

primrec BindFlags :: "'o go_flag list \<Rightarrow> ('o main_vars command_line, unit) prog" where
  "BindFlags [] = ret ()"
| "BindFlags (f # fs) = andThen (flag_Var (library_flag f)) (\<lambda>_. BindFlags fs)"

text \<open>A field of the management cluster as the variable of a flag.\<close>

definition mc_var :: "(ManagementCluster \<Rightarrow> ManagementCluster) \<Rightarrow> 'o main_vars \<Rightarrow> 'o main_vars" where
  "mc_var f s = s\<lparr>managementCluster := f (managementCluster s)\<rparr>"

definition declare_flags :: "('w, 'k, 'c, 'o, 'sc, 'sel, 'cfg, 'm) main_lib \<Rightarrow> ('o main_vars command_line, unit) prog" where
  "declare_flags lib =
     andThen (flag_StringVar (\<lambda>v s. s\<lparr>metricsAddr := v\<rparr>) ''metrics-bind-address'' '':8080'') (\<lambda>_.
     andThen (flag_StringVar (\<lambda>v s. s\<lparr>probeAddr := v\<rparr>) ''health-probe-bind-address'' '':8081'') (\<lambda>_.
     andThen (flag_BoolVar (\<lambda>b s. s\<lparr>enableLeaderElection := b\<rparr>) ''leader-elect'' False) (\<lambda>_.
     andThen (flag_StringVar (\<lambda>v. mc_var (mc_BaseDomain_update (\<lambda>_. v))) ''management-cluster-base-domain'' []) (\<lambda>_.
     andThen (flag_StringVar (\<lambda>v. mc_var (mc_Name_update (\<lambda>_. v))) ''management-cluster-name'' []) (\<lambda>_.
     andThen (flag_StringVar (\<lambda>v. mc_var (mc_Namespace_update (\<lambda>_. v))) ''management-cluster-namespace'' []) (\<lambda>_.
     andThen (flag_StringVar (\<lambda>v. mc_var (mc_Provider_update (\<lambda>_. v))) ''management-cluster-provider'' []) (\<lambda>_.
     andThen (flag_StringVar (\<lambda>v. mc_var (mc_Region_update (\<lambda>_. v))) ''management-cluster-region'' []) (\<lambda>_.
     BindFlags (ml_zap_flags lib)))))))))"

section \<open>The program\<close>

text \<open>An error that ends the process with status 1.\<close>

definition or_exit :: "('w, go_error + 'a) prog \<Rightarrow> ('a \<Rightarrow> ('w, int) prog) \<Rightarrow> ('w, int) prog" where
  "or_exit m k = andThen m (\<lambda>r. case r of Inl e \<Rightarrow> ret 1 | Inr x \<Rightarrow> k x)"

definition SetupWithManager ::
  "('w, 'k, 'c, 'o, 'sc, 'sel, 'cfg, 'm) main_lib \<Rightarrow> ('k, 'c) BucketReconciler \<Rightarrow> 'm \<Rightarrow> ('w, go_error + unit) prog" where
  "SetupWithManager lib r mgr = ml_Complete lib mgr BucketType r"

definition main_Options :: "'o main_vars \<Rightarrow> 'sc \<Rightarrow> 'sel \<Rightarrow> ('sc, 'sel) manager_Options" where
  "main_Options vars scheme selector =
     \<lparr>opt_Scheme = scheme, opt_MetricsBindAddress = metricsAddr vars, opt_HealthProbeBindAddress = probeAddr vars,
      opt_LeaderElection = enableLeaderElection vars, opt_LeaderElectionID = ''objectstorage.giantswarm.io'',
      opt_SecretLabel = selector\<rparr>"

text \<open>From the parsed flags on.\<close>

definition main_run ::
  "('w, 'k, 'c, 'o, 'sc, 'sel, 'cfg, 'm) main_lib \<Rightarrow> kube_lib \<Rightarrow> ('c, 'p, 'g) aws_sdk \<Rightarrow>
     ('c, 'q, 'cred, 'sf, 'nf, 'df) azure_clients \<Rightarrow> azure_lib \<Rightarrow> 'sc \<Rightarrow> 'o main_vars \<Rightarrow> ('w, int) prog" where
  "main_run lib klib sdk clients alib scheme vars =
     or_exit (ret (ml_labels_Parse lib ''owner notin (helm,Helm)'')) (\<lambda>discardHelmSecretsSelector.
     or_exit (ml_GetConfig lib (library_vars vars)) (\<lambda>config.
     or_exit (ml_NewManager lib config (main_Options vars scheme discardHelmSecretsSelector)) (\<lambda>mgr.
     case main_reconciler (ml_GetClient lib mgr) klib sdk clients alib (managementCluster vars) of
       None \<Rightarrow> ret 1
     | Some r \<Rightarrow>
       or_exit (SetupWithManager lib r mgr) (\<lambda>_.
       or_exit (ml_AddHealthzCheck lib mgr ''healthz'') (\<lambda>_.
       or_exit (ml_AddReadyzCheck lib mgr ''readyz'') (\<lambda>_.
       or_exit (ml_Start lib mgr) (\<lambda>_. ret 0)))))))"

text \<open>A request for help ends with status 0, any other error in the arguments with status 2.\<close>

definition main_program ::
  "('w, 'k, 'c, 'o, 'sc, 'sel, 'cfg, 'm) main_lib \<Rightarrow> kube_lib \<Rightarrow> ('c, 'p, 'g) aws_sdk \<Rightarrow>
     ('c, 'q, 'cred, 'sf, 'nf, 'df) azure_clients \<Rightarrow> azure_lib \<Rightarrow> string list \<Rightarrow> ('w, int) prog" where
  "main_program lib klib sdk clients alib args =
     (case main_init lib (ml_NewScheme lib) of
        Some (Val _, scheme) \<Rightarrow>
          (case declare_flags lib \<lparr>cl_Formal = map library_flag (ml_imported_flags lib),
                cl_Vars = zero_vars (ml_options lib)\<rparr> of
             Some (Val _, cl) \<Rightarrow>
               (case flag_Parse (cl_Formal cl) args (cl_Vars cl) of
                  Inl ErrHelp \<Rightarrow> ret 0
                | Inl ErrFlag \<Rightarrow> ret 2
                | Inr (_, vars) \<Rightarrow> main_run lib klib sdk clients alib scheme vars)
           | _ \<Rightarrow> panic)
      | _ \<Rightarrow> panic)"

end
