(* ===== verification/Properties_Main.thy ===== *)
theory Properties_Main
  imports Main_Program Reference_Operator
begin

text \<open>
  The program as it is deployed: the arguments the Helm chart gives it
  (\<^verbatim>\<open>helm/object-storage-operator/templates/deployment.yaml\<close>) arrive in the variables of \<^verbatim>\<open>main\<close>, and a run that ends
  well had the operator of the chosen provider under the control of a started manager.
\<close>

section \<open>What is declared\<close>

definition declared :: "'s command_line \<Rightarrow> string \<Rightarrow> 's go_flag \<Rightarrow> bool" where
  "declared cl name f \<longleftrightarrow> flag_Lookup (cl_Formal cl) name = Some f"

text \<open>A declaration adds its flag, sets its variable and keeps the other flags.\<close>

lemma flag_Lookup_append:
  "flag_Lookup (fs @ [f]) name = (case flag_Lookup fs name of
     Some g \<Rightarrow> Some g | None \<Rightarrow> if fl_Name f = name then Some f else None)"
  by (induction fs) (auto simp: flag_Lookup_def)

lemma flag_Var_Val:
  assumes "flag_Var f cl = Some (Val u, cl')"
  shows "declared cl' (fl_Name f) f" "declared cl name g \<Longrightarrow> declared cl' name g" "cl_Vars cl' = cl_Vars cl"
  using assms by (auto simp: flag_Var_def declared_def flag_Lookup_append split: if_splits)

lemma flag_StringVar_Val:
  assumes "flag_StringVar assign n v cl = Some (Val u, cl')"
  shows "declared cl' n (string_flag assign n)" "declared cl name g \<Longrightarrow> declared cl' name g"
    "cl_Vars cl' = assign v (cl_Vars cl)"
  using flag_Var_Val[OF assms[unfolded flag_StringVar_def]] by (auto simp: string_flag_def declared_def)

lemma flag_BoolVar_Val:
  assumes "flag_BoolVar assign n v cl = Some (Val u, cl')"
  shows "declared cl' n (bool_flag assign n)" "declared cl name g \<Longrightarrow> declared cl' name g"
    "cl_Vars cl' = assign v (cl_Vars cl)"
  using flag_Var_Val[OF assms[unfolded flag_BoolVar_def]] by (auto simp: bool_flag_def declared_def)

lemma BindFlags_Val:
  assumes "BindFlags fs cl = Some (Val u, cl')"
  shows "cl_Vars cl' = cl_Vars cl \<and> (declared cl name g \<longrightarrow> declared cl' name g)"
  using assms
proof (induction fs arbitrary: cl)
  case (Cons f fs)
  then obtain u1 cl1 where "flag_Var (library_flag f) cl = Some (Val u1, cl1)" "BindFlags fs cl1 = Some (Val u, cl')"
    by (auto simp: andThen_Val_iff)
  with Cons.IH flag_Var_Val show ?case by fastforce
qed simp

text \<open>What the parser does with the arguments of a declared flag.\<close>

lemma parse_string_flag:
  assumes "flag_name n" and "declared cl n (string_flag assign n)"
  shows "flag_Parse (cl_Formal cl) (option_arg n v # args) s = flag_Parse (cl_Formal cl) args (assign v s)"
  using assms by (intro flag_Parse_option) (auto simp: declared_def string_flag_def)

lemma parse_bool_flag:
  assumes "flag_name n" and "declared cl n (bool_flag assign n)"
  shows "flag_Parse (cl_Formal cl) (switch_arg n # args) s = flag_Parse (cl_Formal cl) args (assign True s)"
  using assms by (intro flag_Parse_switch) (auto simp: declared_def bool_flag_def ParseBool_def)

section \<open>The arguments of the deployment\<close>

text \<open>
  The list \<^verbatim>\<open>args\<close> of the container, from the template of the deployment. Its items are plain YAML scalars; the definition takes
  the text of an item for its value, which is right as long as the values of the chart bring no \<^verbatim>\<open>: \<close>, no \<^verbatim>\<open> #\<close> and no
  blanks at the end into it.
\<close>

definition deployment_args :: "string \<Rightarrow> string \<Rightarrow> ManagementCluster \<Rightarrow> string list" where
  "deployment_args metricsPort probePort mc =
     [switch_arg ''leader-elect'',
      option_arg ''metrics-bind-address'' (CHR '':'' # metricsPort),
      option_arg ''health-probe-bind-address'' (CHR '':'' # probePort),
      option_arg ''management-cluster-base-domain'' (mc_BaseDomain mc),
      option_arg ''management-cluster-namespace'' (mc_Namespace mc),
      option_arg ''management-cluster-name'' (mc_Name mc),
      option_arg ''management-cluster-provider'' (mc_Provider mc),
      option_arg ''management-cluster-region'' (mc_Region mc)]"

definition deployed_vars :: "string \<Rightarrow> string \<Rightarrow> ManagementCluster \<Rightarrow> 'o \<Rightarrow> 'o main_vars" where
  "deployed_vars metricsPort probePort mc opts =
     \<lparr>metricsAddr = CHR '':'' # metricsPort, probeAddr = CHR '':'' # probePort, enableLeaderElection = True,
      managementCluster = mc, library_vars = opts\<rparr>"

lemma deployment_parsed:
  assumes "declare_flags lib \<lparr>cl_Formal = fs, cl_Vars = zero_vars opts\<rparr> = Some (Val u, cl)"
  shows "flag_Parse (cl_Formal cl) (deployment_args m p mc) (cl_Vars cl) = Inr ([], deployed_vars m p mc opts)"
proof -
  from assms obtain cl1 cl2 cl3 cl4 cl5 cl6 cl7 cl8 u1 u2 u3 u4 u5 u6 u7 u8 where steps:
    "flag_StringVar (\<lambda>v s. s\<lparr>metricsAddr := v\<rparr>) ''metrics-bind-address'' '':8080''
       \<lparr>cl_Formal = fs, cl_Vars = zero_vars opts\<rparr> = Some (Val u1, cl1)"
    "flag_StringVar (\<lambda>v s. s\<lparr>probeAddr := v\<rparr>) ''health-probe-bind-address'' '':8081'' cl1 = Some (Val u2, cl2)"
    "flag_BoolVar (\<lambda>b s. s\<lparr>enableLeaderElection := b\<rparr>) ''leader-elect'' False cl2 = Some (Val u3, cl3)"
    "flag_StringVar (\<lambda>v. mc_var (mc_BaseDomain_update (\<lambda>_. v))) ''management-cluster-base-domain'' [] cl3 = Some (Val u4, cl4)"
    "flag_StringVar (\<lambda>v. mc_var (mc_Name_update (\<lambda>_. v))) ''management-cluster-name'' [] cl4 = Some (Val u5, cl5)"
    "flag_StringVar (\<lambda>v. mc_var (mc_Namespace_update (\<lambda>_. v))) ''management-cluster-namespace'' [] cl5 = Some (Val u6, cl6)"
    "flag_StringVar (\<lambda>v. mc_var (mc_Provider_update (\<lambda>_. v))) ''management-cluster-provider'' [] cl6 = Some (Val u7, cl7)"
    "flag_StringVar (\<lambda>v. mc_var (mc_Region_update (\<lambda>_. v))) ''management-cluster-region'' [] cl7 = Some (Val u8, cl8)"
    "BindFlags (ml_zap_flags lib) cl8 = Some (Val u, cl)"
    unfolding declare_flags_def andThen_Val_iff by blast
  have vars: "cl_Vars cl = \<lparr>metricsAddr = '':8080'', probeAddr = '':8081'', enableLeaderElection = False,
      managementCluster = \<lparr>mc_BaseDomain = [], mc_Name = [], mc_Namespace = [], mc_Provider = [], mc_Region = []\<rparr>,
      library_vars = opts\<rparr>"
    by (simp add: BindFlags_Val[OF steps(9), THEN conjunct1] flag_StringVar_Val(3)[OF steps(8)] flag_StringVar_Val(3)[OF steps(7)]
        flag_StringVar_Val(3)[OF steps(6)] flag_StringVar_Val(3)[OF steps(5)] flag_StringVar_Val(3)[OF steps(4)]
        flag_BoolVar_Val(3)[OF steps(3)] flag_StringVar_Val(3)[OF steps(2)] flag_StringVar_Val(3)[OF steps(1)]
        zero_vars_def mc_var_def)
  note keep8 = BindFlags_Val[OF steps(9), THEN conjunct2, rule_format]
  note keep7 = keep8[OF flag_StringVar_Val(2)[OF steps(8)]]
  note keep6 = keep7[OF flag_StringVar_Val(2)[OF steps(7)]]
  note keep5 = keep6[OF flag_StringVar_Val(2)[OF steps(6)]]
  note keep4 = keep5[OF flag_StringVar_Val(2)[OF steps(5)]]
  note keep3 = keep4[OF flag_StringVar_Val(2)[OF steps(4)]]
  note keep2 = keep3[OF flag_BoolVar_Val(2)[OF steps(3)]]
  note keep1 = keep2[OF flag_StringVar_Val(2)[OF steps(2)]]
  note here = flag_StringVar_Val(1)[OF steps(1), THEN keep1] flag_StringVar_Val(1)[OF steps(2), THEN keep2]
    flag_StringVar_Val(1)[OF steps(4), THEN keep4] flag_StringVar_Val(1)[OF steps(5), THEN keep5]
    flag_StringVar_Val(1)[OF steps(6), THEN keep6] flag_StringVar_Val(1)[OF steps(7), THEN keep7]
    flag_StringVar_Val(1)[OF steps(8), THEN keep8]
  note parses = here[THEN parse_string_flag[rotated]]
    flag_BoolVar_Val(1)[OF steps(3), THEN keep3, THEN parse_bool_flag[rotated]]
  show ?thesis
    by (simp add: deployment_args_def deployed_vars_def parses flag_name_def vars mc_var_def flag_Parse_Nil)
qed

section \<open>Runs\<close>

lemma or_exit_zero: "or_exit m k w = Some (Val 0, w') \<longleftrightarrow>
    (\<exists>x w1. m w = Some (Val (Inr x), w1) \<and> k x w1 = Some (Val 0, w'))"
  by (auto simp: or_exit_def andThen_run split: option.splits outcome.splits sum.splits)

lemma keeps_or_exit [keeps_intros]: "keeps I m \<Longrightarrow> (\<And>x. keeps I (k x)) \<Longrightarrow> keeps I (or_exit m k)"
  unfolding or_exit_def by (auto intro!: keeps_andThen split: sum.split)

lemma Must_Inl: "f sc = (Inl e, sc1) \<Longrightarrow> Must f sc = Some (Panicked, sc1)"
  by (simp only: Must_def panic_def prod.case sum.case)
lemma Must_Inr: "f sc = (Inr (), sc1) \<Longrightarrow> Must f sc = Some (Val (), sc1)"
  by (simp only: Must_def ret_def prod.case sum.case unit.case)
lemma Must_Val_iff: "Must f sc = Some (Val u, sc') \<longleftrightarrow> f sc = (Inr (), sc')"
proof -
  obtain r sc1 where f: "f sc = (r, sc1)" by (cases "f sc")
  show ?thesis
  proof (cases r)
    case (Inl e)
    show ?thesis unfolding Must_Inl[of f, OF f[unfolded Inl]] f[unfolded Inl] by simp
  next
    case (Inr v)
    then have f': "f sc = (Inr (), sc1)" using f by (cases v) simp
    show ?thesis unfolding Must_Inr[of f, OF f'] f' by (cases u) simp
  qed
qed

text \<open>A run that goes past the arguments of the deployment.\<close>

lemma main_program_deployed:
  assumes "main_program lib klib sdk clients alib (deployment_args m p mc) w = Some (out, w')"
  obtains "out = Panicked" "w' = w"
  | scheme u where "main_init lib (ml_NewScheme lib) = Some (Val u, scheme)"
      "main_run lib klib sdk clients alib scheme (deployed_vars m p mc (ml_options lib)) w = Some (out, w')"
proof -
  from assms consider "out = Panicked \<and> w' = w"
    | scheme u0 u cl where "main_init lib (ml_NewScheme lib) = Some (Val u0, scheme)" "declare_flags lib \<lparr>cl_Formal = map library_flag (ml_imported_flags lib),
          cl_Vars = zero_vars (ml_options lib)\<rparr> = Some (Val u, cl)"
        "(case flag_Parse (cl_Formal cl) (deployment_args m p mc) (cl_Vars cl) of
            Inl ErrHelp \<Rightarrow> ret 0 | Inl ErrFlag \<Rightarrow> ret 2
          | Inr (_, vars) \<Rightarrow> main_run lib klib sdk clients alib scheme vars) w = Some (out, w')"
    by (auto simp: main_program_def split: option.splits outcome.splits)
  then show thesis
    using that by cases (auto simp: deployment_parsed)
qed

section \<open>Reference libraries\<close>

text \<open>
  Libraries in which the program runs: the scheme is the list of the registered types, the flags are those of the
  configuration loader and of \<^verbatim>\<open>zap\<close>, and the manager remembers its options. The world of the process is the list of
  what happened to the manager.
\<close>

datatype process_event =
    Managed "(api_type list, string) manager_Options" | Controls api_type string | Healthz string | Readyz string | Started

definition logs :: "process_event \<Rightarrow> 'a \<Rightarrow> (process_event list, go_error + 'a) prog" where
  "logs e x = (\<lambda>es. Some (Val (Inr x), es @ [e]))"

definition ref_main_lib ::
  "(process_event list, kstore, aws_account, (string \<times> string) list, api_type list, string, string, unit) main_lib" where
  "ref_main_lib =
     \<lparr>ml_NewScheme = [], ml_clientgo_AddToScheme = (\<lambda>sc. (Inr (), sc)),
      ml_Builder_AddToScheme = (\<lambda>gv ts sc. (Inr (), sc @ ts)),
      ml_imported_flags = [string_flag (\<lambda>v o1. o1 @ [(''kubeconfig'', v)]) ''kubeconfig''],
      ml_zap_flags = [bool_flag (\<lambda>v o1. o1 @ [(''zap-devel'', if v then ''true'' else ''false'')]) ''zap-devel'',
        string_flag (\<lambda>v o1. o1 @ [(''zap-encoder'', v)]) ''zap-encoder''],
      ml_options = [], ml_labels_Parse = Inr, ml_GetConfig = (\<lambda>o1. ret (Inr ''config'')),
      ml_NewManager = (\<lambda>config opts. logs (Managed opts) ()), ml_GetClient = (\<lambda>_. ref_client),
      ml_Complete = (\<lambda>_ t r. logs (Controls t (mc_Provider (rec_ManagementCluster r))) ()),
      ml_AddHealthzCheck = (\<lambda>_ n. logs (Healthz n) ()), ml_AddReadyzCheck = (\<lambda>_ n. logs (Readyz n) ()),
      ml_Start = (\<lambda>_. logs Started ())\<rparr>"

abbreviation ref_main :: "string list \<Rightarrow> (process_event list, int) prog" where
  "ref_main \<equiv> main_program ref_main_lib ref_lib ref_aws no_azure ref_alib"

text \<open>C38: The arguments that the deployment passes arrive as they are: if the flags can be declared at all (the libraries declare
  no flag of the same name), parsing sets the two addresses, leader election and the five fields of the
  management cluster to the values of the chart, whatever texts these are, leaves no argument over and does not
  touch the options of the libraries.\<close>

theorem deployment_flags_roundtrip:
  assumes "declare_flags lib \<lparr>cl_Formal = map library_flag (ml_imported_flags lib), cl_Vars = zero_vars (ml_options lib)\<rparr> =
    Some (Val u, cl)"
  shows "flag_Parse (cl_Formal cl) (deployment_args metrics probe mc) (cl_Vars cl) =
    Inr ([], \<lparr>metricsAddr = CHR '':'' # metrics, probeAddr = CHR '':'' # probe, enableLeaderElection = True,
      managementCluster = mc, library_vars = ml_options lib\<rparr>)"
  using deployment_parsed[OF assms] by (simp add: deployed_vars_def)

theorem deployment_flags_roundtrip_witness:
  "\<exists>cl. declare_flags ref_main_lib \<lparr>cl_Formal = map library_flag (ml_imported_flags ref_main_lib),
       cl_Vars = zero_vars (ml_options ref_main_lib)\<rparr> = Some (Val (), cl) \<and>
     flag_Parse (cl_Formal cl) (deployment_args ''14000'' ''14001'' the_mc) (cl_Vars cl) =
       Inr ([], \<lparr>metricsAddr = '':14000'', probeAddr = '':14001'', enableLeaderElection = True,
         managementCluster = the_mc, library_vars = []\<rparr>)"
proof -
  let ?run = "declare_flags ref_main_lib \<lparr>cl_Formal = map library_flag (ml_imported_flags ref_main_lib),
    cl_Vars = zero_vars (ml_options ref_main_lib)\<rparr>"
  have "case ?run of Some (Val u, cl) \<Rightarrow> True | _ \<Rightarrow> False" by code_simp
  then obtain cl where run: "?run = Some (Val (), cl)" by (auto split: option.splits outcome.splits)
  with deployment_flags_roundtrip[OF run, of "''14000''" "''14001''" the_mc] show ?thesis
    by (auto simp: ref_main_lib_def)
qed

text \<open>C37: A deployed operator that ends with status 0 was at work: a scheme was built of the client library's types and of \<^verbatim>\<open>Bucket\<close> and
  \<^verbatim>\<open>BucketList\<close> under their group and version, and a manager was made with that scheme, the addresses and the leader election of the
  arguments and the selector that keeps Helm's secrets out of its cache; the reconciler of the provider in the
  chart, with the client of that manager and the management cluster of the chart, was put in charge of buckets; both checks were
  added, and only then was the manager started, and it ended without an error.\<close>

theorem deployed_program_runs_operator:
  assumes "main_program lib klib sdk clients alib (deployment_args metrics probe mc) w = Some (Val 0, w')"
  shows "\<exists>clientgo scheme selector config mgr r w1 w2 w3 w4 w5.
    ml_clientgo_AddToScheme lib (ml_NewScheme lib) = (Inr (), clientgo) \<and>
    ml_Builder_AddToScheme lib \<lparr>gv_Group = ''objectstorage.giantswarm.io'', gv_Version = ''v1alpha1''\<rparr>
      [BucketType, BucketListType] clientgo = (Inr (), scheme) \<and>
    ml_labels_Parse lib ''owner notin (helm,Helm)'' = Inr selector \<and>
    ml_GetConfig lib (ml_options lib) w = Some (Val (Inr config), w1) \<and>
    ml_NewManager lib config
      \<lparr>opt_Scheme = scheme, opt_MetricsBindAddress = CHR '':'' # metrics, opt_HealthProbeBindAddress = CHR '':'' # probe,
       opt_LeaderElection = True, opt_LeaderElectionID = ''objectstorage.giantswarm.io'', opt_SecretLabel = selector\<rparr> w1 =
      Some (Val (Inr mgr), w2) \<and>
    r = (if mc_Provider mc = ''capa'' then aws_reconciler (ml_GetClient lib mgr) klib sdk mc
         else azure_reconciler (ml_GetClient lib mgr) klib clients alib mc) \<and>
    (mc_Provider mc = ''capa'' \<or> mc_Provider mc = ''capz'') \<and>
    ml_Complete lib mgr BucketType r w2 = Some (Val (Inr ()), w3) \<and>
    ml_AddHealthzCheck lib mgr ''healthz'' w3 = Some (Val (Inr ()), w4) \<and>
    ml_AddReadyzCheck lib mgr ''readyz'' w4 = Some (Val (Inr ()), w5) \<and>
    ml_Start lib mgr w5 = Some (Val (Inr ()), w')"
  using assms
proof (cases rule: main_program_deployed)
  case (2 scheme u)
  from 2(1) obtain clientgo where "ml_clientgo_AddToScheme lib (ml_NewScheme lib) = (Inr (), clientgo)"
    "ml_Builder_AddToScheme lib \<lparr>gv_Group = ''objectstorage.giantswarm.io'', gv_Version = ''v1alpha1''\<rparr>
       [BucketType, BucketListType] clientgo = (Inr (), scheme)"
    unfolding main_init_def andThen_Val_iff Must_Val_iff API_AddToScheme_def API_GroupVersion_def registered_types_def
    by blast
  moreover from 2(2) obtain selector config mgr r w1 w2 w3 w4 w5 where
    "ml_labels_Parse lib ''owner notin (helm,Helm)'' = Inr selector"
    "ml_GetConfig lib (ml_options lib) w = Some (Val (Inr config), w1)"
    "ml_NewManager lib config (main_Options (deployed_vars metrics probe mc (ml_options lib)) scheme selector) w1 =
       Some (Val (Inr mgr), w2)"
    and r: "main_reconciler (ml_GetClient lib mgr) klib sdk clients alib mc = Some r"
    and "SetupWithManager lib r mgr w2 = Some (Val (Inr ()), w3)"
      "ml_AddHealthzCheck lib mgr ''healthz'' w3 = Some (Val (Inr ()), w4)"
      "ml_AddReadyzCheck lib mgr ''readyz'' w4 = Some (Val (Inr ()), w5)"
      "ml_Start lib mgr w5 = Some (Val (Inr ()), w')"
    by (auto simp: main_run_def or_exit_zero deployed_vars_def split: option.splits)
  moreover from r have "r = (if mc_Provider mc = ''capa'' then aws_reconciler (ml_GetClient lib mgr) klib sdk mc
      else azure_reconciler (ml_GetClient lib mgr) klib clients alib mc)" "mc_Provider mc = ''capa'' \<or> mc_Provider mc = ''capz''"
    by (auto simp: main_reconciler_def aws_reconciler_def azure_reconciler_def split: if_splits)
  ultimately show ?thesis
    unfolding main_Options_def deployed_vars_def SetupWithManager_def main_vars.simps by blast
qed simp

theorem deployed_program_runs_operator_witness:
  "ran (ref_main (deployment_args ''14000'' ''14001'' the_mc) []) [] =
     [Managed \<lparr>opt_Scheme = [BucketType, BucketListType], opt_MetricsBindAddress = '':14000'',
        opt_HealthProbeBindAddress = '':14001'', opt_LeaderElection = True,
        opt_LeaderElectionID = ''objectstorage.giantswarm.io'', opt_SecretLabel = ''owner notin (helm,Helm)''\<rparr>,
      Controls BucketType ''capa'', Healthz ''healthz'', Readyz ''readyz'', Started] \<and>
   (\<exists>w2 w3. ml_Complete ref_main_lib () BucketType (aws_reconciler ref_client ref_lib ref_aws the_mc) w2 =
      Some (Val (Inr ()), w3))"
proof -
  let ?run = "ref_main (deployment_args ''14000'' ''14001'' the_mc) []"
  have events: "ran ?run [] =
     [Managed \<lparr>opt_Scheme = [BucketType, BucketListType], opt_MetricsBindAddress = '':14000'',
        opt_HealthProbeBindAddress = '':14001'', opt_LeaderElection = True,
        opt_LeaderElectionID = ''objectstorage.giantswarm.io'', opt_SecretLabel = ''owner notin (helm,Helm)''\<rparr>,
      Controls BucketType ''capa'', Healthz ''healthz'', Readyz ''readyz'', Started]"
    by code_simp
  have "case ?run of Some (Val code, w) \<Rightarrow> code = 0 | _ \<Rightarrow> False" by code_simp
  then obtain w' where "?run = Some (Val 0, w')" by (auto split: option.splits outcome.splits)
  from deployed_program_runs_operator[OF this] events show ?thesis
    by (auto simp: the_mc_def ref_main_lib_def)
qed

text \<open>C39: With a provider other than \<^verbatim>\<open>capa\<close> and \<^verbatim>\<open>capz\<close> the deployed program never ends with status 0, and no controller is
  registered and no manager started: all that is true before, and that reading the configuration and making
  a manager leave true, is true at the end.\<close>

theorem unsupported_provider_stops:
  assumes "mc_Provider mc \<notin> {''capa'', ''capz''}"
    and "main_program lib klib sdk clients alib (deployment_args metrics probe mc) w = Some (out, w')"
    and "keeps I (ml_GetConfig lib (ml_options lib))" and "\<And>config opts. keeps I (ml_NewManager lib config opts)" and "I w"
  shows "out \<noteq> Val 0 \<and> I w'"
  using assms(2)
proof (cases rule: main_program_deployed)
  case 1
  with \<open>I w\<close> show ?thesis by simp
next
  case (2 scheme u)
  have "keeps I (main_run lib klib sdk clients alib scheme (deployed_vars metrics probe mc (ml_options lib)))"
    using assms(1,3,4) by (auto simp: main_run_def deployed_vars_def main_reconciler_def intro!: keeps_or_exit keeps_intros)
  moreover have "out \<noteq> Val 0"
    using 2 assms(1) by (auto simp: main_run_def or_exit_zero deployed_vars_def main_reconciler_def)
  ultimately show ?thesis using 2 \<open>I w\<close> by (auto dest: keepsD)
qed

text \<open>The mark of a process in which nothing but a manager was made.\<close>

definition only_managed :: "process_event list \<Rightarrow> bool" where
  "only_managed es \<longleftrightarrow> list_all (\<lambda>e. case e of Managed opts \<Rightarrow> True | _ \<Rightarrow> False) es"

theorem unsupported_provider_stops_witness:
  "\<exists>w'. ref_main (deployment_args ''14000'' ''14001'' (the_mc\<lparr>mc_Provider := ''gcp''\<rparr>)) [] = Some (Val 1, w') \<and> only_managed w'"
proof -
  let ?run = "ref_main (deployment_args ''14000'' ''14001'' (the_mc\<lparr>mc_Provider := ''gcp''\<rparr>)) []"
  have "case ?run of Some (Val code, w) \<Rightarrow> code = 1 | _ \<Rightarrow> False" by code_simp
  then obtain w' where run: "?run = Some (Val 1, w')" by (auto split: option.splits outcome.splits)
  have "keeps only_managed (ml_GetConfig ref_main_lib (ml_options ref_main_lib))"
    "keeps only_managed (ml_NewManager ref_main_lib config opts)" for config opts
    by (auto simp: ref_main_lib_def logs_def keeps_def only_managed_def)
  from unsupported_provider_stops[OF _ run this] run show ?thesis
    by (simp add: only_managed_def)
qed

end
