(* ===== verification/Spec2Isabelle.thy ===== *)
theory Spec2Isabelle
  imports Operator_History Properties_AWS Properties_Azure Properties_Heap Properties_Tests Properties_Main
begin

text \<open>
  A verification development of the object storage operator (\<^verbatim>\<open>src/\<close>): a Kubernetes operator that
  keeps a bucket in AWS S3 or a container in an Azure storage account for every \<^verbatim>\<open>Bucket\<close> custom resource.

  \<^bold>\<open>The program and its parts.\<close>
  \<^verbatim>\<open>main\<close> picks a cluster getter and a service factory by the provider flag and hands them to the
  reconciler. For every change of a \<^verbatim>\<open>Bucket\<close> object the reconciler reads the object, asks the getter for
  the management cluster and the factory for the two services (storage and access role), and then
  either brings the storage into being (finalizer, create or update, configure, status, role) or, for an
  object in deletion, takes it down again (check, delete, role, finalizer). The services talk to the
  SDKs of the cloud providers. The operator keeps no state of its own between runs.

  \<^bold>\<open>How the model represents the code.\<close>
  A Go function that calls a client is a program in the sense of \<open>Prelude\<close>: a function from the world
  (Kubernetes state and cloud state) to an outcome and the next world. A run may return a value or an
  error, panic, or never end, and these are told apart. Structs are records (passed by
  value; that the copies the reconciler makes justify this is shown on an explicit heap), interface values are records of
  methods or datatypes of their implementations, errors are values with the wrapping of \<^verbatim>\<open>fmt.Errorf\<close>, the
  \<^verbatim>\<open>int32\<close> of the API is a 32 bit word. Code that is not in the repository (the Kubernetes client, the
  AWS and Azure SDKs, two string libraries, YAML) is a parameter: a record of functions. What the
  operator relies on is stated in locales, and each contract is shown to be satisfiable by an executable
  reference service in which the witnesses run.

  \<^bold>\<open>The theories.\<close>
  \<^item> \<open>Prelude\<close>: programs, errors, the rules for runs (\<open>run_simps\<close>), returning (\<open>returns_intros\<close>) and
    keeping a property (\<open>keeps_intros\<close>); Go maps and the string functions of the standard library.
  \<^item> \<open>Bucket_API\<close> (\<^verbatim>\<open>api/v1alpha1/bucket_types.go\<close>); \<open>Kube_Client\<close> (the client and the helpers of the
    Kubernetes libraries as parameters; locales \<open>kube_lib_laws\<close>, \<open>kube_api\<close>).
  \<^item> \<open>Cluster_API\<close> (\<^verbatim>\<open>internal/pkg/cluster\<close>, \<^verbatim>\<open>internal/pkg/flags\<close>; locale \<open>cluster_getter\<close>), interpreted by
    \<open>AWS_Cluster\<close> and \<open>Azure_Cluster\<close> (\<^verbatim>\<open>cluster.go\<close> of the two providers).
  \<^item> \<open>Service_API\<close> (\<^verbatim>\<open>service.go\<close> and \<^verbatim>\<open>factory.go\<close> of \<^verbatim>\<open>objectstorage\<close>; locales \<open>object_storage_service\<close> and
    \<open>access_role_service\<close>: what the reconciler may expect of any provider).
  \<^item> AWS: \<open>AWS_S3\<close> (\<^verbatim>\<open>s3.go\<close>; the contract \<open>s3_api\<close> of the client, and the sublocale showing that the adapter
    is an object storage service), \<open>AWS_IAM\<close> (\<^verbatim>\<open>iam.go\<close>; \<open>iam_api\<close>, likewise), \<open>AWS_Templates\<close> (\<^verbatim>\<open>templates.go\<close>)
    over \<open>JSON_Text\<close> (a JSON reader that gives the policy texts a meaning), \<open>AWS_Service\<close> (\<^verbatim>\<open>service.go\<close>).
  \<^item> Azure: \<open>Azure_Storage\<close> (\<^verbatim>\<open>storage.go\<close>, \<^verbatim>\<open>storageaccount.go\<close>, \<^verbatim>\<open>container.go\<close>, \<^verbatim>\<open>privateendpoint.go\<close>,
    \<^verbatim>\<open>tags.go\<close>), \<open>Azure_Contract\<close> (\<open>azure_api\<close> and the sublocale to \<open>object_storage_service\<close>), \<open>Azure_Returns\<close>
    (\<open>azure_answers\<close>: answers complete in the places the code dereferences), \<open>Azure_Service\<close>
    (\<^verbatim>\<open>service.go\<close>, \<^verbatim>\<open>access.go\<close>).
  \<^item> \<open>Controller\<close> (\<^verbatim>\<open>internal/controller/bucket_controller.go\<close>; the locales \<open>reconciler_env\<close> and \<open>operator_env\<close> prove
    the reconciler correct for every pair of services that keep the contracts), \<open>Operator_Main\<close> (the provider
    switch of \<^verbatim>\<open>main.go\<close>; both operators are instances of \<open>operator_env\<close>), \<open>Operator_History\<close> (runs interleaved
    with users and changes in the cloud, as a step relation; the locale \<open>azure_history\<close> for Azure).
  \<^item> \<open>Main_Program\<close> (the rest of \<^verbatim>\<open>main.go\<close>, \<^verbatim>\<open>groupversion_info.go\<close> and \<^verbatim>\<open>SetupWithManager\<close>: a program that ends with an
    exit status) over \<open>Command_Line\<close> (declaring and parsing flags as the package \<^verbatim>\<open>flag\<close> of Go does).
  \<^item> Pointers: \<open>Go_Heap\<close> (objects, slices and pointers in a heap), \<open>Deep_Copy\<close> (\<^verbatim>\<open>zz_generated.deepcopy.go\<close>; the locale
    \<open>deep_copier\<close>, which every copier of the file keeps), \<open>Heap_Reconcile\<close> (the two places of the reconciler that copy
    an object, change the copy and hand both to a patch).
  \<^item> \<open>Test_Doubles\<close> (\<^verbatim>\<open>objectstoragefakes\<close>, \<^verbatim>\<open>clusterfakes\<close>; the locale \<open>counterfeiter_method\<close>, interpreted for each
    method).
  \<^item> \<open>Reference_Kube\<close>, \<open>Reference_AWS\<close>, \<open>Reference_Azure\<close>, \<open>Reference_Heap\<close>, \<open>Reference_Operator\<close>: executable services that keep the
    contracts, and the interpretations of every locale on them.
  \<^item> \<open>Properties_AWS\<close>, \<open>Properties_Azure\<close>, \<open>Properties_Heap\<close>, \<open>Properties_Tests\<close>, \<open>Properties_Main\<close> and this theory: the properties.

  \<^bold>\<open>What is shown.\<close>
  \<^item> The operator as a whole, on AWS and on Azure: a run that returns nil has brought storage,
    settings, role, finalizer and status to what the object asks for; storage never exists without an object that
    carries the finalizer, over whole histories; the finalizer goes only after the storage and the role;
    every run on AWS returns, and on Azure every run in which the answers are complete. Two results show where
    this is not what a user expects: an object in deletion whose bucket is already gone is never released, and on
    Azure two buckets whose names differ in a dash share a storage account, so that deleting one deletes both.
  \<^item> The reconciler with any services: the order of finalizer and service calls, the reclaim policies,
    the error paths, and the runs that give up without an error.
  \<^item> The adapters: what each method has done when it returns nil, as a refinement of an update of
    the cloud state; the loop over the pages of a bucket ends and empties it; which errors are
    tolerated; the meaning of the policy documents; names, tags and the lifecycle policy on Azure with
    their bounds and the cases in which they go wrong.
  \<^item> Pointers: a deep copy has the value of its original and shares nothing with it, so that no later write
    to one shows in the other, and the patches of the reconciler compare the old with the new object.
  \<^item> Tests: how often the reconciler calls each method of the fakes, whatever they return.
  \<^item> The program: the arguments of the Helm chart arrive in the variables of \<^verbatim>\<open>main\<close>; a run that ends well has
    started a manager with the reconciler of the provider; an unknown provider starts nothing; the getter
    and the factory that \<^verbatim>\<open>main\<close> combines fit together.

  \<^bold>\<open>Bounds and fuel.\<close>
  Only the JSON reader uses fuel, one unit per token, and \<open>parse_tokens_json\<close> shows that this is enough.
  The loop over the pages of \<^verbatim>\<open>DeleteBucket\<close> is a partial function whose value may be \<open>None\<close>; that it is not is
  a property.

  \<^bold>\<open>Assumptions.\<close>
  During one run of \<^verbatim>\<open>Reconcile\<close> no one else writes to the same objects; between runs anything may happen that
  the step relation allows. Users do not rename a bucket or take the operator's finalizer off an object.
  On Azure the resource group of the management cluster does not change.
  The Kubernetes client answers from the current store, and a patch or an update that fails has changed nothing. The
  client of the manager reads from a cache in fact, which may lag behind; a run that starts from a stale object is not
  covered by the theorems about the operator as a whole. The locale \<open>kube_api\<close> is the place where both are stated.
  The cloud contracts say what a call that succeeds has done; which calls may fail is left open, and so is
  the state that a failed call leaves unless a locale says otherwise. The values of the Helm chart arrive in the arguments as
  they are written: the template does not quote them, and a value that YAML would read as something else than
  that text (with \<^verbatim>\<open>: \<close> or \<^verbatim>\<open> #\<close> in it, for instance) is not covered.
  A nil slice and an empty slice of an object have the same value, the empty list: the heap tells them apart and the deep copies
  test for nil, the value does not, and no other function of the operator makes a difference between them.

  \<^bold>\<open>Not modelled.\<close>
  Log output; contexts and their cancellation; signal handling; the manager of the controller runtime (caches, queues,
  leader election), of which \<open>Main_Program\<close> has the calls only; tests and test helpers; the mutexes of the
  fakes; the Helm chart but for the arguments of the container. None of these holds logic of the operator.
\<close>

section \<open>Scenarios\<close>

text \<open>The worlds of the witnesses: after the first run on a fresh object, and with that object in deletion.\<close>

definition ready_world :: "(kstore, aws_account) world" where
  "ready_world = ran (ref_reconcile the_key fresh_world) fresh_world"

definition stamp :: "(kstore, 'c) world \<Rightarrow> (kstore, 'c) world" where
  "stamp w = w\<lparr>kube := (kube w)\<lparr>ks_buckets := map (\<lambda>b. b\<lparr>ObjectMeta := (ObjectMeta b)\<lparr>meta_DeletionTimestamp := Some 1\<rparr>\<rparr>)
     (ks_buckets (kube w))\<rparr>\<rparr>"

definition gone_world :: "(kstore, aws_account) world" where
  "gone_world = ran (ref_reconcile the_key (stamp ready_world)) (stamp ready_world)"

abbreviation az_reconcile :: "ObjectKey \<Rightarrow> ((kstore, az_subscription) world, go_error + unit) prog" where
  "az_reconcile \<equiv> Reconcile (azure_reconciler ref_client ref_lib ref_azure_clients ref_alib az_mc)"

definition az_ready :: "(kstore, az_subscription) world" where
  "az_ready = ran (az_reconcile the_key az_world) az_world"

definition az_gone :: "(kstore, az_subscription) world" where
  "az_gone = ran (az_reconcile the_key (stamp az_ready)) (stamp az_ready)"

lemma ready_run: "ref_reconcile the_key fresh_world = Some (Val (Inr ()), ready_world)"
  unfolding ready_world_def by (rule ran_nil_run[OF fresh_reconciled])

lemma ready_bucket: "aws_named ref_buckets ''logs'' (cloud ready_world)"
  by code_simp

lemma fresh_stored: "ref_crs (kube fresh_world) the_key = Some the_bucket"
  by code_simp

lemma gone_run: "ref_reconcile the_key (stamp ready_world) = Some (Val (Inr ()), gone_world)"
  unfolding gone_world_def by (rule ran_nil_run) code_simp

lemma az_ready_run: "az_reconcile the_key az_world = Some (Val (Inr ()), az_ready)"
  unfolding az_ready_def by (rule ran_nil_run) code_simp

lemma az_gone_run: "az_reconcile the_key (stamp az_ready) = Some (Val (Inr ()), az_gone)"
  unfolding az_gone_def by (rule ran_nil_run) code_simp

lemma stamped_stored:
  "\<exists>b. ref_crs (kube (stamp ready_world)) the_key = Some b \<and> meta_DeletionTimestamp (ObjectMeta b) \<noteq> None \<and>
     bucket_name b = ''logs'' \<and> has_access_role b \<and> AccessRole (Spec b) = Some the_role"
proof -
  have "(case ref_crs (kube (stamp ready_world)) the_key of None \<Rightarrow> False
     | Some b \<Rightarrow> meta_DeletionTimestamp (ObjectMeta b) \<noteq> None \<and> bucket_name b = ''logs'' \<and> has_access_role b \<and>
        AccessRole (Spec b) = Some the_role)"
    by code_simp
  then show ?thesis by (auto split: option.splits)
qed

lemma az_stamped_stored:
  "\<exists>b. ref_crs (kube (stamp az_ready)) the_key = Some b \<and> meta_DeletionTimestamp (ObjectMeta b) \<noteq> None"
proof -
  have "(case ref_crs (kube (stamp az_ready)) the_key of None \<Rightarrow> False
     | Some b \<Rightarrow> meta_DeletionTimestamp (ObjectMeta b) \<noteq> None)"
    by code_simp
  then show ?thesis by (auto split: option.splits)
qed

section \<open>The operator on AWS\<close>

text \<open>C2: When \<^verbatim>\<open>Reconcile\<close> on AWS returns nil for an object that is not in deletion, the stored object has the finalizer, behind
  the finalizers it had before unless it was among them, and the ready status with the bucket's name; in
  everything else it is as it was, as are all other objects. The bucket exists, with lifecycle, policy and tags as
  specified; and the access role, if the object asks for one, has its trust policy, tags and inline policy.\<close>

theorem aws_reconcile_ready:
  assumes "aws_env lib client crs secrets sdk buckets unlisted pages_left roles"
    and "Reconcile (aws_reconciler client lib sdk mc) req w = Some (Val (Inr ()), w')"
    and "crs (kube w) req = Some b" "meta_DeletionTimestamp (ObjectMeta b) = None"
  shows "\<exists>cl sb. crs (kube w') = (crs (kube w))(req \<mapsto>
      (set_finalizers (if BucketFinalizer \<in> set (bucket_finalizers b) then bucket_finalizers b
         else bucket_finalizers b @ [BucketFinalizer]) b)\<lparr>Status := \<lparr>BucketReady = True, BucketID = bucket_name b\<rparr>\<rparr>) \<and>
    works_with (aws_reconciler client lib sdk mc) req w (DynAWSCluster cl) \<and>
    buckets (cloud w') (bucket_name b) = Some sb \<and> S3_configure_spec cl b sb = sb \<and>
    (has_access_role b \<longrightarrow> AWS_role_ready (sdk_arn_Parse sdk) roles (DynAWSCluster cl) b (cloud w'))"
  using assms by (rule aws_env.aws_ready)

theorem aws_reconcile_ready_witness:
  "\<exists>cl sb. ref_crs (kube ready_world) = (ref_crs (kube fresh_world))(the_key \<mapsto>
       (set_finalizers [BucketFinalizer] the_bucket)\<lparr>Status := \<lparr>BucketReady = True, BucketID = ''logs''\<rparr>\<rparr>) \<and>
     ref_buckets (cloud ready_world) (bucket_name the_bucket) = Some sb \<and> S3_configure_spec cl the_bucket sb = sb \<and>
     AWS_role_ready (sdk_arn_Parse ref_aws) ref_roles (DynAWSCluster cl) the_bucket (cloud ready_world)"
proof -
  have "meta_DeletionTimestamp (ObjectMeta the_bucket) = None" "has_access_role the_bucket"
    "bucket_finalizers the_bucket = []" "bucket_name the_bucket = ''logs''"
    by (simp_all add: the_bucket_def has_access_role_def the_role_def)
  with aws_reconcile_ready[OF ref_aws_op.aws_env_axioms ready_run fresh_stored] show ?thesis by auto
qed

text \<open>C1: No orphaned buckets, over any history of runs of \<^verbatim>\<open>Reconcile\<close> on AWS (with any outcome, failures at any call
  included) interleaved with users that create, edit and delete objects and with changes in the
  cloud: a bucket that exists, and that did not exist unheld at the start, is named by a stored object
  that carries the operator's finalizer.\<close>

theorem aws_no_orphans:
  assumes "aws_env lib client crs secrets sdk buckets unlisted pages_left roles"
    and "rtranclp (op_step (aws_reconciler client lib sdk mc) crs (aws_named buckets)) w w'"
    and "aws_named buckets n (cloud w) \<Longrightarrow> held crs (kube w) n" and "aws_named buckets n (cloud w')"
  shows "held crs (kube w') n"
  using assms by (rule aws_env.aws_history_holds)

theorem aws_no_orphans_witness: "held ref_crs (kube ready_world) ''logs''"
proof (rule aws_no_orphans[OF ref_aws_op.aws_env_axioms _ _ ready_bucket])
  show "rtranclp (op_step (aws_reconciler ref_client ref_lib ref_aws the_mc) ref_crs (aws_named ref_buckets))
      fresh_world ready_world"
    using ready_run by (intro r_into_rtranclp op_step.reconcile)
qed (simp add: fresh_world_def aws_named_def ref_buckets_def)

text \<open>C3: The finalizer goes last on AWS: whatever a run on an object in deletion changes in the stored objects, it does so only
  with the reclaim policy \<^verbatim>\<open>Delete\<close>, only by removing its own finalizer from that object, and only when
  the bucket and the access role are gone.\<close>

theorem aws_finalizer_last:
  assumes "aws_env lib client crs secrets sdk buckets unlisted pages_left roles"
    and "Reconcile (aws_reconciler client lib sdk mc) req w = Some (oc, w')"
    and "crs (kube w) req = Some b" "meta_DeletionTimestamp (ObjectMeta b) \<noteq> None"
    and "crs (kube w') \<noteq> crs (kube w)"
  shows "oc = Val (Inr ()) \<and> ReclaimPolicy (Spec b) = ReclaimPolicyDelete \<and>
    crs (kube w') = put_object (crs (kube w))
      (set_finalizers (filter (\<lambda>f. f \<noteq> BucketFinalizer) (bucket_finalizers b)) b) \<and>
    buckets (cloud w') (bucket_name b) = None \<and> (has_access_role b \<longrightarrow> IAM_role_gone roles b (cloud w'))"
  using assms by (rule aws_env.aws_finalizer_goes_last)

theorem aws_finalizer_last_witness:
  "ref_buckets (cloud gone_world) ''logs'' = None \<and> ref_roles (cloud gone_world) ''loki'' = None"
proof -
  obtain b where b: "ref_crs (kube (stamp ready_world)) the_key = Some b"
    "meta_DeletionTimestamp (ObjectMeta b) \<noteq> None" "bucket_name b = ''logs''" "has_access_role b"
    "AccessRole (Spec b) = Some the_role" using stamped_stored by blast
  have "ref_crs (kube gone_world) the_key = None" by code_simp
  with b(1) have "ref_crs (kube gone_world) \<noteq> ref_crs (kube (stamp ready_world))" by auto
  from aws_finalizer_last[OF ref_aws_op.aws_env_axioms gone_run b(1,2) this] b(3-5) show ?thesis
    by (simp add: IAM_role_gone_def the_role_def)
qed

text \<open>C4: \<^verbatim>\<open>Reconcile\<close> on AWS returns from every world, for every key: it neither panics (no nil pointer of the object or of an
  answer is dereferenced) nor runs forever.\<close>

theorem aws_reconcile_returns:
  assumes "aws_env lib client crs secrets sdk buckets unlisted pages_left roles"
  shows "returns (Reconcile (aws_reconciler client lib sdk mc) req) w"
  using assms by (rule aws_env.aws_Reconcile_returns)

theorem aws_reconcile_returns_witness: "returns (ref_reconcile the_key) fresh_world"
  by (rule aws_reconcile_returns[OF ref_aws_op.aws_env_axioms])

section \<open>The operator on Azure\<close>

text \<open>C5: When \<^verbatim>\<open>Reconcile\<close> on Azure returns nil for an object that is not in deletion, the stored object has the finalizer, behind
  the finalizers it had before unless it was among them, and the ready status with the bucket's name; in
  everything else it is as it was, as are all other objects. The container exists in its storage account, and the
  lifecycle policy, if the object asks for one, is in place.\<close>

theorem azure_reconcile_ready:
  assumes "azure_operator_env lib client crs secrets clients accounts"
    and "Reconcile (azure_reconciler client lib clients alib mc) req w = Some (Val (Inr ()), w')"
    and "crs (kube w) req = Some b" "meta_DeletionTimestamp (ObjectMeta b) = None"
  shows "\<exists>cl. crs (kube w') = (crs (kube w))(req \<mapsto>
      (set_finalizers (if BucketFinalizer \<in> set (bucket_finalizers b) then bucket_finalizers b
         else bucket_finalizers b @ [BucketFinalizer]) b)\<lparr>Status := \<lparr>BucketReady = True, BucketID = bucket_name b\<rparr>\<rparr>) \<and>
    works_with (azure_reconciler client lib clients alib mc) req w (DynAzureCluster cl) \<and>
    Azure_present accounts cl alib b (cloud w') \<and> Azure_configured accounts cl alib b (cloud w')"
  using assms by (rule azure_operator_env.azure_ready)

lemma az_fresh_stored: "ref_crs (kube az_world) the_key = Some the_bucket"
  by code_simp

theorem azure_reconcile_ready_witness:
  "\<exists>cl. ref_crs (kube az_ready) = (ref_crs (kube az_world))(the_key \<mapsto>
      (set_finalizers [BucketFinalizer] the_bucket)\<lparr>Status := \<lparr>BucketReady = True, BucketID = ''logs''\<rparr>\<rparr>) \<and>
    Azure_present ref_accounts cl ref_alib the_bucket (cloud az_ready) \<and>
    Azure_configured ref_accounts cl ref_alib the_bucket (cloud az_ready)"
proof -
  have "meta_DeletionTimestamp (ObjectMeta the_bucket) = None" "bucket_finalizers the_bucket = []"
    "bucket_name the_bucket = ''logs''"
    by (simp_all add: the_bucket_def)
  with azure_reconcile_ready[OF ref_azure_op.azure_operator_env_axioms az_ready_run az_fresh_stored] show ?thesis by auto
qed

text \<open>C7: No orphaned storage accounts: if a run of \<^verbatim>\<open>Reconcile\<close> on Azure for an object that is not in deletion has changed any
  storage account, then, whatever its outcome, the stored object carries the operator's finalizer.\<close>

theorem azure_no_orphans:
  assumes "azure_operator_env lib client crs secrets clients accounts"
    and "Reconcile (azure_reconciler client lib clients alib mc) req w = Some (oc, w')"
    and "crs (kube w) req = Some b" "meta_DeletionTimestamp (ObjectMeta b) = None"
    and "accounts (cloud w') \<noteq> accounts (cloud w)"
  shows "\<exists>b'. crs (kube w') req = Some b' \<and> Spec b' = Spec b \<and> BucketFinalizer \<in> set (bucket_finalizers b')"
  using assms by (rule azure_operator_env.azure_no_orphan)

theorem azure_no_orphans_witness:
  "\<exists>b'. ref_crs (kube az_ready) the_key = Some b' \<and> Spec b' = Spec the_bucket \<and>
     BucketFinalizer \<in> set (bucket_finalizers b')"
proof (rule azure_no_orphans[OF ref_azure_op.azure_operator_env_axioms az_ready_run az_fresh_stored])
  have "map_of (sub_accounts (cloud az_ready)) (''rg'', ''logs'') \<noteq> None" by code_simp
  then have "ref_accounts (cloud az_ready) (''rg'', ''logs'') \<noteq> None" by (simp add: ref_accounts_def)
  moreover have "ref_accounts (cloud az_world) (''rg'', ''logs'') = None" by (simp add: ref_accounts_def az_world_def)
  ultimately show "ref_accounts (cloud az_ready) \<noteq> ref_accounts (cloud az_world)" by auto
qed (simp add: the_bucket_def)

text \<open>C8: The finalizer goes last on Azure: whatever a run on an object in deletion changes in the stored objects, it does so only
  with the reclaim policy \<^verbatim>\<open>Delete\<close>, only by removing its own finalizer from that object, and only when
  the container is gone from its storage account.\<close>

theorem azure_finalizer_last:
  assumes "azure_operator_env lib client crs secrets clients accounts"
    and "Reconcile (azure_reconciler client lib clients alib mc) req w = Some (oc, w')"
    and "crs (kube w) req = Some b" "meta_DeletionTimestamp (ObjectMeta b) \<noteq> None"
    and "crs (kube w') \<noteq> crs (kube w)"
  shows "oc = Val (Inr ()) \<and> ReclaimPolicy (Spec b) = ReclaimPolicyDelete \<and>
    crs (kube w') = put_object (crs (kube w))
      (set_finalizers (filter (\<lambda>f. f \<noteq> BucketFinalizer) (bucket_finalizers b)) b) \<and>
    (\<exists>cl. works_with (azure_reconciler client lib clients alib mc) req w cl \<and>
      \<not> Azure_op_present accounts alib cl b (cloud w'))"
  using assms by (rule azure_operator_env.azure_finalizer_goes_last)

theorem azure_finalizer_last_witness:
  "\<exists>b cl. ref_crs (kube (stamp az_ready)) the_key = Some b \<and> ref_crs (kube az_gone) the_key = None \<and>
     \<not> Azure_op_present ref_accounts ref_alib cl b (cloud az_gone)"
proof -
  obtain b where b: "ref_crs (kube (stamp az_ready)) the_key = Some b" "meta_DeletionTimestamp (ObjectMeta b) \<noteq> None"
    using az_stamped_stored by blast
  have gone: "ref_crs (kube az_gone) the_key = None" by code_simp
  with b(1) have "ref_crs (kube az_gone) \<noteq> ref_crs (kube (stamp az_ready))" by auto
  from azure_finalizer_last[OF ref_azure_op.azure_operator_env_axioms az_gone_run b this] b gone show ?thesis by blast
qed

text \<open>C9: \<^verbatim>\<open>Reconcile\<close> on Azure returns from every world, for every key, if the answers of the SDK are complete: a check of a name
  says whether it is available, no access key is nil or without name or value, and the private endpoint has a name, its
  properties, no nil DNS configuration and no nil address. The run then neither panics nor goes on forever.\<close>

theorem azure_reconcile_returns:
  assumes "azure_answers lib client crs secrets clients accounts"
  shows "returns (Reconcile (azure_reconciler client lib clients alib mc) req) w"
  using assms by (rule azure_answers.azure_Reconcile_returns)

theorem azure_reconcile_returns_witness: "returns (az_reconcile the_key) az_world"
  by (rule azure_reconcile_returns[OF ref_azure_answers.azure_answers_axioms])

text \<open>C6: No orphaned containers, over any history of runs of \<^verbatim>\<open>Reconcile\<close> on Azure (with any outcome, failures at any call
  included) interleaved with users and with changes in the cloud, as long as the management cluster stays
  in its resource group: a container that exists, and that did not exist unheld at the start, is named
  by a stored object that carries the operator's finalizer.\<close>

theorem azure_history_no_orphans:
  assumes "azure_history lib client crs secrets clients accounts rg"
    and "rtranclp (op_step (azure_reconciler client lib clients alib mc) crs (azure_named accounts rg alib)) w w'"
    and "azure_named accounts rg alib n (cloud w) \<Longrightarrow> held crs (kube w) n"
    and "azure_named accounts rg alib n (cloud w')"
  shows "held crs (kube w') n"
  using assms by (rule azure_history.azure_history_holds)

abbreviation az_fixed_reconcile :: "ObjectKey \<Rightarrow> ((kstore, az_subscription) world, go_error + unit) prog" where
  "az_fixed_reconcile \<equiv> Reconcile (azure_reconciler ref_fixed_client ref_lib ref_azure_clients ref_alib az_mc)"

definition az_fixed_ready :: "(kstore, az_subscription) world" where
  "az_fixed_ready = ran (az_fixed_reconcile the_key az_world) az_world"

lemma az_fixed_run: "az_fixed_reconcile the_key az_world = Some (Val (Inr ()), az_fixed_ready)"
  unfolding az_fixed_ready_def by (rule ran_nil_run) code_simp

lemma az_fixed_named: "azure_named ref_accounts ''rg'' ref_alib ''logs'' (cloud az_fixed_ready)"
  by code_simp

theorem azure_history_no_orphans_witness: "held ref_crs (kube az_fixed_ready) ''logs''"
proof (rule azure_history_no_orphans[OF ref_azure_history.azure_history_axioms _ _ az_fixed_named])
  show "rtranclp (op_step (azure_reconciler ref_fixed_client ref_lib ref_azure_clients ref_alib az_mc) ref_crs
      (azure_named ref_accounts ''rg'' ref_alib)) az_world az_fixed_ready"
    using az_fixed_run by (intro r_into_rtranclp op_step.reconcile)
  show "azure_named ref_accounts ''rg'' ref_alib ''logs'' (cloud az_world) \<Longrightarrow> held ref_crs (kube az_world) ''logs''"
    by (simp add: az_world_def azure_named_def container_in_def ref_accounts_def)
qed








section \<open>The reconciler with any services\<close>

text \<open>C10: If the finalizer is missing and registering it fails, \<^verbatim>\<open>reconcileNormal\<close> ends with that error, wrapped, and no method
  of any service is called: the run is the same for all services and leaves the cloud alone.\<close>

theorem finalizer_before_services:
  assumes "AddFinalizer (rec_lib r) (bucket_finalizers b) BucketFinalizer = (fs, True)"
    and "Patch_Bucket (rec_Client r) b (set_finalizers fs b) (kube w) = (Inl e, k)"
  shows "reconcileNormal r svc ars b w =
    Some (Val (Inl (Errorf_w (''failed to add finalizer to bucket '' @ bucket_name b @ '': '') e)), w\<lparr>kube := k\<rparr>)"
  using assms by (simp add: reconcileNormal_def attempt_run onKube_run)

definition empty_world :: "(kstore, aws_account) world" where
  "empty_world = fresh_world\<lparr>kube := kube_with [] aws_objects\<rparr>"

theorem finalizer_before_services_witness:
  "reconcileNormal (aws_reconciler ref_client ref_lib ref_aws the_mc) (S3_service sample_s3) (IAM_service sample_iam)
     the_bucket empty_world =
     Some (Val (Inl (Errorf_w (''failed to add finalizer to bucket '' @ bucket_name the_bucket @ '': '') ref_not_found)),
       empty_world\<lparr>kube := kube empty_world\<rparr>)"
proof -
  have "AddFinalizer (rec_lib (aws_reconciler ref_client ref_lib ref_aws the_mc)) (bucket_finalizers the_bucket)
      BucketFinalizer = ([BucketFinalizer], True)"
    by (simp add: ref_lib_def the_bucket_def)
  moreover have "Patch_Bucket (rec_Client (aws_reconciler ref_client ref_lib ref_aws the_mc)) the_bucket
      (set_finalizers [BucketFinalizer] the_bucket) (kube empty_world) = (Inl ref_not_found, kube empty_world)"
    by (simp add: ref_client_def ref_patch_def ref_crs_def empty_world_def kube_with_def)
  ultimately show ?thesis by (rule finalizer_before_services)
qed

text \<open>C11: With a reclaim policy other than \<^verbatim>\<open>Delete\<close>, \<^verbatim>\<open>reconcileDelete\<close> deletes nothing: it looks whether the bucket exists
  and returns nil, whatever the answer.\<close>

theorem retain_deletes_nothing:
  assumes "ReclaimPolicy (Spec b) \<noteq> ReclaimPolicyDelete"
  shows "reconcileDelete r svc ars b w = andThen (ExistsBucket svc b) (\<lambda>_. ret (Inr ())) w"
  using assms by (rule reconcileDelete_retains)

definition retained_bucket :: Bucket where
  "retained_bucket = the_bucket\<lparr>Spec := (Spec the_bucket)\<lparr>ReclaimPolicy := ReclaimPolicyRetain\<rparr>\<rparr>"

theorem retain_deletes_nothing_witness:
  "reconcileDelete (aws_reconciler ref_client ref_lib ref_aws the_mc) (S3_service sample_s3) (IAM_service sample_iam)
     retained_bucket full_world = Some (Val (Inr ()), full_world)"
proof -
  have "ReclaimPolicy (Spec retained_bucket) \<noteq> ReclaimPolicyDelete"
    by (simp add: retained_bucket_def ReclaimPolicyRetain_def ReclaimPolicyDelete_def)
  moreover have "andThen (ExistsBucket (S3_service sample_s3) retained_bucket) (\<lambda>_. ret (Inr ())) full_world =
      Some (Val (Inr ()), full_world)"
    by (simp add: S3_service_def andThen_run S3_ExistsBucket_run ref_s3_def ref_HeadBucket_def full_world_def
        retained_bucket_def the_bucket_def)
  ultimately show ?thesis by (rule trans[OF retain_deletes_nothing])
qed

text \<open>C12: A deletion that gives up never releases its object, on AWS. If the check in \<^verbatim>\<open>reconcileDelete\<close> fails or says that the bucket
  does not exist, the function returns nil at once, whatever the services, so that the error is not reported. And
  an object in deletion whose bucket does not exist (it was removed by hand, or an earlier run failed after it had deleted
  the bucket) stays stored as it is, finalizers included, through every sequence of runs of \<^verbatim>\<open>Reconcile\<close> for this object and
  for objects that name other buckets.\<close>

theorem deletion_gives_up:
  assumes "aws_env lib client crs secrets sdk buckets unlisted pages_left roles"
    and "crs (kube w) req = Some b" "meta_DeletionTimestamp (ObjectMeta b) \<noteq> None"
    and "buckets (cloud w) (bucket_name b) = None"
    and "rtranclp (unrelated_run (aws_reconciler client lib sdk mc) crs req (bucket_name b)) w w'"
  shows "crs (kube w') req = Some b \<and> buckets (cloud w') (bucket_name b) = None \<and>
    (\<forall>svc ars v ex err v'. ExistsBucket svc b v = Some (Val (ex, err), v') \<longrightarrow> err \<noteq> None \<or> \<not> ex \<longrightarrow>
      reconcileDelete (aws_reconciler client lib sdk mc) svc ars b v = Some (Val (Inr ()), v'))"
  using aws_env.aws_unreleased[OF assms(1,5,2,3,4)] by (auto simp: reconcileDelete_def andThen_run)

text \<open>A ready object in deletion, after its bucket was removed by hand.\<close>

definition orphan_world :: "(kstore, aws_account) world" where
  "orphan_world = (stamp ready_world)\<lparr>cloud := \<lparr>acc_buckets = [], acc_roles = []\<rparr>\<rparr>"

lemma orphan_run: "ref_reconcile the_key orphan_world = Some (Val (Inr ()), ran (ref_reconcile the_key orphan_world) orphan_world)"
  by (rule ran_nil_run) code_simp

theorem deletion_gives_up_witness:
  "\<exists>b. ref_crs (kube (ran (ref_reconcile the_key orphan_world) orphan_world)) the_key = Some b \<and>
     meta_DeletionTimestamp (ObjectMeta b) \<noteq> None \<and> ReclaimPolicy (Spec b) = ReclaimPolicyDelete \<and>
     bucket_finalizers b = [BucketFinalizer]"
proof -
  have "(case ref_crs (kube orphan_world) the_key of None \<Rightarrow> False
     | Some b \<Rightarrow> meta_DeletionTimestamp (ObjectMeta b) \<noteq> None \<and> ReclaimPolicy (Spec b) = ReclaimPolicyDelete \<and>
         bucket_finalizers b = [BucketFinalizer])"
    by code_simp
  then obtain b where b: "ref_crs (kube orphan_world) the_key = Some b" "meta_DeletionTimestamp (ObjectMeta b) \<noteq> None"
    "ReclaimPolicy (Spec b) = ReclaimPolicyDelete" "bucket_finalizers b = [BucketFinalizer]"
    by (auto split: option.splits)
  have "ref_buckets (cloud orphan_world) (bucket_name b) = None"
    by (simp add: orphan_world_def ref_buckets_def)
  moreover have "rtranclp (unrelated_run (aws_reconciler ref_client ref_lib ref_aws the_mc) ref_crs the_key (bucket_name b))
      orphan_world (ran (ref_reconcile the_key orphan_world) orphan_world)"
    using orphan_run by (intro r_into_rtranclp) (auto simp: unrelated_run_def)
  ultimately have "ref_crs (kube (ran (ref_reconcile the_key orphan_world) orphan_world)) the_key = Some b"
    by (rule deletion_gives_up[OF ref_aws_op.aws_env_axioms b(1,2), THEN conjunct1])
  with b show ?thesis by blast
qed

text \<open>A failure to describe the management cluster ends \<^verbatim>\<open>Reconcile\<close> with an error that names the bucket, ends in the text of
  the cause and still is the cause for \<^verbatim>\<open>errors.Is\<close>; no service is made, and the stored objects and the
  cloud are as the getter left them.\<close>

theorem cluster_failure_reported:
  assumes "Get_Bucket (rec_Client r) req (kube w) = (Inr b, k)"
    and "rec_ClusterGetter r (w\<lparr>kube := k\<rparr>) = Some (Val (Inl e), w')"
  shows "\<exists>e'. Reconcile r req w = Some (Val (Inl e'), w') \<and> errors_Is e' e \<and>
    Error e' = ''failed to get cluster for bucket '' @ bucket_name b @ '': '' @ Error e"
  using assms by (simp add: Reconcile_got attempt_run)

definition lost_world :: "(kstore, aws_account) world" where
  "lost_world = fresh_world\<lparr>kube := kube_with [the_bucket] []\<rparr>"

theorem cluster_failure_reported_witness:
  "\<exists>e'. ref_reconcile the_key lost_world = Some (Val (Inl e'), lost_world) \<and> errors_Is e' ref_not_found"
proof -
  let ?r = "aws_reconciler ref_client ref_lib ref_aws the_mc"
  have get: "Get_Bucket (rec_Client ?r) the_key (kube lost_world) = (Inr the_bucket, kube lost_world)"
    by code_simp
  obtain e where e: "rec_ClusterGetter ?r (lost_world\<lparr>kube := kube lost_world\<rparr>) = Some (Val (Inl e), lost_world)"
    "errors_Is e ref_not_found"
    by (simp add: AWS_GetCluster_def AWS_getClusterCR_def attempt_run onKube_run ref_client_def lost_world_def
        kube_with_def Let_def)
  from cluster_failure_reported[OF get e(1)] e(2) errors_Is_trans show ?thesis by blast
qed

text \<open>An object that does not exist is no error: when the API answers not-found, \<^verbatim>\<open>Reconcile\<close> returns nil and does nothing
  else; any other failure to read the object is returned as it is.\<close>

theorem missing_object_ignored:
  assumes "kube_lib_laws (rec_lib r)" and "Get_Bucket (rec_Client r) req (kube w) = (Inl e, k)"
  shows "Reconcile r req w =
    Some (Val (if IsNotFound (rec_lib r) (Some e) then Inr () else Inl e), w\<lparr>kube := k\<rparr>)"
  using assms kube_lib_laws.IgnoreNotFound_err[OF assms(1), of e]
  by (simp add: Reconcile_def andThen_run onKube_run)

theorem missing_object_ignored_witness:
  "ref_reconcile the_key empty_world = Some (Val (Inr ()), empty_world)"
proof -
  let ?r = "aws_reconciler ref_client ref_lib ref_aws the_mc"
  have "kube_lib_laws (rec_lib ?r)" using ref_kube.kube_lib_laws_axioms by simp
  moreover have "Get_Bucket (rec_Client ?r) the_key (kube empty_world) = (Inl ref_not_found, kube empty_world)"
    by code_simp
  ultimately show ?thesis
    using missing_object_ignored[of ?r the_key empty_world ref_not_found "kube empty_world"]
    by (simp add: ref_lib_def ref_not_found_def)
qed

section \<open>The wiring\<close>

text \<open>C32: The wiring of \<^verbatim>\<open>main\<close> is consistent: it gives a reconciler exactly for the providers \<^verbatim>\<open>capa\<close> and \<^verbatim>\<open>capz\<close>, and on every
  cluster its getter returns, which has name and region of the flags, its factory fails with nothing
  but an error of the SDK, wrapped: neither the casts of cluster and credentials nor the switch over
  the identity types can fail.\<close>

theorem main_wiring_consistent:
  fixes client :: "'k Client" and sdk :: "('c, 'p, 'g) aws_sdk"
  shows "(main_reconciler client lib sdk clients alib mc = None \<longleftrightarrow> mc_Provider mc \<notin> {''capa'', ''capz''}) \<and>
   (\<forall>r w cl w1 w2 e w3. main_reconciler client lib sdk clients alib mc = Some r \<longrightarrow>
      rec_ClusterGetter r w = Some (Val (Inr cl), w1) \<longrightarrow>
      GetName cl = mc_Name mc \<and> GetRegion cl = mc_Region mc \<and>
      (NewObjectStorageService (rec_Factory r) cl w2 = Some (Val (Inl e), w3) \<longrightarrow> (\<exists>msg e0. e = Errorf_w msg e0)) \<and>
      (NewAccessRoleService (rec_Factory r) cl w2 = Some (Val (Inl e), w3) \<longrightarrow> (\<exists>msg e0. e = Errorf_w msg e0)))"
proof -
  have aws: "GetName cl = mc_Name mc \<and> GetRegion cl = mc_Region mc \<and>
      (AWS_NewObjectStorageService sdk cl w2 = Some (Val (Inl e), w3) \<longrightarrow> (\<exists>msg e0. e = Errorf_w msg e0)) \<and>
      (AWS_NewAccessRoleService sdk cl w2 = Some (Val (Inl e), w3) \<longrightarrow> (\<exists>msg e0. e = Errorf_w msg e0))"
    if "AWS_GetCluster client lib mc w = Some (Val (Inr cl), w1)"
    for w w1 w2 w3 :: "('k, 'c) world" and cl e
    using aws_getter.getter_describes[OF that]
    by (auto simp: AWS_NewObjectStorageService_run AWS_NewAccessRoleService_run split: prod.splits sum.splits)
  have azure: "GetName cl = mc_Name mc \<and> GetRegion cl = mc_Region mc \<and>
      (Azure_NewObjectStorageService clients client lib alib cl w2 = Some (Val (Inl e), w3) \<longrightarrow>
        (\<exists>msg e0. e = Errorf_w msg e0))"
    if "Azure_GetCluster client lib mc w = Some (Val (Inr cl), w1)"
    for w w1 w2 w3 :: "('k, 'c) world" and cl e
    using azure_getter.getter_describes[OF that] Azure_NewObjectStorageService_err by blast
  show ?thesis
    using aws azure
    by (auto simp: main_reconciler_def AWSObjectStorageService_def AzureObjectStorageService_def
        Azure_NewAccessRoleService_def)
qed

theorem main_wiring_consistent_witness:
  "\<exists>r cl e msg e0. main_reconciler ref_client ref_lib broken_aws no_azure ref_alib the_mc = Some r \<and>
     rec_ClusterGetter r fresh_world = Some (Val (Inr cl), fresh_world) \<and>
     NewObjectStorageService (rec_Factory r) cl fresh_world = Some (Val (Inl e), fresh_world) \<and> e = Errorf_w msg e0"
proof -
  let ?r = "aws_reconciler ref_client ref_lib broken_aws the_mc"
  have main: "main_reconciler ref_client ref_lib broken_aws no_azure ref_alib the_mc = Some ?r"
    by (simp add: main_reconciler_def aws_reconciler_def the_mc_def)
  have get: "rec_ClusterGetter ?r fresh_world = Some (Val (Inr (DynAWSCluster sample_cluster)), fresh_world)"
    unfolding aws_reconciler_sel by code_simp
  obtain e where err: "NewObjectStorageService (rec_Factory ?r) (DynAWSCluster sample_cluster) fresh_world =
      Some (Val (Inl e), fresh_world)"
    by (simp add: AWS_NewObjectStorageService_run broken_aws_def)
  from main_wiring_consistent[of ref_client ref_lib broken_aws no_azure ref_alib the_mc] main get err
  have "\<exists>msg e0. e = Errorf_w msg e0" by blast
  with main get err show ?thesis by blast
qed

end
